(* ===== verification/Prelude.thy ===== *)
theory Prelude
  imports Complex_Main
begin

text \<open>
  Shared vocabulary of the development: the types and abbreviations the components have in
  common, the pieces of Python's semantics they use (truth values of optional numbers and
  strings, \<open>int()\<close>, \<open>round()\<close>, ASCII string methods), and the generic lemmas on lists,
  options and rounding that carry the component proofs.

  Python floats are modelled by exact reals: arithmetic on them is not rounded to binary64,
  and \<open>nan\<close> and the infinities have no counterpart. Instants are aware UTC datetimes,
  written as microseconds since the epoch (Python's own resolution).
\<close>

named_theorems py_num "unfolding rules for Python's numeric helpers"
named_theorems guard_defs "definitions of the guards a decision procedure consults"

type_synonym price = real
type_synonym micros = int

subsection \<open>Truth values\<close>

text \<open>Python's truth value of an optional number: \<open>None\<close> and \<open>0\<close> are false.\<close>

definition truthy :: "real option \<Rightarrow> bool" where
  "truthy x = (case x of None \<Rightarrow> False | Some v \<Rightarrow> v \<noteq> 0)"

definition truthy_str :: "string option \<Rightarrow> bool" where
  "truthy_str x = (case x of None \<Rightarrow> False | Some s \<Rightarrow> s \<noteq> [])"

lemma truthy_simps [simp]: "truthy None = False" "truthy (Some v) = (v \<noteq> 0)"
  by (simp_all add: truthy_def)

lemma truthy_str_simps [simp]: "truthy_str None = False" "truthy_str (Some s) = (s \<noteq> [])"
  by (simp_all add: truthy_str_def)

text \<open>\<open>a or b\<close> on optional numbers; SQL's \<open>COALESCE(a, b)\<close> on nullable columns.\<close>

definition or_else :: "real option \<Rightarrow> real option \<Rightarrow> real option" where
  "or_else a b = (if truthy a then a else b)"

definition coalesce :: "'a option \<Rightarrow> 'a option \<Rightarrow> 'a option" where
  "coalesce a b = (case a of None \<Rightarrow> b | Some v \<Rightarrow> Some v)"

lemma coalesce_simps [simp]: "coalesce None b = b" "coalesce (Some v) b = Some v"
  by (simp_all add: coalesce_def)

lemma coalesce_None_iff [simp]: "coalesce a b = None \<longleftrightarrow> a = None \<and> b = None"
  by (cases a) simp_all

subsection \<open>Rounding\<close>

text \<open>\<open>int(x)\<close> truncates towards zero; \<open>round(x)\<close> takes the nearest integer, ties to even.\<close>

definition py_int :: "real \<Rightarrow> int" where
  "py_int x = (if 0 \<le> x then \<lfloor>x\<rfloor> else \<lceil>x\<rceil>)"

definition round_half_even :: "real \<Rightarrow> int" where
  "round_half_even x =
     (let f = \<lfloor>x\<rfloor>; d = x - of_int f in
      if d < 1 / 2 then f
      else if d > 1 / 2 then f + 1
      else if even f then f else f + 1)"

definition py_round :: "nat \<Rightarrow> real \<Rightarrow> real" where
  "py_round n x = of_int (round_half_even (x * 10 ^ n)) / 10 ^ n"

lemma round_half_even_bounds:
  "x - 1 / 2 \<le> of_int (round_half_even x)" "of_int (round_half_even x) \<le> x + 1 / 2"
proof -
  define d where "d = x - of_int \<lfloor>x\<rfloor>"
  have d: "0 \<le> d" "d < 1" and x: "x = of_int \<lfloor>x\<rfloor> + d" unfolding d_def by linarith+
  have r: "round_half_even x = (if d < 1 / 2 then \<lfloor>x\<rfloor> else if d > 1 / 2 then \<lfloor>x\<rfloor> + 1
      else if even \<lfloor>x\<rfloor> then \<lfloor>x\<rfloor> else \<lfloor>x\<rfloor> + 1)"
    by (simp only: round_half_even_def Let_def d_def)
  consider "round_half_even x = \<lfloor>x\<rfloor>" "d \<le> 1 / 2" | "round_half_even x = \<lfloor>x\<rfloor> + 1" "1 / 2 \<le> d"
    unfolding r by (metis linorder_le_less_linear order_less_imp_le)
  then show "x - 1 / 2 \<le> of_int (round_half_even x)" and "of_int (round_half_even x) \<le> x + 1 / 2"
    using x d by (cases; linarith)+
qed

lemma round_half_even_of_int [simp]: "round_half_even (of_int k) = k"
  by (simp add: round_half_even_def)

lemma round_half_even_mono: "x \<le> y \<Longrightarrow> round_half_even x \<le> round_half_even y"
proof -
  assume le: "x \<le> y"
  then have "\<lfloor>x\<rfloor> \<le> \<lfloor>y\<rfloor>" by (rule floor_mono)
  then consider "\<lfloor>x\<rfloor> = \<lfloor>y\<rfloor>" | "\<lfloor>x\<rfloor> + 1 \<le> \<lfloor>y\<rfloor>" by linarith
  then show ?thesis
  proof cases
    case 1
    with le show ?thesis by (auto simp: round_half_even_def Let_def)
  next
    case 2
    have "round_half_even x \<le> \<lfloor>x\<rfloor> + 1" and "\<lfloor>y\<rfloor> \<le> round_half_even y"
      by (auto simp: round_half_even_def Let_def)
    with 2 show ?thesis by linarith
  qed
qed

lemma py_round_error: "\<bar>py_round n x - x\<bar> \<le> 1 / 2 / 10 ^ n"
proof -
  have pos: "(0::real) < 10 ^ n" by simp
  have "\<bar>of_int (round_half_even (x * 10 ^ n)) - x * 10 ^ n\<bar> \<le> 1 / 2"
    using round_half_even_bounds [of "x * 10 ^ n"] by linarith
  then have "\<bar>of_int (round_half_even (x * 10 ^ n)) - x * 10 ^ n\<bar> / 10 ^ n \<le> 1 / 2 / 10 ^ n"
    by (rule divide_right_mono) simp
  moreover have "\<bar>of_int (round_half_even (x * 10 ^ n)) - x * 10 ^ n\<bar> / 10 ^ n
      = \<bar>py_round n x - x\<bar>"
  proof -
    have "py_round n x - x = (of_int (round_half_even (x * 10 ^ n)) - x * 10 ^ n) / 10 ^ n"
      using pos by (simp add: py_round_def field_simps)
    then show ?thesis by (simp add: abs_divide)
  qed
  ultimately show ?thesis by simp
qed

lemma py_round_mono: "x \<le> y \<Longrightarrow> py_round n x \<le> py_round n y"
  by (simp add: py_round_def divide_right_mono round_half_even_mono)

lemma py_round_0 [simp]: "py_round n 0 = 0"
  using round_half_even_of_int [of 0] by (simp add: py_round_def)

lemma py_round_nonneg: "0 \<le> x \<Longrightarrow> 0 \<le> py_round n x"
  using py_round_mono [of 0 x n] by simp

lemma py_int_le: "0 \<le> x \<Longrightarrow> of_int (py_int x) \<le> x"
  by (simp add: py_int_def)

lemma py_int_nonneg: "0 \<le> x \<Longrightarrow> 0 \<le> py_int x"
  by (simp add: py_int_def)

lemmas py_round_unfold [py_num] = py_round_def round_half_even_def Let_def

subsection \<open>ASCII strings\<close>

text \<open>
  Strings are lists of ASCII characters: symbols, statuses, field names and URLs of this
  program are ASCII, and on those \<open>upper\<close>, \<open>lower\<close>, \<open>isalnum\<close> and \<open>strip\<close> are Python's.
\<close>

definition char_code :: "char \<Rightarrow> nat" where
  "char_code c = of_char c"

definition upper_char :: "char \<Rightarrow> char" where
  "upper_char c = (if 97 \<le> char_code c \<and> char_code c \<le> 122 then char_of (char_code c - 32) else c)"

definition lower_char :: "char \<Rightarrow> char" where
  "lower_char c = (if 65 \<le> char_code c \<and> char_code c \<le> 90 then char_of (char_code c + 32) else c)"

definition is_alnum :: "char \<Rightarrow> bool" where
  "is_alnum c = (let n = char_code c in
     (48 \<le> n \<and> n \<le> 57) \<or> (65 \<le> n \<and> n \<le> 90) \<or> (97 \<le> n \<and> n \<le> 122))"

definition is_space :: "char \<Rightarrow> bool" where
  "is_space c = (char_code c = 32 \<or> (9 \<le> char_code c \<and> char_code c \<le> 13)
     \<or> (28 \<le> char_code c \<and> char_code c \<le> 31))"

definition upper :: "string \<Rightarrow> string" where
  "upper s = map upper_char s"

definition lower :: "string \<Rightarrow> string" where
  "lower s = map lower_char s"

definition strip :: "string \<Rightarrow> string" where
  "strip s = rev (dropWhile is_space (rev (dropWhile is_space s)))"

definition starts_with :: "string \<Rightarrow> string \<Rightarrow> bool" where
  "starts_with s p = (take (length p) s = p)"

text \<open>\<open>needle in hay\<close> on strings.\<close>

fun occurs_in :: "string \<Rightarrow> string \<Rightarrow> bool" where
  "occurs_in needle [] = (needle = [])"
| "occurs_in needle (c # cs) = (starts_with (c # cs) needle \<or> occurs_in needle cs)"

lemma occurs_in_append: "occurs_in n (xs @ n @ ys)"
proof (induction xs)
  case Nil
  have "starts_with (n @ ys) n" by (simp add: starts_with_def)
  then show ?case by (cases "n @ ys") auto
next
  case (Cons x xs)
  then show ?case by simp
qed

lemma occurs_in_iff: "occurs_in n h \<longleftrightarrow> (\<exists>xs ys. h = xs @ n @ ys)"
proof
  show "occurs_in n h \<Longrightarrow> \<exists>xs ys. h = xs @ n @ ys"
  proof (induction h)
    case Nil
    then show ?case by simp
  next
    case (Cons c cs)
    show ?case
    proof (cases "starts_with (c # cs) n")
      case True
      then have "c # cs = [] @ n @ drop (length n) (c # cs)"
        by (metis append_Nil append_take_drop_id starts_with_def)
      then show ?thesis by blast
    next
      case False
      with Cons obtain xs ys where "cs = xs @ n @ ys" by auto
      then have "c # cs = (c # xs) @ n @ ys" by simp
      then show ?thesis by blast
    qed
  qed
  show "\<exists>xs ys. h = xs @ n @ ys \<Longrightarrow> occurs_in n h"
    by (auto intro: occurs_in_append)
qed

lemma upper_append [simp]: "upper (xs @ ys) = upper xs @ upper ys"
  by (simp add: upper_def)

lemma upper_Nil_iff [simp]: "upper s = [] \<longleftrightarrow> s = []"
  by (simp add: upper_def)

lemma char_code_char_of: "n < 256 \<Longrightarrow> char_code (char_of n) = n"
  by (simp add: char_code_def)

lemma char_code_upper_char:
  "char_code (upper_char c) =
     (if 97 \<le> char_code c \<and> char_code c \<le> 122 then char_code c - 32 else char_code c)"
proof (cases "97 \<le> char_code c \<and> char_code c \<le> 122")
  case True
  then have "char_code c - 32 < 256" by linarith
  then have "char_code (char_of (char_code c - 32)) = char_code c - 32"
    by (rule char_code_char_of)
  with True show ?thesis by (simp only: upper_char_def if_True simp_thms)
next
  case False
  then have "upper_char c = c" by (simp only: upper_char_def if_False)
  with False show ?thesis by (simp only: if_False)
qed

lemma upper_char_upper_char [simp]: "upper_char (upper_char c) = upper_char c"
proof -
  have "\<not> (97 \<le> char_code (upper_char c) \<and> char_code (upper_char c) \<le> 122)"
    by (auto simp: char_code_upper_char)
  then show ?thesis by (simp only: upper_char_def [of "upper_char c"] if_False)
qed

lemma upper_upper [simp]: "upper (upper s) = upper s"
  by (simp add: upper_def)

lemma is_alnum_upper_char [simp]: "is_alnum (upper_char c) = is_alnum c"
  by (auto simp: is_alnum_def Let_def char_code_upper_char)

subsection \<open>Sequences\<close>

text \<open>\<open>next((x for x in xs if p(x)), None)\<close> is \<^term>\<open>List.find\<close>.\<close>

lemma find_Some_mem: "List.find P xs = Some x \<Longrightarrow> x \<in> set xs \<and> P x"
  by (auto simp: find_Some_iff)

lemma find_cong_pred: "(\<And>x. x \<in> set xs \<Longrightarrow> P x = Q x) \<Longrightarrow> List.find P xs = List.find Q xs"
  by (induction xs) auto

text \<open>Updating the rows that satisfy a condition: SQL's \<open>UPDATE ... WHERE\<close>.\<close>

definition update_where :: "('r \<Rightarrow> bool) \<Rightarrow> ('r \<Rightarrow> 'r) \<Rightarrow> 'r list \<Rightarrow> 'r list" where
  "update_where P f rows = map (\<lambda>r. if P r then f r else r) rows"

lemma length_update_where [simp]: "length (update_where P f rows) = length rows"
  by (simp add: update_where_def)

lemma update_where_Nil [simp]: "update_where P f [] = []"
  by (simp add: update_where_def)

lemma update_where_Cons [simp]:
  "update_where P f (r # rows) = (if P r then f r else r) # update_where P f rows"
  by (simp add: update_where_def)

lemma map_key_update_where:
  "(\<And>r. P r \<Longrightarrow> k (f r) = k r) \<Longrightarrow> map k (update_where P f rows) = map k rows"
  by (induction rows) auto

lemma update_where_none:
  "(\<And>r. r \<in> set rows \<Longrightarrow> \<not> P r) \<Longrightarrow> update_where P f rows = rows"
  by (induction rows) auto

lemma find_update_where:
  "(\<And>r. P r \<Longrightarrow> k (f r) = k r) \<Longrightarrow>
   List.find (\<lambda>r. k r = key) (update_where P f rows) =
   map_option (\<lambda>r. if P r then f r else r) (List.find (\<lambda>r. k r = key) rows)"
  by (induction rows) auto

lemma find_append:
  "List.find P (xs @ ys) = (case List.find P xs of None \<Rightarrow> List.find P ys | Some x \<Rightarrow> Some x)"
  by (induction xs) auto

lemma find_None_notin: "List.find (\<lambda>r. k r = key) rows = None \<longleftrightarrow> key \<notin> k ` set rows"
  by (auto simp: find_None_iff)

lemma distinct_find_unique:
  "distinct (map k rows) \<Longrightarrow> r \<in> set rows \<Longrightarrow> List.find (\<lambda>x. k x = k r) rows = Some r"
  by (induction rows) auto

lemma set_map_filter: "y \<in> set (List.map_filter f xs) \<longleftrightarrow> (\<exists>x \<in> set xs. f x = Some y)"
  by (induction xs) (auto split: option.split)

lemma map_filter_append: "List.map_filter f (xs @ ys) = List.map_filter f xs @ List.map_filter f ys"
  by (induction xs) (auto split: option.split)

end
