(* ===== verification/Errors.thy ===== *)
theory Errors
  imports Prelude
begin

text \<open>
  The error taxonomy of \<open>bot/errors.py\<close>. An exception object is its class and its message;
  \<open>except C\<close> catches it when \<open>C\<close> is among the class's ancestors, and the class attributes
  \<open>severity\<close> and \<open>category\<close> are looked up along the same chain, as Python does.
  \<open>OtherException\<close> stands for every exception outside this hierarchy (an integrity error of
  the database driver, say), which no \<open>except BotError\<close> catches.
\<close>

datatype severity = TRANSIENT | PERMANENT | SAFETY_CRITICAL

datatype category = BROKER | DATA | AI | DATABASE | EXECUTION | CONFIG | SAFETY

datatype error_class =
    OtherException
  | BotError | ConfigError | DemoVerificationError
  | BrokerError | BrokerAuthError | BrokerRateLimited | BrokerRejected | SymbolUnavailable
  | CircuitOpen
  | AmbiguousExecution
  | MarketDataError | StaleDataError
  | AIError | AIContractViolation
  | StorageError
  | SizingError

fun parent :: "error_class \<Rightarrow> error_class option" where
  "parent OtherException = None"
| "parent BotError = None"
| "parent ConfigError = Some BotError"
| "parent DemoVerificationError = Some BotError"
| "parent BrokerError = Some BotError"
| "parent BrokerAuthError = Some BrokerError"
| "parent BrokerRateLimited = Some BrokerError"
| "parent BrokerRejected = Some BrokerError"
| "parent SymbolUnavailable = Some BrokerRejected"
| "parent CircuitOpen = Some BrokerError"
| "parent AmbiguousExecution = Some BotError"
| "parent MarketDataError = Some BotError"
| "parent StaleDataError = Some MarketDataError"
| "parent AIError = Some BotError"
| "parent AIContractViolation = Some AIError"
| "parent StorageError = Some BotError"
| "parent SizingError = Some BotError"

fun class_depth :: "error_class \<Rightarrow> nat" where
  "class_depth OtherException = 0"
| "class_depth BotError = 0"
| "class_depth BrokerAuthError = 2"
| "class_depth BrokerRateLimited = 2"
| "class_depth BrokerRejected = 2"
| "class_depth CircuitOpen = 2"
| "class_depth StaleDataError = 2"
| "class_depth AIContractViolation = 2"
| "class_depth SymbolUnavailable = 3"
| "class_depth _ = 1"

lemma parent_depth: "parent c = Some p \<Longrightarrow> class_depth p < class_depth c"
  by (cases c) auto

text \<open>The method resolution order: the class and its ancestors.\<close>

function mro :: "error_class \<Rightarrow> error_class list" where
  "mro c = c # (case parent c of None \<Rightarrow> [] | Some p \<Rightarrow> mro p)"
  by pat_completeness auto
termination
  by (relation "measure class_depth") (auto intro: parent_depth)

declare mro.simps [simp del]

definition catches :: "error_class \<Rightarrow> error_class \<Rightarrow> bool" where
  "catches handler c = (handler \<in> set (mro c))"

lemma mro_eq:
  "mro OtherException = [OtherException]"
  "mro BotError = [BotError]"
  "mro ConfigError = [ConfigError, BotError]"
  "mro DemoVerificationError = [DemoVerificationError, BotError]"
  "mro BrokerError = [BrokerError, BotError]"
  "mro BrokerAuthError = [BrokerAuthError, BrokerError, BotError]"
  "mro BrokerRateLimited = [BrokerRateLimited, BrokerError, BotError]"
  "mro BrokerRejected = [BrokerRejected, BrokerError, BotError]"
  "mro SymbolUnavailable = [SymbolUnavailable, BrokerRejected, BrokerError, BotError]"
  "mro CircuitOpen = [CircuitOpen, BrokerError, BotError]"
  "mro AmbiguousExecution = [AmbiguousExecution, BotError]"
  "mro MarketDataError = [MarketDataError, BotError]"
  "mro StaleDataError = [StaleDataError, MarketDataError, BotError]"
  "mro AIError = [AIError, BotError]"
  "mro AIContractViolation = [AIContractViolation, AIError, BotError]"
  "mro StorageError = [StorageError, BotError]"
  "mro SizingError = [SizingError, BotError]"
  by (simp_all add: mro.simps)

lemma catches_eq:
  "catches h c = (h = c \<or> (case parent c of None \<Rightarrow> False | Some p \<Rightarrow> catches h p))"
  by (simp add: catches_def mro.simps [of c] split: option.split)

lemma catches_BotError: "catches BotError c \<longleftrightarrow> c \<noteq> OtherException"
  by (cases c) (simp_all add: catches_def mro_eq)

text \<open>The class attributes each class body declares; the rest are inherited.\<close>

fun declared_severity :: "error_class \<Rightarrow> severity option" where
  "declared_severity BotError = Some PERMANENT"
| "declared_severity ConfigError = Some SAFETY_CRITICAL"
| "declared_severity DemoVerificationError = Some SAFETY_CRITICAL"
| "declared_severity BrokerError = Some TRANSIENT"
| "declared_severity BrokerAuthError = Some PERMANENT"
| "declared_severity BrokerRateLimited = Some TRANSIENT"
| "declared_severity BrokerRejected = Some PERMANENT"
| "declared_severity CircuitOpen = Some TRANSIENT"
| "declared_severity AmbiguousExecution = Some SAFETY_CRITICAL"
| "declared_severity MarketDataError = Some TRANSIENT"
| "declared_severity StaleDataError = Some PERMANENT"
| "declared_severity AIError = Some TRANSIENT"
| "declared_severity AIContractViolation = Some PERMANENT"
| "declared_severity StorageError = Some SAFETY_CRITICAL"
| "declared_severity SizingError = Some PERMANENT"
| "declared_severity _ = None"

fun declared_category :: "error_class \<Rightarrow> category option" where
  "declared_category BotError = Some EXECUTION"
| "declared_category ConfigError = Some CONFIG"
| "declared_category DemoVerificationError = Some SAFETY"
| "declared_category BrokerError = Some BROKER"
| "declared_category SymbolUnavailable = Some CONFIG"
| "declared_category AmbiguousExecution = Some EXECUTION"
| "declared_category MarketDataError = Some DATA"
| "declared_category AIError = Some AI"
| "declared_category StorageError = Some DATABASE"
| "declared_category SizingError = Some EXECUTION"
| "declared_category _ = None"

fun first_declared :: "('c \<Rightarrow> 'a option) \<Rightarrow> 'c list \<Rightarrow> 'a option" where
  "first_declared f [] = None"
| "first_declared f (c # cs) = (case f c of Some a \<Rightarrow> Some a | None \<Rightarrow> first_declared f cs)"

definition severity_of :: "error_class \<Rightarrow> severity option" where
  "severity_of c = first_declared declared_severity (mro c)"

definition category_of :: "error_class \<Rightarrow> category option" where
  "category_of c = first_declared declared_category (mro c)"

text \<open>An exception value: its class and the message it carries.\<close>

record exn =
  exn_class :: error_class
  exn_message :: string

definition isinstance :: "exn \<Rightarrow> error_class \<Rightarrow> bool" where
  "isinstance e c = catches c (exn_class e)"

lemma isinstance_BotError: "isinstance e BotError \<longleftrightarrow> exn_class e \<noteq> OtherException"
  by (simp add: isinstance_def catches_BotError)

lemma isinstance_trans_BotError: "isinstance e c \<Longrightarrow> c \<noteq> OtherException \<Longrightarrow> isinstance e BotError"
  by (cases "exn_class e"; simp add: isinstance_def catches_def mro_eq)

text \<open>An outcome of unknown effect is no \<open>BrokerError\<close>: no handler for broker errors can
  swallow it.\<close>

lemma ambiguous_not_broker_error: "\<not> (catches BrokerError c \<and> catches AmbiguousExecution c)"
  by (cases c) (simp_all add: catches_def mro_eq)

lemma ambiguous_severity: "catches AmbiguousExecution c \<Longrightarrow> severity_of c = Some SAFETY_CRITICAL"
  by (cases c) (simp_all add: catches_def mro_eq severity_of_def)

end
