(* ===== verification/Clock.thy ===== *)
theory Clock
  imports Prelude
begin

text \<open>
  The clock of \<open>bot/clock.py\<close> and the calendar arithmetic of Python's aware UTC datetimes.
  A moment is the number of microseconds since 1970-01-01T00:00Z, so \<open>ensure_utc\<close> is the
  identity on it; \<open>weekday()\<close> is 0 on Mondays, and the epoch was a Thursday.
\<close>

definition usec_per_sec :: int where "usec_per_sec = 1000000"
definition usec_per_min :: int where "usec_per_min = 60000000"
definition usec_per_hour :: int where "usec_per_hour = 3600000000"
definition usec_per_day :: int where "usec_per_day = 86400000000"

lemmas usec_defs = usec_per_sec_def usec_per_min_def usec_per_hour_def usec_per_day_def

definition day_number :: "micros \<Rightarrow> int" where
  "day_number t = t div usec_per_day"

definition time_of_day :: "micros \<Rightarrow> int" where
  "time_of_day t = t mod usec_per_day"

definition hour_of :: "micros \<Rightarrow> int" where
  "hour_of t = time_of_day t div usec_per_hour"

definition minute_of :: "micros \<Rightarrow> int" where
  "minute_of t = time_of_day t div usec_per_min mod 60"

definition weekday_of :: "micros \<Rightarrow> int" where
  "weekday_of t = (day_number t + 3) mod 7"

text \<open>\<open>moment.replace(hour=h, minute=0, second=0, microsecond=0)\<close> for \<open>0 \<le> h < 24\<close>.\<close>

definition at_hour :: "micros \<Rightarrow> int \<Rightarrow> micros" where
  "at_hour t h = day_number t * usec_per_day + h * usec_per_hour"

definition total_seconds :: "int \<Rightarrow> real" where
  "total_seconds d = of_int d / 1000000"

definition to_epoch_seconds :: "micros \<Rightarrow> real" where
  "to_epoch_seconds t = total_seconds t"

text \<open>Epoch seconds or milliseconds; \<open>datetime.fromtimestamp\<close> rounds to microseconds,
  ties to even.\<close>

definition from_epoch :: "real \<Rightarrow> micros" where
  "from_epoch v =
     (let seconds = (if \<bar>v\<bar> > 10 ^ 11 then v / 1000 else v)
      in round_half_even (seconds * 1000000))"

text \<open>The UTC calendar day that keys the daily counters; \<open>%Y-%m-%d\<close> prints it.\<close>

definition trading_day :: "micros \<Rightarrow> int" where
  "trading_day t = day_number t"

lemma time_of_day_bounds: "0 \<le> time_of_day t" "time_of_day t < usec_per_day"
  by (simp_all add: time_of_day_def usec_defs)

lemma hour_bounds: "0 \<le> hour_of t" "hour_of t \<le> 23"
  using time_of_day_bounds [of t] by (simp_all add: hour_of_def usec_defs)

lemma weekday_bounds: "0 \<le> weekday_of t" "weekday_of t \<le> 6"
  by (simp_all add: weekday_of_def)

lemma day_split: "t = day_number t * usec_per_day + time_of_day t"
  by (simp add: day_number_def time_of_day_def)

lemma day_number_add_days [simp]: "day_number (t + k * usec_per_day) = day_number t + k"
  by (simp add: day_number_def usec_defs)

lemma at_hour_diff: "t - at_hour t h = time_of_day t - h * usec_per_hour"
  using day_split [of t] by (simp add: at_hour_def)

lemma from_epoch_to_epoch: "\<bar>total_seconds t\<bar> \<le> 10 ^ 11 \<Longrightarrow> from_epoch (to_epoch_seconds t) = t"
  by (simp add: from_epoch_def to_epoch_seconds_def total_seconds_def Let_def)

lemma from_epoch_millis:
  "\<bar>total_seconds t * 1000\<bar> > 10 ^ 11 \<Longrightarrow> from_epoch (to_epoch_seconds t * 1000) = t"
  by (simp add: from_epoch_def to_epoch_seconds_def total_seconds_def Let_def)

end
