(* ===== verification/Symbols.thy ===== *)
theory Symbols
  imports Prelude "HOL-Library.Product_Lexorder" "HOL-Library.List_Lexorder" "HOL-Library.Char_ord"
begin

text \<open>
  Canonical symbol identity, \<open>bot/broker/symbols.py\<close>. The interface the executor, the
  reconciler and the risk engine rely on is the locale \<open>instrument_identity\<close>: a relation on
  broker names that is an equivalence. It is interpreted on \<open>same_instrument\<close> below, and a
  lookup by instrument is proved there, once, not to depend on how a name is decorated.
\<close>

subsection \<open>The interface: identity of instruments\<close>

locale instrument_identity =
  fixes same :: "string \<Rightarrow> string \<Rightarrow> bool"
  assumes refl_same: "same a a"
    and sym_same: "same a b \<Longrightarrow> same b a"
    and trans_same: "same a b \<Longrightarrow> same b c \<Longrightarrow> same a c"
begin

lemma same_cong: "same a b \<Longrightarrow> same x a = same x b"
  using sym_same trans_same by blast

lemma find_same_cong:
  "same a b \<Longrightarrow> List.find (\<lambda>p. same (nm p) a \<and> Q p) ps = List.find (\<lambda>p. same (nm p) b \<and> Q p) ps"
  by (rule find_cong_pred) (simp add: same_cong)

lemma filter_same_cong:
  "same a b \<Longrightarrow> filter (\<lambda>p. same (nm p) a) ps = filter (\<lambda>p. same (nm p) b) ps"
  by (rule filter_cong) (simp_all add: same_cong)

end

subsection \<open>The model\<close>

definition CURRENCIES :: "string list" where
  "CURRENCIES =
    [''USD'', ''EUR'', ''GBP'', ''JPY'', ''CHF'', ''AUD'', ''NZD'', ''CAD'',
     ''SEK'', ''NOK'', ''DKK'', ''PLN'', ''CZK'', ''HUF'', ''TRY'', ''ZAR'', ''MXN'',
     ''SGD'', ''HKD'', ''CNH'', ''CNY'', ''INR'', ''THB'', ''ILS'', ''RUB'',
     ''XAU'', ''XAG'', ''XPT'', ''XPD'',
     ''BTC'', ''ETH'', ''LTC'', ''XRP'', ''BCH'', ''SOL'', ''ADA'', ''DOT'']"

definition intra_pair :: "char list" where
  "intra_pair = [CHR ''/'', CHR '' '', CHR 0x09]"

definition strip_separators :: "string \<Rightarrow> string" where
  "strip_separators name = filter (\<lambda>c. c \<notin> set intra_pair) (strip (upper name))"

definition alphanumeric :: "string \<Rightarrow> string" where
  "alphanumeric name = filter is_alnum (upper name)"

definition canonical_symbol :: "string \<Rightarrow> string option" where
  "canonical_symbol name =
     (let text = alphanumeric name in
      if length text < 6 then None
      else
        (let base = take 3 text; quote = take 3 (drop 3 text) in
         if List.member CURRENCIES base \<and> List.member CURRENCIES quote
         then Some (base @ quote) else None))"

definition split_currencies :: "string \<Rightarrow> string option \<times> string option" where
  "split_currencies name =
     (case canonical_symbol name of
        None \<Rightarrow> (None, None)
      | Some c \<Rightarrow> (Some (take 3 c), Some (drop 3 c)))"

text \<open>The loop of \<open>broker_suffix\<close>: walk past six alphanumerics.\<close>

fun skip_pair :: "nat \<Rightarrow> string \<Rightarrow> string" where
  "skip_pair letters [] = []"
| "skip_pair letters (c # cs) =
     (if letters < 6 then skip_pair (if is_alnum c then Suc letters else letters) cs else c # cs)"

definition broker_suffix :: "string \<Rightarrow> string" where
  "broker_suffix name =
     (case canonical_symbol name of None \<Rightarrow> name | Some _ \<Rightarrow> skip_pair 0 (strip_separators name))"

definition same_instrument :: "string \<Rightarrow> string \<Rightarrow> bool" where
  "same_instrument left right =
     (case (canonical_symbol left, canonical_symbol right) of
        (Some a, Some b) \<Rightarrow> a = b
      | _ \<Rightarrow> alphanumeric left = alphanumeric right)"

text \<open>The rank \<open>nearest_names\<close> gives one available name; \<open>None\<close> leaves it out.\<close>

definition name_rank :: "string \<Rightarrow> string \<Rightarrow> nat option" where
  "name_rank requested name =
     (let wanted = alphanumeric requested; candidate = alphanumeric name in
      if candidate = [] then None
      else if starts_with candidate wanted \<or> starts_with wanted candidate then Some 0
      else if occurs_in wanted candidate \<or> occurs_in candidate wanted then Some 1
      else
        (let currency_rank =
           (case (split_currencies requested, split_currencies name) of
              ((Some b, Some q), (Some ob, Some oq)) \<Rightarrow>
                if (b = ob \<and> q = oq) \<or> (b = oq \<and> q = ob) then Some 0
                else if ob = b then Some 2 else None
            | _ \<Rightarrow> None)
         in case currency_rank of
              Some r \<Rightarrow> Some r
            | None \<Rightarrow> if 3 \<le> length wanted \<and> take 3 candidate = take 3 wanted then Some 3 else None))"

fun scored_names :: "string \<Rightarrow> string list \<Rightarrow> (nat \<times> string) list" where
  "scored_names requested [] = []"
| "scored_names requested (n # ns) =
     (case name_rank requested n of
        None \<Rightarrow> scored_names requested ns
      | Some r \<Rightarrow> (r, n) # scored_names requested ns)"

definition nearest_names :: "string \<Rightarrow> string list \<Rightarrow> nat \<Rightarrow> string list" where
  "nearest_names requested available limit =
     (if alphanumeric requested = [] then []
      else map snd (take limit
             (sort_key (\<lambda>(r, n). (r, length n, n)) (scored_names requested available))))"

subsection \<open>Canonical names\<close>

lemma alphanumeric_idem [simp]: "alphanumeric (alphanumeric n) = alphanumeric n"
proof -
  have "upper (alphanumeric n) = alphanumeric n"
    by (auto simp: alphanumeric_def upper_def intro!: map_idI)
  then have "alphanumeric (alphanumeric n) = filter is_alnum (alphanumeric n)"
    by (simp add: alphanumeric_def [of "alphanumeric n"])
  then show ?thesis by (simp add: alphanumeric_def)
qed

lemma canonical_cong: "alphanumeric a = alphanumeric b \<Longrightarrow> canonical_symbol a = canonical_symbol b"
  by (simp add: canonical_symbol_def)

lemma canonical_alphanumeric [simp]: "canonical_symbol (alphanumeric n) = canonical_symbol n"
  by (rule canonical_cong) simp

lemma canonical_prefix:
  assumes "canonical_symbol n = Some c"
  shows "c = take 6 (alphanumeric n)" and "length c = 6"
    and "List.member CURRENCIES (take 3 c)" and "List.member CURRENCIES (drop 3 c)"
proof -
  let ?t = "alphanumeric n"
  from assms have len: "6 \<le> length ?t" and c: "c = take 3 ?t @ take 3 (drop 3 ?t)"
    and m: "List.member CURRENCIES (take 3 ?t)" "List.member CURRENCIES (take 3 (drop 3 ?t))"
    by (auto simp: canonical_symbol_def Let_def split: if_splits)
  have "take 3 ?t @ take 3 (drop 3 ?t) = take (3 + 3) ?t" by (rule take_add [symmetric])
  with c show "c = take 6 ?t" by simp
  with len show "length c = 6" by simp
  from len c m show "List.member CURRENCIES (take 3 c)" "List.member CURRENCIES (drop 3 c)"
    by simp_all
qed

lemma canonical_of_prefix:
  assumes "canonical_symbol n = Some c" and "alphanumeric m = c @ rest"
  shows "canonical_symbol m = Some c"
proof -
  from canonical_prefix [OF assms(1)] have "length c = 6"
    and "List.member CURRENCIES (take 3 c)" "List.member CURRENCIES (drop 3 c)" by auto
  with assms(2) show ?thesis
    by (simp add: canonical_symbol_def Let_def)
qed

lemma canonical_chars:
  assumes "canonical_symbol n = Some c"
  shows "alphanumeric c = c"
proof -
  have "alphanumeric (take k (alphanumeric n)) = take k (alphanumeric n)" for k
  proof -
    have "\<forall>x \<in> set (alphanumeric n). is_alnum x \<and> upper_char x = x"
      by (auto simp: alphanumeric_def upper_def)
    then have "\<forall>x \<in> set (take k (alphanumeric n)). is_alnum x \<and> upper_char x = x"
      by (meson in_set_takeD)
    then show ?thesis
      by (simp add: alphanumeric_def [of "take k _"] upper_def map_idI filter_id_conv)
  qed
  with canonical_prefix(1) [OF assms] show ?thesis by simp
qed

lemma canonical_idem: "canonical_symbol n = Some c \<Longrightarrow> canonical_symbol c = Some c"
  by (rule canonical_of_prefix [where rest = "[]"]) (simp_all add: canonical_chars)

text \<open>Whatever a broker appends to a pair, the pair is still found.\<close>

lemma canonical_decorated: "canonical_symbol n = Some c \<Longrightarrow> canonical_symbol (c @ suffix) = Some c"
  by (rule canonical_of_prefix [where rest = "alphanumeric suffix"])
    (simp_all add: alphanumeric_def canonical_chars flip: filter_append upper_append,
     metis alphanumeric_def canonical_chars filter_append upper_append)

lemma split_currencies_Some:
  "split_currencies n = (Some b, Some q) \<longleftrightarrow> (\<exists>c. canonical_symbol n = Some c \<and> b = take 3 c \<and> q = drop 3 c)"
  by (auto simp: split_currencies_def split: option.splits)

subsection \<open>\<open>same_instrument\<close> is an equivalence\<close>

lemma same_instrument_iff:
  "same_instrument a b \<longleftrightarrow>
     (canonical_symbol a \<noteq> None \<and> canonical_symbol a = canonical_symbol b)
     \<or> (canonical_symbol a = None \<and> canonical_symbol b = None \<and> alphanumeric a = alphanumeric b)"
  by (auto simp: same_instrument_def split: option.splits dest: canonical_cong)

interpretation symbol_id: instrument_identity same_instrument
  by unfold_locales (auto simp: same_instrument_iff)

lemma same_instrument_decorated:
  "canonical_symbol n = Some c \<Longrightarrow> same_instrument n (c @ suffix)"
  by (simp add: same_instrument_iff canonical_decorated)

subsection \<open>The suffix is what follows the pair\<close>

lemma filter_dropWhile: "(\<And>c. P c \<Longrightarrow> \<not> Q c) \<Longrightarrow> filter Q (dropWhile P s) = filter Q s"
  by (induction s) auto

lemma space_not_alnum: "is_space c \<Longrightarrow> \<not> is_alnum c"
  by (auto simp: is_space_def is_alnum_def Let_def)

lemma filter_strip: "filter is_alnum (strip s) = filter is_alnum s"
proof -
  have "filter is_alnum (strip s) = rev (filter is_alnum (rev (dropWhile is_space s)))"
    by (simp add: strip_def rev_filter [symmetric] filter_dropWhile space_not_alnum)
  then show ?thesis by (simp add: rev_filter [symmetric] filter_dropWhile space_not_alnum)
qed

lemma filter_strip_separators: "filter is_alnum (strip_separators n) = alphanumeric n"
proof -
  have "is_alnum c \<Longrightarrow> c \<notin> set intra_pair" for c
    by (auto simp: intra_pair_def is_alnum_def Let_def char_code_def)
  then have "filter is_alnum (strip_separators n) = filter is_alnum (strip (upper n))"
    unfolding strip_separators_def filter_filter by (intro filter_cong) auto
  then show ?thesis by (simp add: filter_strip alphanumeric_def)
qed

lemma skip_pair_split:
  "\<exists>pre. s = pre @ skip_pair k s \<and> filter is_alnum pre = take (6 - k) (filter is_alnum s)"
proof (induction s arbitrary: k)
  case Nil
  then show ?case by simp
next
  case (Cons c cs)
  show ?case
  proof (cases "k < 6")
    case True
    let ?k = "if is_alnum c then Suc k else k"
    from Cons obtain pre where "cs = pre @ skip_pair ?k cs"
      and "filter is_alnum pre = take (6 - ?k) (filter is_alnum cs)" by blast
    with True have "c # cs = (c # pre) @ skip_pair k (c # cs)"
      and "filter is_alnum (c # pre) = take (6 - k) (filter is_alnum (c # cs))"
      by (auto simp: take_Cons' Suc_diff_Suc)
    then show ?thesis by blast
  next
    case False
    then show ?thesis by (intro exI [of _ "[]"]) simp
  qed
qed

subsection \<open>Suggestions come from the offered names\<close>

lemma scored_names_ranked: "(r, n) \<in> set (scored_names q ns) \<longleftrightarrow> n \<in> set ns \<and> name_rank q n = Some r"
  by (induction ns) (auto split: option.splits)

lemma name_rank_exact:
  "alphanumeric n = alphanumeric q \<Longrightarrow> alphanumeric q \<noteq> [] \<Longrightarrow> name_rank q n = Some 0"
  by (simp add: name_rank_def Let_def starts_with_def)

subsection \<open>Properties\<close>

text \<open>Whatever names two callers use, "is this the same instrument" behaves as an identity:
  \<open>same_instrument\<close> is reflexive, symmetric and transitive on all names.\<close>

theorem same_instrument_equivalence: "equivp same_instrument"
  by (rule equivpI)
    (auto simp: reflp_def symp_def transp_def intro: symbol_id.refl_same symbol_id.sym_same
      dest: symbol_id.trans_same)

text \<open>A broker's decorated name is the pair it decorates: any suffix after the six letters of a
  recognised pair leaves the canonical symbol and the instrument unchanged, and
  \<open>broker_suffix\<close> cuts the name exactly behind those six letters, losing no character.\<close>

theorem decorated_name:
  assumes "canonical_symbol n = Some c"
  shows "canonical_symbol (c @ suffix) = Some c \<and> same_instrument n (c @ suffix)
    \<and> (\<exists>pre. strip_separators n = pre @ broker_suffix n \<and> filter is_alnum pre = c)"
proof -
  obtain pre where pre: "strip_separators n = pre @ skip_pair 0 (strip_separators n)"
    "filter is_alnum pre = take 6 (filter is_alnum (strip_separators n))"
    using skip_pair_split [of "strip_separators n" 0] by auto
  moreover have "take 6 (filter is_alnum (strip_separators n)) = c"
    using canonical_prefix(1) [OF assms] by (simp add: filter_strip_separators)
  ultimately have "\<exists>pre. strip_separators n = pre @ broker_suffix n \<and> filter is_alnum pre = c"
    using assms by (auto simp: broker_suffix_def)
  with assms show ?thesis by (simp add: canonical_decorated same_instrument_decorated)
qed

theorem decorated_name_witness:
  "canonical_symbol (''EURUSD'' @ ''-PRO'') = Some ''EURUSD''
     \<and> same_instrument ''eur/usd.r'' (''EURUSD'' @ ''-PRO'')
     \<and> (\<exists>pre. strip_separators ''eur/usd.r'' = pre @ broker_suffix ''eur/usd.r''
          \<and> filter is_alnum pre = ''EURUSD'') \<and> broker_suffix ''eur/usd.r'' = ''.R''"
proof -
  have "canonical_symbol ''eur/usd.r'' = Some ''EURUSD''" by code_simp
  from decorated_name [OF this, of "''-PRO''"] show ?thesis
    by (auto simp del: append_Cons append_Nil) (code_simp)
qed

end
