(* ===== verification/Broker_Models.thy ===== *)
theory Broker_Models
  imports Prelude Clock
begin

text \<open>
  The broker-facing value objects of \<open>bot/broker/models.py\<close>. The interface of position sizing,
  the locale \<open>lot_rounding\<close>, asks one thing of an instrument: that snapping a lot count to the
  instrument's step does not exceed it by more than a stated slack.
\<close>

record instrument_spec =
  sp_symbol :: string
  sp_broker_name :: string
  sp_tradable_instrument_id :: int
  sp_route_id :: int
  sp_quote_route_id :: "int option"
  sp_contract_size :: real
  sp_tick_size :: real
  sp_tick_value :: "real option"
  sp_lot_step :: real
  sp_min_lot :: real
  sp_max_lot :: real
  sp_base_currency :: "string option"
  sp_quote_currency :: "string option"
  sp_account_currency :: string
  sp_digits :: nat

definition point :: "instrument_spec \<Rightarrow> real" where
  "point s = (if sp_tick_size s > 0 then sp_tick_size s else 1 / 10 ^ sp_digits s)"

definition round_lot :: "instrument_spec \<Rightarrow> real \<Rightarrow> real" where
  "round_lot s lots =
     (if sp_lot_step s \<le> 0 then py_round 2 lots
      else
        (let steps = py_int (lots / sp_lot_step s + 1 / 10 ^ 9)
         in py_round 8 (of_int steps * sp_lot_step s)))"

definition round_price :: "instrument_spec \<Rightarrow> real \<Rightarrow> real" where
  "round_price s price =
     (if sp_tick_size s > 0
      then py_round (sp_digits s + 2) (of_int (round_half_even (price / sp_tick_size s)) * sp_tick_size s)
      else py_round (sp_digits s) price)"

record quote =
  q_symbol :: string
  q_bid :: real
  q_ask :: real
  q_timestamp :: micros

definition spread :: "quote \<Rightarrow> real" where
  "spread q = max 0 (q_ask q - q_bid q)"

definition mid :: "quote \<Rightarrow> real" where
  "mid q = (q_ask q + q_bid q) / 2"

record account_state =
  as_balance :: real
  as_equity :: real
  as_margin_used :: real
  as_margin_available :: real
  as_open_pnl :: real
  as_today_pnl :: real
  as_currency :: string

record broker_position =
  bp_position_id :: string
  bp_symbol :: string
  bp_instrument_id :: int
  bp_direction :: string
  bp_quantity :: real
  bp_entry_price :: real
  bp_stop_loss :: "real option"
  bp_take_profit :: "real option"
  bp_unrealized_pnl :: real
  bp_opened_at :: "micros option"

text \<open>A raw broker field: absent or null, an empty string, text that is no number, or a number.\<close>

datatype raw_field = Missing | EmptyText | NotANumber | Number real

record broker_order =
  bo_order_id :: string
  bo_position_id :: "string option"
  bo_symbol :: string
  bo_instrument_id :: int
  bo_direction :: string
  bo_quantity :: real
  bo_status :: string
  bo_price :: "real option"
  bo_stop_price :: "real option"
  bo_order_type :: string
  bo_created_at :: "micros option"
  bo_raw_realizedPl :: "raw_field option"
  bo_raw_realizedPnL :: "raw_field option"

record order_result =
  or_order_id :: "string option"

subsection \<open>Lot rounding as an interface\<close>

locale lot_rounding =
  fixes usable :: "'s \<Rightarrow> bool"
    and round_down :: "'s \<Rightarrow> real \<Rightarrow> real"
    and slack :: "'s \<Rightarrow> real"
  assumes round_down_le: "usable s \<Longrightarrow> 0 \<le> x \<Longrightarrow> round_down s x \<le> x + slack s"
    and round_down_nonneg: "usable s \<Longrightarrow> 0 \<le> x \<Longrightarrow> 0 \<le> round_down s x"
    and slack_nonneg: "usable s \<Longrightarrow> 0 \<le> slack s"
begin

lemma budget:
  assumes "usable s" and "0 \<le> risk" and "0 < loss"
  shows "round_down s (risk / loss) * loss \<le> risk + slack s * loss"
proof -
  have "0 \<le> risk / loss" using assms by simp
  then have "round_down s (risk / loss) \<le> risk / loss + slack s"
    using assms(1) by (rule round_down_le [rotated])
  then have "round_down s (risk / loss) * loss \<le> (risk / loss + slack s) * loss"
    using assms(3) by (intro mult_right_mono) auto
  also have "\<dots> = risk + slack s * loss"
    using assms(3) by (simp add: field_simps)
  finally show ?thesis .
qed

lemma budget_smaller:
  assumes "usable s" and "0 \<le> risk" and "0 < loss" and "0 \<le> cap" and "cap \<le> risk / loss"
  shows "round_down s cap * loss \<le> risk + slack s * loss"
proof -
  have "round_down s cap \<le> cap + slack s"
    using assms by (intro round_down_le)
  also have "\<dots> \<le> risk / loss + slack s" using assms by simp
  finally have "round_down s cap * loss \<le> (risk / loss + slack s) * loss"
    using assms(3) by (intro mult_right_mono) auto
  also have "\<dots> = risk + slack s * loss"
    using assms(3) by (simp add: field_simps)
  finally show ?thesis .
qed

end

definition has_lot_step :: "instrument_spec \<Rightarrow> bool" where
  "has_lot_step s = (0 < sp_lot_step s)"

definition lot_slack :: "instrument_spec \<Rightarrow> real" where
  "lot_slack s = sp_lot_step s / 10 ^ 9 + 1 / 2 / 10 ^ 8"

lemma round_lot_le:
  assumes "has_lot_step s" and "0 \<le> x"
  shows "round_lot s x \<le> x + lot_slack s"
proof -
  from assms have step: "0 < sp_lot_step s" by (simp add: has_lot_step_def)
  let ?y = "x / sp_lot_step s + 1 / 10 ^ 9"
  let ?n = "py_int ?y"
  have "of_int ?n \<le> ?y" using step assms(2) by (intro py_int_le) simp
  then have "of_int ?n * sp_lot_step s \<le> ?y * sp_lot_step s"
    using step by (intro mult_right_mono) auto
  also have "\<dots> = x + sp_lot_step s / 10 ^ 9" using step by (simp add: field_simps)
  finally have "of_int ?n * sp_lot_step s \<le> x + sp_lot_step s / 10 ^ 9" .
  moreover have "py_round 8 (of_int ?n * sp_lot_step s) \<le> of_int ?n * sp_lot_step s + 1 / 2 / 10 ^ 8"
    using py_round_error [of 8 "of_int ?n * sp_lot_step s"] by linarith
  ultimately show ?thesis
    using step by (simp add: round_lot_def lot_slack_def)
qed

lemma round_lot_nonneg: "has_lot_step s \<Longrightarrow> 0 \<le> x \<Longrightarrow> 0 \<le> round_lot s x"
  by (auto simp: round_lot_def has_lot_step_def Let_def intro!: py_round_nonneg mult_nonneg_nonneg py_int_nonneg)

lemma lot_slack_nonneg: "has_lot_step s \<Longrightarrow> 0 \<le> lot_slack s"
  by (simp add: lot_slack_def has_lot_step_def)

interpretation lots: lot_rounding has_lot_step round_lot lot_slack
  by unfold_locales (rule round_lot_le round_lot_nonneg lot_slack_nonneg; assumption)+

lemma spread_nonneg: "0 \<le> spread q"
  by (simp add: spread_def)

lemma point_pos: "0 < point s"
  by (simp add: point_def)

text \<open>A rounded price is within half a tick, and the final decimal rounding, of the price.\<close>

lemma round_price_error:
  "\<bar>round_price s p - p\<bar> \<le>
     (if 0 < sp_tick_size s then sp_tick_size s / 2 + 1 / 2 / 10 ^ (sp_digits s + 2)
      else 1 / 2 / 10 ^ sp_digits s)"
proof (cases "0 < sp_tick_size s")
  case True
  let ?t = "sp_tick_size s" and ?r = "round_half_even (p / sp_tick_size s)"
  have "\<bar>of_int ?r - p / ?t\<bar> \<le> 1 / 2"
    using round_half_even_bounds [of "p / ?t"] by linarith
  then have "\<bar>of_int ?r - p / ?t\<bar> * ?t \<le> 1 / 2 * ?t"
    using True by (intro mult_right_mono) auto
  moreover have "\<bar>of_int ?r - p / ?t\<bar> * ?t = \<bar>of_int ?r * ?t - p\<bar>"
    using True by (simp add: abs_mult_pos' field_simps abs_mult [symmetric] flip: abs_of_pos)
  ultimately have "\<bar>of_int ?r * ?t - p\<bar> \<le> ?t / 2" by simp
  moreover have "\<bar>round_price s p - of_int ?r * ?t\<bar> \<le> 1 / 2 / 10 ^ (sp_digits s + 2)"
    using True py_round_error [of "sp_digits s + 2" "of_int ?r * ?t"] by (simp only: round_price_def if_True)
  ultimately have "\<bar>round_price s p - p\<bar> \<le> ?t / 2 + 1 / 2 / 10 ^ (sp_digits s + 2)" by linarith
  then show ?thesis using True by (simp only: if_True)
next
  case False
  then show ?thesis using py_round_error [of "sp_digits s" p] by (simp only: round_price_def if_False)
qed

end
