(* ===== verification/Sizing.thy ===== *)
theory Sizing
  imports Broker_Models Errors
begin

text \<open>
  Position sizing (\<open>bot/risk/sizing.py\<close>) and the reward objective (\<open>bot/risk/reward.py\<close>).
  Each \<open>raise SizingError\<close> is a constructor of \<open>sizing_error\<close>, and each message recorded in
  \<open>notes\<close> a constructor of \<open>size_note\<close>; the formatted texts are not modelled.
\<close>

type_synonym rate_lookup = "string \<Rightarrow> string \<Rightarrow> real option"

datatype sizing_error =
    RiskNotPositive | PricesNotPositive | StopDistanceZero | NoContractSize
  | AccountCurrencyUnknown | EntryNotInvertible | QuoteCurrencyUnknown
  | NoRateSource | NoRateAvailable | LossPerLotNotPositive
  | BelowMinimumLot | MarginTooLarge

datatype rate_note =
    QuoteIsAccount | InvertedEntryPrice | DirectBrokerQuote | InvertedBrokerQuote

datatype size_note = RateNote rate_note | RoundedDown real real | CappedAtMaximum real

record position_size =
  ps_lots :: real
  ps_units :: real
  ps_risk_amount :: real
  ps_actual_risk :: real
  ps_loss_per_lot :: real
  ps_conversion_rate :: real
  ps_margin_estimate :: "real option"
  ps_notes :: "size_note list"

definition currency_text :: "string option \<Rightarrow> string" where
  "currency_text c = (case c of None \<Rightarrow> [] | Some t \<Rightarrow> upper t)"

text \<open>\<open>direct and direct > 0\<close>\<close>

definition positive_rate :: "real option \<Rightarrow> real option" where
  "positive_rate r = (case r of None \<Rightarrow> None | Some v \<Rightarrow> if v > 0 then Some v else None)"

lemma positive_rate_Some [simp]: "positive_rate r = Some v \<longleftrightarrow> r = Some v \<and> 0 < v"
  by (auto simp: positive_rate_def split: option.splits)

definition conversion_rate ::
  "instrument_spec \<Rightarrow> real \<Rightarrow> rate_lookup option \<Rightarrow> sizing_error + (real \<times> rate_note)" where
  "conversion_rate spec entry_price rate_lookup =
     (let account = currency_text (Some (sp_account_currency spec));
          quote = currency_text (sp_quote_currency spec);
          base = currency_text (sp_base_currency spec)
      in if account = [] then Inl AccountCurrencyUnknown
         else if quote \<noteq> [] \<and> quote = account then Inr (1, QuoteIsAccount)
         else if base \<noteq> [] \<and> base = account then
           (if entry_price \<le> 0 then Inl EntryNotInvertible
            else Inr (1 / entry_price, InvertedEntryPrice))
         else if quote = [] then Inl QuoteCurrencyUnknown
         else case rate_lookup of
           None \<Rightarrow> Inl NoRateSource
         | Some lookup \<Rightarrow>
             (case positive_rate (lookup quote account) of
                Some direct \<Rightarrow> Inr (direct, DirectBrokerQuote)
              | None \<Rightarrow>
                  (case positive_rate (lookup account quote) of
                     Some bridged \<Rightarrow> Inr (1 / bridged, InvertedBrokerQuote)
                   | None \<Rightarrow> Inl NoRateAvailable)))"

text \<open>The margin check: the estimate, or a refusal when it exceeds half the free margin.\<close>

definition margin_check ::
  "real option \<Rightarrow> real option \<Rightarrow> real \<Rightarrow> sizing_error + real option" where
  "margin_check leverage available_margin notional =
     (case leverage of
        None \<Rightarrow> Inr None
      | Some lev \<Rightarrow>
          if lev > 0 then
            (let estimate = notional / lev in
             case available_margin of
               None \<Rightarrow> Inr (Some estimate)
             | Some free \<Rightarrow> if estimate > free * (1 / 2) then Inl MarginTooLarge else Inr (Some estimate))
          else Inr None)"

definition calculate_position_size ::
  "instrument_spec \<Rightarrow> real \<Rightarrow> real \<Rightarrow> real \<Rightarrow> rate_lookup option \<Rightarrow> real option \<Rightarrow> real option
     \<Rightarrow> sizing_error + position_size" where
  "calculate_position_size spec risk_amount entry stop_loss rate_lookup leverage available_margin =
     (if risk_amount \<le> 0 then Inl RiskNotPositive
      else if entry \<le> 0 \<or> stop_loss \<le> 0 then Inl PricesNotPositive
      else
        (let stop_distance = \<bar>entry - stop_loss\<bar> in
         if stop_distance \<le> 0 then Inl StopDistanceZero
         else if sp_contract_size spec \<le> 0 then Inl NoContractSize
         else case conversion_rate spec entry rate_lookup of
           Inl e \<Rightarrow> Inl e
         | Inr (rate, rnote) \<Rightarrow>
             (let loss_per_lot = stop_distance * sp_contract_size spec * rate in
              if loss_per_lot \<le> 0 then Inl LossPerLotNotPositive
              else
                (let raw_lots = risk_amount / loss_per_lot;
                     rounded = round_lot spec raw_lots
                 in if rounded < sp_min_lot spec then Inl BelowMinimumLot
                    else
                      (let capped = rounded > sp_max_lot spec;
                           lots = (if capped then round_lot spec (sp_max_lot spec) else rounded);
                           notes = [RateNote rnote, RoundedDown raw_lots rounded]
                             @ (if capped then [CappedAtMaximum (sp_max_lot spec)] else []);
                           units = lots * sp_contract_size spec
                       in case margin_check leverage available_margin (units * entry * rate) of
                            Inl e \<Rightarrow> Inl e
                          | Inr margin \<Rightarrow> Inr \<lparr>
                              ps_lots = lots, ps_units = units, ps_risk_amount = risk_amount,
                              ps_actual_risk = lots * loss_per_lot, ps_loss_per_lot = loss_per_lot,
                              ps_conversion_rate = rate, ps_margin_estimate = margin,
                              ps_notes = notes \<rparr>)))))"

definition expected_profit :: "instrument_spec \<Rightarrow> real \<Rightarrow> real \<Rightarrow> real \<Rightarrow> real \<Rightarrow> real" where
  "expected_profit spec lots entry take_profit conversion =
     \<bar>take_profit - entry\<bar> * sp_contract_size spec * conversion * lots"

subsection \<open>The reward objective\<close>

definition R_EPSILON :: real where "R_EPSILON = 1 / 10 ^ 6"

record reward_config =
  rw_min_reward_r :: real
  rw_preferred_reward_r :: real
  rw_enabled :: bool

datatype reward_reason = ObjectiveDisabled | RewardBelowMinimum | StrongSetup | AboveMinimum

record reward_verdict =
  rv_meets_objective :: bool
  rv_risk_reward :: real
  rv_expected_profit :: real
  rv_minimum_r :: real
  rv_preferred_r :: real
  rv_reason :: reward_reason

definition reward_preferred :: "reward_verdict \<Rightarrow> bool" where
  "reward_preferred v = (rv_meets_objective v \<and> rv_risk_reward v \<ge> rv_preferred_r v)"

definition evaluate_reward :: "real \<Rightarrow> real \<Rightarrow> reward_config \<Rightarrow> reward_verdict" where
  "evaluate_reward risk_reward profit config =
     (let verdict = \<lambda>ok reason. \<lparr> rv_meets_objective = ok, rv_risk_reward = risk_reward,
            rv_expected_profit = profit, rv_minimum_r = rw_min_reward_r config,
            rv_preferred_r = rw_preferred_reward_r config, rv_reason = reason \<rparr>
      in if \<not> rw_enabled config then verdict True ObjectiveDisabled
         else if risk_reward < rw_min_reward_r config - R_EPSILON then verdict False RewardBelowMinimum
         else verdict True
           (if risk_reward \<ge> rw_preferred_reward_r config then StrongSetup else AboveMinimum))"

subsection \<open>What a size guarantees\<close>

lemma conversion_rate_pos: "conversion_rate spec entry lookup = Inr (rate, n) \<Longrightarrow> 0 < rate"
  by (auto simp: conversion_rate_def Let_def split: if_splits option.splits)

text \<open>Inversion of a successful sizing: every guard it passed, and its fields.\<close>

lemma calculate_position_size_Inr:
  assumes "calculate_position_size spec risk entry sl lookup lev margin = Inr ps"
  obtains rate n where
    "0 < risk" "0 < entry" "0 < sl" "entry \<noteq> sl" "0 < sp_contract_size spec"
    "conversion_rate spec entry lookup = Inr (rate, n)"
    "ps_conversion_rate ps = rate"
    "ps_loss_per_lot ps = \<bar>entry - sl\<bar> * sp_contract_size spec * rate" "0 < ps_loss_per_lot ps"
    "ps_risk_amount ps = risk"
    "sp_min_lot spec \<le> round_lot spec (risk / ps_loss_per_lot ps)"
    "ps_lots ps = (if round_lot spec (risk / ps_loss_per_lot ps) > sp_max_lot spec
       then round_lot spec (sp_max_lot spec) else round_lot spec (risk / ps_loss_per_lot ps))"
    "ps_actual_risk ps = ps_lots ps * ps_loss_per_lot ps"
    "ps_units ps = ps_lots ps * sp_contract_size spec"
    "margin_check lev margin (ps_units ps * entry * rate) = Inr (ps_margin_estimate ps)"
proof -
  obtain rate n where cr: "conversion_rate spec entry lookup = Inr (rate, n)"
    using assms by (cases "conversion_rate spec entry lookup")
      (auto simp: calculate_position_size_def Let_def split: if_splits)
  show thesis
    using assms cr
    by (intro that [of rate n])
      (auto simp: calculate_position_size_def Let_def split: if_splits sum.splits)
qed

lemma margin_check_bound:
  "margin_check (Some lev) (Some free) notional = Inr est \<Longrightarrow> 0 < lev \<Longrightarrow>
   est = Some (notional / lev) \<and> notional / lev \<le> free / 2"
  by (auto simp: margin_check_def Let_def split: if_splits)

lemma budget_twice:
  assumes "has_lot_step spec" "0 < loss" "0 < risk" "0 \<le> sp_max_lot spec"
    and "round_lot spec (risk / loss) > sp_max_lot spec"
  shows "round_lot spec (sp_max_lot spec) * loss \<le> risk + 2 * lot_slack spec * loss"
proof -
  have "round_lot spec (sp_max_lot spec) \<le> sp_max_lot spec + lot_slack spec"
    using assms by (intro lots.round_down_le)
  also have "\<dots> \<le> round_lot spec (risk / loss) + lot_slack spec" using assms by simp
  also have "\<dots> \<le> risk / loss + 2 * lot_slack spec"
    using lots.round_down_le [of spec "risk / loss"] assms by simp
  finally have "round_lot spec (sp_max_lot spec) * loss \<le> (risk / loss + 2 * lot_slack spec) * loss"
    using assms(2) by (intro mult_right_mono) auto
  also have "\<dots> = risk + 2 * lot_slack spec * loss" using assms(2) by (simp add: field_simps)
  finally show ?thesis .
qed

lemma actual_risk_bound:
  assumes size: "calculate_position_size spec risk entry sl lookup lev margin = Inr ps"
    and step: "has_lot_step spec" and max: "0 \<le> sp_max_lot spec"
  shows "ps_actual_risk ps \<le> risk + 2 * lot_slack spec * ps_loss_per_lot ps"
proof -
  from size obtain rate n where pos: "0 < risk" "0 < ps_loss_per_lot ps"
    and lots: "ps_lots ps = (if round_lot spec (risk / ps_loss_per_lot ps) > sp_max_lot spec
       then round_lot spec (sp_max_lot spec) else round_lot spec (risk / ps_loss_per_lot ps))"
    and act: "ps_actual_risk ps = ps_lots ps * ps_loss_per_lot ps"
    by (elim calculate_position_size_Inr) blast
  have slack: "0 \<le> lot_slack spec * ps_loss_per_lot ps"
    using lot_slack_nonneg [OF step] pos by simp
  show ?thesis
  proof (cases "round_lot spec (risk / ps_loss_per_lot ps) > sp_max_lot spec")
    case True
    with lots act budget_twice [OF step pos(2,1) max True] show ?thesis by simp
  next
    case False
    with lots act lots.budget [OF step, of risk "ps_loss_per_lot ps"] pos slack
    show ?thesis by simp
  qed
qed

subsection \<open>Properties\<close>


definition sample_spec :: instrument_spec where
  "sample_spec = \<lparr> sp_symbol = ''EURUSD'', sp_broker_name = ''EURUSD.R'', sp_tradable_instrument_id = 1,
     sp_route_id = 2, sp_quote_route_id = None, sp_contract_size = 100000, sp_tick_size = 1 / 100000,
     sp_tick_value = None, sp_lot_step = 1 / 100, sp_min_lot = 1 / 100, sp_max_lot = 100,
     sp_base_currency = Some ''EUR'', sp_quote_currency = Some ''USD'', sp_account_currency = ''USD'',
     sp_digits = 5 \<rparr>"


text \<open>The reward objective is judged on R alone: whatever the expected profit, the verdict is
  positive exactly when the objective is off or the reward reaches the minimum (less the
  tolerance), and the preferred mark is only given on top of it.\<close>

theorem reward_judged_on_r:
  "rv_meets_objective (evaluate_reward r profit c)
     \<longleftrightarrow> \<not> rw_enabled c \<or> rw_min_reward_r c - R_EPSILON \<le> r"
  by (auto simp: evaluate_reward_def Let_def)

end
