(* ===== verification/Config.thy ===== *)
theory Config
  imports Sizing
begin

text \<open>
  The configuration sections the modelled components read, \<open>bot/config.py\<close>, and
  \<open>TradingConfig.validate\<close>. Each \<open>raise ConfigError\<close> is a constructor of \<open>config_error\<close>.
  The sections of components outside this development (SMC, MTF, news, AI, storage,
  scheduler) are left out of the record; of \<open>ScoringConfig\<close> only the three tier bounds that
  \<open>validate\<close> reads are kept.
\<close>

definition DEMO_URL_MARKERS :: "string list" where
  "DEMO_URL_MARKERS = [''demo.tradelocker.com'', ''demo-api'', ''/demo'']"

definition LIVE_URL_MARKERS :: "string list" where
  "LIVE_URL_MARKERS = [''live.tradelocker.com'', ''live-api'', ''prod.tradelocker.com'']"

datatype execution_mode = PAPER | DEMO_LIVE

record broker_config =
  bc_email :: "string option"
  bc_password :: "string option"
  bc_server :: "string option"
  bc_account_id :: "string option"
  bc_base_url :: string
  bc_request_timeout :: real
  bc_max_attempts :: nat
  bc_circuit_failure_threshold :: nat
  bc_circuit_reset_seconds :: real
  bc_min_request_interval :: real

definition is_live_url :: "broker_config \<Rightarrow> bool" where
  "is_live_url b = list_ex (\<lambda>m. occurs_in m (lower (bc_base_url b))) LIVE_URL_MARKERS"

definition is_demo_url :: "broker_config \<Rightarrow> bool" where
  "is_demo_url b =
     (let url = lower (bc_base_url b) in
      if list_ex (\<lambda>m. occurs_in m url) LIVE_URL_MARKERS then False
      else list_ex (\<lambda>m. occurs_in m url) DEMO_URL_MARKERS)"

definition broker_configured :: "broker_config \<Rightarrow> bool" where
  "broker_configured b = list_all truthy_str [bc_email b, bc_password b, bc_server b, bc_account_id b]"

record risk_config =
  rc_base_risk_pct :: real
  rc_min_risk_pct :: real
  rc_max_risk_pct :: real
  rc_max_portfolio_risk_pct :: real
  rc_max_daily_loss_pct :: real
  rc_max_drawdown_pct :: real
  rc_max_open_positions :: nat
  rc_max_open_per_symbol :: nat
  rc_max_correlated_risk_pct :: real
  rc_correlation_threshold :: real
  rc_max_consecutive_losses :: nat
  rc_max_trades_per_day :: nat
  rc_max_trades_per_session :: nat
  rc_min_risk_reward :: real
  rc_setup_reentry_block_hours :: real
  rc_loss_cooldown_minutes :: int
  rc_execution_failure_cooldown_minutes :: int
  rc_drawdown_derisk_pct :: real
  rc_min_stop_distance_atr :: real
  rc_max_stop_distance_atr :: real
  rc_stop_spread_multiple :: real
  rc_symbol_lock_losses :: int
  rc_symbol_lock_lookback_hours :: real
  rc_symbol_lock_hours :: real

definition default_risk_config :: risk_config where
  "default_risk_config = \<lparr>
     rc_base_risk_pct = 5 / 1000, rc_min_risk_pct = 25 / 10000, rc_max_risk_pct = 1 / 100,
     rc_max_portfolio_risk_pct = 3 / 100, rc_max_daily_loss_pct = 3 / 100,
     rc_max_drawdown_pct = 10 / 100, rc_max_open_positions = 3, rc_max_open_per_symbol = 1,
     rc_max_correlated_risk_pct = 15 / 1000, rc_correlation_threshold = 45 / 100,
     rc_max_consecutive_losses = 4, rc_max_trades_per_day = 6, rc_max_trades_per_session = 3,
     rc_min_risk_reward = 12 / 10, rc_setup_reentry_block_hours = 24,
     rc_loss_cooldown_minutes = 45, rc_execution_failure_cooldown_minutes = 20,
     rc_drawdown_derisk_pct = 5 / 100, rc_min_stop_distance_atr = 35 / 100,
     rc_max_stop_distance_atr = 35 / 10, rc_stop_spread_multiple = 1,
     rc_symbol_lock_losses = 0, rc_symbol_lock_lookback_hours = 24, rc_symbol_lock_hours = 12 \<rparr>"

definition default_reward_config :: reward_config where
  "default_reward_config =
     \<lparr> rw_min_reward_r = 12 / 10, rw_preferred_reward_r = 15 / 10, rw_enabled = True \<rparr>"

record paper_config =
  pc_starting_balance :: "real option"
  pc_entry_slippage_ticks :: real
  pc_stop_slippage_ticks :: real
  pc_commission_per_lot :: real
  pc_pessimistic_intrabar :: bool

definition default_paper_config :: paper_config where
  "default_paper_config = \<lparr> pc_starting_balance = None, pc_entry_slippage_ticks = 2,
     pc_stop_slippage_ticks = 4, pc_commission_per_lot = 7, pc_pessimistic_intrabar = True \<rparr>"

record execution_config =
  xc_max_spread_atr_fraction :: real
  xc_max_spread_tp_fraction :: real
  xc_max_slippage_atr_fraction :: real
  xc_order_verify_attempts :: nat
  xc_order_verify_delay_seconds :: real
  xc_breakeven_at_r :: real
  xc_partial_tp_at_r :: real
  xc_partial_tp_fraction :: real
  xc_trail_after_r :: real
  xc_enable_breakeven :: bool
  xc_enable_partial_tp :: bool
  xc_enable_trailing :: bool
  xc_enable_structure_exit :: bool
  xc_max_position_hours :: real

definition default_execution_config :: execution_config where
  "default_execution_config = \<lparr>
     xc_max_spread_atr_fraction = 12 / 100, xc_max_spread_tp_fraction = 5 / 100,
     xc_max_slippage_atr_fraction = 25 / 100, xc_order_verify_attempts = 5,
     xc_order_verify_delay_seconds = 15 / 10, xc_breakeven_at_r = 1, xc_partial_tp_at_r = 75 / 100,
     xc_partial_tp_fraction = 1 / 2, xc_trail_after_r = 2, xc_enable_breakeven = True,
     xc_enable_partial_tp = True, xc_enable_trailing = False, xc_enable_structure_exit = True,
     xc_max_position_hours = 48 \<rparr>"

record session_config =
  sc_asian :: "int \<times> int"
  sc_london :: "int \<times> int"
  sc_new_york :: "int \<times> int"
  sc_tradeable_sessions :: "string list"
  sc_block_low_liquidity :: bool
  sc_rollover_utc_hour :: "int option"
  sc_rollover_blackout_before_minutes :: int
  sc_rollover_blackout_after_minutes :: int
  sc_weekend_entry_blackout_hours :: int

definition default_session_config :: session_config where
  "default_session_config = \<lparr>
     sc_asian = (0, 8), sc_london = (7, 16), sc_new_york = (12, 21),
     sc_tradeable_sessions = [''LONDON'', ''NEW_YORK'', ''OVERLAP''],
     sc_block_low_liquidity = True, sc_rollover_utc_hour = Some 21,
     sc_rollover_blackout_before_minutes = 45, sc_rollover_blackout_after_minutes = 30,
     sc_weekend_entry_blackout_hours = 4 \<rparr>"

record smc_config =
  mc_swing_window :: int
  mc_htf_swing_window :: int
  mc_equal_level_atr_fraction :: real
  mc_displacement_atr_multiple :: real
  mc_displacement_body_ratio :: real
  mc_bos_atr_buffer :: real
  mc_sweep_max_age_candles :: int
  mc_sweep_reaction_candles :: nat
  mc_fvg_min_atr_fraction :: real
  mc_fvg_max_age_candles :: int
  mc_ob_max_age_candles :: int
  mc_poi_reference_lookback_candles :: int
  mc_atr_period :: nat
  mc_min_candles :: nat

definition default_smc_config :: smc_config where
  "default_smc_config = \<lparr>
     mc_swing_window = 2, mc_htf_swing_window = 2, mc_equal_level_atr_fraction = 12 / 100,
     mc_displacement_atr_multiple = 13 / 10, mc_displacement_body_ratio = 55 / 100,
     mc_bos_atr_buffer = 8 / 100, mc_sweep_max_age_candles = 20, mc_sweep_reaction_candles = 4,
     mc_fvg_min_atr_fraction = 12 / 100, mc_fvg_max_age_candles = 60, mc_ob_max_age_candles = 60,
     mc_poi_reference_lookback_candles = 12, mc_atr_period = 14, mc_min_candles = 60 \<rparr>"

record mtf_config =
  mf_min_trigger_quality :: real
  mf_min_structure_clearance_atr :: real
  mf_reversal_min_level_weight :: real
  mf_reversal_min_sweep_quality :: real
  mf_reversal_min_displacement_quality :: real
  mf_reversal_requires_choch :: bool
  mf_floor_continuation :: real
  mf_floor_range_rotation :: real
  mf_floor_no_htf_context :: real
  mf_floor_reversal :: real
  mf_choppy_directional_strength :: real
  mf_choppy_score_premium :: real
  mf_range_rotation_min_position :: real
  mf_min_critical_component_fraction :: real

definition default_mtf_config :: mtf_config where
  "default_mtf_config = \<lparr>
     mf_min_trigger_quality = 35 / 100, mf_min_structure_clearance_atr = 12 / 100,
     mf_reversal_min_level_weight = 6 / 10, mf_reversal_min_sweep_quality = 55 / 100,
     mf_reversal_min_displacement_quality = 45 / 100, mf_reversal_requires_choch = True,
     mf_floor_continuation = 0, mf_floor_range_rotation = 60, mf_floor_no_htf_context = 60,
     mf_floor_reversal = 70, mf_choppy_directional_strength = 28 / 100, mf_choppy_score_premium = 8,
     mf_range_rotation_min_position = 62 / 100, mf_min_critical_component_fraction = 25 / 100 \<rparr>"

record trading_config =
  tc_symbols :: "string list"
  tc_broker :: broker_config
  tc_risk :: risk_config
  tc_reward :: reward_config
  tc_execution :: execution_config
  tc_sessions :: session_config
  tc_tier_b :: real
  tc_tier_a :: real
  tc_tier_a_plus :: real
  tc_min_tradeable_score :: real
  tc_smc :: smc_config
  tc_mtf :: mtf_config
  tc_paper :: paper_config
  tc_mode :: execution_mode
  tc_require_demo :: bool

subsection \<open>Validation\<close>

datatype config_error =
    RiskPercentagesDisordered | MaxRiskAboveTwoPercent | MaxPortfolioRiskAboveSixPercent
  | MaxDailyLossOutOfRange | MaxDrawdownOutOfRange | MinRiskRewardBelowParity
  | NoOpenPositionsAllowed | NoSymbols | RequireDemoDisabled | LiveEndpoint
  | TiersDisordered | PaperBalanceNotPositive | MinRewardNotPositive
  | PreferredBelowMinimum | RewardObjectiveConflict

definition validate_config :: "trading_config \<Rightarrow> config_error + unit" where
  "validate_config c =
     (let risk = tc_risk c; reward = tc_reward c in
      if \<not> (0 < rc_min_risk_pct risk \<and> rc_min_risk_pct risk \<le> rc_base_risk_pct risk
          \<and> rc_base_risk_pct risk \<le> rc_max_risk_pct risk) then Inl RiskPercentagesDisordered
      else if rc_max_risk_pct risk > 2 / 100 then Inl MaxRiskAboveTwoPercent
      else if rc_max_portfolio_risk_pct risk > 6 / 100 then Inl MaxPortfolioRiskAboveSixPercent
      else if rc_max_daily_loss_pct risk \<le> 0 \<or> rc_max_daily_loss_pct risk > 6 / 100
        then Inl MaxDailyLossOutOfRange
      else if rc_max_drawdown_pct risk \<le> 0 \<or> rc_max_drawdown_pct risk > 25 / 100
        then Inl MaxDrawdownOutOfRange
      else if rc_min_risk_reward risk < 1 then Inl MinRiskRewardBelowParity
      else if rc_max_open_positions risk < 1 then Inl NoOpenPositionsAllowed
      else if tc_symbols c = [] then Inl NoSymbols
      else if \<not> tc_require_demo c then Inl RequireDemoDisabled
      else if is_live_url (tc_broker c) then Inl LiveEndpoint
      else if \<not> (tc_tier_b c \<le> tc_tier_a c \<and> tc_tier_a c \<le> tc_tier_a_plus c) then Inl TiersDisordered
      else if (case pc_starting_balance (tc_paper c) of None \<Rightarrow> False | Some b \<Rightarrow> b \<le> 0)
        then Inl PaperBalanceNotPositive
      else if rw_min_reward_r reward \<le> 0 then Inl MinRewardNotPositive
      else if rw_preferred_reward_r reward < rw_min_reward_r reward then Inl PreferredBelowMinimum
      else if rw_enabled reward \<and> rc_min_risk_reward risk < rw_min_reward_r reward
        then Inl RewardObjectiveConflict
      else Inr ())"

lemma validate_configD:
  assumes "validate_config c = Inr ()"
  shows "0 < rc_min_risk_pct (tc_risk c)"
    and "rc_min_risk_pct (tc_risk c) \<le> rc_base_risk_pct (tc_risk c)"
    and "rc_base_risk_pct (tc_risk c) \<le> rc_max_risk_pct (tc_risk c)"
    and "rc_max_risk_pct (tc_risk c) \<le> 2 / 100"
    and "rc_max_portfolio_risk_pct (tc_risk c) \<le> 6 / 100"
    and "0 < rc_max_daily_loss_pct (tc_risk c)"
    and "1 \<le> rc_min_risk_reward (tc_risk c)"
    and "tc_require_demo c"
    and "\<not> is_live_url (tc_broker c)"
    and "rw_enabled (tc_reward c) \<Longrightarrow> rw_min_reward_r (tc_reward c) \<le> rc_min_risk_reward (tc_risk c)"
  using assms by (auto simp: validate_config_def Let_def split: if_splits)

lemma demo_url_not_live: "is_demo_url b \<Longrightarrow> \<not> is_live_url b"
  by (simp add: is_demo_url_def is_live_url_def Let_def split: if_splits)

subsection \<open>Properties\<close>

text \<open>A configuration that passes validation never points at a live endpoint, requires demo
  verification, keeps the risk per trade within two percent, and makes the reward objective
  unreachable as a refusal: a setup that passes the structural risk-to-reward check meets it.\<close>

theorem validated_config:
  assumes "validate_config c = Inr ()"
  shows "tc_require_demo c \<and> \<not> is_live_url (tc_broker c)
    \<and> 0 < rc_min_risk_pct (tc_risk c) \<and> rc_max_risk_pct (tc_risk c) \<le> 2 / 100
    \<and> rc_min_risk_pct (tc_risk c) \<le> rc_base_risk_pct (tc_risk c)
    \<and> rc_base_risk_pct (tc_risk c) \<le> rc_max_risk_pct (tc_risk c)
    \<and> (r < rc_min_risk_reward (tc_risk c) - R_EPSILON
       \<or> rv_meets_objective (evaluate_reward r profit (tc_reward c)))"
  using validate_configD [OF assms] by (auto simp: evaluate_reward_def Let_def)

definition sample_config :: trading_config where
  "sample_config = \<lparr> tc_symbols = [''EURUSD''],
     tc_broker = \<lparr> bc_email = Some ''a'', bc_password = Some ''b'', bc_server = Some ''c'',
       bc_account_id = Some ''7'', bc_base_url = ''https://demo.tradelocker.com/backend-api'',
       bc_request_timeout = 15, bc_max_attempts = 4, bc_circuit_failure_threshold = 5,
       bc_circuit_reset_seconds = 60, bc_min_request_interval = 1 \<rparr>,
     tc_risk = default_risk_config, tc_reward = default_reward_config,
     tc_execution = default_execution_config, tc_sessions = default_session_config,
     tc_tier_b = 60, tc_tier_a = 70, tc_tier_a_plus = 80, tc_min_tradeable_score = 60,
     tc_smc = default_smc_config, tc_mtf = default_mtf_config, tc_paper = default_paper_config,
     tc_mode = DEMO_LIVE, tc_require_demo = True \<rparr>"

lemma sample_config_demo: "\<not> is_live_url (tc_broker sample_config)"
  by code_simp

theorem validated_config_witness:
  "validate_config sample_config = Inr () \<and> rc_max_risk_pct (tc_risk sample_config) \<le> 2 / 100"
proof -
  have "validate_config sample_config = Inr ()"
    using sample_config_demo
    by (simp add: validate_config_def sample_config_def default_risk_config_def default_reward_config_def
        default_paper_config_def)
  with validated_config [OF this] show ?thesis by simp
qed

end
