(* ===== verification/Correlation.thy ===== *)
theory Correlation
  imports Symbols "HOL-Library.AList"
begin

text \<open>
  Portfolio correlation, \<open>bot/risk/correlation.py\<close>. A Python dict is an association list in
  insertion order: \<open>d[k] = v\<close> is \<^term>\<open>AList.update\<close>, \<open>d.get(k, x)\<close> goes through
  \<^term>\<open>map_of\<close>. An open position is read through the keys the code reads; \<open>riskAmount\<close> is the
  second spelling \<open>_risk_of\<close> accepts.
\<close>

type_synonym exposure = "(string \<times> real) list"

definition SYNTHETIC_EXPOSURE :: "(string \<times> (string \<times> real) list) list" where
  "SYNTHETIC_EXPOSURE =
     [(''XAUUSD'', [(''XAU'', 1), (''USD'', - 1)]),
      (''XAGUSD'', [(''XAG'', 1), (''USD'', - 1)])]"

definition currency_exposure :: "string \<Rightarrow> string \<Rightarrow> exposure" where
  "currency_exposure symbol direction =
     (let sign = (if upper direction = ''BUY'' then 1 else - 1);
          name = (case canonical_symbol symbol of None \<Rightarrow> alphanumeric symbol | Some c \<Rightarrow> c)
      in case map_of SYNTHETIC_EXPOSURE name of
           Some weights \<Rightarrow> map (\<lambda>(c, w). (c, w * sign)) weights
         | None \<Rightarrow>
             (case split_currencies name of
                (Some base, Some quote) \<Rightarrow> AList.update quote (- sign) [(base, sign)]
              | _ \<Rightarrow> []))"

text \<open>The sum over the currencies both exposures hold, and the sum of squares.\<close>

definition dot_product :: "exposure \<Rightarrow> exposure \<Rightarrow> real" where
  "dot_product a b =
     sum_list (map (\<lambda>(c, w). case map_of b c of None \<Rightarrow> 0 | Some v \<Rightarrow> w * v) a)"

definition sum_squares :: "exposure \<Rightarrow> real" where
  "sum_squares a = sum_list (map (\<lambda>(c, w). w * w) a)"

definition shares_currency :: "exposure \<Rightarrow> exposure \<Rightarrow> bool" where
  "shares_currency a b = list_ex (\<lambda>cw. map_of b (fst cw) \<noteq> None) a"

definition correlation_score :: "string \<Rightarrow> string \<Rightarrow> string \<Rightarrow> string \<Rightarrow> real" where
  "correlation_score symbol_a direction_a symbol_b direction_b =
     (let a = currency_exposure symbol_a direction_a; b = currency_exposure symbol_b direction_b in
      if a = [] \<or> b = [] then 0
      else if \<not> shares_currency a b then 0
      else
        (let norm_a = sqrt (sum_squares a); norm_b = sqrt (sum_squares b) in
         if norm_a = 0 \<or> norm_b = 0 then 0
         else max (- 1) (min 1 (dot_product a b / (norm_a * norm_b)))))"

record open_position =
  op_position_id :: "string option"
  op_symbol :: string
  op_direction :: string
  op_risk_amount :: "real option"
  op_riskAmount :: "real option"

record exposure_entry =
  ee_symbol :: string
  ee_direction :: string
  ee_risk :: real

record exposure_report =
  er_per_currency :: exposure
  er_correlated_risk :: real
  er_worst_pair :: "(string \<times> real) option"
  er_total_open_risk :: real
  er_unpriced_positions :: nat

definition risk_of :: "open_position \<Rightarrow> real option" where
  "risk_of p = coalesce (op_risk_amount p) (op_riskAmount p)"

text \<open>The first loop: the priced positions as entries, in order, and the number left out.\<close>

fun priced_entries :: "open_position list \<Rightarrow> exposure_entry list \<times> nat" where
  "priced_entries [] = ([], 0)"
| "priced_entries (p # ps) =
     (let (es, unpriced) = priced_entries ps in
      case risk_of p of
        None \<Rightarrow> (es, Suc unpriced)
      | Some risk \<Rightarrow>
          (\<lparr> ee_symbol = op_symbol p, ee_direction = upper (op_direction p), ee_risk = risk \<rparr> # es,
           unpriced))"

text \<open>\<open>per_currency[c] = per_currency.get(c, 0) + weight * risk\<close> for one position.\<close>

definition add_exposure :: "exposure \<Rightarrow> real \<Rightarrow> exposure \<Rightarrow> exposure" where
  "add_exposure weights risk acc =
     fold (\<lambda>(c, w) d. AList.update c ((case map_of d c of None \<Rightarrow> 0 | Some x \<Rightarrow> x) + w * risk) d)
       weights acc"

definition entries_exposure :: "exposure_entry list \<Rightarrow> exposure" where
  "entries_exposure es =
     fold (\<lambda>e d. add_exposure (currency_exposure (ee_symbol e) (ee_direction e)) (ee_risk e) d) es []"

text \<open>The pairs of \<open>entries\<close> in the order of the nested comprehension, scored.\<close>

fun scored_pairs :: "exposure_entry list \<Rightarrow> (string \<times> real) list" where
  "scored_pairs [] = []"
| "scored_pairs (a # es) =
     map (\<lambda>b. (ee_symbol a @ ''/'' @ ee_symbol b,
       correlation_score (ee_symbol a) (ee_direction a) (ee_symbol b) (ee_direction b))) es
     @ scored_pairs es"

text \<open>\<open>max(xs, key=...)\<close> keeps the first maximal element.\<close>

fun first_max :: "('a \<times> real) option \<Rightarrow> ('a \<times> real) list \<Rightarrow> ('a \<times> real) option" where
  "first_max best [] = best"
| "first_max best (x # xs) =
     first_max (case best of None \<Rightarrow> Some x | Some b \<Rightarrow> if snd x > snd b then Some x else Some b) xs"

record exposure_candidate =
  ec_symbol :: string
  ec_direction :: string
  ec_risk_amount :: real

text \<open>The second loop, over the entries against the candidate: correlated risk and worst pair.\<close>

fun correlate ::
  "string \<Rightarrow> string \<Rightarrow> real \<Rightarrow> exposure_entry list \<Rightarrow> real \<Rightarrow> (string \<times> real) option
     \<Rightarrow> real \<times> (string \<times> real) option" where
  "correlate name dir threshold [] correlated worst = (correlated, worst)"
| "correlate name dir threshold (e # es) correlated worst =
     (let score = correlation_score name dir (ee_symbol e) (ee_direction e);
          worst' = (case worst of
              None \<Rightarrow> Some (name @ ''/'' @ ee_symbol e, score)
            | Some w \<Rightarrow> if score > snd w then Some (name @ ''/'' @ ee_symbol e, score) else Some w);
          correlated' = (if score \<ge> threshold then correlated + ee_risk e * score else correlated)
      in correlate name dir threshold es correlated' worst')"

definition analyse_exposure ::
  "open_position list \<Rightarrow> exposure_candidate option \<Rightarrow> real \<Rightarrow> exposure_report" where
  "analyse_exposure open_positions candidate threshold =
     (let (entries, unpriced) = priced_entries open_positions;
          per_currency = entries_exposure entries;
          total = sum_list (map ee_risk entries)
      in case candidate of
           None \<Rightarrow>
             \<lparr> er_per_currency = per_currency, er_correlated_risk = total,
               er_worst_pair = (if 2 \<le> length entries then first_max None (scored_pairs entries) else None),
               er_total_open_risk = total, er_unpriced_positions = unpriced \<rparr>
         | Some c \<Rightarrow>
             (let dir = upper (ec_direction c);
                  per_currency' = add_exposure (currency_exposure (ec_symbol c) dir) (ec_risk_amount c) per_currency;
                  (correlated, worst) =
                    correlate (ec_symbol c) dir threshold entries (ec_risk_amount c) None
              in \<lparr> er_per_currency = per_currency', er_correlated_risk = correlated,
                   er_worst_pair = worst, er_total_open_risk = total + ec_risk_amount c,
                   er_unpriced_positions = unpriced \<rparr>))"

subsection \<open>Exposure of a pair\<close>

lemma synthetic_name:
  "map_of SYNTHETIC_EXPOSURE name = Some w \<Longrightarrow>
     (\<exists>x. w = [(x, 1), (''USD'', - 1)] \<and> x \<noteq> ''USD'')"
  by (auto simp: SYNTHETIC_EXPOSURE_def split: if_splits)

text \<open>An exposure is empty, one currency with weight \<open>\<plusminus>1\<close> (a pair of a currency with itself),
  or two currencies with opposite unit weights.\<close>

lemma currency_exposure_cases:
  obtains (none) "currency_exposure s d = []"
  | (self) c where "currency_exposure s d = [(c, if upper d = ''BUY'' then - 1 else 1)]"
  | (pair) b q where "b \<noteq> q"
      "currency_exposure s d =
         [(b, if upper d = ''BUY'' then 1 else - 1), (q, if upper d = ''BUY'' then - 1 else 1)]"
proof -
  let ?name = "case canonical_symbol s of None \<Rightarrow> alphanumeric s | Some c \<Rightarrow> c"
  show thesis
  proof (cases "map_of SYNTHETIC_EXPOSURE ?name")
    case (Some w)
    then obtain x where "w = [(x, 1), (''USD'', - 1)]" "x \<noteq> ''USD''"
      using synthetic_name by blast
    with Some show thesis by (intro pair [of x "''USD''"]) (auto simp: currency_exposure_def)
  next
    case None
    note syn = None
    show thesis
    proof (cases "split_currencies ?name")
      case (Pair b q)
      show thesis
      proof (cases "b = None \<or> q = None")
        case True
        with Pair syn have "currency_exposure s d = []"
          by (auto simp: currency_exposure_def Let_def split: option.splits)
        then show thesis by (rule none)
      next
        case False
        then obtain b' q' where bq: "b = Some b'" "q = Some q'" by auto
        show thesis
        proof (cases "b' = q'")
          case True
          with Pair bq syn show thesis
            by (intro self [of q']) (auto simp: currency_exposure_def Let_def)
        next
          case False
          with Pair bq syn show thesis
            by (intro pair [of b' q']) (auto simp: currency_exposure_def Let_def)
        qed
      qed
    qed
  qed
qed

lemma sum_squares_pair: "sum_squares [(b, w), (q, v)] = w * w + v * v"
  by (simp add: sum_squares_def)

lemma correlation_bounds:
  "- 1 \<le> correlation_score sa da sb db" "correlation_score sa da sb db \<le> 1"
  by (auto simp: correlation_score_def Let_def)

text \<open>Decorating a name changes no exposure, hence no score.\<close>

lemma currency_exposure_same:
  assumes "same_instrument a b"
  shows "currency_exposure a d = currency_exposure b d"
proof -
  have "(case canonical_symbol a of None \<Rightarrow> alphanumeric a | Some c \<Rightarrow> c)
      = (case canonical_symbol b of None \<Rightarrow> alphanumeric b | Some c \<Rightarrow> c)"
    using assms by (auto simp: same_instrument_iff split: option.split)
  then show ?thesis by (simp add: currency_exposure_def)
qed

lemma correlation_score_same:
  "same_instrument a a' \<Longrightarrow> same_instrument b b' \<Longrightarrow>
     correlation_score a da b db = correlation_score a' da b' db"
  by (simp add: correlation_score_def currency_exposure_same)

definition weight_in :: "exposure \<Rightarrow> string \<Rightarrow> real" where
  "weight_in a c = (case map_of a c of None \<Rightarrow> 0 | Some v \<Rightarrow> v)"

lemma weight_in_notin: "c \<notin> fst ` set a \<Longrightarrow> weight_in a c = 0"
  by (simp add: weight_in_def map_of_eq_None_iff [THEN iffD2])

lemma dot_product_sum:
  assumes "distinct (map fst a)"
  shows "dot_product a b = (\<Sum>c \<in> fst ` set a \<union> fst ` set b. weight_in a c * weight_in b c)"
proof -
  have "dot_product a b = sum_list (map ((\<lambda>c. weight_in a c * weight_in b c) \<circ> fst) a)"
    unfolding dot_product_def
    by (intro arg_cong [where f = sum_list] map_cong refl)
      (auto simp: weight_in_def map_of_is_SomeI [OF assms] split: option.split)
  also have "\<dots> = (\<Sum>c \<in> fst ` set a. weight_in a c * weight_in b c)"
    using assms by (simp add: sum_list_distinct_conv_sum_set flip: map_map)
  also have "\<dots> = (\<Sum>c \<in> fst ` set a \<union> fst ` set b. weight_in a c * weight_in b c)"
    by (rule sum.mono_neutral_left) (auto simp: weight_in_notin)
  finally show ?thesis .
qed

lemma currency_exposure_distinct: "distinct (map fst (currency_exposure s d))"
  by (cases rule: currency_exposure_cases [of s d]) auto

lemma dot_product_comm:
  "distinct (map fst a) \<Longrightarrow> distinct (map fst b) \<Longrightarrow> dot_product a b = dot_product b a"
  by (simp add: dot_product_sum Un_commute mult.commute)

lemma shares_currency_iff: "shares_currency a b \<longleftrightarrow> fst ` set a \<inter> fst ` set b \<noteq> {}"
proof -
  have "map_of b c \<noteq> None \<longleftrightarrow> c \<in> fst ` set b" for c
    by (simp only: map_of_eq_None_iff not_not)
  then show ?thesis unfolding shares_currency_def list_ex_iff by blast
qed

lemma correlation_comm: "correlation_score sa da sb db = correlation_score sb db sa da"
proof -
  let ?a = "currency_exposure sa da" and ?b = "currency_exposure sb db"
  have "dot_product ?a ?b = dot_product ?b ?a"
    by (intro dot_product_comm currency_exposure_distinct)
  then show ?thesis
    by (simp add: correlation_score_def Let_def shares_currency_iff Int_commute disj_commute mult.commute)
qed

text \<open>Two positions on one instrument and side are one view.\<close>

lemma correlation_same_view:
  assumes "same_instrument a b" and "currency_exposure a d \<noteq> []"
  shows "correlation_score a d b d = 1"
proof -
  have "currency_exposure b d = currency_exposure a d"
    using currency_exposure_same [OF assms(1)] by simp
  with assms(2) show ?thesis
    by (cases rule: currency_exposure_cases [of a d])
      (auto simp: correlation_score_def Let_def shares_currency_def dot_product_def sum_squares_def)
qed

subsection \<open>Sums over the book\<close>

lemma priced_entries_risk:
  "snd (priced_entries ps) = length (filter (\<lambda>p. risk_of p = None) ps)"
  "map ee_risk (fst (priced_entries ps)) = List.map_filter risk_of ps"
  by (induction ps) (auto simp: Let_def split: prod.splits option.splits)

definition risks_nonneg :: "open_position list \<Rightarrow> bool" where
  "risks_nonneg ps = list_all (\<lambda>p. case risk_of p of None \<Rightarrow> True | Some r \<Rightarrow> 0 \<le> r) ps"

lemma priced_entries_nonneg:
  "risks_nonneg ps \<Longrightarrow> list_all (\<lambda>e. 0 \<le> ee_risk e) (fst (priced_entries ps))"
  unfolding risks_nonneg_def
  by (induction ps) (auto simp: Let_def split: prod.splits option.splits)

lemma correlate_bounds:
  assumes "0 \<le> threshold" and "list_all (\<lambda>e. 0 \<le> ee_risk e) es"
  shows "correlated \<le> fst (correlate name dir threshold es correlated worst) \<and>
    fst (correlate name dir threshold es correlated worst) \<le> correlated + sum_list (map ee_risk es)"
  using assms(2)
proof (induction es arbitrary: correlated worst)
  case Nil
  then show ?case by simp
next
  case (Cons e es)
  define s where "s = correlation_score name dir (ee_symbol e) (ee_direction e)"
  define c where "c = (if s \<ge> threshold then correlated + ee_risk e * s else correlated)"
  have e: "0 \<le> ee_risk e" and es: "list_all (\<lambda>e. 0 \<le> ee_risk e) es" using Cons.prems by simp_all
  have "s \<le> 1" unfolding s_def by (rule correlation_bounds)
  then have "0 \<le> ee_risk e * s \<and> ee_risk e * s \<le> ee_risk e" if "0 \<le> s"
    using e that by (simp add: mult_left_le)
  then have c: "correlated \<le> c" "c \<le> correlated + ee_risk e"
    using assms(1) e by (auto simp: c_def)
  obtain w where w: "correlate name dir threshold (e # es) correlated worst
      = correlate name dir threshold es c w"
    by (simp add: Let_def flip: s_def c_def)
  from Cons.IH [OF es, of c w] c show ?case unfolding w by simp
qed

subsection \<open>Properties\<close>

text \<open>The correlation score is a symmetric number in [-1, 1], broker decorations of either name
  do not change it, and two positions of one side on the same priced instrument are one view.\<close>

theorem correlation_is_a_score:
  "\<bar>correlation_score a da b db\<bar> \<le> 1
   \<and> correlation_score a da b db = correlation_score b db a da
   \<and> (if same_instrument a c then correlation_score a da b db = correlation_score c da b db else True)
   \<and> (if same_instrument a b \<and> currency_exposure a da \<noteq> [] then correlation_score a da b da = 1 else True)"
proof -
  have "correlation_score c da b db = correlation_score a da b db" if "same_instrument a c"
    using that by (simp add: correlation_score_def currency_exposure_same)
  then show ?thesis
    using correlation_comm correlation_bounds [of a da b db] correlation_same_view [of a b da]
    by (auto simp: abs_le_iff)
qed

text \<open>Correlated risk against a candidate lies between the candidate's own risk and the total
  open risk with it, and every position whose risk is unknown is counted, not priced as zero.\<close>

theorem exposure_bounds:
  assumes "risks_nonneg ps" and "0 \<le> threshold"
  shows "ec_risk_amount c \<le> er_correlated_risk (analyse_exposure ps (Some c) threshold)
    \<and> er_correlated_risk (analyse_exposure ps (Some c) threshold)
        \<le> er_total_open_risk (analyse_exposure ps (Some c) threshold)
    \<and> er_total_open_risk (analyse_exposure ps (Some c) threshold)
        = sum_list (List.map_filter risk_of ps) + ec_risk_amount c
    \<and> er_unpriced_positions (analyse_exposure ps (Some c) threshold)
        = length (filter (\<lambda>p. risk_of p = None) ps)"
proof -
  obtain es n where es: "priced_entries ps = (es, n)" by fastforce
  obtain k w where k: "correlate (ec_symbol c) (upper (ec_direction c)) threshold es (ec_risk_amount c) None = (k, w)"
    by fastforce
  have "list_all (\<lambda>e. 0 \<le> ee_risk e) es"
    using priced_entries_nonneg [OF assms(1)] es by simp
  from correlate_bounds [OF assms(2) this, of "ec_risk_amount c" "ec_symbol c" "upper (ec_direction c)" None]
  show ?thesis
    using priced_entries_risk [of ps] es k by (simp add: analyse_exposure_def Let_def)
qed

theorem exposure_bounds_witness:
  "10 \<le> er_correlated_risk (analyse_exposure
     [\<lparr> op_position_id = None, op_symbol = ''EURUSD'', op_direction = ''BUY'', op_risk_amount = Some 5, op_riskAmount = None \<rparr>]
     (Some \<lparr> ec_symbol = ''GBPUSD'', ec_direction = ''BUY'', ec_risk_amount = 10 \<rparr>) (45 / 100))"
proof -
  have "risks_nonneg [\<lparr> op_position_id = None, op_symbol = ''EURUSD'', op_direction = ''BUY'', op_risk_amount = Some 5, op_riskAmount = None \<rparr>]"
    by (simp add: risks_nonneg_def risk_of_def coalesce_def)
  from exposure_bounds [OF this, of "45 / 100" "\<lparr> ec_symbol = ''GBPUSD'', ec_direction = ''BUY'', ec_risk_amount = 10 \<rparr>"]
  show ?thesis by simp
qed

end
