(* ===== verification/Transport.thy ===== *)
theory Transport
  imports Errors
begin

text \<open>
  The HTTP transport, \<open>bot/broker/http.py\<close>: the circuit breaker, the learning throttle and
  the request loop. Monotonic time is a real number of seconds threaded through the calls; a
  sleep advances it by exactly the time asked for, and the environment says how long each
  network exchange takes and what it returns. What \<open>urlopen\<close> and \<open>json.loads\<close> do with one
  attempt is a \<open>net_outcome\<close>; the URL, the headers and the body are not modelled.
\<close>

subsection \<open>The circuit breaker\<close>

record circuit =
  failure_threshold :: nat
  reset_seconds :: real
  max_reset_seconds :: real
  failures :: nat
  opened_at :: real
  half_open :: bool
  consecutive_opens :: nat

definition current_reset_seconds :: "circuit \<Rightarrow> real" where
  "current_reset_seconds c =
     min (reset_seconds c * 2 ^ (consecutive_opens c - 1)) (max_reset_seconds c)"

definition before_call :: "circuit \<Rightarrow> real \<Rightarrow> exn + circuit" where
  "before_call c now =
     (if failures c < failure_threshold c then Inr c
      else if now - opened_at c < current_reset_seconds c
      then Inl \<lparr> exn_class = CircuitOpen, exn_message = ''broker circuit open'' \<rparr>
      else Inr (c\<lparr> half_open := True \<rparr>))"

definition record_success :: "circuit \<Rightarrow> circuit" where
  "record_success c = c\<lparr> failures := 0, half_open := False, consecutive_opens := 0 \<rparr>"

definition record_failure :: "circuit \<Rightarrow> real \<Rightarrow> circuit" where
  "record_failure c now =
     (let n = failures c + 1 in
      if n = failure_threshold c then
        c\<lparr> failures := n, opened_at := now, consecutive_opens := consecutive_opens c + 1, half_open := False \<rparr>
      else if n > failure_threshold c then
        c\<lparr> failures := failure_threshold c, opened_at := now,
           consecutive_opens := consecutive_opens c + 1, half_open := False \<rparr>
      else c\<lparr> failures := n, half_open := False \<rparr>)"

datatype circuit_state = Closed | HalfOpen | Open

definition circuit_state :: "circuit \<Rightarrow> circuit_state" where
  "circuit_state c =
     (if failures c < failure_threshold c then Closed else if half_open c then HalfOpen else Open)"

definition circuit_ok :: "circuit \<Rightarrow> bool" where
  "circuit_ok c = (0 < failure_threshold c \<and> failures c \<le> failure_threshold c
     \<and> 0 < reset_seconds c \<and> reset_seconds c \<le> max_reset_seconds c)"

text \<open>What the request loop relies on, as an interface: the three operations keep the
  invariant, a success closes the breaker, and a breaker that refuses is one whose last open
  is younger than its wait.\<close>

locale breaker =
  fixes ok :: "'c \<Rightarrow> bool"
    and admit :: "'c \<Rightarrow> real \<Rightarrow> exn + 'c"
    and succeed :: "'c \<Rightarrow> 'c"
    and fail :: "'c \<Rightarrow> real \<Rightarrow> 'c"
  assumes ok_admit: "ok c \<Longrightarrow> admit c t = Inr c' \<Longrightarrow> ok c'"
    and ok_succeed: "ok c \<Longrightarrow> ok (succeed c)"
    and ok_fail: "ok c \<Longrightarrow> ok (fail c t)"
    and admit_error: "admit c t = Inl e \<Longrightarrow> exn_class e = CircuitOpen"
    and succeed_admits: "ok c \<Longrightarrow> admit (succeed c) t = Inr (succeed c)"
begin

fun replay :: "'c \<Rightarrow> (bool \<times> real) list \<Rightarrow> 'c" where
  "replay c [] = c"
| "replay c ((True, t) # es) = replay (succeed c) es"
| "replay c ((False, t) # es) = replay (fail c t) es"

lemma ok_replay: "ok c \<Longrightarrow> ok (replay c es)"
  by (induction c es rule: replay.induct) (auto intro: ok_succeed ok_fail)

lemma replay_success_admits:
  "ok c \<Longrightarrow> admit (replay c (es @ [(True, t)])) t' = Inr (replay c (es @ [(True, t)]))"
  by (induction c es rule: replay.induct) (auto intro: succeed_admits ok_succeed ok_fail)

end

lemma circuit_ok_before_call: "circuit_ok c \<Longrightarrow> before_call c t = Inr c' \<Longrightarrow> circuit_ok c'"
  by (auto simp: before_call_def circuit_ok_def split: if_splits)

lemma circuit_ok_success: "circuit_ok c \<Longrightarrow> circuit_ok (record_success c)"
  by (simp add: record_success_def circuit_ok_def)

lemma circuit_ok_failure: "circuit_ok c \<Longrightarrow> circuit_ok (record_failure c t)"
  by (auto simp: record_failure_def circuit_ok_def Let_def)

lemma before_call_error: "before_call c t = Inl e \<Longrightarrow> exn_class e = CircuitOpen"
  by (auto simp: before_call_def split: if_splits)

lemma before_call_success:
  "circuit_ok c \<Longrightarrow> before_call (record_success c) t = Inr (record_success c)"
  by (simp add: before_call_def record_success_def circuit_ok_def)

interpretation cb: breaker circuit_ok before_call record_success record_failure
  by unfold_locales
    (auto intro: circuit_ok_before_call circuit_ok_success circuit_ok_failure
       before_call_error before_call_success)

lemma reset_bounds:
  assumes "circuit_ok c"
  shows "reset_seconds c \<le> current_reset_seconds c" and "current_reset_seconds c \<le> max_reset_seconds c"
proof -
  have "1 \<le> (2::real) ^ (consecutive_opens c - 1)" by simp
  then have "reset_seconds c * 1 \<le> reset_seconds c * 2 ^ (consecutive_opens c - 1)"
    using assms by (intro mult_left_mono) (auto simp: circuit_ok_def)
  with assms show "reset_seconds c \<le> current_reset_seconds c"
    by (simp add: current_reset_seconds_def circuit_ok_def)
  show "current_reset_seconds c \<le> max_reset_seconds c" by (simp add: current_reset_seconds_def)
qed

subsection \<open>The throttle\<close>

record throttle =
  min_interval :: real
  max_interval :: real
  interval :: real
  successes :: nat
  last_call :: real
  penalty_until :: real

definition BACKOFF_FACTOR :: real where "BACKOFF_FACTOR = 16 / 10"
definition RECOVERY_SUCCESSES :: nat where "RECOVERY_SUCCESSES = 40"
definition RECOVERY_STEP :: real where "RECOVERY_STEP = 5 / 100"
definition MIN_RATE_LIMIT_COOLDOWN :: real where "MIN_RATE_LIMIT_COOLDOWN = 60"

definition new_throttle :: "real \<Rightarrow> real \<Rightarrow> throttle" where
  "new_throttle lo hi = \<lparr> min_interval = lo, max_interval = max lo hi, interval = lo,
     successes = 0, last_call = 0, penalty_until = 0 \<rparr>"

text \<open>\<open>None\<close> is a stored value that \<open>float()\<close> cannot read.\<close>

definition restore :: "throttle \<Rightarrow> real option \<Rightarrow> throttle" where
  "restore t v = (case v of
       None \<Rightarrow> t
     | Some value \<Rightarrow>
         if value \<le> 0 then t
         else t\<lparr> interval := max (min_interval t) (min (max_interval t) value), successes := 0 \<rparr>)"

definition penalise :: "throttle \<Rightarrow> real \<Rightarrow> real \<Rightarrow> throttle" where
  "penalise t seconds now = t\<lparr>
     penalty_until := max (penalty_until t) (now + max 0 seconds),
     interval := min (max_interval t) (max (interval t) (min_interval t) * BACKOFF_FACTOR),
     successes := 0 \<rparr>"

definition throttle_success :: "throttle \<Rightarrow> throttle" where
  "throttle_success t =
     (if interval t \<le> min_interval t then t
      else if successes t + 1 \<ge> RECOVERY_SUCCESSES then
        t\<lparr> successes := 0, interval := max (min_interval t) (interval t - RECOVERY_STEP) \<rparr>
      else t\<lparr> successes := successes t + 1 \<rparr>)"

definition cooling_down :: "throttle \<Rightarrow> real \<Rightarrow> real" where
  "cooling_down t now = max 0 (penalty_until t - now)"

text \<open>\<open>wait\<close>: sleep for the delay if it is positive, then stamp the call. Returns the time
  at which it returns.\<close>

definition throttle_wait :: "throttle \<Rightarrow> real \<Rightarrow> throttle \<times> real" where
  "throttle_wait t now =
     (let delay = max (interval t - (now - last_call t)) (penalty_until t - now);
          now' = (if delay > 0 then now + delay else now)
      in (t\<lparr> last_call := now' \<rparr>, now'))"

definition throttle_ok :: "throttle \<Rightarrow> bool" where
  "throttle_ok t = (0 < min_interval t \<and> min_interval t \<le> interval t \<and> interval t \<le> max_interval t)"

lemma throttle_ok_new: "0 < lo \<Longrightarrow> throttle_ok (new_throttle lo hi)"
  by (simp add: throttle_ok_def new_throttle_def)

lemma throttle_ok_restore: "throttle_ok t \<Longrightarrow> throttle_ok (restore t v)"
  by (auto simp: throttle_ok_def restore_def split: option.split)

lemma throttle_ok_penalise: "throttle_ok t \<Longrightarrow> throttle_ok (penalise t s now)"
proof -
  assume ok: "throttle_ok t"
  then have "min_interval t \<le> max (interval t) (min_interval t) * BACKOFF_FACTOR"
    by (simp add: throttle_ok_def BACKOFF_FACTOR_def max_absorb1)
  with ok show ?thesis by (auto simp: throttle_ok_def penalise_def)
qed

lemma throttle_ok_success: "throttle_ok t \<Longrightarrow> throttle_ok (throttle_success t)"
  by (auto simp: throttle_ok_def throttle_success_def RECOVERY_STEP_def)

lemma throttle_ok_wait: "throttle_ok t \<Longrightarrow> throttle_ok (fst (throttle_wait t now))"
  by (simp add: throttle_ok_def throttle_wait_def Let_def)

lemma throttle_wait_spacing:
  "snd (throttle_wait t now) - last_call t \<ge> interval t"
  "snd (throttle_wait t now) \<ge> penalty_until t"
  "snd (throttle_wait t now) \<ge> now"
  by (auto simp: throttle_wait_def Let_def max_def split: if_splits)

lemma throttle_wait_fields [simp]:
  "interval (fst (throttle_wait t now)) = interval t"
  "penalty_until (fst (throttle_wait t now)) = penalty_until t"
  "min_interval (fst (throttle_wait t now)) = min_interval t"
  "max_interval (fst (throttle_wait t now)) = max_interval t"
  "last_call (fst (throttle_wait t now)) = snd (throttle_wait t now)"
  by (simp_all add: throttle_wait_def Let_def)

subsection \<open>The request loop\<close>

datatype http_method = GET | POST | PUT | PATCH | DELETE

definition is_write :: "http_method \<Rightarrow> bool" where
  "is_write m = (m \<noteq> GET)"

text \<open>One attempt's exchange: a parsed body, an empty body (read as an empty object), a body
  that is not JSON, an HTTP error status with its parsed \<open>Retry-After\<close>, a transport failure,
  or an exception none of the handlers names.\<close>

datatype 'j net_outcome =
    Body 'j | EmptyBody | MalformedBody
  | HttpError nat "real option"
  | TransportFailure
  | UnhandledException

record transport =
  tr_max_attempts :: nat
  tr_circuit :: circuit
  tr_throttle :: throttle
  tr_calls :: nat
  tr_rate_limited :: nat
  tr_last_latency_ms :: "real option"
  tr_now :: real

definition backoff :: "nat \<Rightarrow> real option \<Rightarrow> real \<Rightarrow> real" where
  "backoff attempt retry_after u =
     (case retry_after of
        Some r \<Rightarrow> min r 30
      | None \<Rightarrow> u * min (2 ^ attempt) 16)"

definition raise_as :: "error_class \<Rightarrow> exn" where
  "raise_as c = \<lparr> exn_class = c, exn_message = [] \<rparr>"

lemma raise_as_class [simp]: "exn_class (raise_as c) = c"
  by (simp add: raise_as_def)

definition retryable :: "http_method \<Rightarrow> bool option \<Rightarrow> bool" where
  "retryable m idempotent =
     (case idempotent of None \<Rightarrow> \<not> is_write m | Some i \<Rightarrow> i \<and> \<not> is_write m)"

definition note_failure :: "transport \<Rightarrow> transport" where
  "note_failure tr = tr\<lparr> tr_circuit := record_failure (tr_circuit tr) (tr_now tr) \<rparr>"

definition note_auth_or_reject :: "transport \<Rightarrow> transport" where
  "note_auth_or_reject tr = tr\<lparr> tr_circuit := record_success (tr_circuit tr) \<rparr>"

definition note_response :: "transport \<Rightarrow> real \<Rightarrow> transport" where
  "note_response tr elapsed = tr\<lparr>
     tr_calls := tr_calls tr + 1,
     tr_last_latency_ms := Some (elapsed * 1000),
     tr_circuit := record_success (tr_circuit tr),
     tr_throttle := throttle_success (tr_throttle tr) \<rparr>"

definition note_rate_limit :: "transport \<Rightarrow> real option \<Rightarrow> transport" where
  "note_rate_limit tr retry_after = tr\<lparr>
     tr_throttle := penalise (tr_throttle tr)
       (max (case retry_after of None \<Rightarrow> 0 | Some r \<Rightarrow> r) MIN_RATE_LIMIT_COOLDOWN) (tr_now tr),
     tr_rate_limited := tr_rate_limited tr + 1 \<rparr>"

text \<open>What the handlers of one attempt decide: return, raise, or note a failure and go round
  again after a pause (\<open>Retry\<close> with the header the backoff honours and the error to raise
  when no attempt is left).\<close>

datatype 'j verdict = Return "'j option" | Raise exn | Retry "real option" exn

definition handle :: "http_method \<Rightarrow> real \<Rightarrow> 'j net_outcome \<Rightarrow> transport \<Rightarrow> 'j verdict \<times> transport" where
  "handle m elapsed outcome tr = (case outcome of
       Body j \<Rightarrow> (Return (Some j), note_response tr elapsed)
     | EmptyBody \<Rightarrow> (Return None, note_response tr elapsed)
     | MalformedBody \<Rightarrow>
         (if is_write m then Raise (raise_as AmbiguousExecution) else Retry None (raise_as BrokerError),
          note_failure (note_response tr elapsed))
     | HttpError code retry_after \<Rightarrow>
         if code = 401 \<or> code = 403 then (Raise (raise_as BrokerAuthError), note_auth_or_reject tr)
         else if code = 429 then (Raise (raise_as BrokerRateLimited), note_rate_limit tr retry_after)
         else if 500 \<le> code \<and> code < 600 then
           (if is_write m then (Raise (raise_as AmbiguousExecution), tr)
            else (Retry retry_after (raise_as BrokerError), note_failure tr))
         else (Raise (raise_as BrokerRejected), note_auth_or_reject tr)
     | TransportFailure \<Rightarrow>
         (if is_write m then Raise (raise_as AmbiguousExecution) else Retry None (raise_as BrokerError),
          note_failure tr)
     | UnhandledException \<Rightarrow> (Raise (raise_as OtherException), tr))"

text \<open>
  \<open>request_loop m can_retry env jitter remaining attempt tr\<close>: \<open>env k\<close> is the duration and
  the outcome of attempt \<open>k\<close>, \<open>jitter k\<close> the draw of \<open>random.uniform\<close> scaled to \<open>[0, 1]\<close>.
  The last component counts the requests that left the process.
\<close>

fun request_loop ::
  "http_method \<Rightarrow> bool \<Rightarrow> (nat \<Rightarrow> real \<times> 'j net_outcome) \<Rightarrow> (nat \<Rightarrow> real) \<Rightarrow> nat \<Rightarrow> nat \<Rightarrow> transport
     \<Rightarrow> (exn + 'j option) \<times> transport \<times> nat" where
  "request_loop m can_retry env jitter 0 attempt tr = (Inl (raise_as BrokerError), tr, 0)"
| "request_loop m can_retry env jitter (Suc remaining) attempt tr =
     (case before_call (tr_circuit tr) (tr_now tr) of
        Inl e \<Rightarrow> (Inl e, tr, 0)
      | Inr c \<Rightarrow>
          (let (th, now) = throttle_wait (tr_throttle tr) (tr_now tr);
               (elapsed, outcome) = env attempt;
               tr1 = tr\<lparr> tr_circuit := c, tr_throttle := th, tr_now := now + elapsed \<rparr>
           in case handle m elapsed outcome tr1 of
                (Return j, tr2) \<Rightarrow> (Inr j, tr2, 1)
              | (Raise e, tr2) \<Rightarrow> (Inl e, tr2, 1)
              | (Retry header e, tr2) \<Rightarrow>
                  if can_retry \<and> 0 < remaining then
                    (let (r, tr3, n) = request_loop m can_retry env jitter remaining (attempt + 1)
                         (tr2\<lparr> tr_now := tr_now tr2 + backoff attempt header (jitter attempt) \<rparr>)
                     in (r, tr3, n + 1))
                  else (Inl e, tr2, 1)))"

definition request ::
  "http_method \<Rightarrow> bool option \<Rightarrow> (nat \<Rightarrow> real \<times> 'j net_outcome) \<Rightarrow> (nat \<Rightarrow> real) \<Rightarrow> transport
     \<Rightarrow> (exn + 'j option) \<times> transport \<times> nat" where
  "request m idempotent env jitter tr =
     (let can_retry = retryable m idempotent;
          attempts = (if can_retry then max 1 (tr_max_attempts tr) else 1)
      in request_loop m can_retry env jitter attempts 0 tr)"

subsection \<open>Facts about the loop\<close>

lemma retryable_write [simp]: "is_write m \<Longrightarrow> retryable m i = False"
  by (cases i) (simp_all add: retryable_def)

text \<open>One round of the loop: refused by the breaker, ended by this attempt, or one more.\<close>

lemma request_loop_step:
  obtains (refused) e where "before_call (tr_circuit tr) (tr_now tr) = Inl e"
      "request_loop m r env jit (Suc n) k tr = (Inl e, tr, 0)"
  | (final) c th now v tr2 where
      "before_call (tr_circuit tr) (tr_now tr) = Inr c"
      "throttle_wait (tr_throttle tr) (tr_now tr) = (th, now)"
      "handle m (fst (env k)) (snd (env k))
         (tr\<lparr> tr_circuit := c, tr_throttle := th, tr_now := now + fst (env k) \<rparr>) = (v, tr2)"
      "request_loop m r env jit (Suc n) k tr =
         ((case v of Return j \<Rightarrow> Inr j | Raise e \<Rightarrow> Inl e | Retry h e \<Rightarrow> Inl e), tr2, 1)"
  | (again) c th now h e tr2 where
      "before_call (tr_circuit tr) (tr_now tr) = Inr c"
      "throttle_wait (tr_throttle tr) (tr_now tr) = (th, now)"
      "handle m (fst (env k)) (snd (env k))
         (tr\<lparr> tr_circuit := c, tr_throttle := th, tr_now := now + fst (env k) \<rparr>) = (Retry h e, tr2)"
      "r" "0 < n"
      "request_loop m r env jit (Suc n) k tr =
         (let (x, tr3, sent) = request_loop m r env jit n (k + 1)
            (tr2\<lparr> tr_now := tr_now tr2 + backoff k h (jit k) \<rparr>) in (x, tr3, sent + 1))"
proof (cases "before_call (tr_circuit tr) (tr_now tr)")
  case (Inl e)
  then show thesis by (intro refused) simp_all
next
  case (Inr c)
  obtain th now where w: "throttle_wait (tr_throttle tr) (tr_now tr) = (th, now)" by fastforce
  obtain d out where e: "env k = (d, out)" by fastforce
  obtain v tr2 where h: "handle m d out
      (tr\<lparr> tr_circuit := c, tr_throttle := th, tr_now := now + d \<rparr>) = (v, tr2)" by fastforce
  show thesis
  proof (cases "r \<and> 0 < n \<and> (\<exists>hdr x. v = Retry hdr x)")
    case True
    then obtain hdr x where "v = Retry hdr x" by blast
    with True Inr w e h show thesis by (intro again) simp_all
  next
    case False
    then have "request_loop m r env jit (Suc n) k tr =
        ((case v of Return j \<Rightarrow> Inr j | Raise x \<Rightarrow> Inl x | Retry hdr x \<Rightarrow> Inl x), tr2, 1)"
      using Inr w e h by (cases v) (auto simp: Let_def)
    with Inr w e h show thesis by (intro final) simp_all
  qed
qed

declare request_loop.simps(2) [simp del]

lemma request_sent_le: "snd (snd (request_loop m r env jit n k tr)) \<le> n"
proof (induction n arbitrary: k tr)
  case 0
  show ?case by simp
next
  case (Suc n)
  show ?case
  proof (cases rule: request_loop_step [of tr m r env jit n k])
    case (again c th now h e tr2)
    with Suc.IH [of "k + 1" "tr2\<lparr> tr_now := tr_now tr2 + backoff k h (jit k) \<rparr>"]
    show ?thesis by (auto simp: again(6) Let_def split: prod.splits)
  qed simp_all
qed

lemma request_sent_no_retry: "\<not> r \<Longrightarrow> snd (snd (request_loop m r env jit n k tr)) \<le> 1"
proof (cases n)
  case (Suc n')
  then show "\<not> r \<Longrightarrow> ?thesis"
    by (cases rule: request_loop_step [of tr m r env jit n' k]) simp_all
qed simp

lemma request_write:
  "is_write m \<Longrightarrow> request m i env jit tr = request_loop m False env jit 1 0 tr"
  by (simp add: request_def)

text \<open>A write is one attempt: refused by the breaker, or handled once.\<close>

lemma request_write_cases:
  assumes "is_write m"
  obtains (refused) e where "request m i env jit tr = (Inl e, tr, 0)" "exn_class e = CircuitOpen"
  | (sent) c th now v tr2 where
      "before_call (tr_circuit tr) (tr_now tr) = Inr c"
      "throttle_wait (tr_throttle tr) (tr_now tr) = (th, now)"
      "handle m (fst (env 0)) (snd (env 0))
         (tr\<lparr> tr_circuit := c, tr_throttle := th, tr_now := now + fst (env 0) \<rparr>) = (v, tr2)"
      "request m i env jit tr =
         ((case v of Return j \<Rightarrow> Inr j | Raise e \<Rightarrow> Inl e | Retry h e \<Rightarrow> Inl e), tr2, 1)"
proof (cases rule: request_loop_step [of tr m False env jit 0 0])
  case (refused e)
  with assms show thesis
    by (intro that(1) [OF _ before_call_error [OF refused(1)]]) (simp add: request_write)
next
  case (final c th now v tr2)
  with assms show thesis by (intro that(2)) (simp_all add: request_write)
qed simp

lemma handle_invariants:
  assumes "circuit_ok (tr_circuit tr)" and "throttle_ok (tr_throttle tr)"
    and "handle m elapsed out tr = (v, tr')"
  shows "circuit_ok (tr_circuit tr') \<and> throttle_ok (tr_throttle tr')"
  using assms
  by (auto simp: handle_def note_failure_def note_auth_or_reject_def note_response_def
      note_rate_limit_def split: net_outcome.splits if_splits
      intro!: circuit_ok_success circuit_ok_failure throttle_ok_success throttle_ok_penalise)

lemma request_loop_invariants:
  "circuit_ok (tr_circuit tr) \<Longrightarrow> throttle_ok (tr_throttle tr) \<Longrightarrow>
   request_loop m r env jit n k tr = (res, tr', sent) \<Longrightarrow>
   circuit_ok (tr_circuit tr') \<and> throttle_ok (tr_throttle tr')"
proof (induction n arbitrary: k tr res tr' sent)
  case 0
  then show ?case by simp
next
  case (Suc n)
  have keep: "circuit_ok (tr_circuit tr2) \<and> throttle_ok (tr_throttle tr2)"
    if "before_call (tr_circuit tr) (tr_now tr) = Inr c"
      and "throttle_wait (tr_throttle tr) (tr_now tr) = (th, now)"
      and "handle m d out (tr\<lparr> tr_circuit := c, tr_throttle := th, tr_now := now + d \<rparr>) = (v, tr2)"
    for c th now d out v tr2
  proof (rule handle_invariants [OF _ _ that(3)])
    show "circuit_ok (tr_circuit (tr\<lparr> tr_circuit := c, tr_throttle := th, tr_now := now + d \<rparr>))"
      using circuit_ok_before_call [OF Suc.prems(1) that(1)] by simp
    show "throttle_ok (tr_throttle (tr\<lparr> tr_circuit := c, tr_throttle := th, tr_now := now + d \<rparr>))"
      using throttle_ok_wait [OF Suc.prems(2), of "tr_now tr"] that(2) by simp
  qed
  show ?case
  proof (cases rule: request_loop_step [of tr m r env jit n k])
    case (refused e)
    with Suc.prems show ?thesis by simp
  next
    case (final c th now v tr2)
    with Suc.prems(3) keep [OF final(1-3)] show ?thesis by simp
  next
    case (again c th now h e tr2)
    let ?tr3 = "tr2\<lparr> tr_now := tr_now tr2 + backoff k h (jit k) \<rparr>"
    obtain x tr4 s where rec: "request_loop m r env jit n (k + 1) ?tr3 = (x, tr4, s)"
      by (metis prod_cases3)
    have "circuit_ok (tr_circuit tr4) \<and> throttle_ok (tr_throttle tr4)"
      using keep [OF again(1-3)] by (intro Suc.IH [OF _ _ rec]) simp_all
    with Suc.prems(3) again(6) rec show ?thesis by simp
  qed
qed

subsection \<open>Properties\<close>

definition outcome_unknown :: "'j net_outcome \<Rightarrow> bool" where
  "outcome_unknown out = (case out of
       MalformedBody \<Rightarrow> True | TransportFailure \<Rightarrow> True
     | HttpError code _ \<Rightarrow> 500 \<le> code \<and> code < 600 | _ \<Rightarrow> False)"


definition sample_transport :: transport where
  "sample_transport = \<lparr> tr_max_attempts = 3,
     tr_circuit = \<lparr> failure_threshold = 5, reset_seconds = 30, max_reset_seconds = 600,
       failures = 0, opened_at = 0, half_open = False, consecutive_opens = 0 \<rparr>,
     tr_throttle = new_throttle (1 / 2) 10, tr_calls = 0, tr_rate_limited = 0,
     tr_last_latency_ms = None, tr_now = 100 \<rparr>"


text \<open>A request sends at most \<open>max_attempts\<close> times (once when that is zero), and a method that
  must not be repeated at most once.\<close>

theorem attempts_bounded:
  "snd (snd (request m i env jitter tr)) \<le> (if retryable m i then max 1 (tr_max_attempts tr) else 1)"
  using request_sent_le [of m "retryable m i" env jitter "max 1 (tr_max_attempts tr)" 0 tr]
    request_sent_no_retry [of "retryable m i" m env jitter 1 0 tr]
  by (cases "retryable m i") (simp_all add: request_def)

text \<open>The breaker and the throttle stay well-formed through every request: the failure count
  never exceeds the threshold, and the learned interval stays inside its bounds; and the next
  call after any request is spaced by at least that interval from the last one.\<close>

theorem request_keeps_invariants:
  assumes "circuit_ok (tr_circuit tr)" and "throttle_ok (tr_throttle tr)"
    and "request m i env jitter tr = (r, tr', sent)"
  shows "circuit_ok (tr_circuit tr') \<and> throttle_ok (tr_throttle tr')
    \<and> min_interval (tr_throttle tr') \<le> snd (throttle_wait (tr_throttle tr') t) - last_call (tr_throttle tr')"
proof -
  have ok: "circuit_ok (tr_circuit tr') \<and> throttle_ok (tr_throttle tr')"
    using request_loop_invariants [OF assms(1,2)] assms(3) by (simp add: request_def Let_def)
  then have "min_interval (tr_throttle tr') \<le> interval (tr_throttle tr')" by (simp add: throttle_ok_def)
  with ok throttle_wait_spacing(1) [of "tr_throttle tr'" t] show ?thesis by simp
qed

theorem request_keeps_invariants_witness:
  "circuit_ok (tr_circuit (fst (snd (request GET None (\<lambda>_. (1, HttpError 503 None :: unit net_outcome))
     (\<lambda>_. 1 / 2) sample_transport))))"
proof -
  obtain r tr' s where q: "request GET None (\<lambda>_. (1, HttpError 503 None :: unit net_outcome))
     (\<lambda>_. 1 / 2) sample_transport = (r, tr', s)" by (metis prod_cases3)
  have "circuit_ok (tr_circuit sample_transport)" "throttle_ok (tr_throttle sample_transport)"
    by (simp_all add: sample_transport_def circuit_ok_def new_throttle_def throttle_ok_def)
  from request_keeps_invariants [OF this q, of 0] q show ?thesis by simp
qed

text \<open>A 429 is never a broker failure: the breaker is untouched, the error is
  \<open>BrokerRateLimited\<close> without a retry, and no later call returns from the throttle within a
  minute, whatever shorter pause the response asked for.\<close>

theorem rate_limit_is_a_cooldown:
  "fst (handle m elapsed (HttpError 429 header :: 'j net_outcome) tr) = Raise (raise_as BrokerRateLimited)
   \<and> tr_circuit (snd (handle m elapsed (HttpError 429 header :: 'j net_outcome) tr)) = tr_circuit tr
   \<and> tr_now tr + 60 \<le> snd (throttle_wait (tr_throttle (snd (handle m elapsed (HttpError 429 header :: 'j net_outcome) tr))) t)"
proof -
  let ?th = "tr_throttle (snd (handle m elapsed (HttpError 429 header :: 'j net_outcome) tr))"
  have "tr_now tr + 60 \<le> penalty_until ?th"
    by (simp add: handle_def note_rate_limit_def penalise_def MIN_RATE_LIMIT_COOLDOWN_def)
  also have "\<dots> \<le> snd (throttle_wait ?th t)" by (rule throttle_wait_spacing(2))
  finally show ?thesis by (simp add: handle_def note_rate_limit_def)
qed

text \<open>Two kinds of failure never open the breaker: a 5xx answer to a write leaves it untouched,
  and unreadable bodies never raise its count above one, because the response is recorded as a
  success before its body is read.\<close>

theorem failures_the_breaker_misses:
  "(if is_write m \<and> 500 \<le> code \<and> code < 600
    then tr_circuit (snd (handle m elapsed (HttpError code header) tr)) = tr_circuit tr else True)
   \<and> failures (tr_circuit (snd (handle m elapsed MalformedBody tr))) \<le> 1"
  by (auto simp: handle_def note_failure_def note_response_def record_failure_def record_success_def Let_def)

end
