(* ===== verification/Demo_Guard.thy ===== *)
theory Demo_Guard
  imports Config Errors Symbols
begin

text \<open>
  DEMO-only enforcement, \<open>bot/safety/demo_guard.py\<close>. A broker record is the list of its
  fields in dict order; a value is a boolean or the text \<open>str(raw)\<close> of anything else. The
  evidence strings are the constructors of \<open>evidence\<close>.
\<close>

datatype field_value = Flag bool | Text string

type_synonym broker_record = "(string \<times> field_value) list"

definition TYPE_FIELDS :: "string list" where
  "TYPE_FIELDS = [''accountType'', ''type'', ''accType'', ''environment'', ''mode'', ''demo'', ''isDemo'']"

definition CLAIM_FIELDS :: "string list" where
  "CLAIM_FIELDS = [''accountType'', ''accType'', ''environment'', ''env'', ''mode'', ''demo'',
     ''isDemo'', ''iss'', ''issuer'', ''aud'', ''audience'', ''server'', ''host'', ''domain'']"

definition NAME_FIELDS :: "string list" where
  "NAME_FIELDS = [''name'', ''accountName'', ''title'']"

definition DEMO_TOKENS :: "string list" where
  "DEMO_TOKENS = [''demo'', ''practice'', ''paper'', ''sandbox'', ''test'']"

definition LIVE_TOKENS :: "string list" where
  "LIVE_TOKENS = [''live'', ''real'', ''production'', ''prod'']"

datatype evidence =
    UrlLiveMarker string | UrlDemoMarker string | UrlUnknown
  | NothingReturned string
  | FlagEvidence string string bool
  | LiveEvidence string string
  | DemoEvidence string string
  | FieldsSeen string "string list"
  | NoPositiveIdentification evidence evidence

definition url_signal :: "string \<Rightarrow> bool \<times> evidence" where
  "url_signal base_url =
     (let url = lower base_url in
      case List.find (\<lambda>m. occurs_in m url) LIVE_URL_MARKERS of
        Some m \<Rightarrow> (False, UrlLiveMarker m)
      | None \<Rightarrow>
          (case List.find (\<lambda>m. occurs_in m url) DEMO_URL_MARKERS of
             Some m \<Rightarrow> (True, UrlDemoMarker m)
           | None \<Rightarrow> (False, UrlUnknown)))"

definition candidate_fields :: "string list \<Rightarrow> broker_record \<Rightarrow> (string \<times> field_value) list" where
  "candidate_fields wanted data =
     List.map_filter (\<lambda>f. map_option (\<lambda>v. (f, v)) (map_of data f)) wanted"

text \<open>The loop of \<open>_classify\<close> over the candidate fields: the first that expresses an opinion.\<close>

fun scan_fields :: "string \<Rightarrow> (string \<times> field_value) list \<Rightarrow> (bool \<times> evidence) option" where
  "scan_fields source [] = None"
| "scan_fields source ((field, Flag b) # rest) =
     (if field = ''demo'' \<or> field = ''isDemo'' then Some (b, FlagEvidence source field b)
      else scan_fields source rest)"
| "scan_fields source ((field, Text raw) # rest) =
     (let text = lower (strip raw) in
      if text = [] then scan_fields source rest
      else if list_ex (\<lambda>t. occurs_in t text) LIVE_TOKENS then Some (False, LiveEvidence source field)
      else if list_ex (\<lambda>t. occurs_in t text) DEMO_TOKENS then Some (True, DemoEvidence source field)
      else scan_fields source rest)"

definition classify ::
  "string \<Rightarrow> broker_record option \<Rightarrow> string list \<Rightarrow> bool \<Rightarrow> bool option \<times> evidence" where
  "classify source data wanted include_name =
     (case data of
        None \<Rightarrow> (None, NothingReturned source)
      | Some [] \<Rightarrow> (None, NothingReturned source)
      | Some rec \<Rightarrow>
          (case scan_fields source
             (candidate_fields wanted rec @ (if include_name then candidate_fields NAME_FIELDS rec else [])) of
             Some (v, e) \<Rightarrow> (Some v, e)
           | None \<Rightarrow> (None, FieldsSeen source (sort (map fst rec)))))"

text \<open>\<open>(ok, evidence, contradicted)\<close>\<close>

definition broker_signal ::
  "broker_record option \<Rightarrow> broker_record option \<Rightarrow> bool \<times> evidence \<times> bool" where
  "broker_signal account claims =
     (let (av, ae) = classify ''account'' account TYPE_FIELDS True;
          (cv, ce) = classify ''token'' claims CLAIM_FIELDS False
      in if av = Some False then (False, ae, True)
         else if cv = Some False then (False, ce, True)
         else if av = Some True then (True, ae, False)
         else if cv = Some True then (True, ce, False)
         else (False, NoPositiveIdentification ae ce, False))"

record demo_verification =
  dv_verified :: bool
  dv_url_ok :: bool
  dv_account_ok :: bool
  dv_evidence :: "evidence list"
  dv_reason :: "evidence list option"
  dv_contradicted :: bool

definition verify_demo ::
  "trading_config \<Rightarrow> broker_record option \<Rightarrow> broker_record option \<Rightarrow> demo_verification" where
  "verify_demo config account claims =
     (let (url_ok, url_evidence) = url_signal (bc_base_url (tc_broker config));
          (account_ok, account_evidence, account_contradicted) = broker_signal account claims;
          verified = (url_ok \<and> account_ok \<and> tc_require_demo config);
          contradicted = (account_contradicted \<or> \<not> url_ok)
      in \<lparr> dv_verified = verified, dv_url_ok = url_ok, dv_account_ok = account_ok,
           dv_evidence = [url_evidence, account_evidence],
           dv_reason = (if verified then None
             else Some ((if url_ok then [] else [url_evidence])
               @ (if account_ok then [] else [account_evidence]))),
           dv_contradicted = contradicted \<and> \<not> verified \<rparr>)"

definition require_demo ::
  "trading_config \<Rightarrow> broker_record option \<Rightarrow> broker_record option \<Rightarrow> exn + demo_verification" where
  "require_demo config account claims =
     (let v = verify_demo config account claims in
      if \<not> dv_verified v
      then Inl \<lparr> exn_class = DemoVerificationError, exn_message = ''DEMO verification failed'' \<rparr>
      else Inr v)"

subsection \<open>What a pass proves\<close>

lemma url_signal_ok: "fst (url_signal url) \<longleftrightarrow>
    list_all (\<lambda>m. \<not> occurs_in m (lower url)) LIVE_URL_MARKERS
    \<and> list_ex (\<lambda>m. occurs_in m (lower url)) DEMO_URL_MARKERS"
proof (cases "List.find (\<lambda>m. occurs_in m (lower url)) LIVE_URL_MARKERS")
  case None
  then have live: "list_all (\<lambda>m. \<not> occurs_in m (lower url)) LIVE_URL_MARKERS"
    by (auto simp: find_None_iff list_all_iff)
  show ?thesis
  proof (cases "List.find (\<lambda>m. occurs_in m (lower url)) DEMO_URL_MARKERS")
    case None': None
    then have "\<not> list_ex (\<lambda>m. occurs_in m (lower url)) DEMO_URL_MARKERS"
      by (auto simp: find_None_iff list_ex_iff)
    with None None' live show ?thesis by (simp add: url_signal_def)
  next
    case (Some m)
    then have "list_ex (\<lambda>m. occurs_in m (lower url)) DEMO_URL_MARKERS"
      by (auto simp: list_ex_iff dest: find_Some_mem)
    with None Some live show ?thesis by (simp add: url_signal_def)
  qed
next
  case (Some m)
  then have "\<not> list_all (\<lambda>m. \<not> occurs_in m (lower url)) LIVE_URL_MARKERS"
    by (auto simp: list_all_iff dest: find_Some_mem)
  with Some show ?thesis by (simp add: url_signal_def)
qed

lemma url_signal_is_demo_url: "fst (url_signal (bc_base_url b)) = is_demo_url b"
  by (auto simp: url_signal_ok is_demo_url_def Let_def list_all_iff list_ex_iff)

lemma verify_demo_verified:
  "dv_verified (verify_demo config account claims) \<longleftrightarrow>
     is_demo_url (tc_broker config) \<and> tc_require_demo config
     \<and> fst (broker_signal account claims)"
  by (auto simp: verify_demo_def Let_def url_signal_is_demo_url [symmetric] split: prod.splits)

lemma broker_signal_pass:
  "fst (broker_signal account claims) \<longleftrightarrow>
     fst (classify ''account'' account TYPE_FIELDS True) \<noteq> Some False
     \<and> fst (classify ''token'' claims CLAIM_FIELDS False) \<noteq> Some False
     \<and> (fst (classify ''account'' account TYPE_FIELDS True) = Some True
        \<or> fst (classify ''token'' claims CLAIM_FIELDS False) = Some True)"
  by (auto simp: broker_signal_def Let_def split: prod.splits)

lemma require_demo_Inr:
  "require_demo config account claims = Inr v \<longleftrightarrow>
     v = verify_demo config account claims \<and> dv_verified v"
  by (auto simp: require_demo_def Let_def)

lemma require_demo_Inl: "require_demo config account claims = Inl e \<Longrightarrow> exn_class e = DemoVerificationError"
  by (auto simp: require_demo_def Let_def split: if_splits)

text \<open>A field whose text carries a live token, and no field before it has an opinion.\<close>

definition live_text :: "field_value \<Rightarrow> bool" where
  "live_text v = (case v of Flag _ \<Rightarrow> False
     | Text raw \<Rightarrow> list_ex (\<lambda>t. occurs_in t (lower (strip raw))) LIVE_TOKENS)"

definition demo_claim :: "string \<Rightarrow> field_value \<Rightarrow> bool" where
  "demo_claim field v = (case v of Flag b \<Rightarrow> b \<and> (field = ''demo'' \<or> field = ''isDemo'')
     | Text raw \<Rightarrow> list_ex (\<lambda>t. occurs_in t (lower (strip raw))) DEMO_TOKENS)"

lemma no_token_in_empty: "list_ex (\<lambda>t. occurs_in t []) LIVE_TOKENS = False"
  by (simp add: LIVE_TOKENS_def)

lemma scan_fields_Some_True:
  "scan_fields source cs = Some (True, e) \<Longrightarrow>
     \<exists>pre f v post. cs = pre @ (f, v) # post \<and> demo_claim f v \<and> \<not> live_text v
       \<and> list_all (\<lambda>(f, v). \<not> live_text v \<and> \<not> demo_claim f v) pre"
proof (induction source cs rule: scan_fields.induct)
  case (1 source)
  then show ?case by simp
next
  case (2 source field b rest)
  show ?case
  proof (cases "field = ''demo'' \<or> field = ''isDemo''")
    case True
    with "2.prems" have "demo_claim field (Flag b)" "\<not> live_text (Flag b)"
      by (auto simp: demo_claim_def live_text_def)
    then show ?thesis
      by (intro exI [of _ "[]"] exI [of _ field] exI [of _ "Flag b"] exI [of _ rest]) simp
  next
    case False
    with 2 obtain pre f v post where "rest = pre @ (f, v) # post" "demo_claim f v" "\<not> live_text v"
      "list_all (\<lambda>(f, v). \<not> live_text v \<and> \<not> demo_claim f v) pre" by auto
    with False show ?thesis
      by (intro exI [of _ "(field, Flag b) # pre"] exI [of _ f] exI [of _ v] exI [of _ post])
        (auto simp: demo_claim_def live_text_def)
  qed
next
  case (3 source field raw rest)
  let ?t = "lower (strip raw)"
  have rec: ?case if "scan_fields source rest = Some (True, e)"
    and "\<not> live_text (Text raw)" "\<not> demo_claim field (Text raw)"
    and ih: "\<exists>pre f v post. rest = pre @ (f, v) # post \<and> demo_claim f v \<and> \<not> live_text v
       \<and> list_all (\<lambda>(f, v). \<not> live_text v \<and> \<not> demo_claim f v) pre"
  proof -
    from ih obtain pre f v post where "rest = pre @ (f, v) # post" "demo_claim f v" "\<not> live_text v"
      "list_all (\<lambda>(f, v). \<not> live_text v \<and> \<not> demo_claim f v) pre" by blast
    with that(2,3) show ?thesis
      by (intro exI [of _ "(field, Text raw) # pre"] exI [of _ f] exI [of _ v] exI [of _ post]) auto
  qed
  consider (empty) "?t = []" | (live) "?t \<noteq> []" "list_ex (\<lambda>t. occurs_in t ?t) LIVE_TOKENS"
    | (demo) "?t \<noteq> []" "\<not> list_ex (\<lambda>t. occurs_in t ?t) LIVE_TOKENS" "list_ex (\<lambda>t. occurs_in t ?t) DEMO_TOKENS"
    | (silent) "?t \<noteq> []" "\<not> list_ex (\<lambda>t. occurs_in t ?t) LIVE_TOKENS" "\<not> list_ex (\<lambda>t. occurs_in t ?t) DEMO_TOKENS"
    by blast
  then show ?case
  proof cases
    case empty
    with "3.prems" have scan: "scan_fields source rest = Some (True, e)" by simp
    from empty have "\<not> live_text (Text raw)" "\<not> demo_claim field (Text raw)"
      by (simp_all add: live_text_def demo_claim_def LIVE_TOKENS_def DEMO_TOKENS_def)
    then show ?thesis by (rule rec [OF scan _ _ "3.IH"(1) [OF refl empty scan]])
  next
    case live
    with "3.prems" show ?thesis by (simp add: Let_def)
  next
    case demo
    then show ?thesis
      by (intro exI [of _ "[]"] exI [of _ field] exI [of _ "Text raw"] exI [of _ rest])
        (simp add: live_text_def demo_claim_def)
  next
    case silent
    with "3.prems" have scan: "scan_fields source rest = Some (True, e)" by (simp add: Let_def)
    from silent have "\<not> live_text (Text raw)" "\<not> demo_claim field (Text raw)"
      by (simp_all add: live_text_def demo_claim_def)
    then show ?thesis by (rule rec [OF scan _ _ "3.IH"(2) [OF refl silent scan]])
  qed
qed

lemma candidate_fields_mem: "(f, v) \<in> set (candidate_fields wanted data) \<Longrightarrow> (f, v) \<in> set data"
  by (auto simp: candidate_fields_def map_filter_def dest: map_of_SomeD)

lemma classify_Some_True:
  "fst (classify source data wanted nm) = Some True \<Longrightarrow>
     \<exists>r f v. data = Some r \<and> (f, v) \<in> set r \<and> demo_claim f v \<and> \<not> live_text v"
proof -
  assume pass: "fst (classify source data wanted nm) = Some True"
  then obtain x xs where data: "data = Some (x # xs)"
    by (auto simp: classify_def split: option.splits list.splits)
  let ?cs = "candidate_fields wanted (x # xs) @ (if nm then candidate_fields NAME_FIELDS (x # xs) else [])"
  obtain e where "scan_fields source ?cs = Some (True, e)"
    using pass data by (auto simp: classify_def split: option.splits)
  then obtain pre f v post where "?cs = pre @ (f, v) # post" and claim: "demo_claim f v" "\<not> live_text v"
    using scan_fields_Some_True by blast
  then have "(f, v) \<in> set ?cs" by simp
  then have "(f, v) \<in> set (x # xs)" by (auto simp del: set_simps dest: candidate_fields_mem split: if_splits)
  with claim data show ?thesis by blast
qed

subsection \<open>Properties\<close>


text \<open>A pass rests on something the broker said: when \<open>require_demo\<close> passes, some field of the
  account record or of the token claims positively claims a demo environment and carries no
  live token.\<close>

theorem demo_pass_has_evidence:
  assumes "require_demo config account claims = Inr v"
  shows "\<exists>r f x. (account = Some r \<or> claims = Some r) \<and> (f, x) \<in> set r \<and> demo_claim f x \<and> \<not> live_text x"
proof -
  have "fst (broker_signal account claims)"
    using assms by (auto simp: require_demo_Inr verify_demo_verified)
  then consider "fst (classify ''account'' account TYPE_FIELDS True) = Some True"
    | "fst (classify ''token'' claims CLAIM_FIELDS False) = Some True"
    by (auto simp: broker_signal_pass)
  then show ?thesis by cases (blast dest: classify_Some_True)+
qed

definition demo_broker :: broker_config where
  "demo_broker = \<lparr> bc_email = Some ''a@b.c'', bc_password = Some ''p'', bc_server = Some ''s'',
     bc_account_id = Some ''1'', bc_base_url = ''https://demo.tradelocker.com'',
     bc_request_timeout = 15, bc_max_attempts = 3, bc_circuit_failure_threshold = 5,
     bc_circuit_reset_seconds = 30, bc_min_request_interval = 1 / 2 \<rparr>"

definition demo_config :: trading_config where
  "demo_config = \<lparr> tc_symbols = [''EURUSD''], tc_broker = demo_broker,
     tc_risk = default_risk_config, tc_reward = default_reward_config,
     tc_execution = default_execution_config, tc_sessions = default_session_config,
     tc_tier_b = 60, tc_tier_a = 70, tc_tier_a_plus = 80, tc_min_tradeable_score = 60,
     tc_smc = default_smc_config, tc_mtf = default_mtf_config, tc_paper = default_paper_config,
     tc_mode = DEMO_LIVE, tc_require_demo = True \<rparr>"

definition demo_account :: broker_record where
  "demo_account = [(''accountType'', Text ''DEMO'')]"

lemma demo_config_verified: "dv_verified (verify_demo demo_config (Some demo_account) None)"
  by code_simp

theorem demo_pass_has_evidence_witness:
  "\<exists>r f x. (Some demo_account = Some r \<or> None = Some r) \<and> (f, x) \<in> set r \<and> demo_claim f x \<and> \<not> live_text x"
  by (rule demo_pass_has_evidence [of demo_config "Some demo_account" None
        "verify_demo demo_config (Some demo_account) None"])
    (simp add: require_demo_Inr demo_config_verified)

text \<open>Inside one record the first field with an opinion decides: an account that says
  \<open>accountType: demo\<close> and \<open>environment: live\<close> passes the gate, although a later field
  names a live environment outright.\<close>

theorem first_opinion_wins:
  "dv_verified (verify_demo demo_config
     (Some [(''accountType'', Text ''demo''), (''environment'', Text ''live'')]) None)
   \<and> live_text (Text ''live'')"
  by code_simp

end
