(* ===== verification/State_Store.thy ===== *)
theory State_Store
  imports Errors Clock
begin

text \<open>
  Key/value state that outlives the process (\<open>StateRepository\<close> of
  \<open>bot/storage/repositories.py\<close>) and the persistent kill switch over it
  (\<open>bot/safety/kill_switch.py\<close>). A stored value is JSON text: it parses, or it does not.
  The interface between the two is the locale \<open>kv_store\<close>.
\<close>

datatype 'v stored_json = Json 'v | Unparseable

record 'v kv_state =
  kv_rows :: "(string \<times> 'v stored_json) list"
  kv_reachable :: bool

definition loads :: "'v stored_json \<Rightarrow> 'v option" where
  "loads s = (case s of Json v \<Rightarrow> Some v | Unparseable \<Rightarrow> None)"

definition storage_failure :: exn where
  "storage_failure = \<lparr> exn_class = StorageError, exn_message = ''query failed'' \<rparr>"

definition state_get :: "'v kv_state \<Rightarrow> string \<Rightarrow> exn + 'v option" where
  "state_get s key =
     (if \<not> kv_reachable s then Inl storage_failure
      else Inr (case map_of (kv_rows s) key of None \<Rightarrow> None | Some v \<Rightarrow> loads v))"

text \<open>\<open>INSERT ... ON CONFLICT (key) DO UPDATE\<close>\<close>

fun upsert :: "'k \<Rightarrow> 'v \<Rightarrow> ('k \<times> 'v) list \<Rightarrow> ('k \<times> 'v) list" where
  "upsert k v [] = [(k, v)]"
| "upsert k v ((k', v') # rows) = (if k' = k then (k, v) # rows else (k', v') # upsert k v rows)"

definition state_set :: "'v kv_state \<Rightarrow> string \<Rightarrow> 'v \<Rightarrow> exn + 'v kv_state" where
  "state_set s key v =
     (if \<not> kv_reachable s then Inl storage_failure
      else Inr (s\<lparr> kv_rows := upsert key (Json v) (kv_rows s) \<rparr>))"

definition state_delete :: "'v kv_state \<Rightarrow> string \<Rightarrow> exn + 'v kv_state" where
  "state_delete s key =
     (if \<not> kv_reachable s then Inl storage_failure
      else Inr (s\<lparr> kv_rows := filter (\<lambda>(k, _). k \<noteq> key) (kv_rows s) \<rparr>))"

locale kv_store =
  fixes get :: "'s \<Rightarrow> 'k \<Rightarrow> 'e + 'v option"
    and set :: "'s \<Rightarrow> 'k \<Rightarrow> 'v \<Rightarrow> 'e + 's"
    and delete :: "'s \<Rightarrow> 'k \<Rightarrow> 'e + 's"
  assumes get_set: "set s k v = Inr s' \<Longrightarrow> get s' k' = (if k' = k then Inr (Some v) else get s k')"
    and get_delete: "delete s k = Inr s' \<Longrightarrow> get s' k' = (if k' = k then Inr None else get s k')"
    and set_readable: "get s k = Inr x \<Longrightarrow> \<exists>s'. set s k v = Inr s'"
begin

lemma set_get_same: "set s k v = Inr s' \<Longrightarrow> get s' k = Inr (Some v)"
  by (simp add: get_set)

lemma set_set: "set s k v = Inr s1 \<Longrightarrow> set s1 k w = Inr s2 \<Longrightarrow> get s2 k' = (if k' = k then Inr (Some w) else get s k')"
  by (simp add: get_set)

lemma set_after_read:
  assumes "get s k = Inr x"
  obtains s' where "set s k v = Inr s'" "get s' k = Inr (Some v)"
  using set_readable [OF assms, of v] get_set by fastforce

end

lemma map_of_upsert: "map_of (upsert k v rows) k' = (if k' = k then Some v else map_of rows k')"
  by (induction k v rows rule: upsert.induct) auto

lemma map_of_filter_key:
  "map_of (filter (\<lambda>(k, _). k \<noteq> key) rows) k' = (if k' = key then None else map_of rows k')"
  by (induction rows) auto

interpretation state_kv: kv_store state_get state_set state_delete
  by unfold_locales
    (auto simp: state_get_def state_set_def state_delete_def map_of_upsert map_of_filter_key
       loads_def split: if_splits)

subsection \<open>The kill switch\<close>

record kill_payload =
  kp_active :: bool
  kp_reason :: "string option"
  kp_detail :: "string option"
  kp_tripped_at :: "micros option"

record kill_switch_state =
  ks_active :: bool
  ks_reason :: "string option"
  ks_detail :: "string option"
  ks_tripped_at :: "micros option"

type_synonym kill_store = "kill_payload kv_state"

definition KEY :: string where "KEY = ''kill_switch''"

definition CLEARABLE :: "string list" where
  "CLEARABLE = [''DAILY_LOSS_LIMIT'', ''MAX_DRAWDOWN'', ''CONSECUTIVE_LOSSES'', ''MANUAL'']"

definition kill_read :: "kill_store \<Rightarrow> kill_switch_state" where
  "kill_read s = (case state_get s KEY of
       Inl e \<Rightarrow> \<lparr> ks_active = True, ks_reason = Some ''STATE_UNREADABLE'',
                  ks_detail = Some (take 300 (exn_message e)), ks_tripped_at = None \<rparr>
     | Inr None \<Rightarrow> \<lparr> ks_active = False, ks_reason = None, ks_detail = None, ks_tripped_at = None \<rparr>
     | Inr (Some raw) \<Rightarrow> \<lparr> ks_active = kp_active raw, ks_reason = kp_reason raw,
                           ks_detail = kp_detail raw, ks_tripped_at = kp_tripped_at raw \<rparr>)"

definition kill_active :: "kill_store \<Rightarrow> bool" where
  "kill_active s = ks_active (kill_read s)"

definition kill_trip ::
  "kill_store \<Rightarrow> string \<Rightarrow> string \<Rightarrow> micros \<Rightarrow> (exn + kill_switch_state) \<times> kill_store" where
  "kill_trip s reason detail now =
     (let current = kill_read s in
      if ks_active current then (Inr current, s)
      else case state_set s KEY \<lparr> kp_active = True, kp_reason = Some reason,
                    kp_detail = Some detail, kp_tripped_at = Some now \<rparr> of
             Inl e \<Rightarrow> (Inl e, s)
           | Inr s' \<Rightarrow> (Inr (kill_read s'), s'))"

definition kill_clear :: "kill_store \<Rightarrow> bool \<Rightarrow> (exn + kill_switch_state) \<times> kill_store" where
  "kill_clear s force =
     (let current = kill_read s in
      if \<not> ks_active current then (Inr current, s)
      else if \<not> (case ks_reason current of None \<Rightarrow> False | Some r \<Rightarrow> r \<in> List.set CLEARABLE) \<and> \<not> force
      then (Inr current, s)
      else case state_set s KEY \<lparr> kp_active = False, kp_reason = None,
                    kp_detail = None, kp_tripped_at = None \<rparr> of
             Inl e \<Rightarrow> (Inl e, s)
           | Inr s' \<Rightarrow> (Inr (kill_read s'), s'))"

text \<open>The commands the process and the operator issue, and a run of them.\<close>

datatype kill_command = Trip string string micros | Clear bool

fun kill_run :: "kill_store \<Rightarrow> kill_command list \<Rightarrow> kill_store" where
  "kill_run s [] = s"
| "kill_run s (Trip r d t # cs) = kill_run (snd (kill_trip s r d t)) cs"
| "kill_run s (Clear f # cs) = kill_run (snd (kill_clear s f)) cs"

fun forced :: "kill_command \<Rightarrow> bool" where
  "forced (Trip _ _ _) = False"
| "forced (Clear f) = f"

definition clearable :: "kill_switch_state \<Rightarrow> bool" where
  "clearable st = (case ks_reason st of None \<Rightarrow> False | Some r \<Rightarrow> r \<in> List.set CLEARABLE)"

lemma kill_trip_active: "kill_active s \<Longrightarrow> kill_trip s r d t = (Inr (kill_read s), s)"
  by (simp add: kill_trip_def kill_active_def)

lemma kill_read_inactive: "\<not> kill_active s \<Longrightarrow> \<exists>x. state_get s KEY = Inr x"
  by (auto simp: kill_active_def kill_read_def split: sum.splits)

lemma kill_trip_inactive:
  assumes "\<not> kill_active s"
  shows "\<exists>s'. kill_trip s r d t = (Inr (kill_read s'), s') \<and> kill_read s' =
     \<lparr> ks_active = True, ks_reason = Some r, ks_detail = Some d, ks_tripped_at = Some t \<rparr>"
proof -
  obtain x where "state_get s KEY = Inr x" using kill_read_inactive [OF assms] by blast
  then obtain s' where s': "state_set s KEY \<lparr> kp_active = True, kp_reason = Some r,
        kp_detail = Some d, kp_tripped_at = Some t \<rparr> = Inr s'"
    "state_get s' KEY = Inr (Some \<lparr> kp_active = True, kp_reason = Some r,
        kp_detail = Some d, kp_tripped_at = Some t \<rparr>)"
    by (rule state_kv.set_after_read)
  with assms show ?thesis
    by (intro exI [of _ s']) (simp add: kill_trip_def kill_active_def kill_read_def)
qed

lemma kill_clear_refused:
  "kill_active s \<Longrightarrow> \<not> clearable (kill_read s) \<Longrightarrow> kill_clear s False = (Inr (kill_read s), s)"
  by (simp add: kill_clear_def kill_active_def clearable_def)

lemma kill_run_latched:
  assumes "kill_active s" and "\<not> clearable (kill_read s)" and "\<forall>c \<in> List.set cs. \<not> forced c"
  shows "kill_run s cs = s"
  using assms(3)
proof (induction cs)
  case Nil
  show ?case by simp
next
  case (Cons c cs)
  then show ?case
    by (cases c) (simp_all add: kill_trip_active [OF assms(1)] kill_clear_refused [OF assms(1,2)])
qed

subsection \<open>Properties\<close>



text \<open>The first reason is the one on record: tripping a switch that is already active changes
  nothing, and tripping an inactive one on a healthy store leaves it active with exactly the
  reason, detail and time given.\<close>

theorem kill_switch_keeps_first_reason:
  "if kill_active s then kill_trip s r d t = (Inr (kill_read s), s)
   else (\<exists>s'. kill_trip s r d t = (Inr (kill_read s'), s') \<and> kill_active s'
     \<and> ks_reason (kill_read s') = Some r \<and> ks_detail (kill_read s') = Some d
     \<and> ks_tripped_at (kill_read s') = Some t)"
  using kill_trip_active [of s r d t] kill_trip_inactive [of s r d t] by (auto simp: kill_active_def)

end
