(* ===== verification/Market_Data.thy ===== *)
theory Market_Data
  imports Clock "HOL-Library.Sublist"
begin

text \<open>
  Candles (\<open>bot/marketdata/candles.py\<close>), their validation before analysis and the spread gate
  (\<open>bot/marketdata/validation.py\<close>), and the last-known-good read model of the dashboard
  (\<open>bot/broker/cache.py\<close>). Errors are the constructors of \<open>candle_error\<close> (the
  \<open>ValueError\<close>s of \<open>from_mapping\<close>) and \<open>series_error\<close> (\<open>MarketDataError\<close>, \<open>StaleDataError\<close>).
\<close>

subsection \<open>Candles\<close>

definition TIMEFRAME_MINUTES :: "(string \<times> int) list" where
  "TIMEFRAME_MINUTES = [(''M5'', 5), (''M15'', 15), (''H1'', 60), (''H4'', 240), (''D1'', 1440)]"

record candle =
  c_timestamp :: micros
  c_open :: real
  c_high :: real
  c_low :: real
  c_close :: real
  c_volume :: real
  c_timeframe :: string

text \<open>A raw row as \<open>from_mapping\<close> reads it: the timestamp as a datetime, an ISO text with the
  result of parsing it, epoch seconds or milliseconds, or something unusable; a price field
  as a finite number, a non-finite one, or no number at all.\<close>

datatype raw_timestamp = TsDatetime micros | TsText "micros option" | TsNumber real | TsUnusable

datatype raw_number = Finite real | NonFinite | NotNumeric

record candle_row =
  row_timestamp :: raw_timestamp
  row_open :: raw_number
  row_high :: raw_number
  row_low :: raw_number
  row_close :: raw_number
  row_volume :: "raw_number option"
  row_timeframe :: "string option"

datatype candle_error =
    BadTimestamp | NotANumericPrice | NotAFinitePrice | BadVolume
  | PriceNotPositive | InconsistentOHLC | UnsupportedTimeframe

definition read_timestamp :: "raw_timestamp \<Rightarrow> candle_error + micros" where
  "read_timestamp r = (case r of
       TsDatetime t \<Rightarrow> Inr t
     | TsText (Some t) \<Rightarrow> Inr t
     | TsText None \<Rightarrow> Inl BadTimestamp
     | TsNumber v \<Rightarrow> Inr (from_epoch v)
     | TsUnusable \<Rightarrow> Inl BadTimestamp)"

definition read_number :: "raw_number \<Rightarrow> candle_error + real" where
  "read_number r = (case r of
       Finite v \<Rightarrow> Inr v | NonFinite \<Rightarrow> Inl NotAFinitePrice | NotNumeric \<Rightarrow> Inl NotANumericPrice)"

text \<open>An absent volume is zero; \<open>float()\<close> of anything else may raise.\<close>

definition read_volume :: "raw_number option \<Rightarrow> candle_error + real" where
  "read_volume r = (case r of
       None \<Rightarrow> Inr 0 | Some (Finite v) \<Rightarrow> Inr v | Some _ \<Rightarrow> Inl BadVolume)"

definition bind_err :: "'e + 'a \<Rightarrow> ('a \<Rightarrow> 'e + 'b) \<Rightarrow> 'e + 'b" where
  "bind_err m f = (case m of Inl e \<Rightarrow> Inl e | Inr x \<Rightarrow> f x)"

lemma bind_err_Inr [simp]: "bind_err m f = Inr y \<longleftrightarrow> (\<exists>x. m = Inr x \<and> f x = Inr y)"
  by (cases m) (simp_all add: bind_err_def)

definition from_mapping :: "candle_row \<Rightarrow> candle_error + candle" where
  "from_mapping row =
     bind_err (read_timestamp (row_timestamp row)) (\<lambda>ts.
     bind_err (read_number (row_open row)) (\<lambda>o'.
     bind_err (read_number (row_high row)) (\<lambda>h.
     bind_err (read_number (row_low row)) (\<lambda>l.
     bind_err (read_number (row_close row)) (\<lambda>c.
     bind_err (read_volume (row_volume row)) (\<lambda>v.
       (let tf = upper (case row_timeframe row of None \<Rightarrow> ''M15'' | Some t \<Rightarrow> t) in
        if min (min o' h) (min l c) \<le> 0 then Inl PriceNotPositive
        else if h < max o' c \<or> l > min o' c \<or> l > h then Inl InconsistentOHLC
        else if map_of TIMEFRAME_MINUTES tf = None then Inl UnsupportedTimeframe
        else Inr \<lparr> c_timestamp = ts, c_open = o', c_high = h, c_low = l, c_close = c,
                   c_volume = v, c_timeframe = tf \<rparr>)))))))"

text \<open>\<open>TIMEFRAME_MINUTES[self.timeframe]\<close>; every constructed candle has a known timeframe.\<close>

definition candle_minutes :: "candle \<Rightarrow> int" where
  "candle_minutes c = (case map_of TIMEFRAME_MINUTES (c_timeframe c) of None \<Rightarrow> 0 | Some m \<Rightarrow> m)"

definition close_time :: "candle \<Rightarrow> micros" where
  "close_time c = c_timestamp c + candle_minutes c * usec_per_min"

definition body :: "candle \<Rightarrow> real" where "body c = \<bar>c_close c - c_open c\<bar>"

definition candle_range :: "candle \<Rightarrow> real" where "candle_range c = c_high c - c_low c"

datatype candle_direction = Bullish | Bearish | Neutral

definition candle_direction :: "candle \<Rightarrow> candle_direction" where
  "candle_direction c =
     (if c_close c > c_open c then Bullish else if c_close c < c_open c then Bearish else Neutral)"

definition midpoint :: "candle \<Rightarrow> real" where "midpoint c = (c_high c + c_low c) / 2"

fun to_candles :: "candle_row list \<Rightarrow> candle_error + candle list" where
  "to_candles [] = Inr []"
| "to_candles (r # rs) =
     bind_err (from_mapping r) (\<lambda>c. bind_err (to_candles rs) (\<lambda>cs. Inr (c # cs)))"

definition candle_ok :: "candle \<Rightarrow> bool" where
  "candle_ok c =
     (0 < c_low c \<and> c_low c \<le> c_open c \<and> c_low c \<le> c_close c \<and> c_open c \<le> c_high c
      \<and> c_close c \<le> c_high c \<and> map_of TIMEFRAME_MINUTES (c_timeframe c) \<noteq> None)"

lemma from_mapping_ok: "from_mapping row = Inr c \<Longrightarrow> candle_ok c"
  by (auto simp: from_mapping_def candle_ok_def Let_def split: if_splits)

lemma to_candles_ok: "to_candles rows = Inr cs \<Longrightarrow> list_all candle_ok cs"
  by (induction rows arbitrary: cs) (auto intro: from_mapping_ok)

lemma candle_ok_geometry:
  "candle_ok c \<Longrightarrow> 0 \<le> body c \<and> body c \<le> candle_range c \<and> c_low c \<le> midpoint c \<and> midpoint c \<le> c_high c"
  by (auto simp: candle_ok_def body_def candle_range_def midpoint_def abs_if)

lemma timeframe_minutes_pos: "map_of TIMEFRAME_MINUTES tf = Some m \<Longrightarrow> 5 \<le> m"
  by (auto simp: TIMEFRAME_MINUTES_def split: if_splits)

subsection \<open>Series validation\<close>

record validation_report =
  vr_timeframe :: string
  vr_accepted :: nat
  vr_dropped_forming :: nat
  vr_dropped_duplicate :: nat
  vr_dropped_invalid :: nat
  vr_gaps :: nat
  vr_newest_close :: micros
  vr_age_minutes :: real

datatype series_error =
    SeriesTimeframeUnsupported | TooFewCandles nat | TooManyGaps nat | StaleSeries | EmptySeries

definition is_weekend_gap :: "micros \<Rightarrow> micros \<Rightarrow> bool" where
  "is_weekend_gap previous_close next_open =
     (if next_open - previous_close < 6 * usec_per_hour then False
      else weekday_of previous_close \<ge> 4 \<and> weekday_of next_open \<le> 6)"

text \<open>The cleaning loop over the sorted series: the kept candles and the three counters
  (forming, duplicate, invalid).\<close>

fun clean_series ::
  "string \<Rightarrow> micros \<Rightarrow> candle list \<Rightarrow> micros list \<Rightarrow> candle list \<times> nat \<times> nat \<times> nat" where
  "clean_series tf reference [] seen = ([], 0, 0, 0)"
| "clean_series tf reference (c # cs) seen =
     (if c_timeframe c \<noteq> tf then
        (let (k, f, d, i) = clean_series tf reference cs seen in (k, f, d, i + 1))
      else if c_timestamp c \<in> set seen then
        (let (k, f, d, i) = clean_series tf reference cs seen in (k, f, d + 1, i))
      else if close_time c > reference then
        (let (k, f, d, i) = clean_series tf reference cs seen in (k, f + 1, d, i))
      else if c_timestamp c > reference then
        (let (k, f, d, i) = clean_series tf reference cs seen in (k, f, d, i + 1))
      else if candle_range c < 0 \<or> min (min (c_open c) (c_high c)) (min (c_low c) (c_close c)) \<le> 0 then
        (let (k, f, d, i) = clean_series tf reference cs seen in (k, f, d, i + 1))
      else
        (let (k, f, d, i) = clean_series tf reference cs (c_timestamp c # seen) in (c # k, f, d, i)))"

fun count_gaps :: "int \<Rightarrow> candle list \<Rightarrow> nat" where
  "count_gaps expected (p # q # cs) =
     (if 2 * (c_timestamp q - c_timestamp p) > 3 * expected
         \<and> \<not> is_weekend_gap (close_time p) (c_timestamp q) then 1 else 0)
     + count_gaps expected (q # cs)"
| "count_gaps expected _ = 0"

definition validate_series ::
  "candle list \<Rightarrow> string \<Rightarrow> nat \<Rightarrow> micros \<Rightarrow> real \<Rightarrow> real
     \<Rightarrow> series_error + (candle list \<times> validation_report)" where
  "validate_series candles timeframe min_candles reference max_age_multiple max_gap_ratio =
     (let tf = upper timeframe in
      case map_of TIMEFRAME_MINUTES tf of
        None \<Rightarrow> Inl SeriesTimeframeUnsupported
      | Some minutes \<Rightarrow>
          (let (cleaned, forming, duplicate, invalid) =
             clean_series tf reference (sort_key c_timestamp candles) []
           in if length cleaned < min_candles then Inl (TooFewCandles (length cleaned))
              else
                (let gaps = count_gaps (minutes * usec_per_min) cleaned in
                 if int gaps > max 1 (py_int (real (length cleaned) * max_gap_ratio))
                 then Inl (TooManyGaps gaps)
                 else if cleaned = [] then Inl EmptySeries
                 else
                   (let newest = close_time (last cleaned);
                        age = total_seconds (reference - newest) / 60
                    in if age > of_int minutes * max_age_multiple then Inl StaleSeries
                       else Inr (cleaned, \<lparr> vr_timeframe = tf, vr_accepted = length cleaned,
                              vr_dropped_forming = forming, vr_dropped_duplicate = duplicate,
                              vr_dropped_invalid = invalid, vr_gaps = gaps,
                              vr_newest_close = newest, vr_age_minutes = age \<rparr>)))))"

text \<open>What every candle that survives the loop satisfies.\<close>

definition usable_at :: "string \<Rightarrow> micros \<Rightarrow> candle \<Rightarrow> bool" where
  "usable_at tf reference c =
     (c_timeframe c = tf \<and> close_time c \<le> reference \<and> c_timestamp c \<le> reference
      \<and> 0 \<le> candle_range c \<and> 0 < c_open c \<and> 0 < c_high c \<and> 0 < c_low c \<and> 0 < c_close c)"

lemma clean_Cons:
  "fst (clean_series tf reference (c # cs) seen) =
     (if usable_at tf reference c \<and> c_timestamp c \<notin> set seen
      then c # fst (clean_series tf reference cs (c_timestamp c # seen))
      else fst (clean_series tf reference cs seen))"
  by (auto simp: usable_at_def Let_def not_le not_less split: prod.splits)

lemma clean_Nil: "fst (clean_series tf reference [] seen) = []"
  by simp

lemma clean_usable: "list_all (usable_at tf reference) (fst (clean_series tf reference cs seen))"
  by (induction cs arbitrary: seen) (simp_all add: clean_Cons del: clean_series.simps(2))

lemma clean_subseq: "subseq (fst (clean_series tf reference cs seen)) cs"
  by (induction cs arbitrary: seen)
    (auto simp: clean_Cons simp del: clean_series.simps(2) intro: list_emb_Cons)

lemma clean_set: "c \<in> set (fst (clean_series tf reference cs seen)) \<Longrightarrow> c \<in> set cs"
  by (induction cs arbitrary: seen)
    (auto simp: clean_Cons simp del: clean_series.simps(2) split: if_splits)

lemma clean_not_seen:
  "c \<in> set (fst (clean_series tf reference cs seen)) \<Longrightarrow> c_timestamp c \<notin> set seen"
proof (induction cs arbitrary: seen)
  case Nil
  then show ?case by simp
next
  case (Cons x cs)
  from Cons.prems consider "c = x" "c_timestamp x \<notin> set seen"
    | "c \<in> set (fst (clean_series tf reference cs (c_timestamp x # seen)))"
    | "c \<in> set (fst (clean_series tf reference cs seen))"
    unfolding clean_Cons by (auto split: if_splits)
  then show ?case
    using Cons.IH [of "c_timestamp x # seen"] Cons.IH [of seen] by cases auto
qed

lemma clean_distinct: "distinct (map c_timestamp (fst (clean_series tf reference cs seen)))"
proof (induction cs arbitrary: seen)
  case Nil
  show ?case by simp
next
  case (Cons c cs)
  have "c_timestamp c \<notin> c_timestamp ` set (fst (clean_series tf reference cs (c_timestamp c # seen)))"
    by (metis (mono_tags, lifting) clean_not_seen imageE list.set_intros(1))
  with Cons show ?case by (simp add: clean_Cons del: clean_series.simps(2))
qed

lemma clean_counts_sum:
  "length (fst (clean_series tf reference cs seen)) + fst (snd (clean_series tf reference cs seen))
     + fst (snd (snd (clean_series tf reference cs seen)))
     + snd (snd (snd (clean_series tf reference cs seen))) = length cs"
proof (induction cs arbitrary: seen)
  case Nil
  show ?case by simp
next
  case (Cons c cs)
  obtain k f d i where r: "clean_series tf reference cs seen = (k, f, d, i)"
    by (metis prod_cases4)
  obtain k' f' d' i' where r': "clean_series tf reference cs (c_timestamp c # seen) = (k', f', d', i')"
    by (metis prod_cases4)
  from Cons [of seen] Cons [of "c_timestamp c # seen"] r r' show ?case by simp
qed

lemma subseq_sorted: "subseq xs ys \<Longrightarrow> sorted ys \<Longrightarrow> sorted (xs :: 'a :: linorder list)"
  by (induction rule: list_emb.induct) (auto dest: list_emb_set)

lemma clean_strictly_increasing:
  "sorted_wrt (<) (map c_timestamp (fst (clean_series tf reference (sort_key c_timestamp cs) [])))"
proof -
  let ?k = "fst (clean_series tf reference (sort_key c_timestamp cs) [])"
  have "subseq (map c_timestamp ?k) (map c_timestamp (sort_key c_timestamp cs))"
    by (rule subseq_map) (rule clean_subseq)
  then have "sorted (map c_timestamp ?k)"
    by (rule subseq_sorted) simp
  with clean_distinct show ?thesis by (simp add: strict_sorted_iff)
qed

subsection \<open>The spread gate\<close>

datatype spread_refusal = NegativeSpread | SpreadTooWideForAtr | SpreadTooWideForStop | SpreadTooWideForTarget

definition validate_spread ::
  "real \<Rightarrow> real \<Rightarrow> real \<Rightarrow> real \<Rightarrow> real \<Rightarrow> real \<Rightarrow> spread_refusal option" where
  "validate_spread sp atr stop_distance take_profit_distance max_spread_atr_fraction max_spread_tp_fraction =
     (if sp < 0 then Some NegativeSpread
      else if atr > 0 \<and> sp > atr * max_spread_atr_fraction then Some SpreadTooWideForAtr
      else if stop_distance > 0 \<and> sp > stop_distance * (1 / 4) then Some SpreadTooWideForStop
      else if take_profit_distance > 0 \<and> sp > take_profit_distance * max_spread_tp_fraction
        then Some SpreadTooWideForTarget
      else None)"

lemma validate_spread_None:
  "validate_spread sp atr sd td fa ft = None \<longleftrightarrow>
     0 \<le> sp \<and> (0 < atr \<longrightarrow> sp \<le> atr * fa) \<and> (0 < sd \<longrightarrow> sp \<le> sd * (1 / 4)) \<and> (0 < td \<longrightarrow> sp \<le> td * ft)"
  by (auto simp: validate_spread_def)

subsection \<open>The last-known-good read model\<close>

record 'v cached_read =
  cr_value :: "'v option"
  cr_at :: "micros option"
  cr_error :: "string option"

definition empty_read :: "'v cached_read" where
  "empty_read = \<lparr> cr_value = None, cr_at = None, cr_error = None \<rparr>"

definition read_present :: "'v cached_read \<Rightarrow> bool" where
  "read_present r = (cr_value r \<noteq> None \<and> cr_at r \<noteq> None)"

definition age_seconds :: "'v cached_read \<Rightarrow> micros \<Rightarrow> real option" where
  "age_seconds r now = map_option (\<lambda>seen. max 0 (total_seconds (now - seen))) (cr_at r)"

type_synonym 'v live_cache = "string \<Rightarrow> 'v cached_read option"

definition cache_get :: "'v live_cache \<Rightarrow> string \<Rightarrow> 'v cached_read" where
  "cache_get m key = (case m key of None \<Rightarrow> empty_read | Some r \<Rightarrow> r)"

definition cache_put :: "'v live_cache \<Rightarrow> string \<Rightarrow> 'v option \<Rightarrow> micros \<Rightarrow> 'v live_cache" where
  "cache_put m key v now = m(key \<mapsto> \<lparr> cr_value = v, cr_at = Some now, cr_error = None \<rparr>)"

definition cache_fail :: "'v live_cache \<Rightarrow> string \<Rightarrow> string \<Rightarrow> 'v live_cache" where
  "cache_fail m key err =
     (let previous = cache_get m key in
      m(key \<mapsto> \<lparr> cr_value = cr_value previous, cr_at = cr_at previous, cr_error = Some err \<rparr>))"

datatype 'v cache_event = Put string "'v option" micros | Fail string string

fun cache_run :: "'v live_cache \<Rightarrow> 'v cache_event list \<Rightarrow> 'v live_cache" where
  "cache_run m [] = m"
| "cache_run m (Put k v t # es) = cache_run (cache_put m k v t) es"
| "cache_run m (Fail k e # es) = cache_run (cache_fail m k e) es"

fun last_put :: "string \<Rightarrow> 'v cache_event list \<Rightarrow> ('v option \<times> micros) option" where
  "last_put k [] = None"
| "last_put k (Put k' v t # es) =
     (case last_put k es of Some r \<Rightarrow> Some r | None \<Rightarrow> if k' = k then Some (v, t) else None)"
| "last_put k (Fail k' e # es) = last_put k es"

lemma cache_get_put [simp]:
  "cache_get (cache_put m k v t) k' =
     (if k' = k then \<lparr> cr_value = v, cr_at = Some t, cr_error = None \<rparr> else cache_get m k')"
  by (simp add: cache_get_def cache_put_def)

lemma cache_get_fail [simp]:
  "cache_get (cache_fail m k e) k' =
     (if k' = k then (cache_get m k)\<lparr> cr_error := Some e \<rparr> else cache_get m k')"
  by (simp add: cache_get_def cache_fail_def Let_def empty_read_def split: option.split)

lemma cache_run_last_put:
  "(cr_value (cache_get (cache_run m es) k), cr_at (cache_get (cache_run m es) k)) =
     (case last_put k es of
        Some (v, t) \<Rightarrow> (v, Some t)
      | None \<Rightarrow> (cr_value (cache_get m k), cr_at (cache_get m k)))"
proof (induction es arbitrary: m)
  case Nil
  show ?case by simp
next
  case (Cons e es)
  then show ?case by (cases e) (simp_all split: option.split)
qed

subsection \<open>Properties\<close>

lemma validate_series_InrD:
  assumes "validate_series cs tf n ref age gap = Inr (kept, r)"
  obtains minutes where "map_of TIMEFRAME_MINUTES (upper tf) = Some minutes"
    "kept = fst (clean_series (upper tf) ref (sort_key c_timestamp cs) [])"
    "n \<le> length kept" "kept \<noteq> []"
    "int (vr_gaps r) \<le> max 1 (py_int (real (length kept) * gap))"
    "vr_accepted r = length kept"
    "vr_dropped_forming r = fst (snd (clean_series (upper tf) ref (sort_key c_timestamp cs) []))"
    "vr_dropped_duplicate r = fst (snd (snd (clean_series (upper tf) ref (sort_key c_timestamp cs) [])))"
    "vr_dropped_invalid r = snd (snd (snd (clean_series (upper tf) ref (sort_key c_timestamp cs) [])))"
    "vr_newest_close r = close_time (last kept)"
    "vr_age_minutes r = total_seconds (ref - vr_newest_close r) / 60"
    "vr_age_minutes r \<le> of_int minutes * age"
proof -
  obtain k f d i where c: "clean_series (upper tf) ref (sort_key c_timestamp cs) [] = (k, f, d, i)"
    by (metis prod_cases4)
  show thesis
    by (rule that [of "the (map_of TIMEFRAME_MINUTES (upper tf))"])
      (use assms c in \<open>auto simp: validate_series_def Let_def split: option.splits if_splits\<close>)
qed

text \<open>C18. A series that passes validation before analysis is a strictly increasing run of closed
  candles of the requested timeframe, taken from the input; every input candle is either
  accepted or counted under exactly one of the three drop reasons; there are at least the
  required number of candles, and the newest close is no older than the permitted multiple of
  the timeframe.\<close>

theorem validated_series:
  assumes "validate_series cs tf n ref age gap = Inr (kept, r)"
  shows "sorted_wrt (<) (map c_timestamp kept) \<and> list_all (usable_at (upper tf) ref) kept
    \<and> set kept \<subseteq> set cs \<and> n \<le> length kept
    \<and> length kept + vr_dropped_forming r + vr_dropped_duplicate r + vr_dropped_invalid r = length cs
    \<and> 0 \<le> vr_age_minutes r
    \<and> (\<exists>minutes. map_of TIMEFRAME_MINUTES (upper tf) = Some minutes \<and> vr_age_minutes r \<le> of_int minutes * age)"
proof -
  let ?c = "clean_series (upper tf) ref (sort_key c_timestamp cs) []"
  from assms obtain minutes where v: "map_of TIMEFRAME_MINUTES (upper tf) = Some minutes"
    "kept = fst ?c" "n \<le> length kept" "kept \<noteq> []"
    "vr_dropped_forming r = fst (snd ?c)" "vr_dropped_duplicate r = fst (snd (snd ?c))"
    "vr_dropped_invalid r = snd (snd (snd ?c))" "vr_newest_close r = close_time (last kept)"
    "vr_age_minutes r = total_seconds (ref - vr_newest_close r) / 60"
    "vr_age_minutes r \<le> of_int minutes * age"
    by (rule validate_series_InrD)
  have usable: "list_all (usable_at (upper tf) ref) kept"
    unfolding v(2) by (rule clean_usable)
  with v(4) have "close_time (last kept) \<le> ref"
    by (simp add: list_all_iff usable_at_def)
  then have "0 \<le> vr_age_minutes r"
    unfolding v(8,9) by (simp add: total_seconds_def)
  moreover have "set kept \<subseteq> set cs"
    unfolding v(2) using clean_set [of _ "upper tf" ref "sort_key c_timestamp cs" "[]"] by auto
  moreover have "length kept + vr_dropped_forming r + vr_dropped_duplicate r + vr_dropped_invalid r = length cs"
    unfolding v using clean_counts_sum [of "upper tf" ref "sort_key c_timestamp cs" "[]"] by simp
  ultimately show ?thesis
    using usable v(1,3,10) clean_strictly_increasing [of "upper tf" ref cs, folded v(2)] by simp
qed

definition sample_candles :: "candle list" where
  "sample_candles = map (\<lambda>t. \<lparr> c_timestamp = t, c_open = 2, c_high = 3, c_low = 1, c_close = 2,
     c_volume = 0, c_timeframe = ''M5'' \<rparr>) [300000000, 0, 600000000, 300000000]"

theorem validated_series_witness:
  "\<exists>kept r. validate_series sample_candles ''M5'' 2 600000000 3 (1 / 10) = Inr (kept, r)
     \<and> map c_timestamp kept = [0, 300000000] \<and> vr_dropped_forming r = 1 \<and> vr_dropped_duplicate r = 1
     \<and> sorted_wrt (<) (map c_timestamp kept)"
proof -
  let ?c = "\<lambda>t. \<lparr> c_timestamp = t, c_open = 2, c_high = 3, c_low = 1, c_close = 2, c_volume = 0, c_timeframe = ''M5'' \<rparr>"
  have tf: "upper ''M5'' = ''M5''" by code_simp
  have "sort_key c_timestamp sample_candles = [?c 0, ?c 300000000, ?c 300000000, ?c 600000000]"
    by (simp add: sample_candles_def sort_key_def)
  then have cleaned: "clean_series ''M5'' 600000000 (sort_key c_timestamp sample_candles) []
      = ([?c 0, ?c 300000000], 1, 1, 0)"
    by (simp add: close_time_def candle_minutes_def candle_range_def usec_per_min_def TIMEFRAME_MINUTES_def)
  obtain kept r where v: "validate_series sample_candles ''M5'' 2 600000000 3 (1 / 10) = Inr (kept, r)"
      "map c_timestamp kept = [0, 300000000]" "vr_dropped_forming r = 1" "vr_dropped_duplicate r = 1"
    by (simp add: validate_series_def tf cleaned TIMEFRAME_MINUTES_def close_time_def candle_minutes_def
        usec_per_min_def total_seconds_def is_weekend_gap_def Let_def)
  from validated_series [OF v(1)] have "sorted_wrt (<) (map c_timestamp kept)" by simp
  with v show ?thesis by (intro exI [of _ kept] exI [of _ r]) simp
qed

text \<open>The last-known-good read model: whatever the sequence of successful and failed reads,
  a key serves the value and the time of its most recent successful read, and failures never
  erase it.\<close>

theorem last_known_good:
  fixes es :: "'v cache_event list"
  shows "(cr_value (cache_get (cache_run Map.empty es) k), cr_at (cache_get (cache_run Map.empty es) k)) =
     (case last_put k es of Some (v, t) \<Rightarrow> (v, Some t) | None \<Rightarrow> (None, None))"
proof -
  have empty: "cache_get Map.empty k = (empty_read :: 'v cached_read)"
    by (simp add: cache_get_def)
  show ?thesis unfolding cache_run_last_put empty by (simp add: empty_read_def split: option.split)
qed

end
