(* ===== verification/Sessions.thy ===== *)
theory Sessions
  imports Config Market_Data
begin

text \<open>
  Trading sessions and the time-based entry blackouts, \<open>bot/smc/sessions.py\<close>. A missing
  session configuration means \<^term>\<open>default_session_config\<close>. A blackout answers \<open>None\<close> for the
  code's \<open>(False, None)\<close> and \<open>Some reason\<close> for \<open>(True, message)\<close>.
\<close>

definition SESSION_QUALITY :: "(string \<times> real) list" where
  "SESSION_QUALITY = [(''OVERLAP'', 1), (''LONDON'', 9 / 10), (''NEW_YORK'', 85 / 100),
     (''ASIAN'', 1 / 2), (''OFF_HOURS'', 2 / 10)]"

record session_state =
  ss_name :: string
  ss_quality :: real
  ss_tradeable :: bool
  ss_hour_utc :: int
  ss_weekend :: bool

definition is_forex_weekend :: "micros \<Rightarrow> bool" where
  "is_forex_weekend moment =
     (let weekday = weekday_of moment; hour = hour_of moment in
      if weekday = 4 \<and> hour \<ge> 21 then True
      else if weekday = 5 then True
      else if weekday = 6 \<and> hour < 22 then True
      else False)"

definition classify_session :: "micros \<Rightarrow> session_config \<Rightarrow> session_state" where
  "classify_session moment config =
     (let hour = hour_of moment in
      if is_forex_weekend moment then
        \<lparr> ss_name = ''WEEKEND'', ss_quality = 0, ss_tradeable = False, ss_hour_utc = hour, ss_weekend = True \<rparr>
      else
        (let in_london = fst (sc_london config) \<le> hour \<and> hour < snd (sc_london config);
             in_ny = fst (sc_new_york config) \<le> hour \<and> hour < snd (sc_new_york config);
             in_asian = fst (sc_asian config) \<le> hour \<and> hour < snd (sc_asian config);
             name = (if in_london \<and> in_ny then ''OVERLAP''
                     else if in_london then ''LONDON''
                     else if in_ny then ''NEW_YORK''
                     else if in_asian then ''ASIAN''
                     else ''OFF_HOURS'')
         in \<lparr> ss_name = name,
              ss_quality = (case map_of SESSION_QUALITY name of None \<Rightarrow> 0 | Some q \<Rightarrow> q),
              ss_tradeable = name \<in> set (sc_tradeable_sessions config) \<or> \<not> sc_block_low_liquidity config,
              ss_hour_utc = hour, ss_weekend = False \<rparr>))"

datatype session_name = ASIAN | LONDON | NEW_YORK

definition session_bounds :: "session_config \<Rightarrow> session_name \<Rightarrow> int \<times> int" where
  "session_bounds config name = (case name of
     ASIAN \<Rightarrow> sc_asian config | LONDON \<Rightarrow> sc_london config | NEW_YORK \<Rightarrow> sc_new_york config)"

definition session_window :: "micros \<Rightarrow> session_name \<Rightarrow> session_config \<Rightarrow> micros \<times> micros" where
  "session_window moment name config =
     (let bounds = session_bounds config name in
      (at_hour moment (fst bounds), at_hour moment 0 + snd bounds * usec_per_hour))"

text \<open>High and low of the candles of one window.\<close>

definition extremes :: "candle list \<Rightarrow> real \<times> real" where
  "extremes cs = (Max (set (map c_high cs)), Min (set (map c_low cs)))"

definition session_members :: "candle list \<Rightarrow> micros \<Rightarrow> session_name \<Rightarrow> session_config \<Rightarrow> candle list" where
  "session_members candles moment name config =
     (let (start, stop) = session_window moment name config in
      filter (\<lambda>c. start \<le> c_timestamp c \<and> c_timestamp c < min stop moment) candles)"

datatype level_name = PreviousDay | SessionLevel session_name

definition session_extremes ::
  "candle list \<Rightarrow> micros \<Rightarrow> session_config \<Rightarrow> (level_name \<times> real \<times> real) list" where
  "session_extremes candles moment config =
     (let previous_day = filter (\<lambda>c. day_number (c_timestamp c) = day_number moment - 1) candles in
      (if previous_day \<noteq> [] then [(PreviousDay, extremes previous_day)] else [])
      @ List.map_filter
          (\<lambda>name. let members = session_members candles moment name config in
             if 2 \<le> length members then Some (SessionLevel name, extremes members) else None)
          [ASIAN, LONDON, NEW_YORK])"

text \<open>\<open>(minutes from the nearest rollover, before)\<close> when blocked.\<close>

definition nearest_rollover_delta :: "micros \<Rightarrow> int \<Rightarrow> real" where
  "nearest_rollover_delta moment hour =
     (let rollover = at_hour moment hour;
          delta = (\<lambda>shift. total_seconds (moment - (rollover + shift * usec_per_day)) / 60);
          closer = (\<lambda>best d. if \<bar>d\<bar> < \<bar>best\<bar> then d else best)
      in closer (closer (delta (- 1)) (delta 0)) (delta 1))"

definition in_rollover_blackout :: "micros \<Rightarrow> session_config \<Rightarrow> (real \<times> bool) option" where
  "in_rollover_blackout moment config =
     (case sc_rollover_utc_hour config of
        None \<Rightarrow> None
      | Some hour \<Rightarrow>
          (let before = sc_rollover_blackout_before_minutes config;
               after = sc_rollover_blackout_after_minutes config
           in if before \<le> 0 \<and> after \<le> 0 then None
              else
                (let best = nearest_rollover_delta moment hour in
                 if - of_int before \<le> best \<and> best \<le> of_int after then Some (\<bar>best\<bar>, best < 0) else None)))"

text \<open>Hours left to the Friday close when blocked.\<close>

definition in_weekend_entry_blackout :: "micros \<Rightarrow> session_config \<Rightarrow> real option" where
  "in_weekend_entry_blackout moment config =
     (let hours = sc_weekend_entry_blackout_hours config in
      if hours \<le> 0 then None
      else if weekday_of moment \<noteq> 4 then None
      else
        (let remaining = total_seconds (at_hour moment 21 - moment) / 3600 in
         if 0 < remaining \<and> remaining \<le> of_int hours then Some remaining else None))"

subsection \<open>The week\<close>

text \<open>Microseconds since Monday 00:00 UTC.\<close>

definition time_of_week :: "micros \<Rightarrow> int" where
  "time_of_week t = (t + 3 * usec_per_day) mod (7 * usec_per_day)"

lemma time_of_week_split: "time_of_week t = weekday_of t * usec_per_day + time_of_day t"
proof -
  have "t + 3 * usec_per_day = (day_number t + 3) * usec_per_day + time_of_day t"
    using day_split [of t] by (simp add: algebra_simps)
  then have "time_of_week t = ((day_number t + 3) * usec_per_day + time_of_day t) mod (usec_per_day * 7)"
    by (simp add: time_of_week_def mult.commute)
  also have "\<dots> = usec_per_day * (((day_number t + 3) * usec_per_day + time_of_day t) div usec_per_day mod 7)
      + ((day_number t + 3) * usec_per_day + time_of_day t) mod usec_per_day"
    by (rule zmod_zmult2_eq) (simp add: usec_defs)
  also have "((day_number t + 3) * usec_per_day + time_of_day t) div usec_per_day = day_number t + 3"
    using time_of_day_bounds [of t] by (simp add: usec_defs)
  also have "((day_number t + 3) * usec_per_day + time_of_day t) mod usec_per_day = time_of_day t"
    using time_of_day_bounds [of t] by (simp only: mod_mult_self3 mod_pos_pos_trivial)
  finally show ?thesis by (simp add: weekday_of_def mult.commute)
qed

lemma hour_of_ge: "h \<le> hour_of t \<longleftrightarrow> h * usec_per_hour \<le> time_of_day t"
  unfolding hour_of_def usec_per_hour_def by linarith

lemma nearest_rollover_delta_alt:
  "nearest_rollover_delta moment hour =
     (let d = of_int (time_of_day moment - hour * usec_per_hour) / 60000000;
          closer = (\<lambda>best d. if \<bar>d\<bar> < \<bar>best\<bar> then d else best)
      in closer (closer (d + 1440) d) (d - 1440))"
proof -
  have delta: "total_seconds (moment - (at_hour moment hour + s * usec_per_day)) / 60
      = of_int (time_of_day moment - hour * usec_per_hour) / 60000000 - 1440 * of_int s" for s
  proof -
    have "moment - (at_hour moment hour + s * usec_per_day)
        = time_of_day moment - hour * usec_per_hour - s * usec_per_day"
      using at_hour_diff [of moment hour] by simp
    then show ?thesis by (simp add: total_seconds_def usec_defs field_simps)
  qed
  show ?thesis unfolding nearest_rollover_delta_def Let_def delta by simp
qed

text \<open>The signed distance to the nearest rollover, from the time elapsed since the last one.\<close>

definition since_rollover :: "micros \<Rightarrow> int \<Rightarrow> int" where
  "since_rollover moment hour = (time_of_day moment - hour * usec_per_hour) mod usec_per_day"

lemma since_rollover_cases:
  assumes "0 \<le> hour" "hour < 24"
  obtains (today) "since_rollover moment hour = time_of_day moment - hour * usec_per_hour"
      "0 \<le> time_of_day moment - hour * usec_per_hour"
    | (yesterday) "since_rollover moment hour = time_of_day moment - hour * usec_per_hour + usec_per_day"
      "time_of_day moment - hour * usec_per_hour < 0"
proof -
  have b: "0 \<le> time_of_day moment" "time_of_day moment < usec_per_day"
    using time_of_day_bounds by auto
  show thesis
  proof (cases "0 \<le> time_of_day moment - hour * usec_per_hour")
    case True
    with b assms show thesis by (intro today) (simp_all add: since_rollover_def usec_defs)
  next
    case False
    then have "(time_of_day moment - hour * usec_per_hour) mod usec_per_day
        = (time_of_day moment - hour * usec_per_hour + usec_per_day) mod usec_per_day"
      by simp
    also have "\<dots> = time_of_day moment - hour * usec_per_hour + usec_per_day"
      using b False assms by (intro mod_pos_pos_trivial) (simp_all add: usec_defs)
    finally show thesis using False by (intro yesterday) (simp_all add: since_rollover_def)
  qed
qed

lemma nearest_rollover_since:
  assumes "0 \<le> hour" "hour < 24"
  shows "2 * since_rollover moment hour < usec_per_day \<Longrightarrow>
      nearest_rollover_delta moment hour = of_int (since_rollover moment hour) / 60000000"
    and "2 * since_rollover moment hour > usec_per_day \<Longrightarrow>
      nearest_rollover_delta moment hour = of_int (since_rollover moment hour) / 60000000 - 1440"
    and "2 * since_rollover moment hour = usec_per_day \<Longrightarrow> \<bar>nearest_rollover_delta moment hour\<bar> = 720"
proof -
  define d where "d = time_of_day moment - hour * usec_per_hour"
  have "d < usec_per_day" "- usec_per_day < d"
    using time_of_day_bounds [of moment] assms by (simp_all add: d_def usec_defs)
  then have b: "real_of_int d < 86400000000" "- 86400000000 < real_of_int d"
    by (simp_all add: usec_defs)
  have "since_rollover moment hour = d \<and> 0 \<le> d \<or> since_rollover moment hour = d + usec_per_day \<and> d < 0"
    by (cases rule: since_rollover_cases [OF assms, of moment]) (auto simp: d_def)
  then have r: "real_of_int (since_rollover moment hour) = d \<and> 0 \<le> real_of_int d
      \<or> real_of_int (since_rollover moment hour) = d + 86400000000 \<and> real_of_int d < 0"
    by (auto simp: usec_defs)
  have delta: "nearest_rollover_delta moment hour =
     (let d = real_of_int d / 60000000;
          closer = (\<lambda>best d. if \<bar>d\<bar> < \<bar>best\<bar> then d else best)
      in closer (closer (d + 1440) d) (d - 1440))"
    by (simp only: nearest_rollover_delta_alt d_def)
  show "nearest_rollover_delta moment hour = of_int (since_rollover moment hour) / 60000000"
    if "2 * since_rollover moment hour < usec_per_day"
  proof -
    from that have "2 * real_of_int (since_rollover moment hour) < 86400000000" by (simp add: usec_defs)
    with r b show ?thesis unfolding delta Let_def by (auto simp: abs_if field_simps)
  qed
  show "nearest_rollover_delta moment hour = of_int (since_rollover moment hour) / 60000000 - 1440"
    if "2 * since_rollover moment hour > usec_per_day"
  proof -
    from that have "2 * real_of_int (since_rollover moment hour) > 86400000000" by (simp add: usec_defs)
    with r b show ?thesis unfolding delta Let_def by (auto simp: abs_if field_simps)
  qed
  show "\<bar>nearest_rollover_delta moment hour\<bar> = 720"
    if "2 * since_rollover moment hour = usec_per_day"
  proof -
    from that have "2 * real_of_int (since_rollover moment hour) = 86400000000" by (simp add: usec_defs)
    with r b show ?thesis unfolding delta Let_def by (auto simp: abs_if field_simps)
  qed
qed

lemma window_iff:
  assumes best: "best = nearest_rollover_delta moment hour" and "0 \<le> hour" "hour < 24"
    and "0 \<le> b" "b < 720" "0 \<le> a" "a < 720"
  shows "(- of_int b \<le> best \<and> best \<le> of_int a) \<longleftrightarrow>
    since_rollover moment hour \<le> a * usec_per_min
    \<or> usec_per_day - since_rollover moment hour \<le> b * usec_per_min"
proof -
  define s where "s = since_rollover moment hour"
  have s: "0 \<le> s" "s < 86400000000" by (simp_all add: s_def since_rollover_def usec_defs)
  have le: "s \<le> a * 60000000 \<longleftrightarrow> real_of_int s / 60000000 \<le> of_int a"
    by (simp add: field_simps flip: of_int_le_iff [where 'a = real])
  have ge: "86400000000 - s \<le> b * 60000000 \<longleftrightarrow> - real_of_int b \<le> of_int s / 60000000 - 1440"
    by (simp add: field_simps flip: of_int_le_iff [where 'a = real])
  have ab: "0 \<le> real_of_int b" "real_of_int b < 720" "0 \<le> real_of_int a" "real_of_int a < 720"
    using assms by simp_all
  have r: "0 \<le> real_of_int s" "real_of_int s < 86400000000" using s by simp_all
  consider "2 * s < 86400000000" | "2 * s > 86400000000" | "2 * s = 86400000000" by linarith
  then show ?thesis
    unfolding usec_defs s_def [symmetric]
  proof cases
    case 1
    then have "best = of_int s / 60000000"
      unfolding best s_def by (intro nearest_rollover_since(1) assms) (simp add: usec_defs)
    moreover have "\<not> 86400000000 - s \<le> b * 60000000" using 1 assms by linarith
    ultimately show "- of_int b \<le> best \<and> best \<le> of_int a
        \<longleftrightarrow> s \<le> a * 60000000 \<or> 86400000000 - s \<le> b * 60000000"
      using le ab r by auto
  next
    case 2
    then have "best = of_int s / 60000000 - 1440"
      unfolding best s_def by (intro nearest_rollover_since(2) assms) (simp add: usec_defs)
    moreover have "\<not> s \<le> a * 60000000" using 2 assms by linarith
    ultimately show "- of_int b \<le> best \<and> best \<le> of_int a
        \<longleftrightarrow> s \<le> a * 60000000 \<or> 86400000000 - s \<le> b * 60000000"
      using ge ab r by auto
  next
    case 3
    then have "\<bar>best\<bar> = 720"
      unfolding best s_def by (intro nearest_rollover_since(3) assms) (simp add: usec_defs)
    moreover have "\<not> 86400000000 - s \<le> b * 60000000" "\<not> s \<le> a * 60000000" using 3 assms by linarith+
    ultimately show "- of_int b \<le> best \<and> best \<le> of_int a
        \<longleftrightarrow> s \<le> a * 60000000 \<or> 86400000000 - s \<le> b * 60000000"
      using ab by linarith
  qed
qed

subsection \<open>Properties\<close>

text \<open>The forex weekend is exactly the 49 hours from Friday 21:00 to Sunday 22:00 UTC, and a
  session classified in it is never tradeable.\<close>

theorem forex_weekend_window:
  "(is_forex_weekend t \<longleftrightarrow> 117 * usec_per_hour \<le> time_of_week t \<and> time_of_week t < 166 * usec_per_hour)
   \<and> ss_weekend (classify_session t config) = is_forex_weekend t
   \<and> (if is_forex_weekend t then \<not> ss_tradeable (classify_session t config) else True)"
proof -
  have w: "0 \<le> weekday_of t" "weekday_of t < 7" by (simp_all add: weekday_of_def)
  have b: "0 \<le> time_of_day t" "time_of_day t < usec_per_day" using time_of_day_bounds by auto
  have h: "hour_of t < 22 \<longleftrightarrow> time_of_day t < 22 * usec_per_hour"
    using hour_of_ge [of 22 t] by linarith
  have "is_forex_weekend t \<longleftrightarrow>
      117 * usec_per_hour \<le> time_of_week t \<and> time_of_week t < 166 * usec_per_hour"
    unfolding is_forex_weekend_def Let_def time_of_week_split h hour_of_ge
    using w b by (auto simp: usec_defs)
  then show ?thesis by (simp add: classify_session_def Let_def)
qed

text \<open>The rollover blackout covers exactly the configured minutes before and after the daily
  rollover, across midnight too: a moment is blocked when the time since the last rollover is
  within the window after it, or the time to the next one within the window before it.\<close>

theorem rollover_blackout_window:
  assumes "sc_rollover_utc_hour config = Some hour" and "0 \<le> hour" and "hour < 24"
    and "0 \<le> sc_rollover_blackout_before_minutes config" and "sc_rollover_blackout_before_minutes config < 720"
    and "0 \<le> sc_rollover_blackout_after_minutes config" and "sc_rollover_blackout_after_minutes config < 720"
    and "0 < sc_rollover_blackout_before_minutes config + sc_rollover_blackout_after_minutes config"
  shows "in_rollover_blackout moment config \<noteq> None \<longleftrightarrow>
    since_rollover moment hour \<le> sc_rollover_blackout_after_minutes config * usec_per_min
    \<or> usec_per_day - since_rollover moment hour \<le> sc_rollover_blackout_before_minutes config * usec_per_min"
proof -
  let ?s = "since_rollover moment hour"
  define b where "b = sc_rollover_blackout_before_minutes config"
  define a where "a = sc_rollover_blackout_after_minutes config"
  define best where "best = nearest_rollover_delta moment hour"
  have s: "0 \<le> ?s" "?s < usec_per_day" by (simp_all add: since_rollover_def usec_defs)
  have blocked: "in_rollover_blackout moment config \<noteq> None \<longleftrightarrow> - of_int b \<le> best \<and> best \<le> of_int a"
    using assms by (auto simp: in_rollover_blackout_def Let_def a_def b_def best_def)
  have ab: "0 \<le> b" "b < 720" "0 \<le> a" "a < 720" using assms by (simp_all add: a_def b_def)
  show ?thesis
    using blocked window_iff [OF best_def assms(2,3) ab] by (simp add: a_def b_def)
qed

theorem rollover_blackout_window_witness:
  "in_rollover_blackout (21 * usec_per_hour) default_session_config \<noteq> None
   \<and> \<not> in_rollover_blackout 0 default_session_config \<noteq> None"
proof -
  have "sc_rollover_utc_hour default_session_config = Some 21"
    "sc_rollover_blackout_before_minutes default_session_config = 45"
    "sc_rollover_blackout_after_minutes default_session_config = 30"
    by (simp_all add: default_session_config_def)
  moreover have "since_rollover (21 * usec_per_hour) 21 = 0" "since_rollover 0 21 = 3 * usec_per_hour"
    by (simp_all add: since_rollover_def time_of_day_def usec_defs)
  ultimately show ?thesis
    using rollover_blackout_window [of default_session_config 21 "21 * usec_per_hour"]
      rollover_blackout_window [of default_session_config 21 0]
    by (simp add: usec_defs del: not_None_eq)
qed

end
