(* ===== verification/Intents.thy ===== *)
theory Intents
  imports Broker_Models Errors
begin

text \<open>
  Execution intents: the trade plan (\<open>bot/execution/plan.py\<close>) and the \<open>IntentRepository\<close> of
  \<open>bot/storage/repositories.py\<close>. A table is the list of its rows in insertion order; a
  \<open>UNIQUE\<close> column makes an insert of a taken key an integrity error. The locale
  \<open>keyed_store\<close> is the interface the executor and the reconciler use a table through; it is
  interpreted here on the intents and in \<open>Trades\<close> on the trades.
\<close>

subsection \<open>Tables with a unique key\<close>

locale keyed_store =
  fixes key :: "'r \<Rightarrow> 'k"
    and lookup :: "'s \<Rightarrow> 'k \<Rightarrow> 'r option"
    and insert :: "'s \<Rightarrow> 'r \<Rightarrow> 's option"
    and modify :: "'s \<Rightarrow> 'k \<Rightarrow> ('r \<Rightarrow> 'r) \<Rightarrow> 's"
    and admits :: "'s \<Rightarrow> 'r \<Rightarrow> bool"
  assumes insert_fresh: "lookup s (key r) = None \<and> admits s r \<longleftrightarrow> (\<exists>s'. insert s r = Some s')"
    and lookup_insert: "insert s r = Some s' \<Longrightarrow> lookup s' k = (if k = key r then Some r else lookup s k)"
    and lookup_modify: "(\<And>r. key (f r) = key r) \<Longrightarrow>
      lookup (modify s k f) k' = (if k' = k then map_option f (lookup s k) else lookup s k')"
begin

lemma insert_taken: "lookup s (key r) \<noteq> None \<Longrightarrow> insert s r = None"
  using insert_fresh [of s r] by (metis option.exhaust)

lemma insert_twice: "insert s r = Some s' \<Longrightarrow> key r' = key r \<Longrightarrow> insert s' r' = None"
  by (rule insert_taken) (simp add: lookup_insert)

lemma modify_keeps: "(\<And>r. key (f r) = key r) \<Longrightarrow> lookup (modify s k f) k' = None \<longleftrightarrow> lookup s k' = None"
  by (simp add: lookup_modify)

end

definition find_row :: "('r \<Rightarrow> 'k) \<Rightarrow> 'r list \<Rightarrow> 'k \<Rightarrow> 'r option" where
  "find_row key rows k = List.find (\<lambda>r. key r = k) rows"

definition insert_row :: "('r \<Rightarrow> 'k) \<Rightarrow> 'r list \<Rightarrow> 'r \<Rightarrow> 'r list option" where
  "insert_row key rows r = (if key r \<in> key ` set rows then None else Some (rows @ [r]))"

definition modify_row :: "('r \<Rightarrow> 'k) \<Rightarrow> 'r list \<Rightarrow> 'k \<Rightarrow> ('r \<Rightarrow> 'r) \<Rightarrow> 'r list" where
  "modify_row key rows k f = update_where (\<lambda>r. key r = k) f rows"

lemma find_row_None: "find_row key rows k = None \<longleftrightarrow> k \<notin> key ` set rows"
  by (simp add: find_row_def find_None_notin)

lemma find_row_Some: "find_row key rows k = Some r \<Longrightarrow> r \<in> set rows \<and> key r = k"
  by (auto simp: find_row_def dest: find_Some_mem)

lemma find_row_insert:
  "insert_row key rows r = Some rows' \<Longrightarrow>
     find_row key rows' k = (if k = key r then Some r else find_row key rows k)"
  using find_None_notin [of key "key r" rows]
  by (auto simp: insert_row_def find_row_def find_append split: if_splits option.split)

lemma find_row_modify:
  "(\<And>r. key (f r) = key r) \<Longrightarrow>
   find_row key (modify_row key rows k f) k' =
     (if k' = k then map_option f (find_row key rows k) else find_row key rows k')"
  by (induction rows) (auto simp: find_row_def modify_row_def)

subsection \<open>The trade plan\<close>

record trade_plan =
  tp_execution_id :: string
  tp_symbol :: string
  tp_broker_symbol :: string
  tp_direction :: string
  tp_entry :: real
  tp_stop_loss :: real
  tp_take_profit :: real
  tp_quantity :: real
  tp_risk_amount :: real
  tp_risk_pct :: real
  tp_expected_profit :: real
  tp_risk_reward :: real
  tp_setup_grade :: string
  tp_setup_score :: real
  tp_ai_confidence :: "real option"
  tp_alignment :: string
  tp_setup_id :: string
  tp_instrument_id :: int
  tp_route_id :: int
  tp_created_at :: micros
  tp_context :: string
  tp_strategy :: string
  tp_setup_type :: string

text \<open>
  The hashed material: the texts \<open>isoformat\<close> and \<open>f"{x:.{digits}f}"\<close> print are represented by
  what they print, the trigger time cut to the minute and each level in units of its last
  digit. The digest (SHA-256, cut to 32 hexadecimal digits) is a parameter.
\<close>

type_synonym id_material = "string \<times> string \<times> micros \<times> int \<times> int \<times> int"

definition execution_material ::
  "string \<Rightarrow> string \<Rightarrow> micros \<Rightarrow> real \<Rightarrow> real \<Rightarrow> real \<Rightarrow> nat \<Rightarrow> id_material" where
  "execution_material symbol direction trigger_time entry stop_loss take_profit digits =
     (let fixed = \<lambda>x. round_half_even (x * 10 ^ digits) in
      (upper symbol, upper direction, trigger_time - trigger_time mod usec_per_min,
       fixed entry, fixed stop_loss, fixed take_profit))"

definition build_execution_id ::
  "(id_material \<Rightarrow> string) \<Rightarrow> string \<Rightarrow> string \<Rightarrow> micros \<Rightarrow> real \<Rightarrow> real \<Rightarrow> real \<Rightarrow> nat \<Rightarrow> string" where
  "build_execution_id digest symbol direction trigger_time entry stop_loss take_profit digits =
     digest (execution_material symbol direction trigger_time entry stop_loss take_profit digits)"

subsection \<open>Intent rows\<close>

datatype intent_status =
    CREATED | SUBMITTED | ACKNOWLEDGED | FILLED | AMBIGUOUS | FAILED | ABANDONED

record intent =
  in_key :: string
  in_symbol :: string
  in_direction :: string
  in_status :: intent_status
  in_plan :: trade_plan
  in_broker_order_id :: "string option"
  in_broker_position_id :: "string option"
  in_created_at :: micros
  in_updated_at :: micros
  in_resolved_at :: "micros option"
  in_failure_reason :: "string option"

type_synonym intent_table = "intent list"

definition intent_get :: "intent_table \<Rightarrow> string \<Rightarrow> intent option" where
  "intent_get rows k = find_row in_key rows k"

definition new_intent :: "string \<Rightarrow> string \<Rightarrow> string \<Rightarrow> trade_plan \<Rightarrow> micros \<Rightarrow> intent" where
  "new_intent k symbol direction plan now = \<lparr> in_key = k, in_symbol = symbol,
     in_direction = direction, in_status = CREATED, in_plan = plan, in_broker_order_id = None,
     in_broker_position_id = None, in_created_at = now, in_updated_at = now,
     in_resolved_at = None, in_failure_reason = None \<rparr>"

text \<open>The single \<open>INSERT\<close>: atomic, refused by the unique key.\<close>

definition intent_insert :: "intent_table \<Rightarrow> intent \<Rightarrow> intent_table option" where
  "intent_insert rows r = insert_row in_key rows r"

definition duplicate_intent :: exn where
  "duplicate_intent = \<lparr> exn_class = StorageError, exn_message = ''refusing to create a duplicate'' \<rparr>"

definition intent_create ::
  "intent_table \<Rightarrow> string \<Rightarrow> string \<Rightarrow> string \<Rightarrow> trade_plan \<Rightarrow> micros \<Rightarrow> (exn + intent) \<times> intent_table" where
  "intent_create rows k symbol direction plan now =
     (case intent_get rows k of
        Some existing \<Rightarrow> (Inl duplicate_intent, rows)
      | None \<Rightarrow>
          (case intent_insert rows (new_intent k symbol direction plan now) of
             None \<Rightarrow> (Inl duplicate_intent, rows)
           | Some rows' \<Rightarrow> (Inr (new_intent k symbol direction plan now), rows')))"

definition RETRYABLE :: "intent_status list" where
  "RETRYABLE = [FAILED, ABANDONED]"

text \<open>The check \<open>reopen\<close> makes on the row it read, and the guarded \<open>UPDATE\<close> it then sends.\<close>

definition reopen_allowed :: "intent option \<Rightarrow> bool" where
  "reopen_allowed existing = (case existing of
       None \<Rightarrow> False
     | Some r \<Rightarrow> in_status r \<in> set RETRYABLE
         \<and> \<not> (truthy_str (in_broker_order_id r) \<or> truthy_str (in_broker_position_id r)))"

definition reopen_update :: "intent_table \<Rightarrow> string \<Rightarrow> trade_plan \<Rightarrow> micros \<Rightarrow> intent_table" where
  "reopen_update rows k plan now = update_where
     (\<lambda>r. in_key r = k \<and> in_status r \<in> set RETRYABLE
        \<and> in_broker_order_id r = None \<and> in_broker_position_id r = None)
     (\<lambda>r. r\<lparr> in_status := CREATED, in_plan := plan, in_failure_reason := None,
        in_resolved_at := None, in_updated_at := now \<rparr>) rows"

definition intent_reopen :: "intent_table \<Rightarrow> string \<Rightarrow> trade_plan \<Rightarrow> micros \<Rightarrow> bool \<times> intent_table" where
  "intent_reopen rows k plan now =
     (if reopen_allowed (intent_get rows k) then (True, reopen_update rows k plan now) else (False, rows))"

definition intent_mark ::
  "intent_table \<Rightarrow> string \<Rightarrow> intent_status \<Rightarrow> string option \<Rightarrow> string option \<Rightarrow> string option \<Rightarrow> micros
     \<Rightarrow> intent_table" where
  "intent_mark rows k status order_id position_id reason now =
     modify_row in_key rows k
       (\<lambda>r. r\<lparr> in_status := status,
          in_broker_order_id := coalesce order_id (in_broker_order_id r),
          in_broker_position_id := coalesce position_id (in_broker_position_id r),
          in_failure_reason := coalesce reason (in_failure_reason r),
          in_resolved_at := coalesce
            (if status \<in> {FILLED, FAILED, ABANDONED} then Some now else None) (in_resolved_at r),
          in_updated_at := now \<rparr>)"

definition unresolved_status :: "intent_status \<Rightarrow> bool" where
  "unresolved_status s = (s = CREATED \<or> s = SUBMITTED \<or> s = ACKNOWLEDGED \<or> s = AMBIGUOUS)"

definition intent_unresolved :: "intent_table \<Rightarrow> intent list" where
  "intent_unresolved rows = sort_key in_created_at (filter (\<lambda>r. unresolved_status (in_status r)) rows)"

definition intent_recent :: "intent_table \<Rightarrow> nat \<Rightarrow> intent list" where
  "intent_recent rows limit = take limit (sort_key (\<lambda>r. - in_created_at r) rows)"

subsection \<open>Table facts\<close>

interpretation intents: keyed_store in_key intent_get intent_insert "modify_row in_key" "\<lambda>_ _. True"
proof
  fix s :: intent_table and r :: intent
  show "intent_get s (in_key r) = None \<and> True \<longleftrightarrow> (\<exists>s'. intent_insert s r = Some s')"
    by (auto simp: intent_get_def intent_insert_def insert_row_def find_row_None)
next
  fix s s' :: intent_table and r k
  assume "intent_insert s r = Some s'"
  then show "intent_get s' k = (if k = in_key r then Some r else intent_get s k)"
    by (simp add: intent_insert_def intent_get_def find_row_insert)
next
  fix f :: "intent \<Rightarrow> intent" and s k k'
  assume "\<And>r. in_key (f r) = in_key r"
  then show "intent_get (modify_row in_key s k f) k' =
      (if k' = k then map_option f (intent_get s k) else intent_get s k')"
    by (simp add: intent_get_def find_row_modify)
qed

definition unique_keys :: "intent_table \<Rightarrow> bool" where
  "unique_keys rows = distinct (map in_key rows)"

lemma unique_insert: "unique_keys rows \<Longrightarrow> intent_insert rows r = Some rows' \<Longrightarrow> unique_keys rows'"
  by (auto simp: unique_keys_def intent_insert_def insert_row_def split: if_splits)

lemma unique_mark: "unique_keys rows \<Longrightarrow> unique_keys (intent_mark rows k st o' p r now)"
  by (simp add: unique_keys_def intent_mark_def modify_row_def map_key_update_where)

lemma unique_reopen: "unique_keys rows \<Longrightarrow> unique_keys (snd (intent_reopen rows k plan now))"
  by (simp add: unique_keys_def intent_reopen_def reopen_update_def map_key_update_where)

lemma unique_create: "unique_keys rows \<Longrightarrow> unique_keys (snd (intent_create rows k s d plan now))"
  by (auto simp: intent_create_def split: option.splits intro: unique_insert)

lemma get_mark:
  "intent_get (intent_mark rows k st o' p r now) k' =
     (if k' = k then map_option (\<lambda>r'. r'\<lparr> in_status := st,
          in_broker_order_id := coalesce o' (in_broker_order_id r'),
          in_broker_position_id := coalesce p (in_broker_position_id r'),
          in_failure_reason := coalesce r (in_failure_reason r'),
          in_resolved_at := coalesce
            (if st \<in> {FILLED, FAILED, ABANDONED} then Some now else None) (in_resolved_at r'),
          in_updated_at := now \<rparr>) (intent_get rows k)
      else intent_get rows k')"
  unfolding intent_mark_def by (rule intents.lookup_modify) simp

lemma get_mark_status:
  "map_option in_status (intent_get (intent_mark rows k st o' p r now) k') =
     (if k' = k then (case intent_get rows k of None \<Rightarrow> None | Some _ \<Rightarrow> Some st)
      else map_option in_status (intent_get rows k'))"
  by (simp add: get_mark option.map_comp comp_def split: option.split)

lemma get_create_Inr:
  "intent_create rows k s d plan now = (Inr r, rows') \<Longrightarrow>
     r = new_intent k s d plan now \<and> intent_get rows k = None
     \<and> intent_get rows' k' = (if k' = k then Some r else intent_get rows k')"
  by (auto simp: intent_create_def new_intent_def intents.lookup_insert split: option.splits)

lemma create_Inl: "intent_create rows k s d plan now = (Inl e, rows') \<Longrightarrow> rows' = rows \<and> intent_get rows k \<noteq> None"
  using intents.insert_fresh [of rows "new_intent k s d plan now"]
  by (auto simp: intent_create_def new_intent_def split: option.splits)

lemma create_fresh:
  "intent_get rows k = None \<Longrightarrow> \<exists>rows'. intent_create rows k s d plan now = (Inr (new_intent k s d plan now), rows')"
  using intents.insert_fresh [of rows "new_intent k s d plan now"]
  by (auto simp: intent_create_def new_intent_def)

lemma get_update_where_key:
  "(\<And>r. P r \<Longrightarrow> in_key (f r) = in_key r) \<Longrightarrow>
   intent_get (update_where P f rows) k = map_option (\<lambda>r. if P r then f r else r) (intent_get rows k)"
  by (simp add: intent_get_def find_row_def find_update_where)

lemma intent_get_key: "intent_get rows k = Some r \<Longrightarrow> in_key r = k"
  by (auto simp: intent_get_def dest: find_row_Some)

lemma get_reopen_other: "k' \<noteq> k \<Longrightarrow> intent_get (snd (intent_reopen rows k plan now)) k' = intent_get rows k'"
  by (cases "intent_get rows k'")
    (auto simp: intent_reopen_def reopen_update_def get_update_where_key dest: intent_get_key)

text \<open>Re-arming a row that carries no broker id makes it a fresh \<open>CREATED\<close> intent.\<close>

lemma get_reopen:
  assumes "intent_get rows k = Some r" and "in_status r \<in> set RETRYABLE"
    and "in_broker_order_id r = None" and "in_broker_position_id r = None"
  shows "intent_reopen rows k plan now = (True, reopen_update rows k plan now)"
    and "intent_get (reopen_update rows k plan now) k =
      Some (r\<lparr> in_status := CREATED, in_plan := plan, in_failure_reason := None,
        in_resolved_at := None, in_updated_at := now \<rparr>)"
proof -
  have k: "in_key r = k" using assms(1) by (auto simp: intent_get_def dest: find_row_Some)
  show "intent_reopen rows k plan now = (True, reopen_update rows k plan now)"
    using assms by (simp add: intent_reopen_def reopen_allowed_def)
  show "intent_get (reopen_update rows k plan now) k =
      Some (r\<lparr> in_status := CREATED, in_plan := plan, in_failure_reason := None,
        in_resolved_at := None, in_updated_at := now \<rparr>)"
    using assms k by (simp add: reopen_update_def get_update_where_key)
qed

lemma unresolved_mem: "r \<in> set (intent_unresolved rows) \<longleftrightarrow> r \<in> set rows \<and> unresolved_status (in_status r)"
  by (auto simp: intent_unresolved_def)

subsection \<open>Two callers at once\<close>

text \<open>
  The lock of the database covers one statement, so a timer and a manual trigger interleave
  between the read and the write of \<open>create\<close> and of \<open>reopen\<close>. Each caller is at one of these
  points; a step is one statement of one caller.
\<close>

datatype create_pc = CheckKey | InsertKey | Won | Lost

record race =
  rows_of :: intent_table
  pc_of :: "nat \<Rightarrow> create_pc"

inductive create_step :: "intent \<Rightarrow> race \<Rightarrow> race \<Rightarrow> bool" for r where
  sees_none: "pc_of s i = CheckKey \<Longrightarrow> intent_get (rows_of s) (in_key r) = None \<Longrightarrow>
     create_step r s (s\<lparr> pc_of := (pc_of s)(i := InsertKey) \<rparr>)"
| sees_row: "pc_of s i = CheckKey \<Longrightarrow> intent_get (rows_of s) (in_key r) = Some x \<Longrightarrow>
     create_step r s (s\<lparr> pc_of := (pc_of s)(i := Lost) \<rparr>)"
| inserts: "pc_of s i = InsertKey \<Longrightarrow> intent_insert (rows_of s) r = Some rows' \<Longrightarrow>
     create_step r s (s\<lparr> rows_of := rows', pc_of := (pc_of s)(i := Won) \<rparr>)"
| violates: "pc_of s i = InsertKey \<Longrightarrow> intent_insert (rows_of s) r = None \<Longrightarrow>
     create_step r s (s\<lparr> pc_of := (pc_of s)(i := Lost) \<rparr>)"

inductive create_reach :: "intent_table \<Rightarrow> intent \<Rightarrow> race \<Rightarrow> bool" for rows r where
  start: "create_reach rows r \<lparr> rows_of = rows, pc_of = (\<lambda>_. CheckKey) \<rparr>"
| step: "create_reach rows r s \<Longrightarrow> create_step r s t \<Longrightarrow> create_reach rows r t"

inductive_cases create_stepE: "create_step r s t"

definition one_winner :: "intent \<Rightarrow> race \<Rightarrow> bool" where
  "one_winner r s = ((\<forall>i j. pc_of s i = Won \<longrightarrow> pc_of s j = Won \<longrightarrow> i = j)
     \<and> ((\<exists>i. pc_of s i = Won) \<longrightarrow> intent_get (rows_of s) (in_key r) \<noteq> None))"

lemma create_step_one_winner: "create_step r s t \<Longrightarrow> one_winner r s \<Longrightarrow> one_winner r t"
proof (induction rule: create_step.induct)
  case (inserts s i rows')
  have "intent_get (rows_of s) (in_key r) = None"
    using inserts.hyps(2) intents.insert_fresh by blast
  with inserts.prems have "\<And>j. pc_of s j \<noteq> Won" by (auto simp: one_winner_def)
  moreover have "intent_get rows' (in_key r) = Some r"
    using inserts.hyps(2) by (simp add: intents.lookup_insert)
  ultimately show ?case by (simp add: one_winner_def)
qed (auto simp: one_winner_def)

lemma create_reach_one_winner: "create_reach rows r s \<Longrightarrow> one_winner r s"
proof (induction rule: create_reach.induct)
  case start
  show ?case by (simp add: one_winner_def)
next
  case (step s t)
  then show ?case by (blast intro: create_step_one_winner)
qed

text \<open>The same for \<open>reopen\<close>: the read, then the update whose row count nobody looks at.\<close>

datatype reopen_pc = ReadRow | SendUpdate | Rearmed | Refused

record reopen_race =
  rr_rows :: intent_table
  rr_pc :: "nat \<Rightarrow> reopen_pc"

inductive reopen_step :: "string \<Rightarrow> trade_plan \<Rightarrow> micros \<Rightarrow> reopen_race \<Rightarrow> reopen_race \<Rightarrow> bool" for k plan now where
  allowed: "rr_pc s i = ReadRow \<Longrightarrow> reopen_allowed (intent_get (rr_rows s) k) \<Longrightarrow>
     reopen_step k plan now s (s\<lparr> rr_pc := (rr_pc s)(i := SendUpdate) \<rparr>)"
| refused: "rr_pc s i = ReadRow \<Longrightarrow> \<not> reopen_allowed (intent_get (rr_rows s) k) \<Longrightarrow>
     reopen_step k plan now s (s\<lparr> rr_pc := (rr_pc s)(i := Refused) \<rparr>)"
| updates: "rr_pc s i = SendUpdate \<Longrightarrow>
     reopen_step k plan now s
       (s\<lparr> rr_rows := reopen_update (rr_rows s) k plan now, rr_pc := (rr_pc s)(i := Rearmed) \<rparr>)"

inductive reopen_reach :: "intent_table \<Rightarrow> string \<Rightarrow> trade_plan \<Rightarrow> micros \<Rightarrow> reopen_race \<Rightarrow> bool"
  for rows k plan now where
  start: "reopen_reach rows k plan now \<lparr> rr_rows = rows, rr_pc = (\<lambda>_. ReadRow) \<rparr>"
| step: "reopen_reach rows k plan now s \<Longrightarrow> reopen_step k plan now s t \<Longrightarrow> reopen_reach rows k plan now t"

subsection \<open>Properties\<close>

text \<open>C17. Two callers, or any number of them, creating the intent of one execution id: whatever the
  interleaving of their reads and inserts, at most one succeeds, and if one did the row is in
  the table.\<close>

theorem one_creator:
  assumes "create_reach rows r s" and "pc_of s i = Won" and "pc_of s j = Won"
  shows "i = j \<and> intent_get (rows_of s) (in_key r) \<noteq> None"
  using create_reach_one_winner [OF assms(1)] assms(2,3) unfolding one_winner_def by blast

definition sample_plan :: trade_plan where
  "sample_plan = \<lparr> tp_execution_id = ''x1'', tp_symbol = ''EURUSD'', tp_broker_symbol = ''EURUSD.R'',
     tp_direction = ''BUY'', tp_entry = 11 / 10, tp_stop_loss = 109 / 100, tp_take_profit = 112 / 100,
     tp_quantity = 1 / 10, tp_risk_amount = 100, tp_risk_pct = 1 / 100, tp_expected_profit = 200,
     tp_risk_reward = 2, tp_setup_grade = ''A'', tp_setup_score = 75, tp_ai_confidence = None,
     tp_alignment = ''BULLISH'', tp_setup_id = ''s1'', tp_instrument_id = 1, tp_route_id = 2,
     tp_created_at = 0, tp_context = '''', tp_strategy = '''', tp_setup_type = '''' \<rparr>"

definition sample_intent :: intent where
  "sample_intent = new_intent ''x1'' ''EURUSD'' ''BUY'' sample_plan 0"

lemma sample_intent_key: "in_key sample_intent = ''x1''"
  by (simp add: sample_intent_def new_intent_def)

text \<open>Both callers have read the empty table before either inserts.\<close>

lemma both_read_then_insert:
  "create_reach [] sample_intent \<lparr> rows_of = [sample_intent],
     pc_of = (\<lambda>_. CheckKey)(0 := InsertKey, 1 := InsertKey, 0 := Won, 1 := Lost) \<rparr>"
proof -
  let ?pc = "\<lambda>_ :: nat. CheckKey"
  let ?s0 = "\<lparr> rows_of = [], pc_of = ?pc \<rparr>"
  have fresh: "intent_get [] k = None" for k by (simp add: intent_get_def find_row_def)
  have ins: "intent_insert [] sample_intent = Some [sample_intent]"
    by (simp add: intent_insert_def insert_row_def find_row_def)
  have again: "intent_insert [sample_intent] sample_intent = None"
    by (simp add: intent_insert_def insert_row_def find_row_def)
  have "create_reach [] sample_intent ?s0" by (rule create_reach.start)
  then have "create_reach [] sample_intent (?s0\<lparr> pc_of := ?pc(0 := InsertKey) \<rparr>)"
    by (rule create_reach.step) (use create_step.sees_none [of ?s0 0 sample_intent] fresh in simp)
  then have "create_reach [] sample_intent (?s0\<lparr> pc_of := ?pc(0 := InsertKey, 1 := InsertKey) \<rparr>)"
    by (rule create_reach.step)
      (use create_step.sees_none [of "?s0\<lparr> pc_of := ?pc(0 := InsertKey) \<rparr>" 1 sample_intent] fresh in simp)
  then have "create_reach [] sample_intent
      \<lparr> rows_of = [sample_intent], pc_of = ?pc(0 := InsertKey, 1 := InsertKey, 0 := Won) \<rparr>"
    by (rule create_reach.step)
      (use create_step.inserts [of "?s0\<lparr> pc_of := ?pc(0 := InsertKey, 1 := InsertKey) \<rparr>" 0
          sample_intent "[sample_intent]"] ins in simp)
  then show ?thesis
    by (rule create_reach.step)
      (use create_step.violates [of "\<lparr> rows_of = [sample_intent],
          pc_of = ?pc(0 := InsertKey, 1 := InsertKey, 0 := Won) \<rparr>" 1 sample_intent] again in simp)
qed

theorem one_creator_witness:
  "intent_get [sample_intent] ''x1'' \<noteq> None"
  using one_creator [OF both_read_then_insert, of 0 0] by (simp add: sample_intent_key)

text \<open>Re-arming is not exclusive: two callers that both read a retryable row before either
  updates it are both told they may submit, because the guarded update does not report
  whether it changed the row.\<close>

theorem reopen_has_two_winners:
  assumes "intent_get rows k = Some r" and "in_status r \<in> set RETRYABLE"
    and "in_broker_order_id r = None" and "in_broker_position_id r = None"
  shows "\<exists>s. reopen_reach rows k plan now s \<and> rr_pc s 0 = Rearmed \<and> rr_pc s 1 = Rearmed
    \<and> map_option in_status (intent_get (rr_rows s) k) = Some CREATED"
proof -
  let ?pc = "\<lambda>_ :: nat. ReadRow"
  let ?s0 = "\<lparr> rr_rows = rows, rr_pc = ?pc \<rparr>" and ?rows = "reopen_update rows k plan now"
  let ?s2 = "?s0\<lparr> rr_pc := ?pc(0 := SendUpdate, 1 := SendUpdate) \<rparr>"
  let ?s3 = "\<lparr> rr_rows = ?rows, rr_pc = ?pc(0 := SendUpdate, 1 := SendUpdate, 0 := Rearmed) \<rparr>"
  let ?s4 = "\<lparr> rr_rows = reopen_update ?rows k plan now,
    rr_pc = ?pc(0 := SendUpdate, 1 := SendUpdate, 0 := Rearmed, 1 := Rearmed) \<rparr>"
  have ok: "reopen_allowed (intent_get rows k)" using assms by (simp add: reopen_allowed_def)
  have "reopen_reach rows k plan now ?s0" by (rule reopen_reach.start)
  then have "reopen_reach rows k plan now (?s0\<lparr> rr_pc := ?pc(0 := SendUpdate) \<rparr>)"
    by (rule reopen_reach.step) (use reopen_step.allowed [of ?s0 0 k plan now] ok in simp)
  then have "reopen_reach rows k plan now ?s2"
    by (rule reopen_reach.step)
      (use reopen_step.allowed [of "?s0\<lparr> rr_pc := ?pc(0 := SendUpdate) \<rparr>" 1 k plan now] ok in simp)
  then have "reopen_reach rows k plan now ?s3"
    by (rule reopen_reach.step) (use reopen_step.updates [of ?s2 0 k plan now] in simp)
  then have reach: "reopen_reach rows k plan now ?s4"
    by (rule reopen_reach.step) (use reopen_step.updates [of ?s3 1 k plan now] in simp)
  have "in_key r = k" using assms(1) by (rule intent_get_key)
  with get_reopen(2) [OF assms, of plan now]
  have "map_option in_status (intent_get (reopen_update ?rows k plan now) k) = Some CREATED"
    unfolding reopen_update_def [of ?rows] by (simp add: get_update_where_key)
  with reach show ?thesis by (intro exI [of _ ?s4]) simp
qed

theorem reopen_has_two_winners_witness:
  "\<exists>s. reopen_reach [sample_intent\<lparr> in_status := FAILED \<rparr>] ''x1'' sample_plan 60 s
     \<and> rr_pc s 0 = Rearmed \<and> rr_pc s 1 = Rearmed"
proof -
  have "intent_get [sample_intent\<lparr> in_status := FAILED \<rparr>] ''x1'' = Some (sample_intent\<lparr> in_status := FAILED \<rparr>)"
    by (simp add: intent_get_def find_row_def sample_intent_def new_intent_def)
  from reopen_has_two_winners [OF this, of sample_plan 60] show ?thesis
    by (auto simp: RETRYABLE_def sample_intent_def new_intent_def)
qed

text \<open>Every operation of the intent table keeps one row per execution id and loses no row, and
  re-arming is refused for a row that carries a broker order or position id.\<close>

theorem intent_table_invariant:
  assumes "unique_keys rows" and "intent_get rows k' \<noteq> None"
  shows "unique_keys (snd (intent_create rows k s d plan now)) \<and> unique_keys (intent_mark rows k st o' p why now)
    \<and> unique_keys (snd (intent_reopen rows k plan now))
    \<and> intent_get (snd (intent_create rows k s d plan now)) k' = intent_get rows k'
    \<and> intent_get (intent_mark rows k st o' p why now) k' \<noteq> None
    \<and> intent_get (snd (intent_reopen rows k plan now)) k' \<noteq> None
    \<and> (fst (intent_reopen rows k plan now) = reopen_allowed (intent_get rows k))"
proof -
  have "intent_get (snd (intent_create rows k s d plan now)) k' = intent_get rows k'"
  proof (cases "intent_create rows k s d plan now")
    case (Pair a rows')
    show ?thesis
    proof (cases a)
      case (Inl e)
      with Pair show ?thesis by (auto dest: create_Inl)
    next
      case (Inr r)
      with Pair have "intent_create rows k s d plan now = (Inr r, rows')" by simp
      from get_create_Inr [OF this, of k'] assms(2) Pair show ?thesis by (auto split: if_splits)
    qed
  qed
  moreover have "intent_get (snd (intent_reopen rows k plan now)) k' \<noteq> None"
    using assms(2) by (auto simp: intent_reopen_def reopen_update_def get_update_where_key)
  moreover have "intent_get (intent_mark rows k st o' p why now) k' \<noteq> None"
    using assms(2) by (cases "k' = k") (simp_all add: get_mark)
  moreover have "fst (intent_reopen rows k plan now) = reopen_allowed (intent_get rows k)"
    by (simp add: intent_reopen_def)
  ultimately show ?thesis using assms(1) by (simp add: unique_create unique_mark unique_reopen)
qed

theorem intent_table_invariant_witness:
  "unique_keys (intent_mark [sample_intent] ''x1'' FILLED (Some ''o1'') (Some ''p1'') None 60)"
proof -
  have "unique_keys [sample_intent]" by (simp add: unique_keys_def)
  moreover have "intent_get [sample_intent] ''x1'' \<noteq> None"
    by (simp add: intent_get_def find_row_def sample_intent_key)
  ultimately show ?thesis using intent_table_invariant by blast
qed

end
