(* ===== verification/Trades.thy ===== *)
theory Trades
  imports Intents Clock "HOL-Library.AList"
begin

text \<open>
  The trade book: \<open>TradeRepository\<close> of \<open>bot/storage/repositories.py\<close> over the \<open>trades\<close> table
  of \<open>bot/storage/db.py\<close>. Two columns are unique: the execution id, and the broker position
  id where it is not null. The column \<open>versions\<close> (build metadata) and the row number are left
  out; the JSON column \<open>context\<close> is carried as text.
\<close>

datatype trade_status = PENDING | OPEN | CLOSED | ORPHANED | ABORTED

record trade =
  td_execution_id :: string
  td_position_id :: "string option"
  td_order_id :: "string option"
  td_symbol :: string
  td_direction :: string
  td_status :: trade_status
  td_planned_entry :: "real option"
  td_actual_entry :: "real option"
  td_stop_loss :: "real option"
  td_take_profit :: "real option"
  td_quantity :: "real option"
  td_risk_amount :: "real option"
  td_risk_pct :: "real option"
  td_expected_profit :: "real option"
  td_risk_reward :: "real option"
  td_setup_grade :: "string option"
  td_setup_score :: "real option"
  td_ai_confidence :: "real option"
  td_setup_id :: "string option"
  td_exit_price :: "real option"
  td_realized_pnl :: "real option"
  td_r_multiple :: "real option"
  td_mfe :: "real option"
  td_mae :: "real option"
  td_exit_reason :: "string option"
  td_partial_taken :: bool
  td_opened_at :: "micros option"
  td_closed_at :: "micros option"
  td_context :: string
  td_created_at :: micros
  td_updated_at :: micros

type_synonym trade_table = "trade list"

definition blank_trade :: "string \<Rightarrow> string \<Rightarrow> string \<Rightarrow> trade_status \<Rightarrow> micros \<Rightarrow> trade" where
  "blank_trade execution_id symbol direction status now = \<lparr> td_execution_id = execution_id,
     td_position_id = None, td_order_id = None, td_symbol = symbol, td_direction = direction,
     td_status = status, td_planned_entry = None, td_actual_entry = None, td_stop_loss = None,
     td_take_profit = None, td_quantity = None, td_risk_amount = None, td_risk_pct = None,
     td_expected_profit = None, td_risk_reward = None, td_setup_grade = None,
     td_setup_score = None, td_ai_confidence = None, td_setup_id = None, td_exit_price = None,
     td_realized_pnl = None, td_r_multiple = None, td_mfe = None, td_mae = None,
     td_exit_reason = None, td_partial_taken = False, td_opened_at = None, td_closed_at = None,
     td_context = [], td_created_at = now, td_updated_at = now \<rparr>"

subsection \<open>Lookups and inserts\<close>

definition by_execution_id :: "trade_table \<Rightarrow> string \<Rightarrow> trade option" where
  "by_execution_id rows execution_id = find_row td_execution_id rows execution_id"

definition by_position_id :: "trade_table \<Rightarrow> string \<Rightarrow> trade option" where
  "by_position_id rows position_id = find_row td_position_id rows (Some position_id)"

definition position_free :: "trade_table \<Rightarrow> trade \<Rightarrow> bool" where
  "position_free rows r =
     (case td_position_id r of None \<Rightarrow> True | Some p \<Rightarrow> by_position_id rows p = None)"

definition trade_insert :: "trade_table \<Rightarrow> trade \<Rightarrow> trade_table option" where
  "trade_insert rows r = (if position_free rows r then insert_row td_execution_id rows r else None)"

subsection \<open>Operations\<close>

definition or_unknown :: "string \<Rightarrow> string" where
  "or_unknown s = (if s = [] then ''UNKNOWN'' else s)"

definition plan_columns :: "trade_plan \<Rightarrow> micros \<Rightarrow> trade \<Rightarrow> trade" where
  "plan_columns plan now r = r\<lparr>
     td_planned_entry := Some (tp_entry plan), td_stop_loss := Some (tp_stop_loss plan),
     td_take_profit := Some (tp_take_profit plan), td_quantity := Some (tp_quantity plan),
     td_risk_amount := Some (tp_risk_amount plan), td_risk_pct := Some (tp_risk_pct plan),
     td_expected_profit := Some (tp_expected_profit plan),
     td_risk_reward := Some (tp_risk_reward plan), td_setup_grade := Some (tp_setup_grade plan),
     td_setup_score := Some (tp_setup_score plan), td_ai_confidence := tp_ai_confidence plan,
     td_setup_id := Some (tp_setup_id plan), td_context := tp_context plan,
     td_updated_at := now \<rparr>"

definition revive :: "trade_table \<Rightarrow> string \<Rightarrow> trade_plan \<Rightarrow> micros \<Rightarrow> trade_table" where
  "revive rows execution_id plan now = update_where
     (\<lambda>r. td_execution_id r = execution_id \<and> td_status r = ABORTED)
     (\<lambda>r. (plan_columns plan now r)\<lparr> td_status := PENDING, td_exit_reason := None \<rparr>) rows"

definition pending_row :: "string \<Rightarrow> trade_plan \<Rightarrow> micros \<Rightarrow> trade" where
  "pending_row execution_id plan now = plan_columns plan now
     (blank_trade execution_id (or_unknown (tp_symbol plan))
        (upper (or_unknown (tp_direction plan))) PENDING now)"

definition create_pending :: "trade_table \<Rightarrow> string \<Rightarrow> trade_plan \<Rightarrow> micros \<Rightarrow> trade_table" where
  "create_pending rows execution_id plan now =
     (let revived = revive rows execution_id plan now in
      if by_execution_id revived execution_id \<noteq> None then revived
      else revived @ [pending_row execution_id plan now])"

definition at_position :: "trade_table \<Rightarrow> string \<Rightarrow> (trade \<Rightarrow> trade) \<Rightarrow> trade_table" where
  "at_position rows position_id f = update_where (\<lambda>r. td_position_id r = Some position_id) f rows"

definition mark_partial_taken :: "trade_table \<Rightarrow> string \<Rightarrow> micros \<Rightarrow> trade_table" where
  "mark_partial_taken rows position_id now =
     at_position rows position_id (\<lambda>r. r\<lparr> td_partial_taken := True, td_updated_at := now \<rparr>)"

definition mark_aborted :: "trade_table \<Rightarrow> string \<Rightarrow> string \<Rightarrow> micros \<Rightarrow> trade_table" where
  "mark_aborted rows execution_id reason now = update_where
     (\<lambda>r. td_execution_id r = execution_id \<and> td_status r = PENDING)
     (\<lambda>r. r\<lparr> td_status := ABORTED, td_exit_reason := Some (take 300 reason),
        td_updated_at := now \<rparr>) rows"

text \<open>A position id another row holds is an integrity error of the database driver; nothing is
  written.\<close>

definition integrity_error :: exn where
  "integrity_error = \<lparr> exn_class = OtherException,
     exn_message = ''UNIQUE constraint failed: trades.broker_position_id'' \<rparr>"

definition mark_open ::
  "trade_table \<Rightarrow> string \<Rightarrow> string \<Rightarrow> string option \<Rightarrow> real option \<Rightarrow> real option \<Rightarrow> micros option
     \<Rightarrow> micros \<Rightarrow> exn + trade_table" where
  "mark_open rows execution_id position_id order_id actual_entry quantity opened_at now =
     (if by_execution_id rows execution_id \<noteq> None
         \<and> (\<exists>r \<in> set rows. td_execution_id r \<noteq> execution_id \<and> td_position_id r = Some position_id)
      then Inl integrity_error
      else Inr (modify_row td_execution_id rows execution_id
        (\<lambda>r. r\<lparr> td_status := OPEN, td_position_id := Some position_id,
           td_order_id := coalesce order_id (td_order_id r),
           td_actual_entry := coalesce actual_entry (td_actual_entry r),
           td_quantity := coalesce quantity (td_quantity r),
           td_opened_at := coalesce opened_at (Some now), td_updated_at := now \<rparr>)))"

record snapshot =
  sn_symbol :: string
  sn_direction :: string
  sn_entry :: "real option"
  sn_stop_loss :: "real option"
  sn_take_profit :: "real option"
  sn_quantity :: "real option"
  sn_opened_at :: "micros option"

definition orphan_row :: "string \<Rightarrow> snapshot \<Rightarrow> micros \<Rightarrow> trade" where
  "orphan_row position_id snap now =
     (blank_trade (''orphan-'' @ position_id) (or_unknown (sn_symbol snap))
        (upper (or_unknown (sn_direction snap))) ORPHANED now)
     \<lparr> td_position_id := Some position_id, td_actual_entry := sn_entry snap,
       td_stop_loss := sn_stop_loss snap, td_take_profit := sn_take_profit snap,
       td_quantity := sn_quantity snap, td_opened_at := sn_opened_at snap,
       td_context := ''discovered_by: reconciler'' \<rparr>"

text \<open>An insert the execution id's own unique column refuses (an earlier orphan row whose
  position id has since been replaced) is the driver's integrity error too.\<close>

definition adopt_orphan :: "trade_table \<Rightarrow> string \<Rightarrow> snapshot \<Rightarrow> micros \<Rightarrow> (exn + string) \<times> trade_table" where
  "adopt_orphan rows position_id snap now =
     (case by_position_id rows position_id of
        Some existing \<Rightarrow> (Inr (td_execution_id existing), rows)
      | None \<Rightarrow>
          (case trade_insert rows (orphan_row position_id snap now) of
             None \<Rightarrow> (Inl integrity_error, rows)
           | Some rows' \<Rightarrow> (Inr (''orphan-'' @ position_id), rows')))"

record close_report =
  cl_exit_price :: "real option"
  cl_realized_pnl :: "real option"
  cl_exit_reason :: string
  cl_closed_at :: "micros option"
  cl_r_multiple :: "real option"
  cl_mfe :: "real option"
  cl_mae :: "real option"

definition mark_closed ::
  "trade_table \<Rightarrow> string \<Rightarrow> close_report \<Rightarrow> micros \<Rightarrow> trade option \<times> trade_table" where
  "mark_closed rows position_id c now =
     (if by_position_id rows position_id = None then (None, rows)
      else let rows' = at_position rows position_id
             (\<lambda>r. r\<lparr> td_status := CLOSED, td_exit_price := cl_exit_price c,
                td_realized_pnl := cl_realized_pnl c, td_exit_reason := Some (cl_exit_reason c),
                td_r_multiple := coalesce (cl_r_multiple c) (td_r_multiple r),
                td_mfe := coalesce (cl_mfe c) (td_mfe r),
                td_mae := coalesce (cl_mae c) (td_mae r),
                td_closed_at := coalesce (cl_closed_at c) (Some now), td_updated_at := now \<rparr>)
           in (by_position_id rows' position_id, rows'))"

definition update_excursions :: "trade_table \<Rightarrow> string \<Rightarrow> real \<Rightarrow> real \<Rightarrow> micros \<Rightarrow> trade_table" where
  "update_excursions rows position_id mfe mae now = at_position rows position_id
     (\<lambda>r. r\<lparr> td_mfe := (case td_mfe r of None \<Rightarrow> Some mfe
                         | Some old \<Rightarrow> if mfe > old then Some mfe else Some old),
             td_mae := (case td_mae r of None \<Rightarrow> Some mae
                         | Some old \<Rightarrow> if mae < old then Some mae else Some old),
             td_updated_at := now \<rparr>)"

definition update_protection ::
  "trade_table \<Rightarrow> string \<Rightarrow> real option \<Rightarrow> real option \<Rightarrow> micros \<Rightarrow> trade_table" where
  "update_protection rows position_id stop_loss take_profit now = at_position rows position_id
     (\<lambda>r. r\<lparr> td_stop_loss := coalesce stop_loss (td_stop_loss r),
             td_take_profit := coalesce take_profit (td_take_profit r), td_updated_at := now \<rparr>)"

definition hours_micros :: "real \<Rightarrow> int" where
  "hours_micros h = round_half_even (h * of_int usec_per_hour)"

definition traded_setup_ids :: "trade_table \<Rightarrow> real \<Rightarrow> micros \<Rightarrow> string list" where
  "traded_setup_ids rows hours moment = remdups
     (List.map_filter
        (\<lambda>r. case td_setup_id r of
           Some s \<Rightarrow> if s \<noteq> [] \<and> td_created_at r \<ge> moment - hours_micros hours
               \<and> td_status r \<in> {PENDING, OPEN, ORPHANED, CLOSED} then Some s else None
         | None \<Rightarrow> None) rows)"

record symbol_summary =
  sy_closed :: nat
  sy_losses :: nat
  sy_net :: real
  sy_unmeasured :: nat

definition no_closes :: symbol_summary where
  "no_closes = \<lparr> sy_closed = 0, sy_losses = 0, sy_net = 0, sy_unmeasured = 0 \<rparr>"

definition count_close :: "trade \<Rightarrow> symbol_summary \<Rightarrow> symbol_summary" where
  "count_close r e = (let e = e\<lparr> sy_closed := sy_closed e + 1 \<rparr> in
     case td_realized_pnl r of
       None \<Rightarrow> e\<lparr> sy_unmeasured := sy_unmeasured e + 1 \<rparr>
     | Some v \<Rightarrow> e\<lparr> sy_net := sy_net e + v, sy_losses := sy_losses e + (if v < 0 then 1 else 0) \<rparr>)"

definition closed_since :: "micros \<Rightarrow> trade \<Rightarrow> bool" where
  "closed_since moment r = (td_status r = CLOSED
     \<and> (case td_closed_at r of None \<Rightarrow> False | Some t \<Rightarrow> t \<ge> moment))"

fun summarise_closes :: "trade list \<Rightarrow> (string \<times> symbol_summary) list \<Rightarrow> (string \<times> symbol_summary) list" where
  "summarise_closes [] summary = summary"
| "summarise_closes (r # rs) summary = summarise_closes rs
     (let symbol = upper (td_symbol r) in
      AList.update symbol
        (count_close r (case map_of summary symbol of None \<Rightarrow> no_closes | Some e \<Rightarrow> e)) summary)"

definition losses_by_symbol_since :: "trade_table \<Rightarrow> micros \<Rightarrow> (string \<times> symbol_summary) list" where
  "losses_by_symbol_since rows moment = summarise_closes (filter (closed_since moment) rows) []"

definition open_trades :: "trade_table \<Rightarrow> trade list" where
  "open_trades rows = sort_key (\<lambda>r. - td_created_at r)
     (filter (\<lambda>r. td_status r = OPEN \<or> td_status r = ORPHANED \<or> td_status r = PENDING) rows)"

definition closed_trades :: "trade_table \<Rightarrow> nat \<Rightarrow> trade list" where
  "closed_trades rows limit = (let closed = filter (\<lambda>r. td_status r = CLOSED) rows in
     take limit (sort_key (\<lambda>r. - the (td_closed_at r)) (filter (\<lambda>r. td_closed_at r \<noteq> None) closed)
                 @ filter (\<lambda>r. td_closed_at r = None) closed))"

definition recent_trades :: "trade_table \<Rightarrow> nat \<Rightarrow> trade list" where
  "recent_trades rows limit = take limit (sort_key (\<lambda>r. - td_created_at r) rows)"


subsection \<open>The book as a keyed store\<close>

interpretation trades: keyed_store td_execution_id by_execution_id trade_insert
  "modify_row td_execution_id" position_free
proof
  fix s :: trade_table and r :: trade
  show "by_execution_id s (td_execution_id r) = None \<and> position_free s r
      \<longleftrightarrow> (\<exists>s'. trade_insert s r = Some s')"
    by (auto simp: by_execution_id_def trade_insert_def insert_row_def find_row_None)
next
  fix s s' :: trade_table and r k
  assume "trade_insert s r = Some s'"
  then show "by_execution_id s' k = (if k = td_execution_id r then Some r else by_execution_id s k)"
    by (simp add: trade_insert_def by_execution_id_def find_row_insert split: if_splits)
next
  fix f :: "trade \<Rightarrow> trade" and s k k'
  assume "\<And>r. td_execution_id (f r) = td_execution_id r"
  then show "by_execution_id (modify_row td_execution_id s k f) k' =
      (if k' = k then map_option f (by_execution_id s k) else by_execution_id s k')"
    by (simp add: by_execution_id_def find_row_modify)
qed

text \<open>The pending row carries no position id, so its insert is the guarded one.\<close>

lemma create_pending_insert:
  "by_execution_id rows k = None \<Longrightarrow>
     trade_insert rows (pending_row k plan now) = Some (rows @ [pending_row k plan now])"
  by (auto simp: trade_insert_def insert_row_def position_free_def pending_row_def
    plan_columns_def blank_trade_def by_execution_id_def find_row_None)

lemma revive_absent: "by_execution_id rows k = None \<Longrightarrow> revive rows k plan now = rows"
  unfolding revive_def
  by (rule update_where_none) (auto simp: by_execution_id_def find_row_None)

lemma by_execution_id_update_where:
  "(\<And>r. P r \<Longrightarrow> td_execution_id (f r) = td_execution_id r) \<Longrightarrow>
   by_execution_id (update_where P f rows) k =
     map_option (\<lambda>r. if P r then f r else r) (by_execution_id rows k)"
  by (simp add: by_execution_id_def find_row_def find_update_where)

lemma by_execution_id_key: "by_execution_id rows k = Some r \<Longrightarrow> td_execution_id r = k"
  by (auto simp: by_execution_id_def dest: find_row_Some)

lemma by_execution_id_mem: "by_execution_id rows k = Some r \<Longrightarrow> r \<in> set rows"
  by (auto simp: by_execution_id_def dest: find_row_Some)

lemma by_position_id_key: "by_position_id rows p = Some r \<Longrightarrow> td_position_id r = Some p \<and> r \<in> set rows"
  by (auto simp: by_position_id_def dest: find_row_Some)

lemma plan_columns_keeps [simp]:
  "td_execution_id (plan_columns plan now r) = td_execution_id r"
  "td_position_id (plan_columns plan now r) = td_position_id r"
  "td_status (plan_columns plan now r) = td_status r"
  "td_closed_at (plan_columns plan now r) = td_closed_at r"
  by (simp_all add: plan_columns_def)

lemma revive_lookup:
  "by_execution_id (revive rows k plan now) k' =
     map_option (\<lambda>r. if td_execution_id r = k \<and> td_status r = ABORTED
       then (plan_columns plan now r)\<lparr> td_status := PENDING, td_exit_reason := None \<rparr> else r)
       (by_execution_id rows k')"
  unfolding revive_def by (rule by_execution_id_update_where) simp

lemma create_pending_lookup:
  "by_execution_id (create_pending rows k plan now) k' =
     (if k' \<noteq> k then by_execution_id rows k'
      else case by_execution_id rows k of
        None \<Rightarrow> Some (pending_row k plan now)
      | Some r \<Rightarrow> if td_status r = ABORTED
          then Some ((plan_columns plan now r)\<lparr> td_status := PENDING, td_exit_reason := None \<rparr>)
          else Some r)"
proof (cases "by_execution_id rows k")
  case None
  have "create_pending rows k plan now = rows @ [pending_row k plan now]"
    using None by (simp add: create_pending_def revive_absent)
  moreover have "by_execution_id (rows @ [pending_row k plan now]) k' =
      (if k' = k then Some (pending_row k plan now) else by_execution_id rows k')"
    using trades.lookup_insert [OF create_pending_insert [OF None, of plan now], of k']
    by (simp add: pending_row_def plan_columns_def blank_trade_def)
  ultimately show ?thesis using None by simp
next
  case (Some r)
  then have "create_pending rows k plan now = revive rows k plan now"
    by (simp add: create_pending_def Let_def revive_lookup)
  then show ?thesis using Some
    by (cases "by_execution_id rows k'") (auto simp: revive_lookup dest: by_execution_id_key)
qed

subsection \<open>The invariant of the book\<close>

text \<open>Execution ids are unique, position ids are unique where present, a pending or aborted row
  has no position, every other row has one, and a closed row is dated.\<close>

definition row_ok :: "trade \<Rightarrow> bool" where
  "row_ok r = ((td_position_id r = None \<longleftrightarrow> td_status r \<in> {PENDING, ABORTED})
     \<and> (td_status r = CLOSED \<longrightarrow> td_closed_at r \<noteq> None))"

definition book_ok :: "trade_table \<Rightarrow> bool" where
  "book_ok rows = (distinct (map td_execution_id rows)
     \<and> distinct (List.map_filter td_position_id rows) \<and> (\<forall>r \<in> set rows. row_ok r))"

lemma book_ok_update:
  assumes ok: "book_ok rows"
    and ids: "\<And>r. P r \<Longrightarrow> td_execution_id (f r) = td_execution_id r \<and> td_position_id (f r) = td_position_id r"
    and row: "\<And>r. r \<in> set rows \<Longrightarrow> P r \<Longrightarrow> row_ok r \<Longrightarrow> row_ok (f r)"
  shows "book_ok (update_where P f rows)"
proof -
  have e: "map td_execution_id (update_where P f rows) = map td_execution_id rows"
    using ids by (intro map_key_update_where) blast
  have "map td_position_id (update_where P f rows) = map td_position_id rows"
    using ids by (intro map_key_update_where) blast
  then have p: "List.map_filter td_position_id (update_where P f rows) = List.map_filter td_position_id rows"
    using ids by (induction rows) (auto simp: map_filter_simps split: option.split)
  have "\<forall>r \<in> set (update_where P f rows). row_ok r"
    using ok row by (auto simp: update_where_def book_ok_def)
  with ok e p show ?thesis by (simp add: book_ok_def)
qed

lemma row_ok_at:
  "row_ok r \<Longrightarrow> td_position_id r = Some p \<Longrightarrow> td_status r \<notin> {PENDING, ABORTED}"
  by (auto simp: row_ok_def)

lemma at_position_ok:
  assumes "book_ok rows"
    and "\<And>r. td_execution_id (f r) = td_execution_id r \<and> td_position_id (f r) = td_position_id r"
    and "\<And>r. row_ok r \<Longrightarrow> td_position_id r = Some p \<Longrightarrow> row_ok (f r)"
  shows "book_ok (at_position rows p f)"
  unfolding at_position_def using assms by (intro book_ok_update) auto

lemma mark_partial_taken_ok: "book_ok rows \<Longrightarrow> book_ok (mark_partial_taken rows p now)"
  unfolding mark_partial_taken_def by (rule at_position_ok) (auto simp: row_ok_def)

lemma update_excursions_ok: "book_ok rows \<Longrightarrow> book_ok (update_excursions rows p mfe mae now)"
  unfolding update_excursions_def by (rule at_position_ok) (auto simp: row_ok_def)

lemma update_protection_ok: "book_ok rows \<Longrightarrow> book_ok (update_protection rows p sl tp now)"
  unfolding update_protection_def by (rule at_position_ok) (auto simp: row_ok_def)

lemma mark_closed_ok: "book_ok rows \<Longrightarrow> book_ok (snd (mark_closed rows p c now))"
  by (auto simp: mark_closed_def Let_def row_ok_def intro!: at_position_ok)

lemma mark_aborted_ok: "book_ok rows \<Longrightarrow> book_ok (mark_aborted rows k reason now)"
  unfolding mark_aborted_def by (rule book_ok_update) (auto simp: row_ok_def)

lemma revive_ok: "book_ok rows \<Longrightarrow> book_ok (revive rows k plan now)"
  unfolding revive_def by (rule book_ok_update) (auto simp: row_ok_def)

lemma book_ok_insert:
  assumes "book_ok rows" and "trade_insert rows r = Some rows'" and "row_ok r"
  shows "book_ok rows'"
proof -
  have "rows' = rows @ [r]" and "td_execution_id r \<notin> td_execution_id ` set rows"
    and "position_free rows r"
    using assms(2) by (auto simp: trade_insert_def insert_row_def split: if_splits)
  then show ?thesis using assms(1,3)
    by (auto simp: book_ok_def map_filter_append map_filter_simps set_map_filter
      position_free_def by_position_id_def find_row_None image_iff split: option.splits)
qed

lemma create_pending_ok: "book_ok rows \<Longrightarrow> book_ok (create_pending rows k plan now)"
proof (cases "by_execution_id (revive rows k plan now) k")
  case (Some r)
  assume "book_ok rows"
  with Some show ?thesis by (simp add: create_pending_def revive_ok)
next
  case None
  assume ok: "book_ok rows"
  have "row_ok (pending_row k plan now)"
    by (simp add: row_ok_def pending_row_def blank_trade_def plan_columns_def)
  with book_ok_insert [OF revive_ok [OF ok] create_pending_insert [OF None]] None
  show ?thesis by (simp add: create_pending_def)
qed

lemma adopt_orphan_ok: "book_ok rows \<Longrightarrow> book_ok (snd (adopt_orphan rows p snap now))"
  by (auto simp: adopt_orphan_def row_ok_def orphan_row_def blank_trade_def
    split: option.split intro: book_ok_insert)

lemma distinct_map_filter_update:
  assumes "distinct (map k rows)" and "distinct (List.map_filter g rows)"
    and "\<forall>r \<in> set rows. k r \<noteq> key \<longrightarrow> g r \<noteq> Some v"
    and "\<And>r. g (f r) = Some v"
  shows "distinct (List.map_filter g (update_where (\<lambda>r. k r = key) f rows))"
  using assms(1,2,3)
proof (induction rows)
  case Nil
  then show ?case by simp
next
  case (Cons r rs)
  then have IH: "distinct (List.map_filter g (update_where (\<lambda>r. k r = key) f rs))"
    by (auto simp: map_filter_simps split: option.splits)
  show ?case
  proof (cases "k r = key")
    case True
    then have "update_where (\<lambda>r. k r = key) f rs = rs"
      using Cons.prems(1) True by (intro update_where_none) (auto simp: image_iff)
    moreover have "v \<notin> set (List.map_filter g rs)"
      using Cons.prems True by (auto simp: set_map_filter image_iff)
    ultimately show ?thesis
      using True IH assms(4) by (simp add: map_filter_simps)
  next
    case False
    have "y \<notin> set (List.map_filter g (update_where (\<lambda>r. k r = key) f rs))" if "g r = Some y" for y
      using that Cons.prems False assms(4)
      by (auto simp: set_map_filter update_where_def map_filter_simps split: if_splits)
    then show ?thesis using False IH by (simp add: map_filter_simps split: option.split)
  qed
qed

lemma mark_open_ok:
  assumes ok: "book_ok rows" and result: "mark_open rows k p order_id entry quantity opened now = Inr rows'"
  shows "book_ok rows'"
proof (cases "by_execution_id rows k")
  case None
  then have "k \<notin> td_execution_id ` set rows" by (simp add: by_execution_id_def find_row_None)
  then have "rows' = rows"
    using result None by (auto simp: mark_open_def modify_row_def intro!: update_where_none)
  with ok show ?thesis by simp
next
  case (Some r)
  define f :: "trade \<Rightarrow> trade" where "f = (\<lambda>r. r\<lparr> td_status := OPEN, td_position_id := Some p,
      td_order_id := coalesce order_id (td_order_id r),
      td_actual_entry := coalesce entry (td_actual_entry r),
      td_quantity := coalesce quantity (td_quantity r),
      td_opened_at := coalesce opened (Some now), td_updated_at := now \<rparr>)"
  have rows': "rows' = update_where (\<lambda>r. td_execution_id r = k) f rows"
    and others: "\<forall>r \<in> set rows. td_execution_id r \<noteq> k \<longrightarrow> td_position_id r \<noteq> Some p"
    using result Some by (auto simp: mark_open_def modify_row_def f_def split: if_splits)
  have "distinct (List.map_filter td_position_id rows')"
    unfolding rows' using ok others
    by (intro distinct_map_filter_update [where v = p]) (auto simp: book_ok_def f_def)
  moreover have "map td_execution_id rows' = map td_execution_id rows"
    unfolding rows' by (rule map_key_update_where) (simp add: f_def)
  moreover have "\<forall>r \<in> set rows'. row_ok r"
    using ok by (auto simp: rows' update_where_def book_ok_def row_ok_def f_def)
  ultimately show ?thesis using ok by (simp add: book_ok_def)
qed

text \<open>Under the invariant a position identifies at most one row.\<close>

lemma position_row_unique:
  assumes "book_ok rows" and "r \<in> set rows" and "td_position_id r = Some p"
  shows "by_position_id rows p = Some r"
proof -
  have "distinct (List.map_filter td_position_id rows) \<Longrightarrow> r \<in> set rows \<Longrightarrow>
      td_position_id r = Some p \<Longrightarrow> List.find (\<lambda>r. td_position_id r = Some p) rows = Some r"
    by (induction rows) (auto simp: map_filter_simps set_map_filter split: option.splits)
  with assms show ?thesis by (simp add: book_ok_def by_position_id_def find_row_def)
qed

lemma by_position_id_at:
  "(\<And>r. td_position_id (f r) = td_position_id r) \<Longrightarrow>
   by_position_id (at_position rows p f) p' =
     (if p' = p then map_option f (by_position_id rows p) else by_position_id rows p')"
  by (induction rows) (auto simp: at_position_def by_position_id_def find_row_def)

lemma by_position_id_excursions:
  "by_position_id (update_excursions rows p mfe mae now) p =
     map_option (\<lambda>r. r\<lparr> td_mfe := (case td_mfe r of None \<Rightarrow> Some mfe
                         | Some old \<Rightarrow> if mfe > old then Some mfe else Some old),
             td_mae := (case td_mae r of None \<Rightarrow> Some mae
                         | Some old \<Rightarrow> if mae < old then Some mae else Some old),
             td_updated_at := now \<rparr>) (by_position_id rows p)"
  by (simp add: update_excursions_def by_position_id_at)

lemma open_trades_mem:
  "r \<in> set (open_trades rows) \<longleftrightarrow> r \<in> set rows \<and> td_status r \<in> {OPEN, ORPHANED, PENDING}"
  by (auto simp: open_trades_def)

subsection \<open>The per-symbol loss summary\<close>

definition symbol_closes :: "string \<Rightarrow> trade list \<Rightarrow> trade list" where
  "symbol_closes symbol rows = filter (\<lambda>r. upper (td_symbol r) = symbol) rows"

definition pnl_values :: "trade list \<Rightarrow> real list" where
  "pnl_values rows = List.map_filter td_realized_pnl rows"

definition tally :: "symbol_summary \<Rightarrow> trade list \<Rightarrow> symbol_summary" where
  "tally e rows = \<lparr> sy_closed = sy_closed e + length rows,
     sy_losses = sy_losses e + length (filter (\<lambda>v. v < 0) (pnl_values rows)),
     sy_net = sy_net e + sum_list (pnl_values rows),
     sy_unmeasured = sy_unmeasured e + length (filter (\<lambda>r. td_realized_pnl r = None) rows) \<rparr>"

lemma tally_Nil: "tally e [] = e"
  by (simp add: tally_def pnl_values_def map_filter_simps)

lemma tally_Cons: "tally e (r # rows) = tally (count_close r e) rows"
  by (simp add: tally_def pnl_values_def map_filter_simps count_close_def Let_def split: option.split)

lemma summarise_closes_lookup:
  "map_of (summarise_closes rows summary) symbol =
     (case map_of summary symbol of
        Some e \<Rightarrow> Some (tally e (symbol_closes symbol rows))
      | None \<Rightarrow> if symbol_closes symbol rows = [] then None
          else Some (tally no_closes (symbol_closes symbol rows)))"
  by (induction rows summary rule: summarise_closes.induct)
    (auto simp: symbol_closes_def tally_Nil tally_Cons Let_def update_conv' split: option.split)

lemma losses_by_symbol_lookup:
  "map_of (losses_by_symbol_since rows moment) symbol =
     (let closes = symbol_closes symbol (filter (closed_since moment) rows) in
      if closes = [] then None else Some (tally no_closes closes))"
  by (simp add: losses_by_symbol_since_def summarise_closes_lookup Let_def)

subsection \<open>Properties\<close>

text \<open>C13. The invariant of the trade book (execution ids and position ids unique, a position id
  exactly on the rows that were filled, closed rows dated) is preserved by every operation of
  the repository, with whatever arguments the broker's answers produce.\<close>

theorem book_invariant:
  assumes "book_ok rows"
  shows "book_ok (create_pending rows k plan now)
    \<and> (case mark_open rows k p oid entry q opened now of Inr rows' \<Rightarrow> book_ok rows' | Inl e \<Rightarrow> e = integrity_error)
    \<and> book_ok (snd (adopt_orphan rows p snap now)) \<and> book_ok (snd (mark_closed rows p c now))
    \<and> book_ok (mark_aborted rows k why now) \<and> book_ok (mark_partial_taken rows p now)
    \<and> book_ok (update_excursions rows p mfe mae now) \<and> book_ok (update_protection rows p sl tp now)"
proof -
  have "case mark_open rows k p oid entry q opened now of Inr rows' \<Rightarrow> book_ok rows' | Inl e \<Rightarrow> e = integrity_error"
  proof (cases "mark_open rows k p oid entry q opened now")
    case (Inl e)
    then show ?thesis by (simp add: mark_open_def split: if_splits)
  next
    case (Inr rows')
    with mark_open_ok [OF assms Inr] show ?thesis by simp
  qed
  with assms show ?thesis
    by (simp add: create_pending_ok adopt_orphan_ok mark_closed_ok mark_aborted_ok mark_partial_taken_ok
        update_excursions_ok update_protection_ok)
qed

theorem book_invariant_witness:
  "book_ok (create_pending [] ''x1'' sample_plan 0)"
proof -
  have "book_ok []" by (simp add: book_ok_def map_filter_simps)
  then show ?thesis using book_invariant by blast
qed

text \<open>Writing the pending row of a submission touches no other execution id, and replaces
  nothing but an aborted row of its own: a pending, open, orphaned or closed trade under the
  same id is kept as it is.\<close>

theorem pending_replaces_only_aborted:
  "by_execution_id (create_pending rows k plan now) k' =
     (if k' \<noteq> k then by_execution_id rows k'
      else case by_execution_id rows k of
        None \<Rightarrow> Some (pending_row k plan now)
      | Some r \<Rightarrow> if td_status r = ABORTED
          then Some ((plan_columns plan now r)\<lparr> td_status := PENDING, td_exit_reason := None \<rparr>)
          else Some r)"
  by (rule create_pending_lookup)

text \<open>The per-symbol loss summary that feeds the symbol lock: for every symbol, in whatever
  letter case its rows carry it, it counts exactly the closes dated inside the window, the
  losing ones, those whose result is unknown, and sums the known results.\<close>

theorem loss_summary_exact:
  "map_of (losses_by_symbol_since rows moment) symbol =
     (let closes = symbol_closes symbol (filter (closed_since moment) rows) in
      if closes = [] then None
      else Some \<lparr> sy_closed = length closes,
        sy_losses = length (filter (\<lambda>v. v < 0) (pnl_values closes)),
        sy_net = sum_list (pnl_values closes),
        sy_unmeasured = length (filter (\<lambda>r. td_realized_pnl r = None) closes) \<rparr>)"
  unfolding losses_by_symbol_lookup by (simp add: tally_def no_closes_def Let_def)

end
