(* ===== verification/Store_Stats.thy ===== *)
theory Store_Stats
  imports Prelude Clock Symbols "HOL-Library.AList" "HOL-Library.Multiset"
begin

text \<open>
  The bookkeeping tables of \<open>bot/storage/repositories.py\<close>: daily counters, equity snapshots,
  spread samples, learned contract sizes, the order-lifecycle trail and the reconciliation
  log. Tables are row lists in insertion order; an \<open>id\<close> column is the row's own number where
  an operation uses it.
\<close>

subsection \<open>Daily counters (\<open>DailyStatsRepository\<close>)\<close>

record day_row =
  dy_day :: int
  dy_realized_pnl :: real
  dy_trades_opened :: nat
  dy_trades_closed :: nat
  dy_wins :: nat
  dy_losses :: nat
  dy_consecutive_losses :: nat
  dy_start_balance :: "real option"

type_synonym day_table = "day_row list"

definition new_day :: "int \<Rightarrow> real option \<Rightarrow> day_row" where
  "new_day day start_balance = \<lparr> dy_day = day, dy_realized_pnl = 0, dy_trades_opened = 0,
     dy_trades_closed = 0, dy_wins = 0, dy_losses = 0, dy_consecutive_losses = 0,
     dy_start_balance = start_balance \<rparr>"

definition find_day :: "day_table \<Rightarrow> int \<Rightarrow> day_row option" where
  "find_day rows day = List.find (\<lambda>r. dy_day r = day) rows"

definition ensure_day :: "day_table \<Rightarrow> int \<Rightarrow> real option \<Rightarrow> day_table" where
  "ensure_day rows day start_balance =
     (case find_day rows day of
        Some row \<Rightarrow> if dy_start_balance row = None \<and> start_balance \<noteq> None
          then update_where (\<lambda>r. dy_day r = day) (\<lambda>r. r\<lparr> dy_start_balance := start_balance \<rparr>) rows
          else rows
      | None \<Rightarrow> rows @ [new_day day start_balance])"

definition today :: "day_table \<Rightarrow> micros \<Rightarrow> real option \<Rightarrow> day_row option \<times> day_table" where
  "today rows now start_balance =
     (let rows' = ensure_day rows (trading_day now) start_balance in
      (find_day rows' (trading_day now), rows'))"

definition record_open :: "day_table \<Rightarrow> micros \<Rightarrow> day_table" where
  "record_open rows now =
     (let day = trading_day now in
      update_where (\<lambda>r. dy_day r = day)
        (\<lambda>r. r\<lparr> dy_trades_opened := dy_trades_opened r + 1 \<rparr>) (ensure_day rows day None))"

definition count_pnl :: "real \<Rightarrow> day_row \<Rightarrow> day_row" where
  "count_pnl pnl r = r\<lparr> dy_realized_pnl := dy_realized_pnl r + pnl,
     dy_trades_closed := dy_trades_closed r + 1,
     dy_wins := dy_wins r + (if pnl > 0 then 1 else 0),
     dy_losses := dy_losses r + (if pnl < 0 then 1 else 0),
     dy_consecutive_losses := (if pnl < 0 then dy_consecutive_losses r + 1 else 0) \<rparr>"

definition record_close :: "day_table \<Rightarrow> real \<Rightarrow> micros \<Rightarrow> day_table" where
  "record_close rows pnl now =
     (let day = trading_day now in
      update_where (\<lambda>r. dy_day r = day) (count_pnl pnl) (ensure_day rows day None))"

definition newest_days :: "day_table \<Rightarrow> nat \<Rightarrow> day_table" where
  "newest_days rows limit = take limit (sort_key (\<lambda>r. - dy_day r) rows)"

fun walk_streak :: "day_row list \<Rightarrow> nat" where
  "walk_streak [] = 0"
| "walk_streak (r # rs) =
     (if dy_trades_closed r = 0 then walk_streak rs
      else if dy_consecutive_losses r < dy_trades_closed r then dy_consecutive_losses r
      else dy_consecutive_losses r + walk_streak rs)"

definition consecutive_losses :: "day_table \<Rightarrow> nat" where
  "consecutive_losses rows = walk_streak (newest_days rows 30)"

text \<open>A day's sequence of calls, and what it records.\<close>

datatype book_event = Opened micros | ClosedAt real micros

fun event_day :: "book_event \<Rightarrow> int" where
  "event_day (Opened t) = trading_day t"
| "event_day (ClosedAt _ t) = trading_day t"

fun book :: "day_table \<Rightarrow> book_event \<Rightarrow> day_table" where
  "book rows (Opened t) = record_open rows t"
| "book rows (ClosedAt pnl t) = record_close rows pnl t"

definition booked :: "book_event list \<Rightarrow> day_table" where
  "booked events = foldl book [] events"

fun close_pnl :: "book_event \<Rightarrow> real option" where
  "close_pnl (Opened _) = None"
| "close_pnl (ClosedAt pnl _) = Some pnl"

definition trailing_losses :: "book_event list \<Rightarrow> nat" where
  "trailing_losses events =
     length (takeWhile (\<lambda>pnl. pnl < 0) (rev (List.map_filter close_pnl events)))"

text \<open>The table after a chronological run: days strictly ascending, the last one being that of
  the latest event, and no day's streak longer than its closes.\<close>

definition days_ok :: "day_table \<Rightarrow> bool" where
  "days_ok rows = (sorted_wrt (<) (map dy_day rows)
     \<and> (\<forall>r \<in> set rows. dy_consecutive_losses r \<le> dy_trades_closed r))"

lemma newest_days_rev:
  assumes "sorted_wrt (<) (map dy_day rows)" and "length rows \<le> n"
  shows "newest_days rows n = rev rows"
proof -
  have "sorted (map (\<lambda>r. - dy_day r) (rev rows))"
    using assms(1) by (induction rows) (auto simp: sorted_append)
  moreover have "inj_on (\<lambda>r. - dy_day r) (set rows)"
    using strict_sorted_iff [of "map dy_day rows"] assms(1) by (auto simp: distinct_map inj_on_def)
  ultimately have "sort_key (\<lambda>r. - dy_day r) rows = rev rows"
    by (intro sort_key_inj_key_eq) simp_all
  then show ?thesis using assms(2) by (simp add: newest_days_def)
qed

lemma find_day_last:
  assumes "sorted_wrt (<) (map dy_day rows)" and "\<forall>r \<in> set rows. dy_day r \<le> day"
  shows "find_day rows day = (if rows \<noteq> [] \<and> dy_day (last rows) = day then Some (last rows) else None)"
  using assms
proof (induction rows)
  case (Cons r rs)
  then show ?case by (cases rs) (auto simp: find_day_def)
qed (simp add: find_day_def)

lemma update_last_day:
  assumes "sorted_wrt (<) (map dy_day (rows @ [r]))"
  shows "update_where (\<lambda>x. dy_day x = dy_day r) f (rows @ [r]) = rows @ [f r]"
  using assms by (auto simp: update_where_def sorted_wrt_append intro!: map_idI)

lemma ensure_day_shape:
  assumes "days_ok rows" and "\<forall>r \<in> set rows. dy_day r \<le> day"
  obtains earlier r where "ensure_day rows day None = earlier @ [r]" and "dy_day r = day"
    and "days_ok (earlier @ [r])" and "walk_streak (rev (earlier @ [r])) = walk_streak (rev rows)"
    and "earlier @ [r] = rows \<or> (earlier = rows \<and> r = new_day day None)"
proof (cases "rows \<noteq> [] \<and> dy_day (last rows) = day")
  case True
  then have "ensure_day rows day None = butlast rows @ [last rows]"
    using find_day_last [of rows day] assms by (simp add: ensure_day_def days_ok_def)
  with True assms show ?thesis by (intro that [of "butlast rows" "last rows"]) simp_all
next
  case False
  then have e: "ensure_day rows day None = rows @ [new_day day None]"
    using find_day_last [of rows day] assms by (auto simp: ensure_day_def days_ok_def)
  have "\<forall>r \<in> set rows. dy_day r < day"
  proof
    fix r assume r: "r \<in> set rows"
    have "sorted (map dy_day rows)" using assms(1) strict_sorted_imp_sorted by (auto simp: days_ok_def)
    then have "dy_day r \<le> dy_day (last rows)"
      using r by (induction rows) auto
    moreover have "dy_day (last rows) < day"
      using False r assms(2) last_in_set [of rows] by (cases rows) force+
    ultimately show "dy_day r < day" by simp
  qed
  then have "days_ok (rows @ [new_day day None])"
    using assms(1) by (auto simp: days_ok_def sorted_wrt_append new_day_def)
  with e show ?thesis by (intro that [of rows "new_day day None"]) (simp_all add: new_day_def)
qed

lemma trailing_losses_snoc:
  "trailing_losses (events @ [e]) =
     (case close_pnl e of None \<Rightarrow> trailing_losses events
      | Some pnl \<Rightarrow> if pnl < 0 then Suc (trailing_losses events) else 0)"
  by (simp add: trailing_losses_def map_filter_def split: option.split)

lemma walk_count_pnl:
  assumes "dy_consecutive_losses r \<le> dy_trades_closed r"
  shows "walk_streak (count_pnl pnl r # rs) = (if pnl < 0 then Suc (walk_streak (r # rs)) else 0)"
  using assms by (auto simp: count_pnl_def)

lemma book_step:
  assumes ok: "days_ok rows" and le: "\<forall>r \<in> set rows. dy_day r \<le> event_day e"
  shows "days_ok (book rows e)" and "set (map dy_day (book rows e)) = insert (event_day e) (set (map dy_day rows))"
    and "walk_streak (rev (book rows e)) =
      (case close_pnl e of None \<Rightarrow> walk_streak (rev rows)
       | Some pnl \<Rightarrow> if pnl < 0 then Suc (walk_streak (rev rows)) else 0)"
proof -
  obtain earlier r where shape: "ensure_day rows (event_day e) None = earlier @ [r]"
    "dy_day r = event_day e" "days_ok (earlier @ [r])"
    "walk_streak (rev (earlier @ [r])) = walk_streak (rev rows)"
    "earlier @ [r] = rows \<or> (earlier = rows \<and> r = new_day (event_day e) None)"
    by (rule ensure_day_shape [OF ok le])
  define r' where "r' = (case e of Opened t \<Rightarrow> r\<lparr> dy_trades_opened := dy_trades_opened r + 1 \<rparr>
      | ClosedAt pnl t \<Rightarrow> count_pnl pnl r)"
  have booked: "book rows e = earlier @ [r']"
    using shape(1) update_last_day [of earlier r] shape(3) shape(2)
    by (cases e) (simp_all add: record_open_def record_close_def r'_def days_ok_def)
  have day: "dy_day r' = event_day e" using shape(2) by (cases e) (simp_all add: r'_def count_pnl_def)
  have streak: "dy_consecutive_losses r \<le> dy_trades_closed r" using shape(3) by (simp add: days_ok_def)
  then have "dy_consecutive_losses r' \<le> dy_trades_closed r'"
    by (cases e) (simp_all add: r'_def count_pnl_def)
  with shape(2,3) day show "days_ok (book rows e)" by (simp add: booked days_ok_def sorted_wrt_append)
  show "set (map dy_day (book rows e)) = insert (event_day e) (set (map dy_day rows))"
    using shape(2,5) by (auto simp: booked day)
  have walk: "walk_streak (r # rev earlier) = walk_streak (rev rows)" using shape(4) by simp
  show "walk_streak (rev (book rows e)) =
      (case close_pnl e of None \<Rightarrow> walk_streak (rev rows)
       | Some pnl \<Rightarrow> if pnl < 0 then Suc (walk_streak (rev rows)) else 0)"
  proof (cases e)
    case (Opened t)
    then have "walk_streak (rev (book rows e)) = walk_streak (r # rev earlier)"
      unfolding booked by (simp add: r'_def)
    then show ?thesis unfolding walk using Opened by simp
  next
    case (ClosedAt pnl t)
    then have r': "r' = count_pnl pnl r" by (simp add: r'_def)
    have "walk_streak (rev (book rows e)) = walk_streak (count_pnl pnl r # rev earlier)"
      by (simp add: booked r')
    then show ?thesis unfolding walk_count_pnl [OF streak] walk using ClosedAt by simp
  qed
qed

lemma booked_snoc: "booked (events @ [e]) = book (booked events) e"
  by (simp add: booked_def)

lemma booked_state:
  assumes "sorted (map event_day events)"
  shows "days_ok (booked events) \<and> set (map dy_day (booked events)) = set (map event_day events)
    \<and> walk_streak (rev (booked events)) = trailing_losses events"
  using assms
proof (induction events rule: rev_induct)
  case Nil
  show ?case by (simp add: booked_def days_ok_def trailing_losses_def map_filter_simps)
next
  case (snoc e events)
  then have IH: "days_ok (booked events)" "set (map dy_day (booked events)) = set (map event_day events)"
    "walk_streak (rev (booked events)) = trailing_losses events"
    by (auto simp: sorted_append)
  have le: "\<forall>r \<in> set (booked events). dy_day r \<le> event_day e"
  proof
    fix r assume "r \<in> set (booked events)"
    then have "dy_day r \<in> set (map event_day events)" unfolding IH(2) [symmetric] by simp
    then show "dy_day r \<le> event_day e" using snoc.prems by (auto simp: sorted_append)
  qed
  show ?case using book_step [OF IH(1) le] IH
    by (simp add: booked_snoc trailing_losses_snoc split: option.split)
qed

lemma booked_length:
  "sorted (map event_day events) \<Longrightarrow> length (booked events) = card (set (map event_day events))"
  using booked_state [of events] strict_sorted_iff [of "map dy_day (booked events)"]
    distinct_card [of "map dy_day (booked events)"]
  by (simp add: days_ok_def)

subsection \<open>Equity snapshots (\<open>EquityRepository\<close>)\<close>

record equity_row =
  eq_id :: nat
  eq_balance :: real
  eq_equity :: real
  eq_account_id :: "string option"
  eq_created_at :: micros

type_synonym equity_table = "equity_row list"

definition next_id :: "('r \<Rightarrow> nat) \<Rightarrow> 'r list \<Rightarrow> nat" where
  "next_id ident rows = Suc (fold max (map ident rows) 0)"

definition equity_snapshot ::
  "equity_table \<Rightarrow> real \<Rightarrow> real \<Rightarrow> string option \<Rightarrow> micros \<Rightarrow> equity_table" where
  "equity_snapshot rows balance equity account_id now = rows @ [\<lparr> eq_id = next_id eq_id rows,
     eq_balance = balance, eq_equity = equity,
     eq_account_id = (if truthy_str account_id then account_id else None), eq_created_at = now \<rparr>]"

fun maximum :: "real list \<Rightarrow> real option" where
  "maximum [] = None"
| "maximum (x # xs) = (case maximum xs of None \<Rightarrow> Some x | Some y \<Rightarrow> Some (max x y))"

definition peak_equity :: "equity_table \<Rightarrow> string option \<Rightarrow> real option" where
  "peak_equity rows account_id = maximum (map eq_equity
     (if truthy_str account_id then filter (\<lambda>r. eq_account_id r = account_id) rows else rows))"

definition equity_curve :: "equity_table \<Rightarrow> nat \<Rightarrow> (real \<times> real \<times> micros) list" where
  "equity_curve rows limit = rev (take limit (sort_key (\<lambda>(_, _, t). - t)
     (map (\<lambda>r. (eq_balance r, eq_equity r, eq_created_at r)) rows)))"

text \<open>\<open>DELETE ... WHERE id NOT IN (SELECT id ... ORDER BY created_at DESC LIMIT keep)\<close>\<close>

definition keep_newest :: "('r \<Rightarrow> nat) \<Rightarrow> ('r \<Rightarrow> micros) \<Rightarrow> nat \<Rightarrow> 'r list \<Rightarrow> 'r list" where
  "keep_newest ident stamp keep rows =
     (let kept = map ident (take keep (sort_key (\<lambda>r. - stamp r) rows)) in
      filter (\<lambda>r. ident r \<in> set kept) rows)"

definition equity_prune :: "equity_table \<Rightarrow> nat \<Rightarrow> equity_table" where
  "equity_prune rows keep = keep_newest eq_id eq_created_at keep rows"

lemma maximum_None [simp]: "maximum xs = None \<longleftrightarrow> xs = []"
  by (cases xs) (auto split: option.split)

lemma maximum_Some: "maximum xs = Some m \<longleftrightarrow> xs \<noteq> [] \<and> m \<in> set xs \<and> (\<forall>x \<in> set xs. x \<le> m)"
proof (induction xs arbitrary: m)
  case Nil
  then show ?case by simp
next
  case (Cons x xs)
  show ?case
  proof (cases "maximum xs")
    case None
    then show ?thesis by auto
  next
    case (Some y)
    then have "y \<in> set xs" "\<forall>z \<in> set xs. z \<le> y" using Cons.IH by auto
    with Some show ?thesis by (fastforce simp: max_def)
  qed
qed

lemma keep_newest_subset: "set (keep_newest ident stamp keep rows) \<subseteq> set rows"
  by (auto simp: keep_newest_def Let_def)

lemma peak_equity_snapshot:
  assumes "truthy_str account_id"
  shows "peak_equity (equity_snapshot rows balance equity account_id now) account_id =
    Some (case peak_equity rows account_id of None \<Rightarrow> equity | Some p \<Rightarrow> max p equity)"
proof -
  define es where "es = map eq_equity (filter (\<lambda>r. eq_account_id r = account_id) rows)"
  have "maximum (es @ [equity]) = Some (case maximum es of None \<Rightarrow> equity | Some p \<Rightarrow> max p equity)"
    by (induction es) (auto split: option.split)
  then show ?thesis using assms by (simp add: peak_equity_def equity_snapshot_def es_def)
qed

subsection \<open>Spread samples (\<open>SpreadRepository\<close>)\<close>

record spread_row =
  sd_id :: nat
  sd_symbol :: string
  sd_observed_at :: micros
  sd_bid :: "real option"
  sd_ask :: "real option"
  sd_spread :: real
  sd_session :: "string option"
  sd_hour_utc :: "int option"

type_synonym spread_table = "spread_row list"

definition MIN_SAMPLES :: nat where "MIN_SAMPLES = 30"

definition spread_record ::
  "spread_table \<Rightarrow> string \<Rightarrow> micros \<Rightarrow> real option \<Rightarrow> real option \<Rightarrow> real \<Rightarrow> string option \<Rightarrow> spread_table" where
  "spread_record rows symbol observed_at bid ask spread session = rows @ [\<lparr> sd_id = next_id sd_id rows,
     sd_symbol = upper symbol, sd_observed_at = observed_at, sd_bid = bid, sd_ask = ask,
     sd_spread = spread, sd_session = session, sd_hour_utc = Some (hour_of observed_at) \<rparr>]"

record spread_summary =
  sm_n :: nat
  sm_median :: real
  sm_p90 :: real
  sm_max :: real
  sm_sufficient :: bool

definition percentile :: "real list \<Rightarrow> real \<Rightarrow> real" where
  "percentile ordered fraction =
     (if ordered = [] then 0
      else ordered ! nat (min (int (length ordered) - 1)
             (round_half_even (fraction * of_int (int (length ordered) - 1)))))"

definition summarise :: "real list \<Rightarrow> spread_summary" where
  "summarise values = (let ordered = sort values in
     \<lparr> sm_n = length ordered, sm_median = percentile ordered (1 / 2),
       sm_p90 = percentile ordered (9 / 10),
       sm_max = (if ordered = [] then 0 else last ordered),
       sm_sufficient = (length ordered \<ge> MIN_SAMPLES) \<rparr>)"

fun group_values :: "('k \<times> real) list \<Rightarrow> ('k \<times> real list) list \<Rightarrow> ('k \<times> real list) list" where
  "group_values [] grouped = grouped"
| "group_values ((k, v) # rest) grouped = group_values rest
     (AList.update k ((case map_of grouped k of None \<Rightarrow> [] | Some vs \<Rightarrow> vs) @ [v]) grouped)"

definition spreads_by_symbol :: "spread_table \<Rightarrow> micros option \<Rightarrow> (string \<times> spread_summary) list" where
  "spreads_by_symbol rows since =
     map (\<lambda>(symbol, values). (symbol, summarise values))
       (sort_key fst (group_values (map (\<lambda>r. (sd_symbol r, sd_spread r))
          (filter (\<lambda>r. case since of None \<Rightarrow> True | Some t \<Rightarrow> sd_observed_at r \<ge> t) rows)) []))"

definition spreads_by_hour :: "spread_table \<Rightarrow> string option \<Rightarrow> (int \<times> spread_summary) list" where
  "spreads_by_hour rows symbol =
     map (\<lambda>(hour, values). (hour, summarise values))
       (sort_key fst (group_values (List.map_filter
          (\<lambda>r. map_option (\<lambda>h. (h, sd_spread r)) (sd_hour_utc r))
          (filter (\<lambda>r. \<not> truthy_str symbol \<or> Some (sd_symbol r) = map_option upper symbol) rows)) []))"

definition spread_prune :: "spread_table \<Rightarrow> nat \<Rightarrow> spread_table" where
  "spread_prune rows keep = keep_newest sd_id sd_observed_at keep rows"

lemma group_values_lookup:
  "map_of (group_values kvs grouped) k =
     (case map snd (filter (\<lambda>kv. fst kv = k) kvs) of
        [] \<Rightarrow> map_of grouped k
      | v # vs \<Rightarrow> Some ((case map_of grouped k of None \<Rightarrow> [] | Some ws \<Rightarrow> ws) @ v # vs))"
  by (induction kvs grouped rule: group_values.induct) (auto simp: update_conv' split: list.split option.split)

lemma percentile_mono:
  assumes "sorted xs" and "0 \<le> f" and "f \<le> g"
  shows "percentile xs f \<le> percentile xs g"
proof (cases "xs = []")
  case False
  define n where "n = int (length xs) - 1"
  have n: "0 \<le> n" using False by (cases xs) (simp_all add: n_def)
  have "f * of_int n \<le> g * of_int n" using n assms(3) by (simp add: mult_right_mono)
  then have le: "round_half_even (f * of_int n) \<le> round_half_even (g * of_int n)"
    by (rule round_half_even_mono)
  have "nat (min n (round_half_even (g * of_int n))) < length xs"
    using n False by (cases xs) (auto simp: n_def)
  then show ?thesis using le False assms(1)
    by (auto simp: percentile_def n_def [symmetric] intro!: sorted_nth_mono nat_mono min.mono)
qed (simp add: percentile_def)

lemma percentile_le_last:
  assumes "sorted xs" and "xs \<noteq> []"
  shows "percentile xs f \<le> last xs"
  using assms
  by (auto simp: percentile_def last_conv_nth intro!: sorted_nth_mono)

subsection \<open>Learned contract sizes (\<open>InstrumentSpecRepository\<close>)\<close>

record spec_row =
  sr_instrument_id :: string
  sr_symbol :: string
  sr_contract_size :: real
  sr_fetched_at :: micros

definition contract_size_of :: "spec_row list \<Rightarrow> string \<Rightarrow> real option" where
  "contract_size_of rows instrument_id =
     (case List.find (\<lambda>r. sr_instrument_id r = instrument_id) rows of
        None \<Rightarrow> None
      | Some r \<Rightarrow> if sr_contract_size r > 0 then Some (sr_contract_size r) else None)"

definition remember ::
  "spec_row list \<Rightarrow> string \<Rightarrow> real option \<Rightarrow> string \<Rightarrow> micros \<Rightarrow> spec_row list" where
  "remember rows instrument_id cs symbol now =
     (case cs of
        None \<Rightarrow> rows
      | Some s \<Rightarrow>
          if instrument_id = [] \<or> s \<le> 0 then rows
          else let row = \<lparr> sr_instrument_id = instrument_id, sr_symbol = symbol,
                 sr_contract_size = s, sr_fetched_at = now \<rparr> in
            if \<exists>r \<in> set rows. sr_instrument_id r = instrument_id
            then update_where (\<lambda>r. sr_instrument_id r = instrument_id) (\<lambda>_. row) rows
            else rows @ [row])"

definition known_specs :: "spec_row list \<Rightarrow> spec_row list" where
  "known_specs rows = sort_key (\<lambda>r. (sr_symbol r, sr_instrument_id r)) rows"

lemma contract_size_remember:
  "contract_size_of (remember rows k cs symbol now) k' =
     (case cs of
        None \<Rightarrow> contract_size_of rows k'
      | Some s \<Rightarrow> if k' = k \<and> k \<noteq> [] \<and> s > 0 then Some s else contract_size_of rows k')"
proof (cases cs)
  case (Some s)
  show ?thesis
  proof (cases "k = [] \<or> s \<le> 0")
    case False
    then have s: "k \<noteq> []" "s > 0" by simp_all
    define row where "row = \<lparr> sr_instrument_id = k, sr_symbol = symbol,
        sr_contract_size = s, sr_fetched_at = now \<rparr>"
    have u: "List.find (\<lambda>r. sr_instrument_id r = k') (update_where (\<lambda>r. sr_instrument_id r = k) (\<lambda>_. row) rows)
        = map_option (\<lambda>r. if sr_instrument_id r = k then row else r)
            (List.find (\<lambda>r. sr_instrument_id r = k') rows)"
      by (rule find_update_where) (simp add: row_def)
    show ?thesis
    proof (cases "\<exists>r \<in> set rows. sr_instrument_id r = k")
      case True
      then have e: "remember rows k cs symbol now =
          update_where (\<lambda>r. sr_instrument_id r = k) (\<lambda>_. row) rows"
        using Some s by (simp add: remember_def row_def)
      show ?thesis
      proof (cases "List.find (\<lambda>r. sr_instrument_id r = k') rows")
        case None
        with True have "k' \<noteq> k" by (auto simp: find_None_iff)
        then show ?thesis unfolding e contract_size_of_def u using None Some by simp
      next
        case (Some r)
        then have "sr_instrument_id r = k'" by (auto dest: find_Some_mem)
        then show ?thesis unfolding e contract_size_of_def u using Some \<open>cs = Some s\<close> s
          by (simp add: row_def)
      qed
    next
      case False
      then have "remember rows k cs symbol now = rows @ [row]"
        using Some s by (simp add: remember_def row_def)
      moreover have "List.find (\<lambda>r. sr_instrument_id r = k) rows = None"
        using False by (auto simp: find_None_iff)
      ultimately show ?thesis using Some s
        by (auto simp: contract_size_of_def find_append row_def split: option.split)
    qed
  qed (use Some in \<open>auto simp: remember_def\<close>)
qed (simp add: remember_def)

subsection \<open>The event trail and the reconciliation log\<close>

text \<open>The JSON \<open>detail\<close> is kept as the text that matters to a reader.\<close>

record event_row =
  ev_execution_id :: string
  ev_event :: string
  ev_detail :: string
  ev_created_at :: micros

definition event_append :: "event_row list \<Rightarrow> string \<Rightarrow> string \<Rightarrow> string \<Rightarrow> micros \<Rightarrow> event_row list" where
  "event_append rows execution_id event detail now = rows @ [\<lparr> ev_execution_id = execution_id,
     ev_event = event, ev_detail = detail, ev_created_at = now \<rparr>]"

definition events_for :: "event_row list \<Rightarrow> string \<Rightarrow> event_row list" where
  "events_for rows execution_id = sort_key ev_created_at (filter (\<lambda>r. ev_execution_id r = execution_id) rows)"

record reconciliation_row =
  rr_kind :: string
  rr_symbol :: "string option"
  rr_detail :: string
  rr_created_at :: micros

definition reconciliation_record ::
  "reconciliation_row list \<Rightarrow> string \<Rightarrow> string \<Rightarrow> string option \<Rightarrow> micros \<Rightarrow> reconciliation_row list" where
  "reconciliation_record rows kind detail symbol now = rows @ [\<lparr> rr_kind = kind, rr_symbol = symbol,
     rr_detail = detail, rr_created_at = now \<rparr>]"

definition reconciliations_recent :: "reconciliation_row list \<Rightarrow> nat \<Rightarrow> reconciliation_row list" where
  "reconciliations_recent rows limit = take limit (sort_key (\<lambda>r. - rr_created_at r) rows)"

subsection \<open>Properties\<close>



text \<open>A new equity snapshot never lowers the recorded peak of its account: the peak becomes the
  larger of the old peak and the new equity.\<close>

theorem peak_after_snapshot:
  assumes "truthy_str account_id"
  shows "peak_equity (equity_snapshot rows balance equity account_id now) account_id =
    Some (case peak_equity rows account_id of None \<Rightarrow> equity | Some p \<Rightarrow> max p equity)"
  using assms by (rule peak_equity_snapshot)

theorem peak_after_snapshot_witness:
  "peak_equity (equity_snapshot [] 100 100 (Some ''7'') 0) (Some ''7'') = Some 100"
  using peak_after_snapshot [of "Some ''7''" "[]" 100 100 0] by (simp add: truthy_str_def peak_equity_def)

text \<open>Pruning the snapshots keeps the newest ones only, so the peak the drawdown limit is
  measured from can be deleted: after an account falls from 200 to 100, pruning to the newest
  snapshot leaves a peak of 100 and a drawdown of zero.\<close>

theorem prune_forgets_the_peak:
  "let rows = equity_snapshot (equity_snapshot [] 200 200 (Some ''7'') 0) 100 100 (Some ''7'') 1 in
   peak_equity rows (Some ''7'') = Some 200
   \<and> peak_equity (equity_prune rows 1) (Some ''7'') = Some 100"
  by (simp add: equity_snapshot_def truthy_str_def peak_equity_def equity_prune_def keep_newest_def
      next_id_def Let_def sort_key_def)

text \<open>The spread statistics of a sample are ordered, median below the ninetieth percentile
  below the maximum, and the maximum bounds every observation.\<close>

theorem spread_summary_ordered:
  "values = [] \<or> (sm_median (summarise values) \<le> sm_p90 (summarise values)
     \<and> sm_p90 (summarise values) \<le> sm_max (summarise values)
     \<and> sm_max (summarise values) = Max (set values) \<and> sm_n (summarise values) = length values)"
proof (cases "values = []")
  case False
  have "percentile (sort values) (1 / 2) \<le> percentile (sort values) (9 / 10)"
    by (rule percentile_mono) simp_all
  moreover have "percentile (sort values) (9 / 10) \<le> last (sort values)"
    using False by (intro percentile_le_last) (simp_all flip: set_empty)
  moreover have "last (sort values) = Max (set values)"
  proof (rule sym, rule Max_eqI)
    have "sort values \<noteq> []" using False by (simp flip: set_empty)
    then show "last (sort values) \<in> set values" using last_in_set [of "sort values"] by simp
    fix v assume "v \<in> set values"
    then have "v \<in> set (sort values)" by simp
    then obtain i where "i < length values" "v = sort values ! i" unfolding in_set_conv_nth by auto
    then show "v \<le> last (sort values)" using \<open>sort values \<noteq> []\<close>
      by (auto simp: last_conv_nth intro!: sorted_nth_mono)
  qed simp
  moreover have "sort values \<noteq> []" using False by (simp flip: set_empty)
  ultimately show ?thesis by (simp add: summarise_def Let_def)
qed simp

text \<open>A learned contract size is only ever replaced by a positive one for the same instrument,
  and reading it back gives what was last remembered.\<close>

theorem contract_size_roundtrip:
  "contract_size_of (remember rows k cs symbol now) k' =
     (case cs of
        None \<Rightarrow> contract_size_of rows k'
      | Some s \<Rightarrow> if k' = k \<and> k \<noteq> [] \<and> s > 0 then Some s else contract_size_of rows k')"
  by (rule contract_size_remember)

end
