(* ===== verification/Risk_Engine.thy ===== *)
theory Risk_Engine
  imports Correlation Sessions State_Store Trades
begin

text \<open>
  The risk engine, \<open>bot/risk/engine.py\<close>: the account state it judges, the dynamic risk
  percentage, the hard blocks, the decision and the automatic kill-switch rule. Messages are
  constructors of \<open>block_reason\<close>, \<open>risk_note\<close> and \<open>decision_reason\<close>; the \<open>limits\<close> and
  \<open>version\<close> echoes of a decision are left out. Of the candidate only the scalar fields are
  kept (the nested evidence records are the detectors' own).
\<close>

record setup_candidate =
  cd_symbol :: string
  cd_direction :: string
  cd_entry :: real
  cd_stop_loss :: real
  cd_take_profit :: real
  cd_risk_reward :: real
  cd_stop_distance :: real
  cd_atr :: real
  cd_h1_bias :: string
  cd_m15_bias :: string
  cd_alignment :: string
  cd_setup_type :: string
  cd_setup_id :: string
  cd_score_floor :: real
  cd_timestamp :: "micros option"

record account_risk_state =
  ar_balance :: real
  ar_equity :: real
  ar_available_margin :: real
  ar_peak_equity :: real
  ar_daily_realized_pnl :: real
  ar_open_pnl :: real
  ar_trades_today :: nat
  ar_trades_this_session :: nat
  ar_consecutive_losses :: nat
  ar_open_positions :: "open_position list"
  ar_last_loss_at :: "micros option"
  ar_last_execution_failure_at :: "micros option"
  ar_traded_setup_ids :: "string list"
  ar_recent_by_symbol :: "(string \<times> symbol_summary) list"

definition drawdown_pct :: "account_risk_state \<Rightarrow> real" where
  "drawdown_pct a =
     (if ar_peak_equity a \<le> 0 then 0 else max 0 ((ar_peak_equity a - ar_equity a) / ar_peak_equity a))"

definition daily_pnl :: "account_risk_state \<Rightarrow> real" where
  "daily_pnl a = ar_daily_realized_pnl a + ar_open_pnl a"

subsection \<open>The dynamic risk percentage\<close>

datatype risk_note =
    ScaledUpAPlus | ScaledUpA | ReducedB | DrawdownScaled real real | LossesScaled nat real
  | ClampedRisk real real

definition risk_percentage :: "risk_config \<Rightarrow> string \<Rightarrow> account_risk_state \<Rightarrow> real \<times> risk_note list" where
  "risk_percentage limits tier account =
     (let base = rc_base_risk_pct limits;
          (risk1, notes1) =
            (if tier = ''A+'' then (base * (14 / 10), [ScaledUpAPlus])
             else if tier = ''A'' then (base * (115 / 100), [ScaledUpA])
             else if tier = ''B'' then (base * (75 / 100), [ReducedB])
             else (base, []));
          drawdown = drawdown_pct account;
          (risk2, notes2) =
            (if drawdown \<ge> rc_drawdown_derisk_pct limits then
               (let span = max (1 / 10 ^ 9) (rc_max_drawdown_pct limits - rc_drawdown_derisk_pct limits);
                    progress = min 1 ((drawdown - rc_drawdown_derisk_pct limits) / span);
                    factor = 1 - 6 / 10 * progress
                in (risk1 * factor, notes1 @ [DrawdownScaled drawdown factor]))
             else (risk1, notes1));
          losses = ar_consecutive_losses account;
          (risk3, notes3) =
            (if losses \<ge> 2 then
               (let factor = max (1 / 2) (1 - 2 / 10 * (real losses - 1))
                in (risk2 * factor, notes2 @ [LossesScaled losses factor]))
             else (risk2, notes2));
          clamped = max (rc_min_risk_pct limits) (min (rc_max_risk_pct limits) risk3)
      in (clamped, if clamped \<noteq> risk3 then notes3 @ [ClampedRisk risk3 clamped] else notes3))"

subsection \<open>Hard blocks\<close>

datatype block_reason =
    KillSwitchActive "string option" | BalanceNotPositive | EquityNotPositive | MarketClosed
  | SessionTooThin string | RolloverBlackout real bool | WeekendEntryBlackout real
  | DailyLossReached real real | DrawdownReached real | LossStreakReached nat
  | OpenPositionsReached nat | RiskUnknownOn "string list" | AlreadyHolding string
  | SetupAlreadyTraded string | SymbolBenched nat real | DailyTradesReached nat
  | SessionTradesReached nat | CoolingAfterLoss real | CoolingAfterFailure real

definition block_if :: "bool \<Rightarrow> 'a \<Rightarrow> 'a list" where
  "block_if c x = (if c then [x] else [])"

definition position_label :: "open_position \<Rightarrow> string" where
  "position_label p =
     (if op_symbol p \<noteq> [] then op_symbol p
      else if truthy_str (op_position_id p) then the (op_position_id p) else ''?'')"

definition symbol_losses :: "account_risk_state \<Rightarrow> string \<Rightarrow> (nat \<times> real) option" where
  "symbol_losses account symbol =
     map_option (\<lambda>e. (sy_losses e, sy_net e)) (map_of (ar_recent_by_symbol account) (upper symbol))"

definition cooling :: "micros option \<Rightarrow> micros \<Rightarrow> int \<Rightarrow> (real \<Rightarrow> block_reason) \<Rightarrow> block_reason list" where
  "cooling since now minutes reason =
     (case since of None \<Rightarrow> []
      | Some t \<Rightarrow> (let elapsed = total_seconds (now - t) / 60 in
          block_if (elapsed < of_int minutes) (reason elapsed)))"

definition hard_blocks ::
  "trading_config \<Rightarrow> kill_store option \<Rightarrow> setup_candidate \<Rightarrow> account_risk_state \<Rightarrow> micros
     \<Rightarrow> block_reason list" where
  "hard_blocks config kill candidate account now =
     (let limits = tc_risk config;
          sessions = tc_sessions config;
          session = classify_session now sessions;
          max_daily_loss = ar_balance account * rc_max_daily_loss_pct limits;
          positions = ar_open_positions account;
          unpriced = map position_label (filter (\<lambda>p. op_risk_amount p = None) positions);
          same_symbol = filter (\<lambda>p. same_instrument (op_symbol p) (cd_symbol candidate)) positions
      in (case kill of None \<Rightarrow> []
          | Some store \<Rightarrow> block_if (ks_active (kill_read store)) (KillSwitchActive (ks_reason (kill_read store))))
       @ block_if (ar_balance account \<le> 0) BalanceNotPositive
       @ block_if (ar_equity account \<le> 0) EquityNotPositive
       @ block_if (is_forex_weekend now) MarketClosed
       @ block_if (\<not> ss_tradeable session) (SessionTooThin (ss_name session))
       @ (case in_rollover_blackout now sessions of None \<Rightarrow> [] | Some (m, b) \<Rightarrow> [RolloverBlackout m b])
       @ (case in_weekend_entry_blackout now sessions of None \<Rightarrow> [] | Some h \<Rightarrow> [WeekendEntryBlackout h])
       @ block_if (daily_pnl account \<le> - max_daily_loss) (DailyLossReached (daily_pnl account) max_daily_loss)
       @ block_if (drawdown_pct account \<ge> rc_max_drawdown_pct limits) (DrawdownReached (drawdown_pct account))
       @ block_if (ar_consecutive_losses account \<ge> rc_max_consecutive_losses limits)
           (LossStreakReached (ar_consecutive_losses account))
       @ block_if (length positions \<ge> rc_max_open_positions limits) (OpenPositionsReached (length positions))
       @ block_if (unpriced \<noteq> []) (RiskUnknownOn (sort (remdups unpriced)))
       @ block_if (length same_symbol \<ge> rc_max_open_per_symbol limits) (AlreadyHolding (cd_symbol candidate))
       @ block_if (cd_setup_id candidate \<noteq> [] \<and> cd_setup_id candidate \<in> set (ar_traded_setup_ids account))
           (SetupAlreadyTraded (cd_setup_id candidate))
       @ (if rc_symbol_lock_losses limits > 0 then
            (case symbol_losses account (cd_symbol candidate) of None \<Rightarrow> []
             | Some (losses, net) \<Rightarrow>
                 block_if (int losses \<ge> rc_symbol_lock_losses limits) (SymbolBenched losses net))
          else [])
       @ block_if (ar_trades_today account \<ge> rc_max_trades_per_day limits)
           (DailyTradesReached (ar_trades_today account))
       @ block_if (ar_trades_this_session account \<ge> rc_max_trades_per_session limits)
           (SessionTradesReached (ar_trades_this_session account))
       @ cooling (ar_last_loss_at account) now (rc_loss_cooldown_minutes limits) CoolingAfterLoss
       @ cooling (ar_last_execution_failure_at account) now
           (rc_execution_failure_cooldown_minutes limits) CoolingAfterFailure)"

subsection \<open>The decision\<close>

datatype decision_reason =
    Block block_reason | BuyLevelsInvalid | SellLevelsInvalid | RiskRewardTooLow real real
  | SizingRefused sizing_error | RiskAboveBudget real real | PortfolioCapExceeded real real
  | CorrelatedCapExceeded real real "(string \<times> real) option" | RewardReason reward_reason
  | RiskNote risk_note | Risking real real | SizedAt real real real

record risk_decision =
  rd_approved :: bool
  rd_symbol :: string
  rd_direction :: string
  rd_reasons :: "decision_reason list"
  rd_risk_pct :: "real option"
  rd_risk_amount :: "real option"
  rd_size :: "position_size option"
  rd_expected_profit :: "real option"
  rd_reward :: "reward_verdict option"
  rd_exposure :: "exposure_report option"

definition refusal :: "setup_candidate \<Rightarrow> decision_reason list \<Rightarrow> risk_decision" where
  "refusal candidate reasons = \<lparr> rd_approved = False, rd_symbol = cd_symbol candidate,
     rd_direction = cd_direction candidate, rd_reasons = reasons, rd_risk_pct = None,
     rd_risk_amount = None, rd_size = None, rd_expected_profit = None, rd_reward = None,
     rd_exposure = None \<rparr>"

definition decision_state :: "risk_decision \<Rightarrow> string" where
  "decision_state d = (if rd_approved d then rd_direction d else ''NO TRADE'')"

definition evaluate_risk ::
  "trading_config \<Rightarrow> kill_store option \<Rightarrow> setup_candidate \<Rightarrow> string \<Rightarrow> account_risk_state
     \<Rightarrow> instrument_spec \<Rightarrow> rate_lookup option \<Rightarrow> real option \<Rightarrow> micros \<Rightarrow> risk_decision" where
  "evaluate_risk config kill candidate tier account spec rate_lookup leverage now =
     (let limits = tc_risk config;
          blocks = hard_blocks config kill candidate account now;
          entry = cd_entry candidate; stop = cd_stop_loss candidate; target = cd_take_profit candidate
      in if blocks \<noteq> [] then refusal candidate (map Block blocks)
      else if cd_direction candidate = ''BUY'' \<and> \<not> (stop < entry \<and> entry < target)
        then refusal candidate [BuyLevelsInvalid]
      else if cd_direction candidate = ''SELL'' \<and> \<not> (target < entry \<and> entry < stop)
        then refusal candidate [SellLevelsInvalid]
      else if cd_risk_reward candidate < rc_min_risk_reward limits - R_EPSILON
        then refusal candidate [RiskRewardTooLow (cd_risk_reward candidate) (rc_min_risk_reward limits)]
      else
        (let (risk_pct, risk_notes) = risk_percentage limits tier account;
             risk_amount = py_round 2 (ar_equity account * risk_pct);
             priced = \<lambda>d. d\<lparr> rd_risk_pct := Some risk_pct, rd_risk_amount := Some risk_amount \<rparr>
         in case calculate_position_size spec risk_amount entry stop rate_lookup leverage
                   (Some (ar_available_margin account)) of
              Inl e \<Rightarrow> priced (refusal candidate [SizingRefused e])
            | Inr sized \<Rightarrow>
              if ps_actual_risk sized > risk_amount * (102 / 100)
              then priced (refusal candidate [RiskAboveBudget (ps_actual_risk sized) risk_amount])
              else
                (let exposure = analyse_exposure (ar_open_positions account)
                       (Some \<lparr> ec_symbol = cd_symbol candidate, ec_direction = cd_direction candidate,
                               ec_risk_amount = ps_actual_risk sized \<rparr>)
                       (rc_correlation_threshold limits);
                     portfolio_cap = ar_equity account * rc_max_portfolio_risk_pct limits;
                     correlated_cap = ar_equity account * rc_max_correlated_risk_pct limits;
                     measured = \<lambda>d. (priced d)\<lparr> rd_size := Some sized, rd_exposure := Some exposure \<rparr>
                 in if er_total_open_risk exposure > portfolio_cap
                    then measured (refusal candidate
                      [PortfolioCapExceeded (er_total_open_risk exposure) portfolio_cap])
                    else if er_correlated_risk exposure > correlated_cap
                    then measured (refusal candidate
                      [CorrelatedCapExceeded (er_correlated_risk exposure) correlated_cap
                         (er_worst_pair exposure)])
                    else
                      (let profit = expected_profit spec (ps_lots sized) entry target (ps_conversion_rate sized);
                           reward = evaluate_reward (cd_risk_reward candidate) profit (tc_reward config);
                           judged = \<lambda>d. (measured d)\<lparr> rd_expected_profit := Some profit,
                                      rd_reward := Some reward \<rparr>
                       in if \<not> rv_meets_objective reward
                          then judged (refusal candidate [RewardReason (rv_reason reward)])
                          else judged (refusal candidate
                            (map RiskNote risk_notes
                             @ [Risking (ps_actual_risk sized) risk_pct,
                                SizedAt (ps_lots sized) profit (cd_risk_reward candidate),
                                RewardReason (rv_reason reward)]))
                            \<lparr> rd_approved := True \<rparr>))))"

text \<open>The conditions that stop the whole system.\<close>

definition evaluate_kill_switch :: "risk_config \<Rightarrow> account_risk_state \<Rightarrow> string option" where
  "evaluate_kill_switch limits account =
     (if ar_balance account > 0
         \<and> daily_pnl account \<le> - (ar_balance account * rc_max_daily_loss_pct limits)
      then Some ''DAILY_LOSS_LIMIT''
      else if drawdown_pct account \<ge> rc_max_drawdown_pct limits then Some ''MAX_DRAWDOWN''
      else if ar_consecutive_losses account \<ge> rc_max_consecutive_losses limits
      then Some ''CONSECUTIVE_LOSSES''
      else None)"


subsection \<open>The percentage as a product of factors\<close>

definition tier_factor :: "string \<Rightarrow> real" where
  "tier_factor tier = (if tier = ''A+'' then 14 / 10 else if tier = ''A'' then 115 / 100
     else if tier = ''B'' then 75 / 100 else 1)"

definition drawdown_factor :: "risk_config \<Rightarrow> real \<Rightarrow> real" where
  "drawdown_factor limits dd =
     (if dd \<ge> rc_drawdown_derisk_pct limits
      then 1 - 6 / 10 * min 1 ((dd - rc_drawdown_derisk_pct limits)
        / max (1 / 10 ^ 9) (rc_max_drawdown_pct limits - rc_drawdown_derisk_pct limits))
      else 1)"

definition losses_factor :: "nat \<Rightarrow> real" where
  "losses_factor n = (if n \<ge> 2 then max (1 / 2) (1 - 2 / 10 * (real n - 1)) else 1)"

lemma risk_percentage_fst:
  "fst (risk_percentage limits tier account) =
     max (rc_min_risk_pct limits) (min (rc_max_risk_pct limits)
       (rc_base_risk_pct limits * tier_factor tier * drawdown_factor limits (drawdown_pct account)
          * losses_factor (ar_consecutive_losses account)))"
proof -
  let ?base = "rc_base_risk_pct limits"
  have tier: "(if tier = ''A+'' then (?base * (14 / 10), [ScaledUpAPlus])
      else if tier = ''A'' then (?base * (115 / 100), [ScaledUpA])
      else if tier = ''B'' then (?base * (75 / 100), [ReducedB])
      else (?base, [])) = (?base * tier_factor tier,
      if tier = ''A+'' then [ScaledUpAPlus] else if tier = ''A'' then [ScaledUpA]
      else if tier = ''B'' then [ReducedB] else [])"
    by (simp add: tier_factor_def)
  show ?thesis
    by (cases "rc_drawdown_derisk_pct limits \<le> drawdown_pct account";
        cases "2 \<le> ar_consecutive_losses account";
        simp only: risk_percentage_def Let_def tier drawdown_factor_def losses_factor_def
          if_True if_False prod.case fst_conv mult_1_right)
qed

lemma tier_factor_pos: "0 < tier_factor tier"
  by (simp add: tier_factor_def)

lemma drawdown_factor_bounds: "2 / 5 \<le> drawdown_factor limits dd" "drawdown_factor limits dd \<le> 1"
proof -
  let ?s = "max (1 / 10 ^ 9) (rc_max_drawdown_pct limits - rc_drawdown_derisk_pct limits)"
  have s: "0 < ?s" by (simp add: less_max_iff_disj)
  show "2 / 5 \<le> drawdown_factor limits dd" by (simp add: drawdown_factor_def)
  have "0 \<le> (dd - rc_drawdown_derisk_pct limits) / ?s" if "rc_drawdown_derisk_pct limits \<le> dd"
    using that s by (intro divide_nonneg_pos) simp_all
  then show "drawdown_factor limits dd \<le> 1" by (simp add: drawdown_factor_def)
qed

lemma drawdown_factor_anti:
  assumes "dd \<le> dd'"
  shows "drawdown_factor limits dd' \<le> drawdown_factor limits dd"
proof (cases "rc_drawdown_derisk_pct limits \<le> dd")
  case True
  let ?s = "max (1 / 10 ^ 9) (rc_max_drawdown_pct limits - rc_drawdown_derisk_pct limits)"
  have "0 < ?s" by (simp add: less_max_iff_disj)
  then have "(dd - rc_drawdown_derisk_pct limits) / ?s \<le> (dd' - rc_drawdown_derisk_pct limits) / ?s"
    using assms by (intro divide_right_mono) simp_all
  then show ?thesis using True assms by (simp add: drawdown_factor_def)
next
  case False
  then have "drawdown_factor limits dd = 1" by (simp add: drawdown_factor_def)
  then show ?thesis using drawdown_factor_bounds(2) by simp
qed

lemma losses_factor_bounds: "1 / 2 \<le> losses_factor n" "losses_factor n \<le> 1"
  by (auto simp: losses_factor_def max_def)

lemma losses_factor_anti: "n \<le> m \<Longrightarrow> losses_factor m \<le> losses_factor n"
  by (auto simp: losses_factor_def max_def)

lemma risk_percentage_anti:
  assumes base: "0 \<le> rc_base_risk_pct limits"
    and dd: "drawdown_pct a \<le> drawdown_pct b"
    and losses: "ar_consecutive_losses a \<le> ar_consecutive_losses b"
  shows "fst (risk_percentage limits tier b) \<le> fst (risk_percentage limits tier a)"
proof -
  have f: "0 \<le> drawdown_factor limits d" for d
    using drawdown_factor_bounds(1) [of limits d] by simp
  have l: "0 \<le> losses_factor n" for n using losses_factor_bounds(1) [of n] by simp
  have bt: "0 \<le> rc_base_risk_pct limits * tier_factor tier"
    using base tier_factor_pos [of tier] by simp
  have "rc_base_risk_pct limits * tier_factor tier * drawdown_factor limits (drawdown_pct b)
      * losses_factor (ar_consecutive_losses b)
    \<le> rc_base_risk_pct limits * tier_factor tier * drawdown_factor limits (drawdown_pct a)
      * losses_factor (ar_consecutive_losses a)"
    using bt f l drawdown_factor_anti [OF dd] losses_factor_anti [OF losses]
    by (intro mult_mono mult_left_mono) simp_all
  then show ?thesis unfolding risk_percentage_fst by (intro max.mono min.mono) simp_all
qed

subsection \<open>What an approval guarantees\<close>

lemma block_if_Nil [simp]: "block_if c x = [] \<longleftrightarrow> \<not> c"
  by (simp add: block_if_def)

text \<open>Inversion of an empty block list.\<close>

lemma no_blocksD:
  assumes "hard_blocks config kill candidate account now = []"
  shows "\<And>store. kill = Some store \<Longrightarrow> \<not> kill_active store"
    and "0 < ar_balance account" and "0 < ar_equity account"
    and "\<not> is_forex_weekend now" and "ss_tradeable (classify_session now (tc_sessions config))"
    and "in_rollover_blackout now (tc_sessions config) = None"
    and "in_weekend_entry_blackout now (tc_sessions config) = None"
    and "daily_pnl account > - (ar_balance account * rc_max_daily_loss_pct (tc_risk config))"
    and "drawdown_pct account < rc_max_drawdown_pct (tc_risk config)"
    and "ar_consecutive_losses account < rc_max_consecutive_losses (tc_risk config)"
    and "length (ar_open_positions account) < rc_max_open_positions (tc_risk config)"
    and "\<forall>p \<in> set (ar_open_positions account). op_risk_amount p \<noteq> None"
    and "length (filter (\<lambda>p. same_instrument (op_symbol p) (cd_symbol candidate))
      (ar_open_positions account)) < rc_max_open_per_symbol (tc_risk config)"
    and "cd_setup_id candidate \<noteq> [] \<Longrightarrow> cd_setup_id candidate \<notin> set (ar_traded_setup_ids account)"
    and "ar_trades_today account < rc_max_trades_per_day (tc_risk config)"
    and "ar_trades_this_session account < rc_max_trades_per_session (tc_risk config)"
  using assms
  by (auto simp: hard_blocks_def Let_def kill_active_def filter_empty_conv split: option.splits)

text \<open>Inversion of an approval: the guards it passed, in the order they were asked.\<close>

lemma evaluate_risk_approved:
  assumes "rd_approved (evaluate_risk config kill candidate tier account spec lookup lev now)"
  obtains sized exposure where
    "hard_blocks config kill candidate account now = []"
    "cd_direction candidate = ''BUY'' \<Longrightarrow>
       cd_stop_loss candidate < cd_entry candidate \<and> cd_entry candidate < cd_take_profit candidate"
    "cd_direction candidate = ''SELL'' \<Longrightarrow>
       cd_take_profit candidate < cd_entry candidate \<and> cd_entry candidate < cd_stop_loss candidate"
    "rc_min_risk_reward (tc_risk config) - R_EPSILON \<le> cd_risk_reward candidate"
    "calculate_position_size spec
       (py_round 2 (ar_equity account * fst (risk_percentage (tc_risk config) tier account)))
       (cd_entry candidate) (cd_stop_loss candidate) lookup lev (Some (ar_available_margin account))
       = Inr sized"
    "ps_actual_risk sized
       \<le> py_round 2 (ar_equity account * fst (risk_percentage (tc_risk config) tier account)) * (102 / 100)"
    "exposure = analyse_exposure (ar_open_positions account)
       (Some \<lparr> ec_symbol = cd_symbol candidate, ec_direction = cd_direction candidate,
               ec_risk_amount = ps_actual_risk sized \<rparr>) (rc_correlation_threshold (tc_risk config))"
    "er_total_open_risk exposure \<le> ar_equity account * rc_max_portfolio_risk_pct (tc_risk config)"
    "er_correlated_risk exposure \<le> ar_equity account * rc_max_correlated_risk_pct (tc_risk config)"
    "rd_size (evaluate_risk config kill candidate tier account spec lookup lev now) = Some sized"
    "rd_risk_pct (evaluate_risk config kill candidate tier account spec lookup lev now)
       = Some (fst (risk_percentage (tc_risk config) tier account))"
    "rd_risk_amount (evaluate_risk config kill candidate tier account spec lookup lev now)
       = Some (py_round 2 (ar_equity account * fst (risk_percentage (tc_risk config) tier account)))"
proof -
  obtain pct ns where pct: "risk_percentage (tc_risk config) tier account = (pct, ns)"
    by (cases "risk_percentage (tc_risk config) tier account")
  from assms obtain sized where sized: "calculate_position_size spec (py_round 2 (ar_equity account * pct))
      (cd_entry candidate) (cd_stop_loss candidate) lookup lev (Some (ar_available_margin account)) = Inr sized"
    by (auto simp: evaluate_risk_def Let_def pct refusal_def split: if_splits sum.splits)
  show thesis
    by (rule that [of sized "analyse_exposure (ar_open_positions account)
       (Some \<lparr> ec_symbol = cd_symbol candidate, ec_direction = cd_direction candidate,
               ec_risk_amount = ps_actual_risk sized \<rparr>) (rc_correlation_threshold (tc_risk config))"])
      (use assms in \<open>simp_all add: evaluate_risk_def Let_def pct sized refusal_def split: if_splits\<close>)
qed

lemma total_open_risk_sum:
  assumes "\<forall>p \<in> set positions. op_risk_amount p \<noteq> None"
  shows "er_total_open_risk (analyse_exposure positions (Some c) threshold) =
    sum_list (map (\<lambda>p. the (op_risk_amount p)) positions) + ec_risk_amount c"
proof -
  have "map ee_risk (fst (priced_entries positions)) = List.map_filter risk_of positions"
    by (rule priced_entries_risk)
  also have "\<dots> = map (\<lambda>p. the (op_risk_amount p)) positions"
    using assms by (induction positions) (auto simp: map_filter_simps risk_of_def)
  finally have "sum_list (map ee_risk (fst (priced_entries positions)))
      = sum_list (map (\<lambda>p. the (op_risk_amount p)) positions)" by simp
  then show ?thesis
    by (cases "priced_entries positions") (simp add: analyse_exposure_def Let_def split: prod.split)
qed

lemma kill_switch_reason_clearable: "evaluate_kill_switch limits a = Some r \<Longrightarrow> r \<in> set CLEARABLE"
  by (auto simp: evaluate_kill_switch_def CLEARABLE_def split: if_splits)

subsection \<open>Properties\<close>


definition sample_candidate :: setup_candidate where
  "sample_candidate = \<lparr> cd_symbol = ''EURUSD'', cd_direction = ''BUY'', cd_entry = 11 / 10,
     cd_stop_loss = 109 / 100, cd_take_profit = 112 / 100, cd_risk_reward = 2, cd_stop_distance = 1 / 100,
     cd_atr = 1 / 100, cd_h1_bias = ''BULLISH'', cd_m15_bias = ''BULLISH'', cd_alignment = ''BULLISH'',
     cd_setup_type = [], cd_setup_id = ''s1'', cd_score_floor = 0, cd_timestamp = None \<rparr>"

definition sample_account :: account_risk_state where
  "sample_account = \<lparr> ar_balance = 10000, ar_equity = 10000, ar_available_margin = 10000,
     ar_peak_equity = 10000, ar_daily_realized_pnl = 0, ar_open_pnl = 0, ar_trades_today = 0,
     ar_trades_this_session = 0, ar_consecutive_losses = 0, ar_open_positions = [],
     ar_last_loss_at = None, ar_last_execution_failure_at = None, ar_traded_setup_ids = [],
     ar_recent_by_symbol = [] \<rparr>"

text \<open>Thursday, 1 January 1970, 10:00 UTC: the London session.\<close>

definition sample_moment :: micros where
  "sample_moment = 36000000000"

lemma sample_session:
  "hour_of sample_moment = 10" "weekday_of sample_moment = 3" "time_of_day sample_moment = 36000000000"
  by (simp_all add: sample_moment_def hour_of_def time_of_day_def weekday_of_def day_number_def usec_defs)

lemma sample_not_blocked:
  "is_forex_weekend sample_moment = False"
  "in_rollover_blackout sample_moment default_session_config = None"
  "in_weekend_entry_blackout sample_moment default_session_config = None"
  "classify_session sample_moment default_session_config = \<lparr> ss_name = ''LONDON'', ss_quality = 9 / 10,
     ss_tradeable = True, ss_hour_utc = 10, ss_weekend = False \<rparr>"
  by (simp_all add: is_forex_weekend_def sample_session in_rollover_blackout_def default_session_config_def
      nearest_rollover_delta_alt usec_defs in_weekend_entry_blackout_def classify_session_def SESSION_QUALITY_def)

lemma sample_blocks: "hard_blocks sample_config None sample_candidate sample_account sample_moment = []"
proof -
  have "tc_sessions sample_config = default_session_config" by (simp add: sample_config_def)
  then show ?thesis
    by (simp add: hard_blocks_def sample_not_blocked sample_account_def block_if_def daily_pnl_def
        drawdown_pct_def sample_config_def default_risk_config_def cooling_def sample_candidate_def)
qed

lemma sample_risk: "risk_percentage default_risk_config ''A'' sample_account = (575 / 100000, [ScaledUpA])"
  by (simp add: risk_percentage_def default_risk_config_def sample_account_def drawdown_pct_def)

lemma sample_size:
  obtains sz where "calculate_position_size sample_spec (575 / 10) (cd_entry sample_candidate)
      (cd_stop_loss sample_candidate) None (Some 30) (Some (ar_available_margin sample_account)) = Inr sz"
    and "ps_actual_risk sz = 50"
  by (simp add: sample_candidate_def sample_account_def calculate_position_size_def sample_spec_def
      conversion_rate_def currency_text_def upper_def upper_char_def char_code_def round_lot_def
      py_int_def margin_check_def Let_def py_num)

lemma sample_approved:
  "rd_approved (evaluate_risk sample_config None sample_candidate ''A'' sample_account sample_spec None
     (Some 30) sample_moment)"
proof -
  have c: "tc_risk sample_config = default_risk_config" "tc_reward sample_config = default_reward_config"
    by (simp_all add: sample_config_def)
  have r: "py_round 2 (ar_equity sample_account * (575 / 100000)) = 575 / 10"
    by (simp add: sample_account_def py_num)
  obtain sz where sz: "calculate_position_size sample_spec (575 / 10) (cd_entry sample_candidate)
      (cd_stop_loss sample_candidate) None (Some 30) (Some (ar_available_margin sample_account)) = Inr sz"
    "ps_actual_risk sz = 50"
    by (rule sample_size)
  have m: "cd_risk_reward sample_candidate = 2" "cd_stop_loss sample_candidate < cd_entry sample_candidate"
    "cd_entry sample_candidate < cd_take_profit sample_candidate" "cd_direction sample_candidate = ''BUY''"
    "ar_open_positions sample_account = []" "ar_equity sample_account = 10000"
    by (simp_all add: sample_candidate_def sample_account_def)
  have rw: "rv_meets_objective (evaluate_reward 2 p default_reward_config)" for p
    by (simp add: evaluate_reward_def default_reward_config_def R_EPSILON_def)
  show ?thesis
    by (simp only: evaluate_risk_def Let_def sample_blocks c sample_risk prod.case r sz sum.case)
      (simp add: m sz(2) rw default_risk_config_def R_EPSILON_def analyse_exposure_def entries_exposure_def)
qed


text \<open>The risk percentage of a trade always lies between the configured minimum and maximum, and
  it never grows when the drawdown or the losing streak does.\<close>

theorem risk_percentage_bounded:
  assumes "rc_min_risk_pct limits \<le> rc_max_risk_pct limits" and "0 \<le> rc_base_risk_pct limits"
    and "drawdown_pct a \<le> drawdown_pct b" and "ar_consecutive_losses a \<le> ar_consecutive_losses b"
  shows "rc_min_risk_pct limits \<le> fst (risk_percentage limits tier b)
    \<and> fst (risk_percentage limits tier b) \<le> fst (risk_percentage limits tier a)
    \<and> fst (risk_percentage limits tier a) \<le> rc_max_risk_pct limits"
  using risk_percentage_anti [OF assms(2-4), of tier] assms(1) unfolding risk_percentage_fst by simp

theorem risk_percentage_bounded_witness:
  "fst (risk_percentage default_risk_config ''A+'' (sample_account\<lparr> ar_consecutive_losses := 3 \<rparr>)) = 42 / 10000
   \<and> fst (risk_percentage default_risk_config ''A+'' sample_account) = 7 / 1000
   \<and> fst (risk_percentage default_risk_config ''A+'' (sample_account\<lparr> ar_consecutive_losses := 3 \<rparr>))
       \<le> fst (risk_percentage default_risk_config ''A+'' sample_account)"
proof -
  have "rc_min_risk_pct default_risk_config \<le> rc_max_risk_pct default_risk_config"
    "0 \<le> rc_base_risk_pct default_risk_config"
    "drawdown_pct sample_account \<le> drawdown_pct (sample_account\<lparr> ar_consecutive_losses := 3 \<rparr>)"
    "ar_consecutive_losses sample_account
       \<le> ar_consecutive_losses (sample_account\<lparr> ar_consecutive_losses := 3 \<rparr>)"
    by (simp_all add: default_risk_config_def sample_account_def drawdown_pct_def)
  from risk_percentage_bounded [OF this, of "''A+''"]
  show ?thesis
    by (simp add: risk_percentage_fst default_risk_config_def sample_account_def tier_factor_def
        drawdown_factor_def losses_factor_def drawdown_pct_def)
qed

text \<open>The automatic kill switch fires exactly on an account the hard blocks refuse anyway: when it
  names a reason, every candidate is blocked, and the reason is one an operator may clear.\<close>

theorem kill_switch_agrees_with_blocks:
  "case evaluate_kill_switch (tc_risk config) account of
     None \<Rightarrow> ar_balance account \<le> 0 \<or>
       (daily_pnl account > - (ar_balance account * rc_max_daily_loss_pct (tc_risk config))
        \<and> drawdown_pct account < rc_max_drawdown_pct (tc_risk config)
        \<and> ar_consecutive_losses account < rc_max_consecutive_losses (tc_risk config))
   | Some r \<Rightarrow> r \<in> set CLEARABLE \<and> hard_blocks config kill candidate account now \<noteq> []"
proof (cases "evaluate_kill_switch (tc_risk config) account")
  case None
  then show ?thesis by (auto simp: evaluate_kill_switch_def split: if_splits)
next
  case (Some r)
  have "hard_blocks config kill candidate account now \<noteq> []"
  proof
    assume "hard_blocks config kill candidate account now = []"
    from no_blocksD(8-10) [OF this] Some show False
      by (simp add: evaluate_kill_switch_def split: if_splits)
  qed
  with Some kill_switch_reason_clearable [OF Some] show ?thesis by simp
qed

end
