(* ===== verification/Executor.thy ===== *)
theory Executor
  imports Intents Trades Store_Stats Demo_Guard Market_Data
begin

text \<open>
  Order execution, \<open>bot/execution/executor.py\<close>. The persistent state an execution touches is
  the record \<open>world\<close>; the broker, the database ping and the clock are the record \<open>venue\<close> of
  the answers they give, every answer a value or an exception. The calls made to the broker
  are appended to a ghost trace, each with the plan it was made for and the status the plan's
  intent had when the call was made. A result \<open>Inl e\<close> is an exception that escapes \<open>execute\<close>.
\<close>

datatype broker_call =
    ReadMetadata | ReadPositions | ReadQuote | Slept real
  | PlaceOrder string real real real
  | ModifyPosition string "real option" "real option"

record trace_entry =
  te_call :: broker_call
  te_execution_id :: string
  te_status :: "intent_status option"

record world =
  w_intents :: intent_table
  w_trades :: trade_table
  w_events :: "event_row list"
  w_reconciliations :: "reconciliation_row list"
  w_days :: day_table
  w_calls :: "trace_entry list"

text \<open>The reads of open positions are numbered: 0 is the duplicate check, \<open>1 + a\<close> attempt \<open>a\<close> of
  the verification, and one past the last attempt the read after a repair.\<close>

record venue =
  ve_now :: micros
  ve_ping :: bool
  ve_account_create :: "broker_record option"
  ve_claims_create :: "broker_record option"
  ve_account_submit :: "broker_record option"
  ve_claims_submit :: "broker_record option"
  ve_positions :: "nat \<Rightarrow> exn + broker_position list"
  ve_quote :: "exn + quote"
  ve_order :: "exn + order_result"
  ve_modify :: "exn + unit"

datatype execution_status = Aborted | Duplicate | Rejected | Ambiguous | Unverified | Filled

record execution_result =
  xr_ok :: bool
  xr_plan :: trade_plan
  xr_status :: execution_status
  xr_reason :: "string option"
  xr_order_id :: "string option"
  xr_position_id :: "string option"
  xr_fill_price :: "real option"
  xr_slippage :: "real option"
  xr_symbol_specific :: bool

definition failed :: "trade_plan \<Rightarrow> execution_status \<Rightarrow> string \<Rightarrow> execution_result" where
  "failed plan status reason = \<lparr> xr_ok = False, xr_plan = plan, xr_status = status,
     xr_reason = Some reason, xr_order_id = None, xr_position_id = None, xr_fill_price = None,
     xr_slippage = None, xr_symbol_specific = False \<rparr>"

subsection \<open>State updates\<close>

definition status_of :: "world \<Rightarrow> string \<Rightarrow> intent_status option" where
  "status_of w k = map_option in_status (intent_get (w_intents w) k)"

definition called :: "trade_plan \<Rightarrow> broker_call \<Rightarrow> world \<Rightarrow> world" where
  "called plan c w = w\<lparr> w_calls := w_calls w @ [\<lparr> te_call = c,
     te_execution_id = tp_execution_id plan, te_status = status_of w (tp_execution_id plan) \<rparr>] \<rparr>"

definition mark_intent ::
  "micros \<Rightarrow> string \<Rightarrow> intent_status \<Rightarrow> string option \<Rightarrow> string option \<Rightarrow> string option \<Rightarrow> world \<Rightarrow> world" where
  "mark_intent now k status order_id position_id reason w =
     w\<lparr> w_intents := intent_mark (w_intents w) k status order_id position_id reason now \<rparr>"

definition note_event :: "micros \<Rightarrow> string \<Rightarrow> string \<Rightarrow> string \<Rightarrow> world \<Rightarrow> world" where
  "note_event now k event detail w = w\<lparr> w_events := event_append (w_events w) k event detail now \<rparr>"

definition note_reconciliation :: "micros \<Rightarrow> string \<Rightarrow> string \<Rightarrow> string \<Rightarrow> world \<Rightarrow> world" where
  "note_reconciliation now kind detail symbol w =
     w\<lparr> w_reconciliations := reconciliation_record (w_reconciliations w) kind detail (Some symbol) now \<rparr>"

definition abort_trade :: "micros \<Rightarrow> string \<Rightarrow> string \<Rightarrow> world \<Rightarrow> world" where
  "abort_trade now k reason w = w\<lparr> w_trades := mark_aborted (w_trades w) k reason now \<rparr>"

text \<open>A refusal before the order leaves: the intent failed, the event, the trade row aborted.\<close>

definition abandon :: "micros \<Rightarrow> string \<Rightarrow> string option \<Rightarrow> string \<Rightarrow> world \<Rightarrow> world" where
  "abandon now k event reason w =
     abort_trade now k reason
       ((case event of None \<Rightarrow> id | Some e \<Rightarrow> note_event now k e reason)
         (mark_intent now k FAILED None None (Some reason) w))"

subsection \<open>Pre-trade checks\<close>

text \<open>\<open>None\<close> when no duplicate is found, the refusal otherwise.\<close>

definition fresh_duplicate_check ::
  "(exn + broker_position list) \<Rightarrow> intent_table \<Rightarrow> trade_plan \<Rightarrow> exn + string option" where
  "fresh_duplicate_check positions intents plan =
     (case positions of
        Inl e \<Rightarrow> if isinstance e BotError
          then Inr (Some (''could not read open positions to rule out a duplicate: '' @ exn_message e))
          else Inl e
      | Inr ps \<Rightarrow>
          (case List.find (\<lambda>p. same_instrument (bp_symbol p) (tp_symbol plan)) ps of
             Some p \<Rightarrow> Inr (Some (''a '' @ bp_direction p @ '' position on '' @ tp_symbol plan
               @ '' (id '' @ bp_position_id p @ '') already exists at the broker''))
           | None \<Rightarrow>
               (case filter (\<lambda>i. same_instrument (in_symbol i) (tp_symbol plan)
                       \<and> in_key i \<noteq> tp_execution_id plan) (intent_unresolved intents) of
                  [] \<Rightarrow> Inr None
                | i # _ \<Rightarrow> Inr (Some (''an unresolved execution intent for '' @ tp_symbol plan
                    @ '' exists ('' @ in_key i @ '')'')))))"

fun spread_text :: "spread_refusal \<Rightarrow> string" where
  "spread_text NegativeSpread = ''negative spread''"
| "spread_text SpreadTooWideForAtr = ''spread too wide for ATR''"
| "spread_text SpreadTooWideForStop = ''spread too wide for the stop distance''"
| "spread_text SpreadTooWideForTarget = ''spread too wide for the target distance''"

text \<open>\<open>Inr (Inl reason)\<close> is a refusal, \<open>Inr (Inr reference)\<close> a pass with the reference price.\<close>

definition spread_check ::
  "execution_config \<Rightarrow> (exn + quote) \<Rightarrow> trade_plan \<Rightarrow> real \<Rightarrow> exn + (string + real)" where
  "spread_check config quote plan atr =
     (case quote of
        Inl e \<Rightarrow> if isinstance e BrokerError
          then Inr (Inl (''could not read a live quote before submitting: '' @ exn_message e))
          else Inl e
      | Inr q \<Rightarrow>
          (case validate_spread (spread q) atr \<bar>tp_entry plan - tp_stop_loss plan\<bar>
                  \<bar>tp_take_profit plan - tp_entry plan\<bar> (xc_max_spread_atr_fraction config)
                  (xc_max_spread_tp_fraction config) of
             Some r \<Rightarrow> Inr (Inl (spread_text r))
           | None \<Rightarrow> Inr (Inr (if tp_direction plan = ''BUY'' then q_ask q else q_bid q))))"

subsection \<open>Verification\<close>

definition matches_plan :: "trade_plan \<Rightarrow> broker_position \<Rightarrow> bool" where
  "matches_plan plan p = (same_instrument (bp_symbol p) (tp_symbol plan) \<and> bp_direction p = tp_direction plan)"

text \<open>The attempts left; attempt \<open>a\<close> of \<open>n\<close> sleeps unless it is the last.\<close>

fun verify_position ::
  "venue \<Rightarrow> execution_config \<Rightarrow> trade_plan \<Rightarrow> nat \<Rightarrow> world \<Rightarrow> (exn + broker_position option) \<times> world" where
  "verify_position ve config plan 0 w = (Inr None, w)"
| "verify_position ve config plan (Suc left) w =
     (let attempt = xc_order_verify_attempts config - Suc left;
          w1 = called plan ReadPositions w;
          continue = \<lambda>ps.
            (case List.find (matches_plan plan) ps of
               Some p \<Rightarrow> (Inr (Some p), w1)
             | None \<Rightarrow> verify_position ve config plan left
                 (if left > 0 then called plan (Slept (xc_order_verify_delay_seconds config)) w1 else w1))
      in case ve_positions ve (Suc attempt) of
           Inr ps \<Rightarrow> continue ps
         | Inl e \<Rightarrow> if isinstance e BotError then continue [] else (Inl e, w1))"

definition missing_protection :: "broker_position \<Rightarrow> bool \<times> bool" where
  "missing_protection p = (\<not> truthy (bp_stop_loss p), \<not> truthy (bp_take_profit p))"

definition protection_still_missing ::
  "(exn + broker_position list) \<Rightarrow> string \<Rightarrow> bool \<times> bool \<Rightarrow> exn + (bool \<times> bool)" where
  "protection_still_missing positions position_id missing =
     (case positions of
        Inl e \<Rightarrow> if isinstance e BotError then Inr missing else Inl e
      | Inr ps \<Rightarrow>
          (case List.find (\<lambda>p. bp_position_id p = position_id) ps of
             None \<Rightarrow> Inr (False, False)
           | Some current \<Rightarrow> Inr (fst missing \<and> \<not> truthy (bp_stop_loss current),
                                snd missing \<and> \<not> truthy (bp_take_profit current))))"

definition unprotected :: "micros \<Rightarrow> trade_plan \<Rightarrow> broker_position \<Rightarrow> string \<Rightarrow> world \<Rightarrow> world" where
  "unprotected now plan position msg w =
     note_reconciliation now ''UNPROTECTED_POSITION'' (bp_position_id position @ '': '' @ msg) (tp_symbol plan) w"

definition verify_protection ::
  "venue \<Rightarrow> execution_config \<Rightarrow> trade_plan \<Rightarrow> broker_position \<Rightarrow> world \<Rightarrow> (exn + unit) \<times> world" where
  "verify_protection ve config plan position w =
     (let (no_sl, no_tp) = missing_protection position;
          now = ve_now ve
      in if \<not> no_sl \<and> \<not> no_tp then
           (Inr (), w\<lparr> w_trades := update_protection (w_trades w) (bp_position_id position)
              (bp_stop_loss position) (bp_take_profit position) now \<rparr>)
         else
           (let sl = (if no_sl then Some (tp_stop_loss plan) else None);
                tp = (if no_tp then Some (tp_take_profit plan) else None);
                w1 = called plan (ModifyPosition (bp_position_id position) sl tp) w
            in case ve_modify ve of
                 Inl e \<Rightarrow> if isinstance e BotError
                   then (Inr (), unprotected now plan position (exn_message e) w1) else (Inl e, w1)
               | Inr _ \<Rightarrow>
                   (let w2 = called plan ReadPositions w1 in
                    case protection_still_missing (ve_positions ve (Suc (xc_order_verify_attempts config)))
                           (bp_position_id position) (no_sl, no_tp) of
                      Inl e \<Rightarrow> (Inl e, w2)
                    | Inr still \<Rightarrow>
                        if fst still \<or> snd still
                        then (Inr (), unprotected now plan position ''still absent at the broker'' w2)
                        else (Inr (), (note_event now (tp_execution_id plan) ''PROTECTION_REPAIRED'' [] w2)
                          \<lparr> w_trades := update_protection (w_trades w2) (bp_position_id position)
                              (Some (tp_stop_loss plan)) (Some (tp_take_profit plan)) now \<rparr>))))"

subsection \<open>Execution\<close>

text \<open>Steps 8 and 9: the acknowledged order is verified, recorded and protected.\<close>

definition settle ::
  "venue \<Rightarrow> execution_config \<Rightarrow> trade_plan \<Rightarrow> real \<Rightarrow> order_result \<Rightarrow> world
     \<Rightarrow> (exn + execution_result) \<times> world" where
  "settle ve config plan reference order w =
     (let now = ve_now ve; k = tp_execution_id plan in
      case verify_position ve config plan (xc_order_verify_attempts config) w of
        (Inl e, w1) \<Rightarrow> (Inl e, w1)
      | (Inr None, w1) \<Rightarrow>
          (Inr ((failed plan Unverified
              ''order was acknowledged but no matching position could be verified at the broker'')
              \<lparr> xr_order_id := or_order_id order \<rparr>),
           note_reconciliation now ''UNVERIFIED_FILL'' k (tp_symbol plan)
             (mark_intent now k AMBIGUOUS None None
               (Some ''order acknowledged but no position appeared within the verification window'') w1))
      | (Inr (Some p), w1) \<Rightarrow>
          (let slippage = (if reference \<noteq> 0
                 then Some (if tp_direction plan = ''BUY'' then bp_entry_price p - reference
                            else reference - bp_entry_price p)
                 else None);
               w2 = mark_intent now k FILLED (or_order_id order) (Some (bp_position_id p)) None w1
           in case mark_open (w_trades w2) k (bp_position_id p) (or_order_id order)
                     (Some (bp_entry_price p)) (Some (bp_quantity p)) (bp_opened_at p) now of
                Inl e \<Rightarrow> (Inl e, w2)
              | Inr rows \<Rightarrow>
                  (let w3 = note_event now k ''FILLED'' (bp_position_id p)
                         (w2\<lparr> w_trades := rows, w_days := record_open (w_days w2) now \<rparr>)
                   in case verify_protection ve config plan p w3 of
                        (Inl e, w4) \<Rightarrow> (Inl e, w4)
                      | (Inr _, w4) \<Rightarrow>
                          (Inr \<lparr> xr_ok = True, xr_plan = plan, xr_status = Filled, xr_reason = None,
                              xr_order_id = or_order_id order, xr_position_id = Some (bp_position_id p),
                              xr_fill_price = Some (bp_entry_price p), xr_slippage = slippage,
                              xr_symbol_specific = False \<rparr>, w4))))"

text \<open>Step 7: mark submitted, send once, sort the outcome.\<close>

definition submit ::
  "venue \<Rightarrow> execution_config \<Rightarrow> trade_plan \<Rightarrow> real \<Rightarrow> world \<Rightarrow> (exn + execution_result) \<times> world" where
  "submit ve config plan reference w =
     (let now = ve_now ve; k = tp_execution_id plan;
          w1 = note_event now k ''SUBMITTED'' [] (mark_intent now k SUBMITTED None None None w);
          w2 = called plan (PlaceOrder (tp_direction plan) (tp_quantity plan)
                 (tp_stop_loss plan) (tp_take_profit plan)) w1
      in case ve_order ve of
           Inr order \<Rightarrow> settle ve config plan reference order
             (note_event now k ''ACKNOWLEDGED'' []
               (mark_intent now k ACKNOWLEDGED (or_order_id order) None None w2))
         | Inl e \<Rightarrow>
             (let msg = exn_message e;
                  ambiguous = note_event now k ''AMBIGUOUS'' msg
                    (mark_intent now k AMBIGUOUS None None (Some msg) w2)
              in if isinstance e AmbiguousExecution
                 then (Inr (failed plan Ambiguous msg),
                   note_reconciliation now ''AMBIGUOUS_SUBMISSION'' (k @ '': '' @ msg) (tp_symbol plan) ambiguous)
                 else if isinstance e BrokerRejected
                 then (Inr (failed plan Rejected msg), abandon now k (Some ''REJECTED'') msg w2)
                 else if isinstance e BotError
                 then (Inr (failed plan Ambiguous msg), ambiguous)
                 else (Inl e, w2)))"

text \<open>Steps 4 to 6: the checks that may still refuse once the intent exists.\<close>

definition check_and_submit ::
  "trading_config \<Rightarrow> venue \<Rightarrow> trade_plan \<Rightarrow> real \<Rightarrow> world \<Rightarrow> (exn + execution_result) \<times> world" where
  "check_and_submit config ve plan atr w =
     (let now = ve_now ve; k = tp_execution_id plan;
          specific = \<lambda>reason. (failed plan Aborted reason)\<lparr> xr_symbol_specific := True \<rparr>;
          w1 = called plan ReadPositions w
      in case fresh_duplicate_check (ve_positions ve 0) (w_intents w1) plan of
           Inl e \<Rightarrow> (Inl e, w1)
         | Inr (Some dup) \<Rightarrow> (Inr (specific dup), abandon now k (Some ''ABORTED_DUPLICATE'') dup w1)
         | Inr None \<Rightarrow>
             (let w2 = called plan ReadQuote w1 in
              case spread_check (tc_execution config) (ve_quote ve) plan atr of
                Inl e \<Rightarrow> (Inl e, w2)
              | Inr (Inl reason) \<Rightarrow>
                  (Inr (specific reason), abandon now k (Some ''ABORTED_SPREAD'') reason w2)
              | Inr (Inr reference) \<Rightarrow>
                  (let w3 = called plan ReadMetadata w2 in
                   case require_demo config (ve_account_submit ve) (ve_claims_submit ve) of
                     Inl e \<Rightarrow> (Inr (failed plan Aborted (exn_message e)),
                               abandon now k None (exn_message e) w3)
                   | Inr _ \<Rightarrow> submit ve (tc_execution config) plan reference w3)))"

text \<open>Steps 1 to 3: a healthy database, the demo account, the persisted intent.\<close>

definition persist_intent :: "micros \<Rightarrow> trade_plan \<Rightarrow> world \<Rightarrow> string option \<times> world" where
  "persist_intent now plan w =
     (let k = tp_execution_id plan in
      case intent_create (w_intents w) k (tp_symbol plan) (tp_direction plan) plan now of
        (Inr _, rows) \<Rightarrow> (None, w\<lparr> w_intents := rows \<rparr>)
      | (Inl e, _) \<Rightarrow>
          (case intent_reopen (w_intents w) k plan now of
             (False, _) \<Rightarrow> (Some (exn_message e), w)
           | (True, rows) \<Rightarrow> (None, note_event now k ''INTENT_REARMED'' (take 300 (exn_message e))
                (w\<lparr> w_intents := rows \<rparr>))))"

definition execute ::
  "trading_config \<Rightarrow> venue \<Rightarrow> trade_plan \<Rightarrow> real \<Rightarrow> world \<Rightarrow> (exn + execution_result) \<times> world" where
  "execute config ve plan atr w =
     (let now = ve_now ve; k = tp_execution_id plan in
      if \<not> ve_ping ve
      then (Inr (failed plan Aborted ''database is unavailable''), w)
      else
        (let w1 = called plan ReadMetadata w in
         case require_demo config (ve_account_create ve) (ve_claims_create ve) of
           Inl e \<Rightarrow> (Inr (failed plan Aborted (exn_message e)), w1)
         | Inr _ \<Rightarrow>
             (case persist_intent now plan w1 of
                (Some reason, w2) \<Rightarrow> (Inr (failed plan Duplicate reason), w2)
              | (None, w2) \<Rightarrow>
                  check_and_submit config ve plan atr
                    (note_event now k ''INTENT_CREATED'' []
                      (w2\<lparr> w_trades := create_pending (w_trades w2) k plan now \<rparr>)))))"

subsection \<open>Frames\<close>

text \<open>The orders of the trace, and those of one execution id.\<close>

fun is_order :: "broker_call \<Rightarrow> bool" where
  "is_order (PlaceOrder _ _ _ _) = True"
| "is_order _ = False"

definition orders :: "world \<Rightarrow> trace_entry list" where
  "orders w = filter (\<lambda>t. is_order (te_call t)) (w_calls w)"

definition orders_for :: "string \<Rightarrow> world \<Rightarrow> trace_entry list" where
  "orders_for k w = filter (\<lambda>t. te_execution_id t = k) (orders w)"

definition order_entry :: "trade_plan \<Rightarrow> intent_status option \<Rightarrow> trace_entry" where
  "order_entry plan st = \<lparr> te_call = PlaceOrder (tp_direction plan) (tp_quantity plan)
      (tp_stop_loss plan) (tp_take_profit plan),
     te_execution_id = tp_execution_id plan, te_status = st \<rparr>"

named_theorems world_simps "effects of the state updates on the parts of the world"

lemma orders_called [world_simps]:
  "orders (called plan c w) = orders w @ (if is_order c
     then [\<lparr> te_call = c, te_execution_id = tp_execution_id plan,
             te_status = status_of w (tp_execution_id plan) \<rparr>] else [])"
  by (simp add: orders_def called_def)

lemma world_parts [world_simps]:
  "w_intents (called plan c w) = w_intents w" "w_trades (called plan c w) = w_trades w"
  "w_days (called plan c w) = w_days w"
  "w_intents (note_event now k ev d w) = w_intents w" "w_trades (note_event now k ev d w) = w_trades w"
  "w_days (note_event now k ev d w) = w_days w" "orders (note_event now k ev d w) = orders w"
  "w_intents (note_reconciliation now kind d sy w) = w_intents w"
  "w_trades (note_reconciliation now kind d sy w) = w_trades w"
  "w_days (note_reconciliation now kind d sy w) = w_days w"
  "orders (note_reconciliation now kind d sy w) = orders w"
  "w_trades (mark_intent now k st oid pid rs w) = w_trades w"
  "w_days (mark_intent now k st oid pid rs w) = w_days w"
  "w_intents (mark_intent now k st oid pid rs w) = intent_mark (w_intents w) k st oid pid rs now"
  "orders (mark_intent now k st oid pid rs w) = orders w"
  "w_intents (abort_trade now k why w) = w_intents w" "w_days (abort_trade now k why w) = w_days w"
  "w_trades (abort_trade now k why w) = mark_aborted (w_trades w) k why now"
  "orders (abort_trade now k why w) = orders w"
  "orders (w\<lparr> w_trades := t \<rparr>) = orders w" "orders (w\<lparr> w_days := ds \<rparr>) = orders w"
  "orders (w\<lparr> w_intents := is \<rparr>) = orders w"
  by (simp_all add: called_def note_event_def note_reconciliation_def mark_intent_def
    abort_trade_def orders_def)

lemma world_abandon [world_simps]:
  "w_intents (abandon now k ev rs w) = intent_mark (w_intents w) k FAILED None None (Some rs) now"
  "w_trades (abandon now k ev rs w) = mark_aborted (w_trades w) k rs now"
  "orders (abandon now k ev rs w) = orders w"
  by (simp_all add: abandon_def world_simps split: option.split)

definition same_state :: "world \<Rightarrow> world \<Rightarrow> bool" where
  "same_state w w' = (w_intents w' = w_intents w \<and> w_trades w' = w_trades w \<and> w_days w' = w_days w
     \<and> orders w' = orders w)"

lemma same_state_refl: "same_state w w"
  by (simp add: same_state_def)

lemma same_state_called: "\<not> is_order c \<Longrightarrow> same_state w w' \<Longrightarrow> same_state w (called plan c w')"
  by (simp add: same_state_def world_simps)

lemma same_state_trans: "same_state w w' \<Longrightarrow> same_state w' w'' \<Longrightarrow> same_state w w''"
  by (simp add: same_state_def)

text \<open>One attempt: it ends with an escaping exception, with a match, or goes on.\<close>

lemma verify_position_step:
  obtains (escape) e w1 where "verify_position ve config plan (Suc left) w = (Inl e, w1)" "same_state w w1"
  | (found) p w1 where "verify_position ve config plan (Suc left) w = (Inr (Some p), w1)"
      "matches_plan plan p" "same_state w w1"
  | (again) w1 where "verify_position ve config plan (Suc left) w = verify_position ve config plan left w1"
      "same_state w w1"
proof -
  let ?w1 = "called plan ReadPositions w"
  let ?w2 = "if left > 0 then called plan (Slept (xc_order_verify_delay_seconds config)) ?w1 else ?w1"
  have s: "same_state w ?w1" "same_state w ?w2" by (simp_all add: same_state_called same_state_refl)
  obtain r where r: "ve_positions ve (Suc (xc_order_verify_attempts config - Suc left)) = r" by simp
  show thesis
  proof (cases r)
    case (Inl e)
    show thesis
    proof (cases "isinstance e BotError")
      case True
      with r Inl s(2) show thesis by (intro again [of ?w2]) (simp_all add: Let_def)
    next
      case False
      with r Inl s(1) show thesis by (intro escape [of e ?w1]) (simp_all add: Let_def)
    qed
  next
    case (Inr ps)
    show thesis
    proof (cases "List.find (matches_plan plan) ps")
      case None
      with r Inr s(2) show thesis by (intro again [of ?w2]) (simp_all add: Let_def)
    next
      case (Some p)
      then have "matches_plan plan p" by (auto dest: find_Some_mem)
      with r Inr Some s(1) show thesis by (intro found [of p ?w1]) (simp_all add: Let_def)
    qed
  qed
qed

lemma verify_position_frame:
  "verify_position ve config plan left w = (r, w') \<Longrightarrow>
     same_state w w' \<and> (\<forall>p. r = Inr (Some p) \<longrightarrow> matches_plan plan p)"
proof (induction left arbitrary: w)
  case 0
  then show ?case by (auto simp: same_state_refl)
next
  case (Suc left)
  show ?case
  proof (cases rule: verify_position_step [of ve config plan left w])
    case (escape e w1)
    with Suc.prems show ?thesis by simp
  next
    case (found p w1)
    with Suc.prems show ?thesis by simp
  next
    case (again w1)
    with Suc.prems have "verify_position ve config plan left w1 = (r, w')" by (simp only:)
    from Suc.IH [OF this] again(2) show ?thesis by (blast intro: same_state_trans)
  qed
qed

lemma verify_protection_frame:
  "verify_protection ve config plan p w = (r, w') \<Longrightarrow>
     w_intents w' = w_intents w \<and> w_days w' = w_days w \<and> orders w' = orders w"
  by (auto simp: verify_protection_def unprotected_def world_simps Let_def
    split: prod.splits sum.splits if_splits)

subsection \<open>What a submission does\<close>

lemma status_mark [world_simps]:
  "status_of (mark_intent now k st oid pid rs w) k' =
     (if k' = k then (case status_of w k of None \<Rightarrow> None | Some _ \<Rightarrow> Some st) else status_of w k')"
  by (simp add: status_of_def mark_intent_def get_mark_status split: option.split)

lemma status_cong: "w_intents w' = w_intents w \<Longrightarrow> status_of w' = status_of w"
  by (simp add: status_of_def fun_eq_iff)

lemma status_parts [world_simps]:
  "status_of (called plan c w) = status_of w"
  "status_of (note_event now k ev d w) = status_of w"
  "status_of (note_reconciliation now kind d sy w) = status_of w"
  "status_of (abort_trade now k why w) = status_of w"
  "status_of (w\<lparr> w_trades := t \<rparr>) = status_of w" "status_of (w\<lparr> w_days := ds \<rparr>) = status_of w"
  by (rule status_cong; simp add: world_simps)+

lemma status_abandon [world_simps]:
  "status_of (abandon now k ev why w) k' =
     (if k' = k then (case status_of w k of None \<Rightarrow> None | Some _ \<Rightarrow> Some FAILED) else status_of w k')"
  by (simp add: abandon_def world_simps split: option.split)

text \<open>The statuses an execution leaves an intent in once its order was sent.\<close>

definition sent_status :: "intent_status \<Rightarrow> bool" where
  "sent_status st = (st \<in> {SUBMITTED, ACKNOWLEDGED, AMBIGUOUS, FILLED})"

lemma settle_outcome:
  assumes "settle ve config plan reference order w = (r, w')"
    and "status_of w (tp_execution_id plan) = Some ACKNOWLEDGED"
  shows "orders w' = orders w"
    and "\<exists>st. status_of w' (tp_execution_id plan) = Some st \<and> sent_status st"
    and "k' \<noteq> tp_execution_id plan \<Longrightarrow> status_of w' k' = status_of w k'"
    and "r = Inr res \<Longrightarrow> xr_status res = Filled \<or> xr_status res = Unverified"
proof -
  let ?k = "tp_execution_id plan" and ?now = "ve_now ve"
  obtain v w1 where v: "verify_position ve config plan (xc_order_verify_attempts config) w = (v, w1)"
    by force
  then have frame: "same_state w w1" and match: "\<And>p. v = Inr (Some p) \<Longrightarrow> matches_plan plan p"
    using verify_position_frame by blast+
  have o1: "orders w1 = orders w" and s1: "status_of w1 = status_of w"
    using frame by (auto simp: same_state_def intro: status_cong)
  have "orders w' = orders w
    \<and> (\<exists>st. status_of w' ?k = Some st \<and> sent_status st)
    \<and> (k' \<noteq> ?k \<longrightarrow> status_of w' k' = status_of w k')
    \<and> (r = Inr res \<longrightarrow> xr_status res = Filled \<or> xr_status res = Unverified)"
  proof (cases v)
    case (Inl e)
    with assms v o1 s1 show ?thesis by (auto simp: settle_def Let_def sent_status_def)
  next
    case (Inr q)
    show ?thesis
    proof (cases q)
      case None
      with Inr assms v o1 s1 show ?thesis
        by (auto simp: settle_def Let_def sent_status_def world_simps failed_def)
    next
      case (Some p)
      let ?w2 = "mark_intent ?now ?k FILLED (or_order_id order) (Some (bp_position_id p)) None w1"
      have s2: "status_of ?w2 ?k = Some FILLED" "k' \<noteq> ?k \<Longrightarrow> status_of ?w2 k' = status_of w k'"
        using assms(2) s1 by (simp_all add: world_simps)
      have o2: "orders ?w2 = orders w" using o1 by (simp add: world_simps)
      obtain opened where m: "mark_open (w_trades ?w2) ?k (bp_position_id p) (or_order_id order)
          (Some (bp_entry_price p)) (Some (bp_quantity p)) (bp_opened_at p) ?now = opened" by simp
      show ?thesis
      proof (cases opened)
        case (Inl e)
        with Inr Some assms v m s2 o2 show ?thesis
          by (auto simp: settle_def Let_def sent_status_def)
      next
        case (Inr rows)
        let ?w3 = "note_event ?now ?k ''FILLED'' (bp_position_id p)
            (?w2\<lparr> w_trades := rows, w_days := record_open (w_days ?w2) ?now \<rparr>)"
        obtain u w4 where u: "verify_protection ve config plan p ?w3 = (u, w4)" by force
        have w4: "orders w4 = orders ?w3" "status_of w4 = status_of ?w3"
          using verify_protection_frame [OF u] by (auto intro: status_cong)
        have w3: "orders ?w3 = orders w" "status_of ?w3 = status_of ?w2"
          using o2 by (simp_all add: world_simps)
        have w': "w' = w4" and res: "r = Inr res \<Longrightarrow> xr_status res = Filled"
          using assms(1) v \<open>v = Inr q\<close> Some m Inr u
          by (auto simp: settle_def Let_def split: sum.splits)
        show ?thesis using w' res w3 w4 s2 by (auto simp: sent_status_def)
      qed
    qed
  qed
  then show "orders w' = orders w"
    and "\<exists>st. status_of w' ?k = Some st \<and> sent_status st"
    and "k' \<noteq> ?k \<Longrightarrow> status_of w' k' = status_of w k'"
    and "r = Inr res \<Longrightarrow> xr_status res = Filled \<or> xr_status res = Unverified" by blast+
qed

lemma submit_outcome:
  assumes "submit ve config plan reference w = (r, w')"
    and "status_of w (tp_execution_id plan) \<noteq> None"
  shows "orders w' = orders w @ [order_entry plan (Some SUBMITTED)]"
    and "(\<exists>st. status_of w' (tp_execution_id plan) = Some st \<and> sent_status st)
      \<or> (status_of w' (tp_execution_id plan) = Some FAILED \<and> (\<exists>e. ve_order ve = Inl e \<and> isinstance e BrokerRejected)
         \<and> (\<exists>res. r = Inr res \<and> xr_status res = Rejected))"
    and "k' \<noteq> tp_execution_id plan \<Longrightarrow> status_of w' k' = status_of w k'"
    and "r = Inr res \<Longrightarrow> xr_status res \<in> {Filled, Unverified, Ambiguous, Rejected}"
proof -
  let ?k = "tp_execution_id plan" and ?now = "ve_now ve"
  define w2 where "w2 = called plan (PlaceOrder (tp_direction plan) (tp_quantity plan)
      (tp_stop_loss plan) (tp_take_profit plan))
    (note_event ?now ?k ''SUBMITTED'' [] (mark_intent ?now ?k SUBMITTED None None None w))"
  have s2: "status_of w2 ?k = Some SUBMITTED" "\<And>k'. k' \<noteq> ?k \<Longrightarrow> status_of w2 k' = status_of w k'"
    using assms(2) by (auto simp: w2_def world_simps)
  have o2: "orders w2 = orders w @ [order_entry plan (Some SUBMITTED)]"
    using assms(2) by (auto simp: w2_def world_simps order_entry_def)
  have "orders w' = orders w2
    \<and> ((\<exists>st. status_of w' ?k = Some st \<and> sent_status st)
      \<or> (status_of w' ?k = Some FAILED \<and> (\<exists>e. ve_order ve = Inl e \<and> isinstance e BrokerRejected)
         \<and> (\<exists>res. r = Inr res \<and> xr_status res = Rejected)))
    \<and> (k' \<noteq> ?k \<longrightarrow> status_of w' k' = status_of w k')
    \<and> (r = Inr res \<longrightarrow> xr_status res \<in> {Filled, Unverified, Ambiguous, Rejected})"
  proof (cases "ve_order ve")
    case (Inl e)
    then show ?thesis using assms(1) s2 unfolding submit_def Let_def w2_def [symmetric]
      by (auto simp: sent_status_def world_simps failed_def split: if_splits)
  next
    case (Inr order)
    let ?w3 = "note_event ?now ?k ''ACKNOWLEDGED'' []
      (mark_intent ?now ?k ACKNOWLEDGED (or_order_id order) None None w2)"
    have call: "settle ve config plan reference order ?w3 = (r, w')"
      using assms(1) Inr unfolding submit_def Let_def w2_def [symmetric] by simp
    have s3: "status_of ?w3 ?k = Some ACKNOWLEDGED" "\<And>k'. k' \<noteq> ?k \<Longrightarrow> status_of ?w3 k' = status_of w k'"
      using s2 by (simp_all add: world_simps)
    have "orders ?w3 = orders w2" by (simp add: world_simps)
    with settle_outcome [OF call s3(1)] s3(2) show ?thesis by auto
  qed
  then show "orders w' = orders w @ [order_entry plan (Some SUBMITTED)]"
    and "(\<exists>st. status_of w' ?k = Some st \<and> sent_status st)
      \<or> (status_of w' ?k = Some FAILED \<and> (\<exists>e. ve_order ve = Inl e \<and> isinstance e BrokerRejected)
         \<and> (\<exists>res. r = Inr res \<and> xr_status res = Rejected))"
    and "k' \<noteq> ?k \<Longrightarrow> status_of w' k' = status_of w k'"
    and "r = Inr res \<Longrightarrow> xr_status res \<in> {Filled, Unverified, Ambiguous, Rejected}"
    unfolding o2 by blast+
qed

subsection \<open>What an execution does\<close>

text \<open>Everything checked between the persisted intent and the order.\<close>

definition cleared :: "trading_config \<Rightarrow> venue \<Rightarrow> trade_plan \<Rightarrow> real \<Rightarrow> intent_table \<Rightarrow> bool" where
  "cleared config ve plan atr intents =
     (dv_verified (verify_demo config (ve_account_submit ve) (ve_claims_submit ve))
      \<and> (case ve_positions ve 0 of Inl _ \<Rightarrow> False
         | Inr ps \<Rightarrow> list_all (\<lambda>p. \<not> same_instrument (bp_symbol p) (tp_symbol plan)) ps)
      \<and> list_all (\<lambda>i. unresolved_status (in_status i) \<and> same_instrument (in_symbol i) (tp_symbol plan)
           \<longrightarrow> in_key i = tp_execution_id plan) intents
      \<and> (case ve_quote ve of Inl _ \<Rightarrow> False
         | Inr q \<Rightarrow> validate_spread (spread q) atr \<bar>tp_entry plan - tp_stop_loss plan\<bar>
             \<bar>tp_take_profit plan - tp_entry plan\<bar>
             (xc_max_spread_atr_fraction (tc_execution config))
             (xc_max_spread_tp_fraction (tc_execution config)) = None))"

lemma duplicate_check_pass:
  "fresh_duplicate_check positions intents plan = Inr None \<longleftrightarrow>
     (case positions of Inl _ \<Rightarrow> False
      | Inr ps \<Rightarrow> list_all (\<lambda>p. \<not> same_instrument (bp_symbol p) (tp_symbol plan)) ps)
     \<and> list_all (\<lambda>i. unresolved_status (in_status i) \<and> same_instrument (in_symbol i) (tp_symbol plan)
           \<longrightarrow> in_key i = tp_execution_id plan) intents"
proof (cases positions)
  case (Inl e)
  then show ?thesis by (simp add: fresh_duplicate_check_def)
next
  case (Inr ps)
  show ?thesis
  proof (cases "List.find (\<lambda>p. same_instrument (bp_symbol p) (tp_symbol plan)) ps")
    case None
    then have "list_all (\<lambda>p. \<not> same_instrument (bp_symbol p) (tp_symbol plan)) ps"
      by (auto simp: find_None_iff list_all_iff)
    moreover have "fresh_duplicate_check positions intents plan = Inr None \<longleftrightarrow>
        filter (\<lambda>i. same_instrument (in_symbol i) (tp_symbol plan)
          \<and> in_key i \<noteq> tp_execution_id plan) (intent_unresolved intents) = []"
      using Inr None by (simp add: fresh_duplicate_check_def split: list.split)
    ultimately show ?thesis
      using Inr by (auto simp: filter_empty_conv list_all_iff unresolved_mem)
  next
    case (Some p)
    then have "\<not> list_all (\<lambda>p. \<not> same_instrument (bp_symbol p) (tp_symbol plan)) ps"
      by (auto simp: list_all_iff dest: find_Some_mem)
    with Inr Some show ?thesis by (simp add: fresh_duplicate_check_def)
  qed
qed

lemma spread_check_pass:
  "spread_check config q plan atr = Inr (Inr reference) \<Longrightarrow>
     (case q of Inl _ \<Rightarrow> False
      | Inr q' \<Rightarrow> validate_spread (spread q') atr \<bar>tp_entry plan - tp_stop_loss plan\<bar>
          \<bar>tp_take_profit plan - tp_entry plan\<bar> (xc_max_spread_atr_fraction config)
          (xc_max_spread_tp_fraction config) = None)"
  by (auto simp: spread_check_def split: sum.splits option.splits if_splits)

lemma check_and_submit_cases:
  assumes "check_and_submit config ve plan atr w = (r, w')"
  obtains (escaped) e where "r = Inl e" "same_state w w'"
  | (stopped) res why ev where "r = Inr res" "xr_status res = Aborted" "\<not> xr_ok res"
      "orders w' = orders w" "w_intents w' = w_intents (abandon (ve_now ve) (tp_execution_id plan) ev why w)"
      "w_trades w' = mark_aborted (w_trades w) (tp_execution_id plan) why (ve_now ve)"
  | (sent) reference w1 where "cleared config ve plan atr (w_intents w)" "same_state w w1"
      "submit ve (tc_execution config) plan reference w1 = (r, w')"
proof -
  let ?k = "tp_execution_id plan" and ?now = "ve_now ve"
  let ?w1 = "called plan ReadPositions w"
  let ?w2 = "called plan ReadQuote ?w1"
  let ?w3 = "called plan ReadMetadata ?w2"
  have s: "same_state w ?w1" "same_state w ?w2" "same_state w ?w3"
    by (simp_all add: same_state_called same_state_refl)
  obtain d where d: "fresh_duplicate_check (ve_positions ve 0) (w_intents ?w1) plan = d" by simp
  obtain q where q: "spread_check (tc_execution config) (ve_quote ve) plan atr = q" by simp
  obtain v where v: "require_demo config (ve_account_submit ve) (ve_claims_submit ve) = v" by simp
  consider (dfail) e where "d = Inl e" | (dup) why where "d = Inr (Some why)"
    | (qfail) e where "d = Inr None" "q = Inl e"
    | (wide) why where "d = Inr None" "q = Inr (Inl why)"
    | (live) reference e where "d = Inr None" "q = Inr (Inr reference)" "v = Inl e"
    | (go) reference y where "d = Inr None" "q = Inr (Inr reference)" "v = Inr y"
    by (cases d; cases q; cases v) (metis option.exhaust sum.exhaust)+
  then show thesis
  proof cases
    case dfail
    with assms d s(1) show thesis by (intro escaped) (auto simp: check_and_submit_def Let_def)
  next
    case dup
    with assms d show thesis
      by (intro stopped) (auto simp: check_and_submit_def Let_def failed_def world_simps)
  next
    case qfail
    with assms d q s(2) show thesis by (intro escaped) (auto simp: check_and_submit_def Let_def)
  next
    case wide
    with assms d q show thesis
      by (intro stopped) (auto simp: check_and_submit_def Let_def failed_def world_simps)
  next
    case live
    with assms d q v show thesis
      by (intro stopped) (auto simp: check_and_submit_def Let_def failed_def world_simps)
  next
    case go
    have "cleared config ve plan atr (w_intents w)"
      using d q v go spread_check_pass [of "tc_execution config" "ve_quote ve" plan atr reference]
      by (auto simp: cleared_def duplicate_check_pass world_simps require_demo_Inr)
    moreover have "submit ve (tc_execution config) plan reference ?w3 = (r, w')"
      using assms d q v go by (simp add: check_and_submit_def Let_def)
    ultimately show thesis using s(3) by (intro sent)
  qed
qed

text \<open>Persisting: the intent is there afterwards, freshly created, or nothing changed.\<close>

lemma persist_intent_cases:
  assumes "persist_intent now plan w = (r, w')"
  obtains (refused) why where "r = Some why" "w' = w"
      "intent_get (w_intents w) (tp_execution_id plan) \<noteq> None"
      "\<not> reopen_allowed (intent_get (w_intents w) (tp_execution_id plan))"
  | (created) "r = None" "intent_get (w_intents w) (tp_execution_id plan) = None"
      "w_intents w' = w_intents w @ [new_intent (tp_execution_id plan) (tp_symbol plan) (tp_direction plan) plan now]"
      "w_trades w' = w_trades w" "w_days w' = w_days w" "orders w' = orders w"
  | (rearmed) "r = None" "reopen_allowed (intent_get (w_intents w) (tp_execution_id plan))"
      "w_intents w' = reopen_update (w_intents w) (tp_execution_id plan) plan now"
      "w_trades w' = w_trades w" "w_days w' = w_days w" "orders w' = orders w"
proof -
  let ?k = "tp_execution_id plan"
  obtain c rows where c: "intent_create (w_intents w) ?k (tp_symbol plan) (tp_direction plan) plan now = (c, rows)"
    by force
  show thesis
  proof (cases c)
    case (Inr row)
    then have row: "row = new_intent ?k (tp_symbol plan) (tp_direction plan) plan now"
      "intent_get (w_intents w) ?k = None"
      using get_create_Inr c by blast+
    have rows: "rows = w_intents w @ [row]"
      using c Inr by (auto simp: intent_create_def intent_insert_def insert_row_def split: option.splits if_splits)
    show thesis
      by (rule created) (use assms c Inr row rows in \<open>auto simp: persist_intent_def Let_def world_simps\<close>)
  next
    case (Inl e)
    then have taken: "intent_get (w_intents w) ?k \<noteq> None" using create_Inl c by blast
    show thesis
    proof (cases "reopen_allowed (intent_get (w_intents w) ?k)")
      case True
      show thesis
        by (rule rearmed)
          (use assms c Inl True in \<open>auto simp: persist_intent_def Let_def world_simps intent_reopen_def\<close>)
    next
      case False
      show thesis
        by (rule refused [of "exn_message e"])
          (use assms c Inl taken False in \<open>auto simp: persist_intent_def Let_def intent_reopen_def\<close>)
    qed
  qed
qed

lemma status_reopen:
  "intent_get (reopen_update rows k plan now) k' =
     map_option (\<lambda>r. if in_key r = k \<and> in_status r \<in> set RETRYABLE
        \<and> in_broker_order_id r = None \<and> in_broker_position_id r = None
      then r\<lparr> in_status := CREATED, in_plan := plan, in_failure_reason := None,
        in_resolved_at := None, in_updated_at := now \<rparr> else r) (intent_get rows k')"
  unfolding reopen_update_def by (rule get_update_where_key) simp

lemma mem_reopen: "i \<in> set rows \<Longrightarrow> in_key i \<noteq> k \<Longrightarrow> i \<in> set (reopen_update rows k plan now)"
  by (force simp: reopen_update_def update_where_def)

lemma persist_status:
  assumes "persist_intent now plan w = (None, w')"
  shows "status_of w' (tp_execution_id plan) \<noteq> None"
    and "k' \<noteq> tp_execution_id plan \<Longrightarrow> status_of w' k' = status_of w k'"
    and "\<And>i. i \<in> set (w_intents w) \<Longrightarrow> in_key i \<noteq> tp_execution_id plan \<Longrightarrow> i \<in> set (w_intents w')"
proof -
  have "status_of w' (tp_execution_id plan) \<noteq> None
    \<and> (k' \<noteq> tp_execution_id plan \<longrightarrow> status_of w' k' = status_of w k')
    \<and> (\<forall>i \<in> set (w_intents w). in_key i \<noteq> tp_execution_id plan \<longrightarrow> i \<in> set (w_intents w'))"
    using assms
  proof (cases rule: persist_intent_cases)
    case refused
    then show ?thesis by simp
  next
    case created
    then show ?thesis
      by (auto simp: status_of_def intent_get_def find_row_def find_append new_intent_def split: option.split)
  next
    case rearmed
    have "intent_get (w_intents w) (tp_execution_id plan) \<noteq> None"
      using rearmed(2) by (auto simp: reopen_allowed_def split: option.splits)
    with rearmed(3) show ?thesis
      by (cases "intent_get (w_intents w) k'")
        (auto simp: status_of_def status_reopen mem_reopen dest: intent_get_key)
  qed
  then show "status_of w' (tp_execution_id plan) \<noteq> None"
    and "k' \<noteq> tp_execution_id plan \<Longrightarrow> status_of w' k' = status_of w k'"
    and "\<And>i. i \<in> set (w_intents w) \<Longrightarrow> in_key i \<noteq> tp_execution_id plan \<Longrightarrow> i \<in> set (w_intents w')"
    by blast+
qed

text \<open>An execution either sends nothing, or has passed every guard and hands over to \<open>submit\<close>.\<close>

lemma execute_cases:
  assumes "execute config ve plan atr w = (r, w')"
  obtains (early) res where "r = Inr res" "xr_status res = Aborted \<or> xr_status res = Duplicate"
      "\<not> xr_ok res" "same_state w w'"
  | (checked) w1 w2 where "ve_ping ve"
      "dv_verified (verify_demo config (ve_account_create ve) (ve_claims_create ve))"
      "same_state w w1" "persist_intent (ve_now ve) plan w1 = (None, w2)"
      "check_and_submit config ve plan atr (note_event (ve_now ve) (tp_execution_id plan) ''INTENT_CREATED'' []
        (w2\<lparr> w_trades := create_pending (w_trades w2) (tp_execution_id plan) plan (ve_now ve) \<rparr>)) = (r, w')"
proof (cases "ve_ping ve")
  case False
  with assms show thesis
    by (intro early) (auto simp: execute_def Let_def failed_def same_state_refl)
next
  case True
  let ?w1 = "called plan ReadMetadata w"
  have s: "same_state w ?w1" by (simp add: same_state_called same_state_refl)
  obtain d where d: "require_demo config (ve_account_create ve) (ve_claims_create ve) = d" by simp
  obtain q w2 where q: "persist_intent (ve_now ve) plan ?w1 = (q, w2)" by force
  show thesis
  proof (cases d)
    case (Inl e)
    with assms True d s show thesis
      by (intro early) (auto simp: execute_def Let_def failed_def)
  next
    case (Inr y)
    show thesis
    proof (cases q)
      case (Some why)
      with q have "w2 = ?w1" by (cases rule: persist_intent_cases) auto
      with assms True d Inr q Some s show thesis
        by (intro early) (auto simp: execute_def Let_def failed_def)
    next
      case None
      have "dv_verified (verify_demo config (ve_account_create ve) (ve_claims_create ve))"
        using d Inr by (auto simp: require_demo_Inr)
      with assms True d Inr q None s show thesis
        by (intro checked [of ?w1 w2]) (auto simp: execute_def Let_def)
    qed
  qed
qed

lemma cleared_mono:
  assumes "cleared config ve plan atr intents'"
    and "\<And>i. i \<in> set intents \<Longrightarrow> in_key i \<noteq> tp_execution_id plan \<Longrightarrow> i \<in> set intents'"
  shows "cleared config ve plan atr intents"
  using assms by (auto simp: cleared_def list_all_iff)

text \<open>The orders of an execution, and the status it leaves its own intent in.\<close>

definition rejected_by :: "venue \<Rightarrow> bool" where
  "rejected_by ve = (case ve_order ve of Inl e \<Rightarrow> isinstance e BrokerRejected | Inr _ \<Rightarrow> False)"

lemma execute_orders:
  assumes "execute config ve plan atr w = (r, w')"
  shows "orders w' = orders w \<or>
    (orders w' = orders w @ [order_entry plan (Some SUBMITTED)]
     \<and> ve_ping ve \<and> dv_verified (verify_demo config (ve_account_create ve) (ve_claims_create ve))
     \<and> cleared config ve plan atr (w_intents w)
     \<and> (intent_get (w_intents w) (tp_execution_id plan) = None
        \<or> reopen_allowed (intent_get (w_intents w) (tp_execution_id plan)))
     \<and> (rejected_by ve \<or> (\<exists>st. status_of w' (tp_execution_id plan) = Some st \<and> sent_status st)))"
    and "k' \<noteq> tp_execution_id plan \<Longrightarrow> status_of w' k' = status_of w k'"
proof -
  let ?k = "tp_execution_id plan"
  have "(orders w' = orders w \<or>
    (orders w' = orders w @ [order_entry plan (Some SUBMITTED)]
     \<and> ve_ping ve \<and> dv_verified (verify_demo config (ve_account_create ve) (ve_claims_create ve))
     \<and> cleared config ve plan atr (w_intents w)
     \<and> (intent_get (w_intents w) ?k = None \<or> reopen_allowed (intent_get (w_intents w) ?k))
     \<and> (rejected_by ve \<or> (\<exists>st. status_of w' ?k = Some st \<and> sent_status st))))
    \<and> (k' \<noteq> ?k \<longrightarrow> status_of w' k' = status_of w k')"
    using assms
  proof (cases rule: execute_cases)
    case (early res)
    then show ?thesis by (simp add: same_state_def status_of_def)
  next
    case (checked w1 w2)
    let ?w3 = "note_event (ve_now ve) ?k ''INTENT_CREATED'' []
        (w2\<lparr> w_trades := create_pending (w_trades w2) ?k plan (ve_now ve) \<rparr>)"
    have w1: "w_intents w1 = w_intents w" "orders w1 = orders w" "status_of w1 = status_of w"
      using checked(3) by (auto simp: same_state_def intro: status_cong)
    have i3: "w_intents ?w3 = w_intents w2" by (simp add: world_simps)
    have st3: "status_of ?w3 ?k \<noteq> None" "k' \<noteq> ?k \<Longrightarrow> status_of ?w3 k' = status_of w k'"
      using persist_status(1,2) [OF checked(4)] w1 by (simp_all add: world_simps)
    have o3: "orders ?w3 = orders w"
      using checked(4) w1 by (cases rule: persist_intent_cases) (simp_all add: world_simps)
    have allowed: "intent_get (w_intents w) ?k = None \<or> reopen_allowed (intent_get (w_intents w) ?k)"
      using checked(4) by (cases rule: persist_intent_cases) (simp_all add: w1)
    from checked(5) show ?thesis
    proof (cases rule: check_and_submit_cases)
      case (escaped e)
      then show ?thesis using o3 st3 status_cong [of w' ?w3] by (auto simp: same_state_def)
    next
      case (stopped res why ev)
      have "status_of w' k' = status_of (abandon (ve_now ve) ?k ev why ?w3) k'"
        by (rule fun_cong [OF status_cong]) (rule stopped(5))
      then show ?thesis using stopped(4) o3 st3(2) by (simp add: status_abandon)
    next
      case (sent reference w4)
      have s4: "orders w4 = orders w" "status_of w4 = status_of ?w3"
        using sent(2) o3 by (auto simp: same_state_def intro: status_cong)
      have st4: "status_of w4 ?k \<noteq> None" using s4 st3 by simp
      have "cleared config ve plan atr (w_intents w)"
        by (rule cleared_mono [OF sent(1)]) (use persist_status(3) [OF checked(4)] w1 i3 in auto)
      moreover have "rejected_by ve \<or> (\<exists>st. status_of w' ?k = Some st \<and> sent_status st)"
        using submit_outcome(2) [OF sent(3) st4] by (auto simp: rejected_by_def)
      ultimately show ?thesis
        using submit_outcome(1) [OF sent(3) st4] submit_outcome(3) [OF sent(3) st4, of k']
          checked(1,2) allowed s4 st3 by auto
    qed
  qed
  then show "orders w' = orders w \<or>
    (orders w' = orders w @ [order_entry plan (Some SUBMITTED)]
     \<and> ve_ping ve \<and> dv_verified (verify_demo config (ve_account_create ve) (ve_claims_create ve))
     \<and> cleared config ve plan atr (w_intents w)
     \<and> (intent_get (w_intents w) ?k = None \<or> reopen_allowed (intent_get (w_intents w) ?k))
     \<and> (rejected_by ve \<or> (\<exists>st. status_of w' ?k = Some st \<and> sent_status st)))"
    and "k' \<noteq> ?k \<Longrightarrow> status_of w' k' = status_of w k'" by blast+
qed

text \<open>Any sequence of executions, each with its own configuration, broker and plan.\<close>

fun run_executions :: "(trading_config \<times> venue \<times> trade_plan \<times> real) list \<Rightarrow> world \<Rightarrow> world" where
  "run_executions [] w = w"
| "run_executions ((config, ve, plan, atr) # es) w = run_executions es (snd (execute config ve plan atr w))"

definition locked :: "world \<Rightarrow> string \<Rightarrow> bool" where
  "locked w k = (\<exists>st. status_of w k = Some st \<and> sent_status st)"

lemma locked_not_reopenable:
  "locked w k \<Longrightarrow> intent_get (w_intents w) k \<noteq> None \<and> \<not> reopen_allowed (intent_get (w_intents w) k)"
  by (auto simp: locked_def status_of_def sent_status_def reopen_allowed_def RETRYABLE_def)

lemma execute_locked:
  assumes "execute config ve plan atr w = (r, w')" and "locked w (tp_execution_id plan)"
  shows "same_state w w'"
  using assms(1)
proof (cases rule: execute_cases)
  case (early res)
  then show ?thesis by simp
next
  case (checked w1 w2)
  have "w_intents w1 = w_intents w" using checked(3) by (simp add: same_state_def)
  with checked(4) locked_not_reopenable [OF assms(2)] show ?thesis
    by (cases rule: persist_intent_cases) auto
qed

lemma execute_keeps_lock:
  assumes "execute config ve plan atr w = (r, w')" and "locked w k"
  shows "locked w' k"
proof (cases "k = tp_execution_id plan")
  case True
  then have "same_state w w'" using execute_locked assms by blast
  then show ?thesis using assms(2) by (simp add: locked_def same_state_def status_of_def)
next
  case False
  with execute_orders(2) [OF assms(1)] assms(2) show ?thesis by (simp add: locked_def)
qed

lemma execute_orders_for:
  assumes "execute config ve plan atr w = (r, w')"
  shows "orders_for k w' = orders_for k w \<or>
    (k = tp_execution_id plan \<and> \<not> locked w k \<and> (rejected_by ve \<or> locked w' k)
     \<and> orders_for k w' = orders_for k w @ [order_entry plan (Some SUBMITTED)])"
proof (cases "orders w' = orders w")
  case True
  then show ?thesis by (simp add: orders_for_def)
next
  case False
  with execute_orders(1) [OF assms] have o: "orders w' = orders w @ [order_entry plan (Some SUBMITTED)]"
    and l: "rejected_by ve \<or> locked w' (tp_execution_id plan)" by (auto simp: locked_def)
  have "\<not> locked w (tp_execution_id plan)"
    using execute_locked [OF assms] False by (auto simp: same_state_def)
  with o l show ?thesis by (auto simp: orders_for_def order_entry_def)
qed

lemma run_executions_once:
  assumes "\<forall>(config, ve, plan, atr) \<in> set es. \<not> rejected_by ve"
    and "length (orders_for k w) \<le> (if locked w k then 1 else 0)"
  shows "length (orders_for k (run_executions es w)) \<le> 1"
  using assms
proof (induction es arbitrary: w)
  case Nil
  then show ?case by (simp split: if_splits)
next
  case (Cons e es)
  obtain config ve plan atr where e: "e = (config, ve, plan, atr)" by (cases e)
  obtain r w' where x: "execute config ve plan atr w = (r, w')" by force
  have "length (orders_for k w') \<le> (if locked w' k then 1 else 0)"
    using execute_orders_for [OF x, of k] execute_keeps_lock [OF x, of k] Cons.prems e
    by (auto split: if_splits)
  then show ?case using Cons e x by simp
qed

subsection \<open>The book through an execution\<close>

lemma verify_protection_book:
  assumes "verify_protection ve config plan p w = (r, w')"
  obtains "w_trades w' = w_trades w"
  | sl tp where "w_trades w' = update_protection (w_trades w) (bp_position_id p) sl tp (ve_now ve)"
  using assms
  by (auto simp: verify_protection_def unprotected_def world_simps Let_def
    split: prod.splits sum.splits if_splits)

lemma by_execution_id_protection:
  "by_execution_id (update_protection rows p sl tp now) k =
     map_option (\<lambda>r. if td_position_id r = Some p
       then r\<lparr> td_stop_loss := coalesce sl (td_stop_loss r),
               td_take_profit := coalesce tp (td_take_profit r), td_updated_at := now \<rparr>
       else r) (by_execution_id rows k)"
  unfolding update_protection_def at_position_def by (rule by_execution_id_update_where) simp

text \<open>How a submission ends for the book: untouched, aborted, or opened (and then protected).\<close>

lemma settle_book:
  assumes "settle ve config plan reference order w = (r, w')"
  obtains (kept) "w_trades w' = w_trades w" "\<And>res. r = Inr res \<Longrightarrow> \<not> xr_ok res"
  | (opened) p rows where "matches_plan plan p"
      "mark_open (w_trades w) (tp_execution_id plan) (bp_position_id p) (or_order_id order)
        (Some (bp_entry_price p)) (Some (bp_quantity p)) (bp_opened_at p) (ve_now ve) = Inr rows"
      "w_trades w' = rows \<or> (\<exists>sl tp. w_trades w' = update_protection rows (bp_position_id p) sl tp (ve_now ve))"
      "w_intents w' = intent_mark (w_intents w) (tp_execution_id plan) FILLED (or_order_id order)
         (Some (bp_position_id p)) None (ve_now ve)"
      "w_days w' = record_open (w_days w) (ve_now ve)"
      "\<And>res. r = Inr res \<Longrightarrow> xr_ok res \<and> xr_position_id res = Some (bp_position_id p)"
proof -
  let ?k = "tp_execution_id plan" and ?now = "ve_now ve"
  obtain v w1 where v: "verify_position ve config plan (xc_order_verify_attempts config) w = (v, w1)"
    by force
  then have frame: "w_trades w1 = w_trades w" "w_intents w1 = w_intents w" "w_days w1 = w_days w"
    and match: "\<And>p. v = Inr (Some p) \<Longrightarrow> matches_plan plan p"
    using verify_position_frame unfolding same_state_def by blast+
  consider (none) "v = Inr None" | (err) e where "v = Inl e" | (some) p where "v = Inr (Some p)"
    by (metis option.exhaust sum.exhaust)
  then show thesis
  proof cases
    case none
    with assms v frame show thesis
      by (intro kept) (auto simp: settle_def Let_def world_simps failed_def)
  next
    case err
    with assms v frame show thesis by (intro kept) (auto simp: settle_def Let_def)
  next
    case (some p)
    let ?w2 = "mark_intent ?now ?k FILLED (or_order_id order) (Some (bp_position_id p)) None w1"
    obtain m where m: "mark_open (w_trades ?w2) ?k (bp_position_id p) (or_order_id order)
          (Some (bp_entry_price p)) (Some (bp_quantity p)) (bp_opened_at p) ?now = m" by simp
    show thesis
    proof (cases m)
      case (Inl e)
      with some assms v m frame show thesis
        by (intro kept) (auto simp: settle_def Let_def world_simps)
    next
      case (Inr rows)
      let ?w3 = "note_event ?now ?k ''FILLED'' (bp_position_id p)
            (?w2\<lparr> w_trades := rows, w_days := record_open (w_days ?w2) ?now \<rparr>)"
      obtain u w4 where u: "verify_protection ve config plan p ?w3 = (u, w4)" by force
      have w': "w' = w4" and res: "\<And>res. r = Inr res \<Longrightarrow> xr_ok res \<and> xr_position_id res = Some (bp_position_id p)"
        using assms(1) v some m Inr u by (auto simp: settle_def Let_def split: sum.splits)
      have p: "w_intents w4 = w_intents ?w3" "w_days w4 = w_days ?w3"
        using verify_protection_frame [OF u] by simp_all
      have t: "w_trades w4 = rows \<or> (\<exists>sl tp. w_trades w4 = update_protection rows (bp_position_id p) sl tp ?now)"
        using u by (cases rule: verify_protection_book) (auto simp: note_event_def)
      show thesis
        by (rule opened [of p rows])
          (use match some m Inr frame w' res p t in \<open>simp_all add: world_simps mark_intent_def note_event_def\<close>)
    qed
  qed
qed

lemma settle_ok:
  assumes "settle ve config plan reference order w = (r, w')" and "book_ok (w_trades w)"
  shows "book_ok (w_trades w')"
  using assms(1)
proof (cases rule: settle_book)
  case kept
  with assms(2) show ?thesis by simp
next
  case (opened p rows)
  then have "book_ok rows" using assms(2) mark_open_ok by blast
  with opened(3) show ?thesis by (auto intro: update_protection_ok)
qed

lemma submit_ok:
  assumes "submit ve config plan reference w = (r, w')" and "book_ok (w_trades w)"
  shows "book_ok (w_trades w')"
proof (cases "ve_order ve")
  case (Inl e)
  with assms show ?thesis
    by (auto simp: submit_def Let_def world_simps intro: mark_aborted_ok split: if_splits)
next
  case (Inr order)
  let ?k = "tp_execution_id plan" and ?now = "ve_now ve"
  let ?w2 = "note_event ?now ?k ''ACKNOWLEDGED'' [] (mark_intent ?now ?k ACKNOWLEDGED (or_order_id order) None None
    (called plan (PlaceOrder (tp_direction plan) (tp_quantity plan) (tp_stop_loss plan) (tp_take_profit plan))
      (note_event ?now ?k ''SUBMITTED'' [] (mark_intent ?now ?k SUBMITTED None None None w))))"
  have "settle ve config plan reference order ?w2 = (r, w')"
    using assms(1) Inr by (simp add: submit_def Let_def)
  moreover have "book_ok (w_trades ?w2)" using assms(2) by (simp add: world_simps)
  ultimately show ?thesis by (rule settle_ok)
qed

lemma execute_ok:
  assumes "execute config ve plan atr w = (r, w')" and "book_ok (w_trades w)"
  shows "book_ok (w_trades w')"
  using assms(1)
proof (cases rule: execute_cases)
  case (early res)
  then show ?thesis using assms(2) by (simp add: same_state_def)
next
  case (checked w1 w2)
  have "w_trades w2 = w_trades w"
    using checked(3,4) by (cases rule: persist_intent_cases [OF checked(4)]) (simp_all add: same_state_def)
  then have b: "book_ok (create_pending (w_trades w2) (tp_execution_id plan) plan (ve_now ve))"
    using assms(2) by (simp add: create_pending_ok)
  from checked(5) show ?thesis
  proof (cases rule: check_and_submit_cases)
    case escaped
    then show ?thesis using b by (simp add: same_state_def world_simps note_event_def)
  next
    case stopped
    then show ?thesis using b by (simp add: note_event_def mark_aborted_ok)
  next
    case (sent reference w4)
    then have "book_ok (w_trades w4)" using b by (simp add: same_state_def note_event_def)
    with sent(3) show ?thesis by (rule submit_ok)
  qed
qed

lemma aborted_after_pending:
  assumes "\<And>r. by_execution_id rows k = Some r \<Longrightarrow> td_status r \<in> {PENDING, ABORTED}"
  shows "\<exists>r. by_execution_id (mark_aborted (create_pending rows k plan now) k why now) k = Some r
    \<and> td_status r = ABORTED"
proof -
  have "by_execution_id (mark_aborted rows' k why now) k =
      map_option (\<lambda>r. if td_execution_id r = k \<and> td_status r = PENDING
        then r\<lparr> td_status := ABORTED, td_exit_reason := Some (take 300 why), td_updated_at := now \<rparr>
        else r) (by_execution_id rows' k)" for rows'
    unfolding mark_aborted_def by (rule by_execution_id_update_where) simp
  then show ?thesis using assms
    by (cases "by_execution_id rows k")
      (auto simp: create_pending_lookup pending_row_def plan_columns_def blank_trade_def dest: by_execution_id_key)
qed

lemma mark_open_row:
  assumes "mark_open rows k p oid entry q opened now = Inr rows'" and "by_execution_id rows k = Some r"
  shows "\<exists>r'. by_execution_id rows' k = Some r' \<and> td_status r' = OPEN \<and> td_position_id r' = Some p"
proof -
  let ?f = "\<lambda>r. r\<lparr> td_status := OPEN, td_position_id := Some p,
           td_order_id := coalesce oid (td_order_id r),
           td_actual_entry := coalesce entry (td_actual_entry r),
           td_quantity := coalesce q (td_quantity r),
           td_opened_at := coalesce opened (Some now), td_updated_at := now \<rparr>"
  have "rows' = modify_row td_execution_id rows k ?f"
    using assms(1) by (simp add: mark_open_def split: if_splits)
  moreover have "by_execution_id (modify_row td_execution_id rows k ?f) k = map_option ?f (by_execution_id rows k)"
    using trades.lookup_modify [of ?f rows k k] by simp
  ultimately show ?thesis using assms(2) by simp
qed

text \<open>What an \<open>ok\<close> result is backed by.\<close>

definition recorded_open :: "world \<Rightarrow> string \<Rightarrow> string \<Rightarrow> bool" where
  "recorded_open w k p = (status_of w k = Some FILLED
     \<and> (\<exists>r. by_execution_id (w_trades w) k = Some r \<and> td_status r = OPEN \<and> td_position_id r = Some p))"

lemma settle_recorded:
  assumes "settle ve config plan reference order w = (Inr res, w')" and "xr_ok res"
    and "status_of w (tp_execution_id plan) \<noteq> None" and "by_execution_id (w_trades w) (tp_execution_id plan) = Some r"
  shows "\<exists>p. xr_position_id res = Some p \<and> recorded_open w' (tp_execution_id plan) p"
  using assms(1)
proof (cases rule: settle_book)
  case kept
  with assms(2) show ?thesis by simp
next
  case (opened p rows)
  let ?k = "tp_execution_id plan"
  have "status_of w' ?k = status_of (mark_intent (ve_now ve) ?k FILLED (or_order_id order) (Some (bp_position_id p)) None w) ?k"
    by (rule fun_cong [OF status_cong]) (simp add: opened(4) mark_intent_def)
  then have "status_of w' ?k = Some FILLED" using assms(3) by (auto simp: status_mark)
  moreover have "\<exists>r'. by_execution_id (w_trades w') ?k = Some r' \<and> td_status r' = OPEN
      \<and> td_position_id r' = Some (bp_position_id p)"
    using mark_open_row [OF opened(2) assms(4)] opened(3) by (auto simp: by_execution_id_protection)
  ultimately show ?thesis using opened(6) by (auto simp: recorded_open_def)
qed

lemma submit_recorded:
  assumes "submit ve config plan reference w = (Inr res, w')" and "xr_ok res"
    and "status_of w (tp_execution_id plan) \<noteq> None" and "by_execution_id (w_trades w) (tp_execution_id plan) = Some r"
  shows "\<exists>p. xr_position_id res = Some p \<and> recorded_open w' (tp_execution_id plan) p"
proof (cases "ve_order ve")
  case (Inl e)
  with assms(1,2) show ?thesis by (auto simp: submit_def Let_def failed_def split: if_splits)
next
  case (Inr order)
  let ?k = "tp_execution_id plan" and ?now = "ve_now ve"
  let ?w2 = "note_event ?now ?k ''ACKNOWLEDGED'' [] (mark_intent ?now ?k ACKNOWLEDGED (or_order_id order) None None
    (called plan (PlaceOrder (tp_direction plan) (tp_quantity plan) (tp_stop_loss plan) (tp_take_profit plan))
      (note_event ?now ?k ''SUBMITTED'' [] (mark_intent ?now ?k SUBMITTED None None None w))))"
  have "settle ve config plan reference order ?w2 = (Inr res, w')"
    using assms(1) Inr by (simp add: submit_def Let_def)
  from settle_recorded [OF this assms(2)] show ?thesis
    using assms(3,4) by (auto simp: world_simps)
qed

lemma execute_recorded:
  assumes "execute config ve plan atr w = (Inr res, w')" and "xr_ok res"
  shows "\<exists>p. xr_position_id res = Some p \<and> recorded_open w' (tp_execution_id plan) p"
  using assms(1)
proof (cases rule: execute_cases)
  case (early res')
  with assms(2) show ?thesis by simp
next
  case (checked w1 w2)
  let ?k = "tp_execution_id plan"
  let ?w3 = "note_event (ve_now ve) ?k ''INTENT_CREATED'' []
        (w2\<lparr> w_trades := create_pending (w_trades w2) ?k plan (ve_now ve) \<rparr>)"
  have "by_execution_id (w_trades ?w3) ?k \<noteq> None"
    by (cases "by_execution_id (w_trades w2) ?k") (simp_all add: world_simps create_pending_lookup)
  then obtain r where r: "by_execution_id (w_trades ?w3) ?k = Some r" by blast
  have st: "status_of ?w3 ?k \<noteq> None" using persist_status(1) [OF checked(4)] by (simp add: world_simps)
  from checked(5) show ?thesis
  proof (cases rule: check_and_submit_cases)
    case escaped
    then show ?thesis by simp
  next
    case stopped
    with assms(2) show ?thesis by simp
  next
    case (sent reference w4)
    have "status_of w4 ?k \<noteq> None" "by_execution_id (w_trades w4) ?k = Some r"
      using sent(2) st r status_cong [of w4 ?w3] by (auto simp: same_state_def)
    with submit_recorded [OF sent(3) assms(2)] show ?thesis by blast
  qed
qed

text \<open>A refusal, before the order or by the broker, leaves no pending row behind.\<close>

lemma submit_rejected:
  assumes "submit ve config plan reference w = (Inr res, w')" and "xr_status res = Rejected"
    and "status_of w (tp_execution_id plan) \<noteq> None"
  obtains why where "w_trades w' = mark_aborted (w_trades w) (tp_execution_id plan) why (ve_now ve)"
    and "status_of w' (tp_execution_id plan) = Some FAILED"
proof (cases "ve_order ve")
  case (Inl e)
  with assms show thesis
    by (intro that [of "exn_message e"])
      (auto simp: submit_def Let_def failed_def world_simps split: if_splits)
next
  case (Inr order)
  let ?k = "tp_execution_id plan" and ?now = "ve_now ve"
  let ?w2 = "note_event ?now ?k ''ACKNOWLEDGED'' [] (mark_intent ?now ?k ACKNOWLEDGED (or_order_id order) None None
    (called plan (PlaceOrder (tp_direction plan) (tp_quantity plan) (tp_stop_loss plan) (tp_take_profit plan))
      (note_event ?now ?k ''SUBMITTED'' [] (mark_intent ?now ?k SUBMITTED None None None w))))"
  have "settle ve config plan reference order ?w2 = (Inr res, w')"
    using assms(1) Inr by (simp add: submit_def Let_def)
  moreover have "status_of ?w2 ?k = Some ACKNOWLEDGED" using assms(3) by (auto simp: world_simps)
  ultimately show thesis using settle_outcome(4) [of ve config plan reference order ?w2 "Inr res" w' res] assms(2)
    by simp
qed

lemma execute_refused:
  assumes "execute config ve plan atr w = (Inr res, w')" and "xr_status res \<in> {Aborted, Rejected}"
    and "\<And>r. by_execution_id (w_trades w) (tp_execution_id plan) = Some r \<Longrightarrow> td_status r \<in> {PENDING, ABORTED}"
  shows "same_state w w' \<or> (status_of w' (tp_execution_id plan) = Some FAILED
    \<and> (\<exists>r. by_execution_id (w_trades w') (tp_execution_id plan) = Some r \<and> td_status r = ABORTED))"
  using assms(1)
proof (cases rule: execute_cases)
  case early
  then show ?thesis by simp
next
  case (checked w1 w2)
  let ?k = "tp_execution_id plan"
  let ?w3 = "note_event (ve_now ve) ?k ''INTENT_CREATED'' []
        (w2\<lparr> w_trades := create_pending (w_trades w2) ?k plan (ve_now ve) \<rparr>)"
  have t2: "w_trades w2 = w_trades w"
    using checked(3) by (cases rule: persist_intent_cases [OF checked(4)]) (simp_all add: same_state_def)
  have st: "status_of ?w3 ?k \<noteq> None" using persist_status(1) [OF checked(4)] by (simp add: world_simps)
  have ab: "\<exists>r. by_execution_id (mark_aborted (w_trades ?w3) ?k why (ve_now ve)) ?k = Some r \<and> td_status r = ABORTED" for why
    using aborted_after_pending [of "w_trades w2" ?k plan "ve_now ve" why] assms(3) by (simp add: t2 world_simps)
  from checked(5) show ?thesis
  proof (cases rule: check_and_submit_cases)
    case escaped
    then show ?thesis by simp
  next
    case (stopped res' why ev)
    have "status_of w' ?k = status_of (abandon (ve_now ve) ?k ev why ?w3) ?k"
      by (rule fun_cong [OF status_cong]) (rule stopped(5))
    then have "status_of w' ?k = Some FAILED" using st by (auto simp: status_abandon)
    then show ?thesis using ab [of why] stopped(6) by simp
  next
    case (sent reference w4)
    have w4: "status_of w4 ?k \<noteq> None" "w_trades w4 = w_trades ?w3"
      using sent(2) st status_cong [of w4 ?w3] by (auto simp: same_state_def)
    have "xr_status res = Rejected" using submit_outcome(4) [OF sent(3) w4(1)] assms(2) by auto
    from submit_rejected [OF sent(3) this w4(1)] obtain why where
      "w_trades w' = mark_aborted (w_trades w4) ?k why (ve_now ve)" "status_of w' ?k = Some FAILED" by blast
    with ab [of why] w4(2) show ?thesis by simp
  qed
qed

text \<open>A position another row already holds.\<close>

lemma settle_collision:
  assumes "verify_position ve config plan (xc_order_verify_attempts config) w = (Inr (Some p), w1)"
    and "by_execution_id (w_trades w) (tp_execution_id plan) \<noteq> None"
    and "r \<in> set (w_trades w)" and "td_execution_id r \<noteq> tp_execution_id plan"
    and "td_position_id r = Some (bp_position_id p)" and "status_of w (tp_execution_id plan) \<noteq> None"
  shows "\<exists>w'. settle ve config plan reference order w = (Inl integrity_error, w')
    \<and> w_trades w' = w_trades w \<and> status_of w' (tp_execution_id plan) = Some FILLED"
proof -
  have s: "same_state w w1" using verify_position_frame [OF assms(1)] by simp
  then have t: "w_trades w1 = w_trades w" "status_of w1 = status_of w"
    by (auto simp: same_state_def intro: status_cong)
  let ?w2 = "mark_intent (ve_now ve) (tp_execution_id plan) FILLED (or_order_id order) (Some (bp_position_id p)) None w1"
  have "mark_open (w_trades w) (tp_execution_id plan) (bp_position_id p) (or_order_id order)
      (Some (bp_entry_price p)) (Some (bp_quantity p)) (bp_opened_at p) (ve_now ve) = Inl integrity_error"
    using assms(2-5) by (auto simp: mark_open_def)
  then have "settle ve config plan reference order w = (Inl integrity_error, ?w2)"
    using assms(1) by (simp add: settle_def Let_def world_simps t)
  then show ?thesis using assms(6) t by (auto simp: world_simps)
qed


subsection \<open>Properties\<close>

text \<open>C1. At most one order per execution id: however often a plan is executed, with whatever
  configurations and broker answers, and whatever other plans run between, one order at most
  reaches the broker for it, unless the broker explicitly rejected one.\<close>

theorem one_order_per_execution:
  assumes "\<forall>(config, ve, plan, atr) \<in> set es. \<not> rejected_by ve" and "orders_for k w = []"
  shows "length (orders_for k (run_executions es w)) \<le> 1"
  by (rule run_executions_once [OF assms(1)]) (simp add: assms(2))

definition demo_position :: broker_position where
  "demo_position = \<lparr> bp_position_id = ''p1'', bp_symbol = ''EURUSD'', bp_instrument_id = 1,
     bp_direction = ''BUY'', bp_quantity = 1 / 10, bp_entry_price = 11 / 10, bp_stop_loss = Some (109 / 100),
     bp_take_profit = Some (112 / 100), bp_unrealized_pnl = 0, bp_opened_at = Some 0 \<rparr>"

definition demo_venue :: venue where
  "demo_venue = \<lparr> ve_now = 0, ve_ping = True, ve_account_create = Some demo_account, ve_claims_create = None,
     ve_account_submit = Some demo_account, ve_claims_submit = None,
     ve_positions = (\<lambda>n. if n = 0 then Inr [] else Inr [demo_position]),
     ve_quote = Inr \<lparr> q_symbol = ''EURUSD'', q_bid = 10999 / 10000, q_ask = 11 / 10, q_timestamp = 0 \<rparr>,
     ve_order = Inr \<lparr> or_order_id = Some ''o1'' \<rparr>, ve_modify = Inr () \<rparr>"

definition empty_world :: world where
  "empty_world = \<lparr> w_intents = [], w_trades = [], w_events = [], w_reconciliations = [], w_days = [], w_calls = [] \<rparr>"

lemma demo_same: "same_instrument ''EURUSD'' ''EURUSD''" by code_simp

lemma demo_require: "require_demo demo_config (Some demo_account) None = Inr (verify_demo demo_config (Some demo_account) None)"
  by (simp add: require_demo_Inr demo_config_verified)

lemma sample_plan_key [simp]: "tp_execution_id sample_plan = ''x1''" by (simp add: sample_plan_def)

lemma demo_persisted: "persist_intent 0 sample_plan (called sample_plan ReadMetadata empty_world)
   = (None, (called sample_plan ReadMetadata empty_world)\<lparr> w_intents := [sample_intent] \<rparr>)"
  by (simp add: persist_intent_def intent_create_def called_def empty_world_def intent_get_def find_row_def
     intent_insert_def insert_row_def sample_intent_def sample_plan_def new_intent_def)

lemma demo_attempts: "xc_order_verify_attempts (tc_execution demo_config) = 5"
  by (simp add: demo_config_def default_execution_config_def)

lemma demo_verified:
  "verify_position demo_venue (tc_execution demo_config) sample_plan 5 w
     = (Inr (Some demo_position), called sample_plan ReadPositions w)"
  by (simp add: numeral_eq_Suc demo_venue_def Let_def matches_plan_def demo_position_def sample_plan_def demo_same)

lemma demo_execution:
  obtains res w' where "execute demo_config demo_venue sample_plan (1 / 100) empty_world = (Inr res, w')" "xr_ok res"
proof -
  define w3 where "w3 = note_event 0 ''x1'' ''INTENT_CREATED'' []
      ((called sample_plan ReadMetadata empty_world)\<lparr> w_intents := [sample_intent],
         w_trades := create_pending [] ''x1'' sample_plan 0 \<rparr>)"
  have w3: "w_intents w3 = [sample_intent]" "w_trades w3 = create_pending [] ''x1'' sample_plan 0"
    by (simp_all add: w3_def world_simps)
  have ex: "execute demo_config demo_venue sample_plan (1 / 100) empty_world
      = check_and_submit demo_config demo_venue sample_plan (1 / 100) w3"
    by (simp add: execute_def demo_venue_def demo_require demo_persisted Let_def w3_def)
      (simp add: called_def empty_world_def)
  have dup: "fresh_duplicate_check (ve_positions demo_venue 0) [sample_intent] sample_plan = Inr None"
    by (simp add: duplicate_check_pass demo_venue_def sample_intent_def new_intent_def sample_plan_def)
  have spr: "spread_check (tc_execution demo_config) (ve_quote demo_venue) sample_plan (1 / 100) = Inr (Inr (11 / 10))"
    by (simp add: spread_check_def demo_venue_def spread_def sample_plan_def validate_spread_def demo_config_def
        default_execution_config_def)
  define w6 where "w6 = called sample_plan ReadMetadata (called sample_plan ReadQuote (called sample_plan ReadPositions w3))"
  have cs: "check_and_submit demo_config demo_venue sample_plan (1 / 100) w3
      = submit demo_venue (tc_execution demo_config) sample_plan (11 / 10) w6"
    using dup spr by (simp add: check_and_submit_def Let_def world_simps w3 w6_def)
      (simp add: demo_venue_def demo_require)
  obtain ack where sub: "submit demo_venue (tc_execution demo_config) sample_plan (11 / 10) w6
      = settle demo_venue (tc_execution demo_config) sample_plan (11 / 10) \<lparr> or_order_id = Some ''o1'' \<rparr> ack"
      and ack: "w_trades ack = create_pending [] ''x1'' sample_plan 0"
    by (simp add: submit_def demo_venue_def Let_def) (simp add: world_simps w6_def w3)
  obtain rows where rows: "mark_open (create_pending [] ''x1'' sample_plan 0) ''x1'' ''p1'' (Some ''o1'') (Some (11 / 10))
      (Some (1 / 10)) (Some 0) 0 = Inr rows"
    by (simp add: mark_open_def create_pending_def revive_def by_execution_id_def find_row_def pending_row_def
        blank_trade_def plan_columns_def)
  have prot: "missing_protection demo_position = (False, False)"
    by (simp add: missing_protection_def demo_position_def truthy_def)
  have pos: "bp_position_id demo_position = ''p1''" "bp_entry_price demo_position = 11 / 10"
    "bp_quantity demo_position = 1 / 10" "bp_opened_at demo_position = Some 0"
    by (simp_all add: demo_position_def)
  have now: "ve_now demo_venue = 0" by (simp add: demo_venue_def)
  obtain res w' where "settle demo_venue (tc_execution demo_config) sample_plan (11 / 10)
      \<lparr> or_order_id = Some ''o1'' \<rparr> ack = (Inr res, w')" "xr_ok res"
    by (simp add: settle_def demo_attempts demo_verified Let_def world_simps pos ack rows verify_protection_def prot now)
  then show thesis using that ex cs sub by metis
qed
theorem one_order_per_execution_witness:
  "length (orders_for ''x1'' (run_executions
     [(demo_config, demo_venue, sample_plan, 1 / 100), (demo_config, demo_venue, sample_plan, 1 / 100)]
     empty_world)) \<le> 1"
  by (rule one_order_per_execution)
    (simp_all add: rejected_by_def demo_venue_def orders_for_def orders_def empty_world_def)

text \<open>C2. An execution places no order, or exactly one, and then only after every guard: the database
  answered, the demo account was verified before the intent and again before the order, no
  position and no other unresolved intent of the instrument existed, the spread was acceptable,
  and the intent was persisted and marked submitted before the order left; afterwards the
  intent shows that an order was sent, unless the broker rejected it.\<close>

theorem order_only_after_guards:
  "let w' = snd (execute config ve plan atr w) in
   orders w' = orders w \<or>
    (orders w' = orders w @ [order_entry plan (Some SUBMITTED)]
     \<and> ve_ping ve \<and> dv_verified (verify_demo config (ve_account_create ve) (ve_claims_create ve))
     \<and> cleared config ve plan atr (w_intents w)
     \<and> (intent_get (w_intents w) (tp_execution_id plan) = None
        \<or> reopen_allowed (intent_get (w_intents w) (tp_execution_id plan)))
     \<and> (rejected_by ve \<or> (\<exists>st. status_of w' (tp_execution_id plan) = Some st \<and> sent_status st)))"
  using execute_orders(1) [of config ve plan atr w "fst (execute config ve plan atr w)"
      "snd (execute config ve plan atr w)"] by (simp only: Let_def prod.collapse)

text \<open>C9. A success is recorded before it is reported: when \<open>execute\<close> answers ok, the intent is
  filled and the trade row is open under the very position id of the answer.\<close>

theorem success_is_recorded:
  assumes "execute config ve plan atr w = (Inr res, w')" and "xr_ok res"
  shows "\<exists>p. xr_position_id res = Some p \<and> recorded_open w' (tp_execution_id plan) p"
  using assms by (rule execute_recorded)

theorem success_is_recorded_witness:
  "\<exists>p. recorded_open (snd (execute demo_config demo_venue sample_plan (1 / 100) empty_world)) ''x1'' p"
proof -
  obtain res w' where x: "execute demo_config demo_venue sample_plan (1 / 100) empty_world = (Inr res, w')" "xr_ok res"
    by (rule demo_execution)
  from success_is_recorded [OF this] x(1) show ?thesis by auto
qed



text \<open>The trade book keeps its invariant through any execution, whatever the broker answers and
  also when an exception escapes.\<close>

theorem execution_keeps_book:
  assumes "book_ok (w_trades w)"
  shows "book_ok (w_trades (snd (execute config ve plan atr w)))"
  using execute_ok [OF _ assms] by (metis prod.collapse)

theorem execution_keeps_book_witness:
  "book_ok (w_trades (snd (execute demo_config demo_venue sample_plan (1 / 100) empty_world)))"
  by (rule execution_keeps_book) (simp add: empty_world_def book_ok_def map_filter_simps)

text \<open>A verified position that another row of the book already holds (an orphan adopted by the
  reconciler in between) makes the driver's integrity error escape after the intent was marked
  filled: the order is live, the intent says so, and the trade row stays as it was.\<close>

theorem position_collision_escapes:
  assumes "verify_position ve config plan (xc_order_verify_attempts config) w = (Inr (Some p), w1)"
    and "by_execution_id (w_trades w) (tp_execution_id plan) \<noteq> None"
    and "r \<in> set (w_trades w)" and "td_execution_id r \<noteq> tp_execution_id plan"
    and "td_position_id r = Some (bp_position_id p)" and "status_of w (tp_execution_id plan) \<noteq> None"
  shows "\<exists>w'. settle ve config plan reference order w = (Inl integrity_error, w')
    \<and> w_trades w' = w_trades w \<and> status_of w' (tp_execution_id plan) = Some FILLED"
  using assms by (rule settle_collision)

definition orphaned_world :: world where
  "orphaned_world = empty_world\<lparr> w_intents := [sample_intent],
     w_trades := [pending_row ''x1'' sample_plan 0,
       (blank_trade ''orphan-p1'' ''EURUSD'' ''BUY'' ORPHANED 0)\<lparr> td_position_id := Some ''p1'' \<rparr>] \<rparr>"

theorem position_collision_escapes_witness:
  "\<exists>w'. settle demo_venue (tc_execution demo_config) sample_plan (11 / 10) \<lparr> or_order_id = Some ''o1'' \<rparr> orphaned_world
     = (Inl integrity_error, w')"
proof -
  let ?r = "(blank_trade ''orphan-p1'' ''EURUSD'' ''BUY'' ORPHANED 0)\<lparr> td_position_id := Some ''p1'' \<rparr>"
  have "verify_position demo_venue (tc_execution demo_config) sample_plan
      (xc_order_verify_attempts (tc_execution demo_config)) orphaned_world
      = (Inr (Some demo_position), called sample_plan ReadPositions orphaned_world)"
    by (simp only: demo_attempts demo_verified)
  moreover have "by_execution_id (w_trades orphaned_world) (tp_execution_id sample_plan) \<noteq> None"
    by (simp add: orphaned_world_def by_execution_id_def find_row_def pending_row_def blank_trade_def plan_columns_def)
  moreover have "?r \<in> set (w_trades orphaned_world)" by (simp add: orphaned_world_def)
  moreover have "td_execution_id ?r \<noteq> tp_execution_id sample_plan" by (simp add: blank_trade_def)
  moreover have "td_position_id ?r = Some (bp_position_id demo_position)" by (simp add: demo_position_def)
  moreover have "status_of orphaned_world (tp_execution_id sample_plan) \<noteq> None"
    by (simp add: status_of_def orphaned_world_def intent_get_def find_row_def sample_intent_key)
  ultimately show ?thesis using position_collision_escapes by blast
qed

end
