(* ===== verification/Reconciler.thy ===== *)
theory Reconciler
  imports Executor
begin

text \<open>
  Reconciliation of the database with the broker, \<open>bot/execution/reconciler.py\<close>. The broker is
  the record \<open>recon_venue\<close> of its answers; each loop carries the world and the report and
  stops at the first exception that escapes (\<open>Some e\<close>), as the code does.
\<close>

record recon_venue =
  rk_now :: micros
  rk_positions :: "exn + broker_position list"
  rk_history_for_intent :: "string \<Rightarrow> exn + broker_order list"
  rk_history_for_position :: "string \<Rightarrow> exn + broker_order list"
  rk_closed_result :: "(string \<Rightarrow> exn + (real option \<times> real option)) option"
  rk_modify :: "string \<Rightarrow> real \<Rightarrow> exn + unit"

record reconcile_report =
  rp_checked_positions :: nat
  rp_adopted_orphans :: "string list"
  rp_unmeasured_closes :: "string list"
  rp_closed_stale :: "string list"
  rp_resolved_intents :: "string list"
  rp_unresolved_intents :: "string list"
  rp_unprotected :: "string list"
  rp_errors :: "string list"

definition empty_report :: reconcile_report where
  "empty_report = \<lparr> rp_checked_positions = 0, rp_adopted_orphans = [], rp_unmeasured_closes = [],
     rp_closed_stale = [], rp_resolved_intents = [], rp_unresolved_intents = [],
     rp_unprotected = [], rp_errors = [] \<rparr>"

definition report_clean :: "reconcile_report \<Rightarrow> bool" where
  "report_clean r = (rp_unresolved_intents r = [] \<and> rp_errors r = [])"

type_synonym recon_state = "world \<times> reconcile_report"

text \<open>A loop body over a list, left at the first escaping exception.\<close>

fun each :: "('x \<Rightarrow> 's \<Rightarrow> exn option \<times> 's) \<Rightarrow> 'x list \<Rightarrow> 's \<Rightarrow> exn option \<times> 's" where
  "each f [] s = (None, s)"
| "each f (x # xs) s = (case f x s of (Some e, s') \<Rightarrow> (Some e, s') | (None, s') \<Rightarrow> each f xs s')"

subsection \<open>Unresolved intents\<close>

definition intent_match :: "intent \<Rightarrow> broker_position \<Rightarrow> bool" where
  "intent_match i p = (same_instrument (bp_symbol p) (upper (in_symbol i))
     \<and> bp_direction p = upper (in_direction i))"

definition order_history_match :: "(exn + broker_order list) \<Rightarrow> string option \<Rightarrow> exn + string option" where
  "order_history_match history recorded =
     (case history of
        Inl e \<Rightarrow> if isinstance e BotError then Inr None else Inl e
      | Inr os \<Rightarrow> Inr (map_option bo_order_id
          (List.find (\<lambda>order. truthy_str recorded \<and> Some (bo_order_id order) = recorded) os)))"

definition resolved :: "string \<Rightarrow> reconcile_report \<Rightarrow> reconcile_report" where
  "resolved k r = r\<lparr> rp_resolved_intents := rp_resolved_intents r @ [k] \<rparr>"

definition resolve_intent ::
  "recon_venue \<Rightarrow> broker_position list \<Rightarrow> intent \<Rightarrow> recon_state \<Rightarrow> exn option \<times> recon_state" where
  "resolve_intent rk positions i s =
     (let (w, report) = s; k = in_key i; now = rk_now rk in
      case List.find (intent_match i) positions of
        Some p \<Rightarrow>
          (let w1 = mark_intent now k FILLED None (Some (bp_position_id p)) None w in
           case mark_open (w_trades w1) k (bp_position_id p) (in_broker_order_id i)
                  (Some (bp_entry_price p)) (Some (bp_quantity p)) (bp_opened_at p) now of
             Inl e \<Rightarrow> (Some e, w1, report)
           | Inr rows \<Rightarrow> (None, note_event now k ''RESOLVED_FILLED'' (bp_position_id p)
               (w1\<lparr> w_trades := rows \<rparr>), resolved k report))
      | None \<Rightarrow>
          (case order_history_match (rk_history_for_intent rk k) (in_broker_order_id i) of
             Inl e \<Rightarrow> (Some e, w, report)
           | Inr landed \<Rightarrow>
               if truthy_str landed
               then (None, note_event now k ''RESOLVED_HISTORICAL'' (the landed)
                      (mark_intent now k FILLED landed None None w), resolved k report)
               else if in_status i = CREATED
               then (None, note_event now k ''ABANDONED'' []
                      (mark_intent now k ABANDONED None None (Some ''never submitted'') w), resolved k report)
               else (None, note_event now k ''RESOLVED_NO_FILL'' []
                      (mark_intent now k ABANDONED None None
                        (Some ''no matching position or order found at the broker'') w), resolved k report)))"

definition resolve_intents ::
  "recon_venue \<Rightarrow> broker_position list \<Rightarrow> recon_state \<Rightarrow> exn option \<times> recon_state" where
  "resolve_intents rk positions s =
     each (resolve_intent rk positions) (intent_unresolved (w_intents (fst s))) s"

subsection \<open>Orphaned positions\<close>

definition position_snapshot :: "broker_position \<Rightarrow> snapshot" where
  "position_snapshot p = \<lparr> sn_symbol = bp_symbol p, sn_direction = bp_direction p,
     sn_entry = Some (bp_entry_price p), sn_stop_loss = bp_stop_loss p,
     sn_take_profit = bp_take_profit p, sn_quantity = Some (bp_quantity p),
     sn_opened_at = bp_opened_at p \<rparr>"

definition adopt_position :: "recon_venue \<Rightarrow> broker_position \<Rightarrow> recon_state \<Rightarrow> exn option \<times> recon_state" where
  "adopt_position rk p s =
     (let (w, report) = s; pid = bp_position_id p in
      if by_position_id (w_trades w) pid \<noteq> None then (None, s)
      else case adopt_orphan (w_trades w) pid (position_snapshot p) (rk_now rk) of
             (Inl e, _) \<Rightarrow> (Some e, s)
           | (Inr execution_id, rows) \<Rightarrow>
               (None, note_event (rk_now rk) execution_id ''ADOPTED_ORPHAN'' pid (w\<lparr> w_trades := rows \<rparr>),
                report\<lparr> rp_adopted_orphans := rp_adopted_orphans report @ [pid] \<rparr>))"

definition adopt_orphans ::
  "recon_venue \<Rightarrow> broker_position list \<Rightarrow> recon_state \<Rightarrow> exn option \<times> recon_state" where
  "adopt_orphans rk positions s = each (adopt_position rk) positions s"

subsection \<open>Positions the broker no longer has\<close>

text \<open>\<open>raw.get("realizedPl", raw.get("realizedPnL"))\<close>\<close>

definition raw_result :: "broker_order \<Rightarrow> raw_field" where
  "raw_result order = (case bo_raw_realizedPl order of Some v \<Rightarrow> v
     | None \<Rightarrow> (case bo_raw_realizedPnL order of Some v \<Rightarrow> v | None \<Rightarrow> Missing))"

fun scan_history ::
  "string \<Rightarrow> broker_order list \<Rightarrow> real option \<times> real option \<Rightarrow> real option \<times> real option" where
  "scan_history pid [] acc = acc"
| "scan_history pid (order # os) acc = scan_history pid os
     (if bo_position_id order \<noteq> Some pid then acc
      else case raw_result order of
             Number c \<Rightarrow> if c \<noteq> 0 \<or> fst acc = None then (Some c, bo_price order) else acc
           | _ \<Rightarrow> acc)"

definition realized_from_history :: "recon_venue \<Rightarrow> string \<Rightarrow> exn + (real option \<times> real option)" where
  "realized_from_history rk pid =
     (let from_orders =
        (case rk_history_for_position rk pid of
           Inl e \<Rightarrow> if isinstance e BotError then Inr (None, None) else Inl e
         | Inr os \<Rightarrow> Inr (scan_history pid os (None, None)))
      in case rk_closed_result rk of
           None \<Rightarrow> from_orders
         | Some reader \<Rightarrow>
             (case reader pid of
                Inl e \<Rightarrow> if isinstance e BotError then from_orders else Inl e
              | Inr (Some realized, exit_price) \<Rightarrow> Inr (Some realized, exit_price)
              | Inr (None, _) \<Rightarrow> from_orders))"

definition stale_report :: "real option \<Rightarrow> real option \<Rightarrow> close_report" where
  "stale_report realized exit_price = \<lparr> cl_exit_price = exit_price, cl_realized_pnl = realized,
     cl_exit_reason = (if realized \<noteq> None then ''BROKER_CLOSED'' else ''BROKER_CLOSED_PNL_UNKNOWN''),
     cl_closed_at = None, cl_r_multiple = None, cl_mfe = None, cl_mae = None \<rparr>"

definition close_stale_trade ::
  "recon_venue \<Rightarrow> string list \<Rightarrow> trade \<Rightarrow> recon_state \<Rightarrow> exn option \<times> recon_state" where
  "close_stale_trade rk ids t s =
     (let (w, report) = s; now = rk_now rk in
      case td_position_id t of
        None \<Rightarrow> (None, s)
      | Some pid \<Rightarrow>
          if pid = [] \<or> pid \<in> set ids then (None, s)
          else case realized_from_history rk pid of
                 Inl e \<Rightarrow> (Some e, s)
               | Inr (realized, exit_price) \<Rightarrow>
                   (let (closed, rows) = mark_closed (w_trades w) pid (stale_report realized exit_price) now;
                        w1 = w\<lparr> w_trades := rows \<rparr>;
                        report1 = report\<lparr> rp_closed_stale := rp_closed_stale report @ [pid] \<rparr>
                    in case realized of
                         Some pnl \<Rightarrow>
                           (None, (if closed \<noteq> None then w1\<lparr> w_days := record_close (w_days w1) pnl now \<rparr> else w1),
                            report1)
                       | None \<Rightarrow>
                           (None, note_reconciliation now ''CLOSE_WITHOUT_RESULT'' pid (td_symbol t) w1,
                            report1\<lparr> rp_unmeasured_closes := rp_unmeasured_closes report1 @ [pid] \<rparr>)))"

definition close_stale :: "recon_venue \<Rightarrow> string list \<Rightarrow> recon_state \<Rightarrow> exn option \<times> recon_state" where
  "close_stale rk ids s = each (close_stale_trade rk ids) (open_trades (w_trades (fst s))) s"

subsection \<open>Unprotected positions\<close>

definition asked :: "string \<Rightarrow> broker_call \<Rightarrow> world \<Rightarrow> world" where
  "asked k c w = w\<lparr> w_calls := w_calls w @ [\<lparr> te_call = c, te_execution_id = k,
     te_status = status_of w k \<rparr>] \<rparr>"

definition repair_position :: "recon_venue \<Rightarrow> broker_position \<Rightarrow> recon_state \<Rightarrow> exn option \<times> recon_state" where
  "repair_position rk p s =
     (let (w, report) = s; pid = bp_position_id p in
      if truthy (bp_stop_loss p) then (None, s)
      else
        (let report1 = report\<lparr> rp_unprotected := rp_unprotected report @ [pid] \<rparr> in
         case by_position_id (w_trades w) pid of
           None \<Rightarrow> (None, w, report1)
         | Some t \<Rightarrow>
             if \<not> truthy (td_stop_loss t) then (None, w, report1)
             else
               (let stop = the (td_stop_loss t);
                    w1 = asked (td_execution_id t) (ModifyPosition pid (Some stop) None) w
                in case rk_modify rk pid stop of
                     Inr _ \<Rightarrow> (None, w1, report1)
                   | Inl e \<Rightarrow> if isinstance e BotError
                       then (None, w1, report1\<lparr> rp_errors := rp_errors report1
                              @ [''could not restore stop loss on '' @ pid @ '': '' @ exn_message e] \<rparr>)
                       else (Some e, w1, report1))))"

definition repair_all :: "recon_venue \<Rightarrow> broker_position list \<Rightarrow> recon_state \<Rightarrow> exn option \<times> recon_state" where
  "repair_all rk positions s = each (repair_position rk) positions s"

subsection \<open>The pass\<close>

definition and_then ::
  "(exn option \<times> 's) \<Rightarrow> ('s \<Rightarrow> exn option \<times> 's) \<Rightarrow> exn option \<times> 's" where
  "and_then m f = (case m of (Some e, s) \<Rightarrow> (Some e, s) | (None, s) \<Rightarrow> f s)"

definition reconcile :: "recon_venue \<Rightarrow> bool \<Rightarrow> world \<Rightarrow> (exn + reconcile_report) \<times> world" where
  "reconcile rk repair_protection w =
     (case rk_positions rk of
        Inl e \<Rightarrow> if isinstance e BotError
          then (Inr (empty_report\<lparr> rp_errors := [''could not read broker positions: '' @ exn_message e] \<rparr>), w)
          else (Inl e, w)
      | Inr positions \<Rightarrow>
          (let start = (w, empty_report\<lparr> rp_checked_positions := length positions \<rparr>) in
           case and_then (and_then (and_then (resolve_intents rk positions start)
                  (adopt_orphans rk positions))
                  (close_stale rk (map bp_position_id positions)))
                  (\<lambda>s. if repair_protection then repair_all rk positions s else (None, s)) of
             (Some e, w', _) \<Rightarrow> (Inl e, w')
           | (None, w', report) \<Rightarrow>
               (Inr report, w'\<lparr> w_reconciliations := reconciliation_record (w_reconciliations w')
                  (if report_clean report then ''PERIODIC'' else ''DISCREPANCY'') [] None (rk_now rk) \<rparr>)))"

subsection \<open>Loops\<close>

lemma each_invariant:
  assumes "each f xs s = (e, s')" and "I s"
    and "\<And>x s e s'. x \<in> set xs \<Longrightarrow> I s \<Longrightarrow> f x s = (e, s') \<Longrightarrow> I s'"
  shows "I s'"
  using assms
proof (induction xs arbitrary: s)
  case (Cons x xs)
  obtain e1 s1 where x: "f x s = (e1, s1)" by force
  have I: "I s1" using Cons.prems(2,3) x by auto
  show ?case
  proof (cases e1)
    case None
    with Cons.prems(1) x have "each f xs s1 = (e, s')" by simp
    then show ?thesis
    proof (rule Cons.IH)
      show "I s1" by (rule I)
      show "I t'" if "y \<in> set xs" "I t" "f y t = (e', t')" for y t e' t'
        using Cons.prems(3) [of y t e' t'] that by simp
    qed
  next
    case (Some a)
    with Cons.prems(1) x I show ?thesis by simp
  qed
qed simp

lemma each_keeps:
  assumes "each f xs s = (None, s')" and "Q s"
    and "\<And>x s s'. f x s = (None, s') \<Longrightarrow> Q s \<Longrightarrow> Q s'"
  shows "Q s'"
  using assms by (induction xs arbitrary: s) (auto split: prod.splits option.splits)

lemma each_establishes:
  assumes "each f xs s = (None, s')" and "x \<in> set xs"
    and "\<And>s s'. f x s = (None, s') \<Longrightarrow> Q s'"
    and "\<And>y s s'. f y s = (None, s') \<Longrightarrow> Q s \<Longrightarrow> Q s'"
  shows "Q s'"
  using assms(1,2)
proof (induction xs arbitrary: s)
  case (Cons y ys)
  obtain s1 where y: "f y s = (None, s1)" "each f ys s1 = (None, s')"
    using Cons.prems(1) by (auto split: prod.splits option.splits)
  show ?case
  proof (cases "x \<in> set ys")
    case True
    with Cons.IH y(2) show ?thesis by blast
  next
    case False
    then have "Q s1" using Cons.prems(2) y(1) assms(3) by simp
    with y(2) show ?thesis by (rule each_keeps) (rule assms(4))
  qed
qed simp

lemma and_then_None:
  "and_then m f = (None, s') \<longleftrightarrow> (\<exists>s. m = (None, s) \<and> f s = (None, s'))"
  by (cases m) (auto simp: and_then_def split: option.splits)

subsection \<open>Intents after the pass\<close>

definition pending_key :: "recon_state \<Rightarrow> string \<Rightarrow> bool" where
  "pending_key s k = (\<exists>st. status_of (fst s) k = Some st \<and> unresolved_status st)"

lemma resolve_intent_status:
  assumes "resolve_intent rk positions i s = (e, s')"
  shows "k \<noteq> in_key i \<Longrightarrow> status_of (fst s') k = status_of (fst s) k"
    and "e = None \<Longrightarrow> \<not> pending_key s' (in_key i)"
    and "map in_key (w_intents (fst s')) = map in_key (w_intents (fst s))"
proof -
  obtain w report where s: "s = (w, report)" by (cases s)
  have keys: "map in_key (intent_mark rows k st oid pid why now) = map in_key rows"
    for rows k st oid pid why now
    by (simp add: intent_mark_def modify_row_def map_key_update_where)
  have "(k \<noteq> in_key i \<longrightarrow> status_of (fst s') k = status_of w k)
    \<and> (e = None \<longrightarrow> \<not> pending_key s' (in_key i))
    \<and> map in_key (w_intents (fst s')) = map in_key (w_intents w)"
  proof (cases "List.find (intent_match i) positions")
    case (Some p)
    then show ?thesis using assms s
      by (auto simp: resolve_intent_def Let_def world_simps pending_key_def unresolved_status_def keys
        split: sum.splits option.splits)
  next
    case None
    obtain m where m: "order_history_match (rk_history_for_intent rk (in_key i)) (in_broker_order_id i) = m"
      by simp
    show ?thesis
    proof (cases m)
      case (Inl x)
      with None assms s m show ?thesis by (auto simp: resolve_intent_def Let_def)
    next
      case (Inr landed)
      with None assms s m show ?thesis
        by (auto simp: resolve_intent_def Let_def world_simps pending_key_def unresolved_status_def keys
          split: if_splits option.splits)
    qed
  qed
  then show "k \<noteq> in_key i \<Longrightarrow> status_of (fst s') k = status_of (fst s) k"
    and "e = None \<Longrightarrow> \<not> pending_key s' (in_key i)"
    and "map in_key (w_intents (fst s')) = map in_key (w_intents (fst s))" by (simp_all add: s)
qed

lemma resolve_intent_keeps_settled:
  "resolve_intent rk positions i s = (None, s') \<Longrightarrow> \<not> pending_key s k \<Longrightarrow> \<not> pending_key s' k"
  using resolve_intent_status [of rk positions i s None s'] by (cases "k = in_key i") (auto simp: pending_key_def)

lemma unique_get: "unique_keys rows \<Longrightarrow> r \<in> set rows \<Longrightarrow> intent_get rows (in_key r) = Some r"
  by (simp add: unique_keys_def intent_get_def find_row_def distinct_find_unique)

lemma resolve_intents_settles:
  assumes "resolve_intents rk positions s = (None, s')" and "unique_keys (w_intents (fst s))"
  shows "intent_unresolved (w_intents (fst s')) = []"
proof -
  let ?xs = "intent_unresolved (w_intents (fst s))"
  have each: "each (resolve_intent rk positions) ?xs s = (None, s')"
    using assms(1) by (simp add: resolve_intents_def)
  have settled: "\<not> pending_key s' (in_key i)" if "i \<in> set ?xs" for i
    using each that
  proof (rule each_establishes)
    show "\<not> pending_key t' (in_key i)" if "resolve_intent rk positions i t = (None, t')" for t t'
      using resolve_intent_status(2) [OF that] by simp
    show "\<not> pending_key t' (in_key i)"
      if "resolve_intent rk positions y t = (None, t')" "\<not> pending_key t (in_key i)" for y t t'
      using that by (rule resolve_intent_keeps_settled)
  qed
  have keys: "map in_key (w_intents (fst s')) = map in_key (w_intents (fst s))"
    by (rule each_invariant [OF each]) (auto dest: resolve_intent_status(3))
  have shrink: "pending_key s' k \<longrightarrow> pending_key s k" for k
  proof -
    have "\<not> pending_key s k \<longrightarrow> \<not> pending_key s' k"
    proof (rule impI)
      assume "\<not> pending_key s k"
      with each show "\<not> pending_key s' k"
        by (rule each_keeps) (rule resolve_intent_keeps_settled)
    qed
    then show ?thesis by blast
  qed
  have "\<not> unresolved_status (in_status r)" if r: "r \<in> set (w_intents (fst s'))" for r
  proof
    assume u: "unresolved_status (in_status r)"
    have "unique_keys (w_intents (fst s'))" using assms(2) keys by (simp add: unique_keys_def)
    from unique_get [OF this r] u have p: "pending_key s' (in_key r)"
      by (simp add: pending_key_def status_of_def)
    then have "pending_key s (in_key r)" using shrink by blast
    then obtain r0 where "intent_get (w_intents (fst s)) (in_key r) = Some r0" "unresolved_status (in_status r0)"
      by (auto simp: pending_key_def status_of_def)
    moreover from this(1) have "r0 \<in> set (w_intents (fst s))" "in_key r0 = in_key r"
      by (auto simp: intent_get_def dest: find_row_Some)
    ultimately have "r0 \<in> set ?xs" by (simp add: unresolved_mem)
    from settled [OF this] p \<open>in_key r0 = in_key r\<close> show False by simp
  qed
  then show ?thesis
    by (metis all_not_in_conv set_empty unresolved_mem)
qed

subsection \<open>The book after the pass\<close>

definition ledger :: "recon_state \<Rightarrow> trade_table" where
  "ledger s = w_trades (fst s)"

lemma resolve_intent_book:
  "resolve_intent rk positions i s = (e, s') \<Longrightarrow> book_ok (ledger s) \<Longrightarrow> book_ok (ledger s')"
  by (auto simp: resolve_intent_def ledger_def Let_def world_simps
    split: prod.splits sum.splits option.splits if_splits intro: mark_open_ok)

lemma adopt_position_book:
  assumes "adopt_position rk p s = (e, s')" and "book_ok (ledger s)"
  shows "book_ok (ledger s')"
  using assms adopt_orphan_ok [of "w_trades (fst s)" "bp_position_id p" "position_snapshot p" "rk_now rk"]
  by (auto simp: adopt_position_def ledger_def world_simps Let_def
    split: prod.splits sum.splits if_splits)

lemma close_stale_trade_book:
  assumes "close_stale_trade rk ids t s = (e, s')" and "book_ok (ledger s)"
  shows "book_ok (ledger s')"
  using assms mark_closed_ok [of "w_trades (fst s)"]
  by (auto simp: close_stale_trade_def ledger_def world_simps Let_def
    split: prod.splits sum.splits option.splits if_splits) (metis snd_conv)+

lemma repair_position_frame:
  "repair_position rk p s = (e, s') \<Longrightarrow>
     w_trades (fst s') = w_trades (fst s) \<and> w_intents (fst s') = w_intents (fst s) \<and> w_days (fst s') = w_days (fst s)"
  by (auto simp: repair_position_def Let_def asked_def
    split: prod.splits sum.splits option.splits if_splits)

text \<open>What one stale close does to a position's row.\<close>

lemma mark_closed_lookup:
  assumes "mark_closed rows pid c now = (row', rows')"
  shows "by_position_id rows' p =
     (if p = pid then map_option (\<lambda>r. r\<lparr> td_status := CLOSED, td_exit_price := cl_exit_price c,
                td_realized_pnl := cl_realized_pnl c, td_exit_reason := Some (cl_exit_reason c),
                td_r_multiple := coalesce (cl_r_multiple c) (td_r_multiple r),
                td_mfe := coalesce (cl_mfe c) (td_mfe r),
                td_mae := coalesce (cl_mae c) (td_mae r),
                td_closed_at := coalesce (cl_closed_at c) (Some now), td_updated_at := now \<rparr>)
              (by_position_id rows p)
      else by_position_id rows p)"
proof (cases "by_position_id rows pid")
  case None
  with assms show ?thesis by (auto simp: mark_closed_def)
next
  case (Some r)
  with assms show ?thesis by (auto simp: mark_closed_def Let_def by_position_id_at)
qed

lemma close_stale_trade_lookup:
  assumes "close_stale_trade rk ids t s = (None, s')"
  shows "by_position_id (ledger s') p = by_position_id (ledger s) p
    \<or> (td_position_id t = Some p \<and> (\<exists>f. by_position_id (ledger s') p = map_option f (by_position_id (ledger s) p)
        \<and> (\<forall>r. td_status (f r) = CLOSED)))"
    and "td_position_id t = Some p \<Longrightarrow> p \<noteq> [] \<Longrightarrow> p \<notin> set ids \<Longrightarrow>
      by_position_id (ledger s') p = None \<or> (\<exists>r. by_position_id (ledger s') p = Some r \<and> td_status r = CLOSED)"
proof -
  obtain w report where s: "s = (w, report)" by (cases s)
  have "(by_position_id (ledger s') p = by_position_id (ledger s) p
    \<or> (td_position_id t = Some p \<and> (\<exists>f. by_position_id (ledger s') p = map_option f (by_position_id (ledger s) p)
        \<and> (\<forall>r. td_status (f r) = CLOSED))))
    \<and> (td_position_id t = Some p \<longrightarrow> p \<noteq> [] \<longrightarrow> p \<notin> set ids \<longrightarrow>
      by_position_id (ledger s') p = None \<or> (\<exists>r. by_position_id (ledger s') p = Some r \<and> td_status r = CLOSED))"
  proof (cases "td_position_id t")
    case None
    with assms s show ?thesis by (auto simp: close_stale_trade_def)
  next
    case (Some pid)
    show ?thesis
    proof (cases "pid = [] \<or> pid \<in> set ids")
      case True
      with assms s Some show ?thesis by (auto simp: close_stale_trade_def)
    next
      case False
      obtain realized exit_price where r: "realized_from_history rk pid = Inr (realized, exit_price)"
        using assms s Some False
        by (cases "realized_from_history rk pid") (auto simp: close_stale_trade_def Let_def)
      obtain row' rows where m: "mark_closed (w_trades w) pid (stale_report realized exit_price) (rk_now rk) = (row', rows)"
        by force
      have rows: "w_trades (fst s') = rows"
        using assms s Some False r m
        by (auto simp: close_stale_trade_def Let_def world_simps split: option.splits if_splits)
      show ?thesis
      proof (cases "p = pid")
        case True
        then show ?thesis unfolding ledger_def rows s fst_conv mark_closed_lookup [OF m]
          using Some by (cases "by_position_id (w_trades w) pid") auto
      next
        case False
        then show ?thesis unfolding ledger_def rows s fst_conv mark_closed_lookup [OF m]
          using Some by auto
      qed
    qed
  qed
  then show "by_position_id (ledger s') p = by_position_id (ledger s) p
    \<or> (td_position_id t = Some p \<and> (\<exists>f. by_position_id (ledger s') p = map_option f (by_position_id (ledger s) p)
        \<and> (\<forall>r. td_status (f r) = CLOSED)))"
    and "td_position_id t = Some p \<Longrightarrow> p \<noteq> [] \<Longrightarrow> p \<notin> set ids \<Longrightarrow>
      by_position_id (ledger s') p = None \<or> (\<exists>r. by_position_id (ledger s') p = Some r \<and> td_status r = CLOSED)"
    by blast+
qed

text \<open>A position the book knows stays known; one that is closed stays closed.\<close>

definition known :: "recon_state \<Rightarrow> string \<Rightarrow> bool" where
  "known s p = (by_position_id (ledger s) p \<noteq> None)"

definition not_live :: "recon_state \<Rightarrow> string \<Rightarrow> bool" where
  "not_live s p = (case by_position_id (ledger s) p of None \<Rightarrow> True | Some r \<Rightarrow> td_status r = CLOSED)"

lemma close_stale_keeps:
  assumes "close_stale_trade rk ids t s = (None, s')"
  shows "known s p \<Longrightarrow> known s' p" and "not_live s p \<Longrightarrow> not_live s' p"
  using close_stale_trade_lookup(1) [OF assms, of p]
  by (auto simp: known_def not_live_def split: option.splits)

lemma adopt_position_known:
  assumes "adopt_position rk q s = (None, s')"
  shows "known s' (bp_position_id q)" and "known s p \<Longrightarrow> known s' p"
proof -
  obtain w report where s: "s = (w, report)" by (cases s)
  have append: "by_position_id (rows @ [r]) p = (case by_position_id rows p of
      None \<Rightarrow> if td_position_id r = Some p then Some r else None | Some x \<Rightarrow> Some x)" for rows r p
    by (simp add: by_position_id_def find_row_def find_append split: option.split)
  have rows: "trade_insert rows r = Some rows' \<Longrightarrow> rows' = rows @ [r]" for rows r rows'
    by (auto simp: trade_insert_def insert_row_def split: if_splits)
  have orphan: "td_position_id (orphan_row pid snap now) = Some pid" for pid snap now
    by (simp add: orphan_row_def)
  show "known s' (bp_position_id q)" and "known s p \<Longrightarrow> known s' p"
    using assms
    by (auto simp: adopt_position_def adopt_orphan_def known_def ledger_def s append orphan world_simps Let_def
      split: prod.splits sum.splits if_splits option.splits dest!: rows)
qed

lemma known_same_trades: "w_trades (fst s') = w_trades (fst s) \<Longrightarrow> known s' p = known s p \<and> not_live s' p = not_live s p"
  by (simp add: known_def not_live_def ledger_def)

text \<open>Every position of the broker has a row, and every live row has its position.\<close>

definition book_matches :: "broker_position list \<Rightarrow> trade_table \<Rightarrow> bool" where
  "book_matches positions rows =
     (list_all (\<lambda>p. by_position_id rows (bp_position_id p) \<noteq> None) positions
      \<and> list_all (\<lambda>r. td_status r \<in> {OPEN, ORPHANED} \<longrightarrow>
           (case td_position_id r of None \<Rightarrow> False
            | Some p \<Rightarrow> p = [] \<or> p \<in> set (map bp_position_id positions))) rows)"

lemma resolve_intents_book:
  "resolve_intents rk positions s = (e, s') \<Longrightarrow> book_ok (ledger s) \<Longrightarrow> book_ok (ledger s')"
  unfolding resolve_intents_def by (erule each_invariant) (auto dest: resolve_intent_book)

lemma adopt_orphans_book:
  "adopt_orphans rk positions s = (e, s') \<Longrightarrow> book_ok (ledger s) \<Longrightarrow> book_ok (ledger s')"
  unfolding adopt_orphans_def by (erule each_invariant) (auto dest: adopt_position_book)

lemma close_stale_book:
  "close_stale rk ids s = (e, s') \<Longrightarrow> book_ok (ledger s) \<Longrightarrow> book_ok (ledger s')"
  unfolding close_stale_def by (erule each_invariant) (auto dest: close_stale_trade_book)

lemma repair_all_frame:
  "repair_all rk positions s = (e, s') \<Longrightarrow>
     w_trades (fst s') = w_trades (fst s) \<and> w_intents (fst s') = w_intents (fst s)"
  unfolding repair_all_def
  by (erule each_invariant [where I = "\<lambda>t. w_trades (fst t) = w_trades (fst s) \<and> w_intents (fst t) = w_intents (fst s)"])
    (auto dest: repair_position_frame)

lemma adopt_orphans_intents:
  "adopt_orphans rk positions s = (e, s') \<Longrightarrow> w_intents (fst s') = w_intents (fst s)"
  unfolding adopt_orphans_def
  by (erule each_invariant [where I = "\<lambda>t. w_intents (fst t) = w_intents (fst s)"])
    (auto simp: adopt_position_def Let_def world_simps split: prod.splits sum.splits if_splits)

lemma close_stale_intents:
  "close_stale rk ids s = (e, s') \<Longrightarrow> w_intents (fst s') = w_intents (fst s)"
  unfolding close_stale_def
  by (erule each_invariant [where I = "\<lambda>t. w_intents (fst t) = w_intents (fst s)"])
    (auto simp: close_stale_trade_def Let_def world_simps split: prod.splits sum.splits option.splits if_splits)

text \<open>After the stale closes a row that still stands is one the broker has.\<close>

lemma close_stale_live:
  assumes c: "close_stale rk ids s = (None, s')" and ok: "book_ok (ledger s)"
    and r: "r \<in> set (ledger s')" "td_status r \<in> {OPEN, ORPHANED}"
  shows "case td_position_id r of None \<Rightarrow> False | Some p \<Rightarrow> p = [] \<or> p \<in> set ids"
proof -
  have ok': "book_ok (ledger s')" using close_stale_book [OF c ok] .
  then have "row_ok r" using r(1) by (simp add: book_ok_def)
  then obtain p where p: "td_position_id r = Some p" using r(2) by (auto simp: row_ok_def)
  have look: "by_position_id (ledger s') p = Some r" using position_row_unique [OF ok' r(1) p] .
  have each: "each (close_stale_trade rk ids) (open_trades (w_trades (fst s))) s = (None, s')"
    using c by (simp add: close_stale_def)
  have live: "\<not> not_live s' p" using look r(2) by (auto simp: not_live_def)
  have "p = [] \<or> p \<in> set ids"
  proof (rule ccontr)
    assume stale: "\<not> (p = [] \<or> p \<in> set ids)"
    have "\<not> not_live s p"
    proof
      assume "not_live s p"
      with each have "not_live s' p" by (rule each_keeps) (rule close_stale_keeps(2))
      with live show False by simp
    qed
    then obtain t where t: "by_position_id (ledger s) p = Some t" "td_status t \<noteq> CLOSED"
      by (auto simp: not_live_def split: option.splits)
    have tp: "td_position_id t = Some p" "t \<in> set (ledger s)" using by_position_id_key t(1) by blast+
    then have "td_status t \<in> {OPEN, ORPHANED}"
      using ok t(2) by (cases "td_status t") (auto simp: book_ok_def row_ok_def)
    with tp have mem: "t \<in> set (open_trades (w_trades (fst s)))" by (auto simp: open_trades_mem ledger_def)
    have "not_live s' p"
      using each mem
    proof (rule each_establishes)
      show "not_live q' p" if "close_stale_trade rk ids t q = (None, q')" for q q'
        using close_stale_trade_lookup(2) [OF that tp(1)] stale by (auto simp: not_live_def)
      show "not_live q' p" if "close_stale_trade rk ids y q = (None, q')" "not_live q p" for y q q'
        using close_stale_keeps(2) [OF that] .
    qed
    with live show False by simp
  qed
  with p show ?thesis by simp
qed

lemma reconcile_completed:
  assumes "reconcile rk repair w = (Inr report, w')" and "rk_positions rk = Inr positions"
    and "book_ok (w_trades w)" and "unique_keys (w_intents w)"
  shows "book_ok (w_trades w')" and "book_matches positions (w_trades w')"
    and "intent_unresolved (w_intents w') = []"
proof -
  let ?ids = "map bp_position_id positions"
  obtain s0 s1 s2 s3 s4 where s0: "fst s0 = w"
    and s1: "resolve_intents rk positions s0 = (None, s1)"
    and s2: "adopt_orphans rk positions s1 = (None, s2)"
    and s3: "close_stale rk ?ids s2 = (None, s3)"
    and s4: "(if repair then repair_all rk positions s3 else (None, s3)) = (None, s4)"
    and w': "w_trades w' = w_trades (fst s4)" "w_intents w' = w_intents (fst s4)"
    using assms(1,2)
    by (auto simp: reconcile_def Let_def and_then_None split: prod.splits option.splits)
  have f4: "w_trades (fst s4) = w_trades (fst s3)" "w_intents (fst s4) = w_intents (fst s3)"
    using s4 repair_all_frame [of rk positions s3 None s4] by (auto split: if_splits)
  have b1: "book_ok (ledger s1)" using resolve_intents_book [OF s1] s0 assms(3) by (simp add: ledger_def)
  have b2: "book_ok (ledger s2)" using adopt_orphans_book [OF s2 b1] .
  have b3: "book_ok (ledger s3)" using close_stale_book [OF s3 b2] .
  show "book_ok (w_trades w')" using b3 w' f4 by (simp add: ledger_def)
  have "known s3 (bp_position_id p)" if "p \<in> set positions" for p
  proof -
    have "known s2 (bp_position_id p)"
      using s2 that unfolding adopt_orphans_def
      by (rule each_establishes) (rule adopt_position_known; assumption)+
    moreover have "each (close_stale_trade rk ?ids) (open_trades (w_trades (fst s2))) s2 = (None, s3)"
      using s3 by (simp add: close_stale_def)
    ultimately show ?thesis by (intro each_keeps [of _ _ s2 s3 "\<lambda>s. known s (bp_position_id p)"]) (auto dest: close_stale_keeps(1))
  qed
  moreover have "case td_position_id r of None \<Rightarrow> False | Some p \<Rightarrow> p = [] \<or> p \<in> set ?ids"
    if "r \<in> set (ledger s3)" "td_status r \<in> {OPEN, ORPHANED}" for r
    using close_stale_live [OF s3 b2 that] .
  ultimately show "book_matches positions (w_trades w')"
    using w' f4 by (auto simp: book_matches_def list_all_iff known_def ledger_def)
  have "intent_unresolved (w_intents (fst s1)) = []"
    using resolve_intents_settles [OF s1] s0 assms(4) by simp
  then show "intent_unresolved (w_intents w') = []"
    using w' f4 close_stale_intents [OF s3] adopt_orphans_intents [OF s2] by simp
qed

lemma reconcile_book:
  assumes "book_ok (w_trades w)"
  shows "book_ok (w_trades (snd (reconcile rk repair w)))"
proof (cases "rk_positions rk")
  case (Inl e)
  with assms show ?thesis by (simp add: reconcile_def)
next
  case (Inr positions)
  let ?start = "(w, empty_report\<lparr> rp_checked_positions := length positions \<rparr>)"
  let ?ids = "map bp_position_id positions"
  obtain e1 s1 where s1: "resolve_intents rk positions ?start = (e1, s1)" by (rule prod.exhaust)
  obtain e2 s2 where s2: "and_then (e1, s1) (adopt_orphans rk positions) = (e2, s2)" by (rule prod.exhaust)
  obtain e3 s3 where s3: "and_then (e2, s2) (close_stale rk ?ids) = (e3, s3)" by (rule prod.exhaust)
  obtain e4 s4 where s4: "and_then (e3, s3) (\<lambda>s. if repair then repair_all rk positions s else (None, s)) = (e4, s4)"
    by (rule prod.exhaust)
  have b1: "book_ok (ledger s1)" using resolve_intents_book [OF s1] assms by (simp add: ledger_def)
  have b2: "book_ok (ledger s2)"
    using s2 b1 adopt_orphans_book [of rk positions s1] by (cases e1) (auto simp: and_then_def)
  have b3: "book_ok (ledger s3)"
    using s3 b2 close_stale_book [of rk ?ids s2] by (cases e2) (auto simp: and_then_def)
  have "book_ok (ledger s4)"
    using s4 b3 repair_all_frame [of rk positions s3]
    by (cases e3) (auto simp: and_then_def ledger_def split: if_splits)
  then show ?thesis
    using Inr s1 s2 s3 s4
    by (cases s4) (auto simp: reconcile_def Let_def ledger_def split: option.split)
qed

subsection \<open>Properties\<close>


definition quiet_recon :: recon_venue where
  "quiet_recon = \<lparr> rk_now = 0, rk_positions = Inr [demo_position],
     rk_history_for_intent = (\<lambda>_. Inl \<lparr> exn_class = BrokerError, exn_message = ''timeout'' \<rparr>),
     rk_history_for_position = (\<lambda>_. Inr []), rk_closed_result = None, rk_modify = (\<lambda>_ _. Inr ()) \<rparr>"

lemma quiet_pass:
  obtains report w' where "reconcile quiet_recon True empty_world = (Inr report, w')"
proof -
  have o: "td_status (orphan_row ''p1'' (position_snapshot demo_position) 0) = ORPHANED"
    "td_position_id (orphan_row ''p1'' (position_snapshot demo_position) 0) = Some ''p1''"
    by (simp_all add: orphan_row_def blank_trade_def)
  have now: "rk_now quiet_recon = 0" by (simp add: quiet_recon_def)
  have tru: "truthy (bp_stop_loss demo_position)" "bp_position_id demo_position = ''p1''"
    by (simp_all add: demo_position_def truthy_def)
  obtain s1 where s1: "resolve_intents quiet_recon [demo_position]
      (empty_world, empty_report\<lparr> rp_checked_positions := length [demo_position] \<rparr>) = (None, s1)"
    and t1: "w_trades (fst s1) = []"
    by (simp add: resolve_intents_def intent_unresolved_def empty_world_def)
  obtain s2 where s2: "adopt_orphans quiet_recon [demo_position] s1 = (None, s2)"
    and t2: "w_trades (fst s2) = [orphan_row ''p1'' (position_snapshot demo_position) 0]"
    using t1 by (cases s1)
      (simp add: adopt_orphans_def adopt_position_def by_position_id_def find_row_def adopt_orphan_def
        trade_insert_def position_free_def insert_row_def tru world_simps now o Let_def)
  have s3: "close_stale quiet_recon [''p1''] s2 = (None, s2)"
    using t2 o by (cases s2) (simp add: close_stale_def open_trades_def close_stale_trade_def Let_def)
  have s4: "repair_all quiet_recon [demo_position] s2 = (None, s2)"
    by (cases s2) (simp add: repair_all_def repair_position_def tru)
  have "rk_positions quiet_recon = Inr [demo_position]" by (simp add: quiet_recon_def)
  with s1 s2 s3 s4 tru have "\<exists>report w'. reconcile quiet_recon True empty_world = (Inr report, w')"
    by (cases s2) (simp add: reconcile_def and_then_def Let_def)
  with that show thesis by blast
qed


text \<open>Whatever the broker answers, and also when an exception cuts the pass short, a
  reconciliation keeps the invariant of the trade book.\<close>

theorem reconciliation_keeps_book:
  assumes "book_ok (w_trades w)"
  shows "book_ok (w_trades (snd (reconcile rk repair w)))"
  using assms by (rule reconcile_book)

theorem reconciliation_keeps_book_witness:
  "book_ok (w_trades (snd (reconcile quiet_recon True empty_world)))"
  by (rule reconciliation_keeps_book) (simp add: empty_world_def book_ok_def map_filter_simps)

text \<open>A position that vanished without a readable result is closed with no result: the row's
  realised profit stays empty, the close is reported as unmeasured, and the daily counters, on
  which the loss limits rest, do not move; a known result is counted exactly once.\<close>

theorem unmeasured_close_counts_nothing:
  assumes "realized_from_history rk pid = Inr (realized, exit_price)"
    and "td_position_id t = Some pid" and "pid \<noteq> []" and "pid \<notin> set ids"
    and "by_position_id (w_trades w) pid = Some r"
    and "close_stale_trade rk ids t (w, report) = (None, w', report')"
  shows "w_days w' = (case realized of None \<Rightarrow> w_days w | Some pnl \<Rightarrow> record_close (w_days w) pnl (rk_now rk))
    \<and> (pid \<in> set (rp_unmeasured_closes report') \<longleftrightarrow> pid \<in> set (rp_unmeasured_closes report) \<or> realized = None)
    \<and> map_option td_realized_pnl (by_position_id (w_trades w') pid) = Some realized"
proof -
  obtain row' rows where m: "mark_closed (w_trades w) pid (stale_report realized exit_price) (rk_now rk) = (row', rows)"
    by force
  note look = mark_closed_lookup [OF m, of pid]
  have "row' \<noteq> None"
    using m assms(5) by (auto simp: mark_closed_def Let_def by_position_id_at)
  moreover have "map_option td_realized_pnl (by_position_id rows pid) = Some realized"
    using look assms(5) by (simp add: stale_report_def)
  ultimately show ?thesis
    using assms(1-4,6) m
    by (cases realized) (auto simp: close_stale_trade_def Let_def world_simps note_reconciliation_def)
qed

definition closed_world :: world where
  "closed_world = empty_world\<lparr> w_trades :=
     [(blank_trade ''x1'' ''EURUSD'' ''BUY'' OPEN 0)\<lparr> td_position_id := Some ''p9'' \<rparr>] \<rparr>"

theorem unmeasured_close_counts_nothing_witness:
  "\<exists>w' report'. close_stale_trade quiet_recon [] (w_trades closed_world ! 0) (closed_world, empty_report)
      = (None, w', report') \<and> w_days w' = w_days closed_world"
proof -
  let ?t = "(blank_trade ''x1'' ''EURUSD'' ''BUY'' OPEN 0)\<lparr> td_position_id := Some ''p9'' \<rparr>"
  have t: "w_trades closed_world = [?t]" by (simp add: closed_world_def)
  have p: "td_position_id ?t = Some ''p9''" by simp
  have none: "realized_from_history quiet_recon ''p9'' = Inr (None, None)"
    by (simp add: realized_from_history_def quiet_recon_def)
  have row: "by_position_id (w_trades closed_world) ''p9'' = Some ?t"
    by (simp add: closed_world_def by_position_id_def find_row_def)
  obtain w' report' where c: "close_stale_trade quiet_recon [] ?t (closed_world, empty_report) = (None, w', report')"
    using none by (cases "mark_closed (w_trades closed_world) ''p9'' (stale_report None None) (rk_now quiet_recon)")
      (simp add: close_stale_trade_def Let_def)
  from unmeasured_close_counts_nothing [OF none p _ _ row c] c t show ?thesis by simp
qed



end
