(* ===== verification/Manager.thy ===== *)
theory Manager
  imports Executor Sessions
begin

text \<open>
  Position management, \<open>bot/execution/manager.py\<close>: the pure plan of an open position, its
  application against the broker with every failure isolated, and the excursion tracking. The
  broker answers are the record \<open>manage_venue\<close>, one answer per action of a batch. A quote that
  is read has both its prices, so the code's branch for a missing price is not modelled.
\<close>

datatype action_kind = MOVE_STOP | PARTIAL_CLOSE | CLOSE

datatype action_reason =
    BreakEven real | PartialTake real | Trailing real real | StructureInvalidated | Expired real

record management_action =
  ma_kind :: action_kind
  ma_position_id :: string
  ma_symbol :: string
  ma_reason :: action_reason
  ma_stop_loss :: "real option"
  ma_quantity :: "real option"

definition stop_is_behind_market :: "string \<Rightarrow> real \<Rightarrow> real \<Rightarrow> real \<Rightarrow> bool" where
  "stop_is_behind_market direction stop price buffer =
     (if direction = ''BUY'' then stop < price - buffer else stop > price + buffer)"

definition r_multiple :: "string \<Rightarrow> real \<Rightarrow> real \<Rightarrow> real \<Rightarrow> real" where
  "r_multiple direction entry stop price =
     (let risk = \<bar>entry - stop\<bar> in
      if risk \<le> 0 then 0
      else (if direction = ''BUY'' then price - entry else entry - price) / risk)"

subsection \<open>The plan\<close>

definition plan_entry :: "broker_position \<Rightarrow> trade option \<Rightarrow> real" where
  "plan_entry p t = (case t of
       None \<Rightarrow> bp_entry_price p
     | Some r \<Rightarrow> (case or_else (td_actual_entry r)
           (or_else (td_planned_entry r) (Some (bp_entry_price p))) of
         None \<Rightarrow> bp_entry_price p | Some e \<Rightarrow> e))"

definition plan_stop :: "broker_position \<Rightarrow> trade option \<Rightarrow> real option" where
  "plan_stop p t = (case t of
       None \<Rightarrow> bp_stop_loss p
     | Some r \<Rightarrow> if truthy (td_stop_loss r) then td_stop_loss r else bp_stop_loss p)"

definition plan_actions ::
  "broker_position \<Rightarrow> trade option \<Rightarrow> real \<Rightarrow> execution_config \<Rightarrow> bool \<Rightarrow> micros
     \<Rightarrow> management_action list" where
  "plan_actions p t price x structure_invalidated moment =
     (let entry = plan_entry p t;
          buy = (bp_direction p = ''BUY'');
          sell = (bp_direction p = ''SELL'');
          action = \<lambda>kind reason stop qty. \<lparr> ma_kind = kind, ma_position_id = bp_position_id p,
             ma_symbol = bp_symbol p, ma_reason = reason, ma_stop_loss = stop, ma_quantity = qty \<rparr>
      in if entry = 0 \<or> \<not> truthy (plan_stop p t) then []
         else
           (let planned_stop = the (plan_stop p t);
                current_r = r_multiple (bp_direction p) entry planned_stop price;
                risk = \<bar>entry - planned_stop\<bar>;
                target_stop = (if buy then entry + risk * (5 / 100) else entry - risk * (5 / 100));
                already_safe = (case bp_stop_loss p of None \<Rightarrow> False
                  | Some s \<Rightarrow> (buy \<and> s \<ge> entry) \<or> (sell \<and> s \<le> entry));
                placeable = stop_is_behind_market (bp_direction p) target_stop price (risk * (2 / 100));
                breakeven =
                  (if xc_enable_breakeven x \<and> current_r \<ge> xc_breakeven_at_r x - R_EPSILON
                      \<and> \<not> already_safe \<and> placeable
                   then [action MOVE_STOP (BreakEven current_r) (Some target_stop) None] else []);
                partial =
                  (if xc_enable_partial_tp x \<and> current_r \<ge> xc_partial_tp_at_r x - R_EPSILON
                      \<and> \<not> (case t of None \<Rightarrow> False | Some r \<Rightarrow> td_partial_taken r)
                   then [action PARTIAL_CLOSE (PartialTake current_r) None
                           (Some (py_round 2 (bp_quantity p * xc_partial_tp_fraction x)))] else []);
                locked = current_r - 1;
                trail_stop = (if buy then entry + risk * locked else entry - risk * locked);
                improves = (case bp_stop_loss p of None \<Rightarrow> True
                  | Some s \<Rightarrow> (buy \<and> trail_stop > s) \<or> (sell \<and> trail_stop < s));
                trailing =
                  (if xc_enable_trailing x \<and> current_r \<ge> xc_trail_after_r x - R_EPSILON
                      \<and> improves \<and> stop_is_behind_market (bp_direction p) trail_stop price (risk * (2 / 100))
                   then [action MOVE_STOP (Trailing current_r locked) (Some trail_stop) None] else []);
                structural =
                  (if xc_enable_structure_exit x \<and> structure_invalidated \<and> current_r < 1
                   then [action CLOSE StructureInvalidated None None] else []);
                timed =
                  (case bp_opened_at p of None \<Rightarrow> []
                   | Some opened \<Rightarrow>
                       (let age_hours = total_seconds (moment - opened) / 3600 in
                        if age_hours \<ge> xc_max_position_hours x \<and> current_r < 1 / 2
                        then [action CLOSE (Expired age_hours) None None] else []))
            in breakeven @ partial @ trailing @ structural @ timed))"

subsection \<open>Application\<close>

record manage_venue =
  mg_now :: micros
  mg_modify :: "nat \<Rightarrow> exn + unit"
  mg_close :: "nat \<Rightarrow> exn + unit"
  mg_quote :: "string \<Rightarrow> exn + quote"

definition MAX_EXIT_SPREAD_FRACTION_OF_RISK :: real where
  "MAX_EXIT_SPREAD_FRACTION_OF_RISK = 1 / 2"

text \<open>\<open>Inr None\<close> when the exit is affordable, \<open>Inr (Some why)\<close> when it is deferred.\<close>

definition exit_is_affordable ::
  "manage_venue \<Rightarrow> trade_table \<Rightarrow> management_action \<Rightarrow> exn + string option" where
  "exit_is_affordable mg rows a =
     (case by_position_id rows (ma_position_id a) of
        None \<Rightarrow> Inr None
      | Some t \<Rightarrow>
          (let entry = or_else (td_actual_entry t) (td_planned_entry t); stop = td_stop_loss t in
           if \<not> truthy entry \<or> \<not> truthy stop then Inr None
           else
             (let risk_distance = \<bar>the entry - the stop\<bar> in
              if risk_distance \<le> 0 then Inr None
              else case mg_quote mg (if td_symbol t = [] then ma_symbol a else td_symbol t) of
                     Inl e \<Rightarrow> if isinstance e BotError
                       then Inr (Some ''could not read a quote to price this exit'') else Inl e
                   | Inr q \<Rightarrow>
                       if spread q > risk_distance * MAX_EXIT_SPREAD_FRACTION_OF_RISK
                       then Inr (Some ''spread is too large a share of the risk of this trade'')
                       else Inr None)))"

datatype action_outcome = Applied | Deferred string | OutcomeUnknown string | ActionFailed string

fun kind_name :: "action_kind \<Rightarrow> string" where
  "kind_name MOVE_STOP = ''MOVE_STOP''"
| "kind_name PARTIAL_CLOSE = ''PARTIAL_CLOSE''"
| "kind_name CLOSE = ''CLOSE''"

definition note_managed :: "micros \<Rightarrow> management_action \<Rightarrow> string \<Rightarrow> string \<Rightarrow> world \<Rightarrow> world" where
  "note_managed now a tag detail w =
     (case by_position_id (w_trades w) (ma_position_id a) of
        None \<Rightarrow> w
      | Some t \<Rightarrow> note_event now (td_execution_id t)
          (''MANAGE_'' @ kind_name (ma_kind a) @ tag) detail w)"

text \<open>The effect of an action whose broker call returned.\<close>

definition action_done :: "micros \<Rightarrow> management_action \<Rightarrow> world \<Rightarrow> world" where
  "action_done now a w = note_managed now a [] []
     (case ma_kind a of
        MOVE_STOP \<Rightarrow> w\<lparr> w_trades := update_protection (w_trades w) (ma_position_id a) (ma_stop_loss a) None now \<rparr>
      | PARTIAL_CLOSE \<Rightarrow> w\<lparr> w_trades := mark_partial_taken (w_trades w) (ma_position_id a) now \<rparr>
      | CLOSE \<Rightarrow> w)"

text \<open>The handlers: an unknown outcome flags a partial and is recorded, another bot error is
  isolated, anything else escapes.\<close>

definition action_raised ::
  "micros \<Rightarrow> management_action \<Rightarrow> exn \<Rightarrow> world \<Rightarrow> exn option \<times> action_outcome option \<times> world" where
  "action_raised now a e w =
     (if isinstance e AmbiguousExecution then
        (None, Some (OutcomeUnknown (exn_message e)),
         note_reconciliation now ''AMBIGUOUS_MANAGEMENT'' (exn_message e) (ma_symbol a)
           (note_managed now a ''_AMBIGUOUS'' (exn_message e)
             (if ma_kind a = PARTIAL_CLOSE
              then w\<lparr> w_trades := mark_partial_taken (w_trades w) (ma_position_id a) now \<rparr> else w)))
      else if isinstance e BotError then (None, Some (ActionFailed (exn_message e)), w)
      else (Some e, None, w))"

definition apply_action ::
  "manage_venue \<Rightarrow> nat \<Rightarrow> management_action \<Rightarrow> world \<Rightarrow> exn option \<times> action_outcome option \<times> world" where
  "apply_action mg i a w =
     (let now = mg_now mg;
          sent = \<lambda>answer. (case answer of
             Inr _ \<Rightarrow> (None, Some Applied, action_done now a w)
           | Inl e \<Rightarrow> action_raised now a e w)
      in case ma_kind a of
           MOVE_STOP \<Rightarrow> if ma_stop_loss a \<noteq> None then sent (mg_modify mg i) else (None, None, w)
         | PARTIAL_CLOSE \<Rightarrow> if truthy (ma_quantity a) then sent (mg_close mg i) else (None, None, w)
         | CLOSE \<Rightarrow>
             (case exit_is_affordable mg (w_trades w) a of
                Inl e \<Rightarrow> action_raised now a e w
              | Inr (Some why) \<Rightarrow> (None, Some (Deferred why), w)
              | Inr None \<Rightarrow> sent (mg_close mg i)))"

fun apply_actions ::
  "manage_venue \<Rightarrow> nat \<Rightarrow> management_action list \<Rightarrow> world
     \<Rightarrow> (exn + (management_action \<times> action_outcome) list) \<times> world" where
  "apply_actions mg i [] w = (Inr [], w)"
| "apply_actions mg i (a # as) w =
     (case apply_action mg i a w of
        (Some e, _, w1) \<Rightarrow> (Inl e, w1)
      | (None, outcome, w1) \<Rightarrow>
          (case apply_actions mg (Suc i) as w1 of
             (Inl e, w2) \<Rightarrow> (Inl e, w2)
           | (Inr rows, w2) \<Rightarrow>
               (Inr ((case outcome of None \<Rightarrow> [] | Some out \<Rightarrow> [(a, out)]) @ rows), w2)))"

subsection \<open>Tracking\<close>

record track_row =
  tk_position_id :: string
  tk_current_price :: "real option"
  tk_price_status :: string
  tk_r_multiple :: "real option"
  tk_risk_amount :: "real option"
  tk_setup_grade :: "string option"
  tk_execution_id :: "string option"
  tk_duration_minutes :: "real option"
  tk_orphaned :: bool
  tk_tracked :: bool

definition current_price ::
  "(string \<Rightarrow> exn + quote) \<Rightarrow> broker_position \<Rightarrow> micros \<Rightarrow> exn + (real option \<times> string)" where
  "current_price quotes p moment =
     (case quotes (bp_symbol p) of
        Inr q \<Rightarrow> Inr (Some (if bp_direction p = ''BUY'' then q_bid q else q_ask q), ''live'')
      | Inl e \<Rightarrow>
          if isinstance e BotError then
            Inr (None, if is_forex_weekend moment then ''market closed for the weekend''
                       else take 200 (''no quote: '' @ exn_message e))
          else Inl e)"

definition duration_minutes :: "broker_position \<Rightarrow> micros \<Rightarrow> real option" where
  "duration_minutes p moment =
     map_option (\<lambda>opened. py_round 1 (total_seconds (moment - opened) / 60)) (bp_opened_at p)"

definition excursion :: "broker_position \<Rightarrow> real \<Rightarrow> real" where
  "excursion p price =
     (if bp_direction p = ''BUY'' then price - bp_entry_price p else bp_entry_price p - price)"

definition track_position ::
  "(string \<Rightarrow> exn + quote) \<Rightarrow> micros \<Rightarrow> broker_position \<Rightarrow> trade_table
     \<Rightarrow> (exn + track_row) \<times> trade_table" where
  "track_position quotes moment p rows =
     (let t = by_position_id rows (bp_position_id p);
          entry = bp_entry_price p;
          stop = or_else (Option.bind t td_stop_loss) (bp_stop_loss p)
      in case current_price quotes p moment of
           Inl e \<Rightarrow> (Inl e, rows)
         | Inr (price, status) \<Rightarrow>
             (let measurable = (entry > 0);
                  r = (if measurable \<and> truthy stop \<and> truthy price
                       then Some (py_round 3 (r_multiple (bp_direction p) entry (the stop) (the price)))
                       else None);
                  rows' = (if measurable \<and> truthy price
                    then update_excursions rows (bp_position_id p)
                      (max 0 (excursion p (the price))) (min 0 (excursion p (the price))) moment
                    else rows)
              in (Inr \<lparr> tk_position_id = bp_position_id p, tk_current_price = price,
                    tk_price_status = (if measurable then status
                      else ''broker reported no entry price for this position''),
                    tk_r_multiple = r, tk_risk_amount = Option.bind t td_risk_amount,
                    tk_setup_grade = Option.bind t td_setup_grade,
                    tk_execution_id = map_option td_execution_id t,
                    tk_duration_minutes = duration_minutes p moment,
                    tk_orphaned = (case t of None \<Rightarrow> False | Some x \<Rightarrow> td_status x = ORPHANED),
                    tk_tracked = (t \<noteq> None) \<rparr>, rows')))"

fun track ::
  "(string \<Rightarrow> exn + quote) \<Rightarrow> micros \<Rightarrow> broker_position list \<Rightarrow> trade_table
     \<Rightarrow> (exn + track_row list) \<times> trade_table" where
  "track quotes moment [] rows = (Inr [], rows)"
| "track quotes moment (p # ps) rows =
     (case track_position quotes moment p rows of
        (Inl e, rows1) \<Rightarrow> (Inl e, rows1)
      | (Inr row, rows1) \<Rightarrow>
          (case track quotes moment ps rows1 of
             (Inl e, rows2) \<Rightarrow> (Inl e, rows2)
           | (Inr tracked, rows2) \<Rightarrow> (Inr (row # tracked), rows2)))"

subsection \<open>Planned stops\<close>

lemma r_multiple_sign:
  "entry \<noteq> stop \<Longrightarrow> r_multiple direction entry stop price * \<bar>entry - stop\<bar> =
     (if direction = ''BUY'' then price - entry else entry - price)"
  by (simp add: r_multiple_def Let_def)

lemma planned_stop_cases:
  assumes "a \<in> set (plan_actions p t price x broken now)" and "ma_kind a = MOVE_STOP"
  obtains (breakeven) entry risk where
      "entry = plan_entry p t" "risk = \<bar>entry - the (plan_stop p t)\<bar>"
      "ma_stop_loss a = Some (if bp_direction p = ''BUY'' then entry + risk * (5 / 100) else entry - risk * (5 / 100))"
      "stop_is_behind_market (bp_direction p) (the (ma_stop_loss a)) price (risk * (2 / 100))"
      "\<not> (case bp_stop_loss p of None \<Rightarrow> False
          | Some s \<Rightarrow> (bp_direction p = ''BUY'' \<and> s \<ge> entry) \<or> (bp_direction p = ''SELL'' \<and> s \<le> entry))"
  | (trailing) stop risk where
      "ma_stop_loss a = Some stop" "risk = \<bar>plan_entry p t - the (plan_stop p t)\<bar>"
      "stop_is_behind_market (bp_direction p) stop price (risk * (2 / 100))"
      "case bp_stop_loss p of None \<Rightarrow> True
        | Some s \<Rightarrow> (bp_direction p = ''BUY'' \<and> stop > s) \<or> (bp_direction p = ''SELL'' \<and> stop < s)"
  using assms
  by (auto simp: plan_actions_def Let_def split: if_splits option.splits)

lemma planned_stop_protects:
  assumes a: "a \<in> set (plan_actions p t price x broken now)" "ma_kind a = MOVE_STOP"
  shows "\<exists>stop. ma_stop_loss a = Some stop
    \<and> (bp_direction p = ''BUY'' \<longrightarrow> stop < price \<and> (\<forall>s. bp_stop_loss p = Some s \<longrightarrow> s < stop))
    \<and> (bp_direction p = ''SELL'' \<longrightarrow> price < stop \<and> (\<forall>s. bp_stop_loss p = Some s \<longrightarrow> stop < s))"
  using a
proof (cases rule: planned_stop_cases)
  case (breakeven entry risk)
  have "0 \<le> risk" using breakeven(2) by simp
  then show ?thesis using breakeven(3-5)
    by (auto simp: stop_is_behind_market_def split: option.splits if_splits)
next
  case (trailing stop risk)
  have "0 \<le> risk" using trailing(2) by simp
  then show ?thesis using trailing(1,3,4)
    by (auto simp: stop_is_behind_market_def split: option.splits)
qed

lemma no_partial_when_taken:
  "td_partial_taken r \<Longrightarrow> a \<in> set (plan_actions p (Some r) price x broken now) \<Longrightarrow> ma_kind a \<noteq> PARTIAL_CLOSE"
  by (auto simp: plan_actions_def Let_def split: if_splits option.splits)

lemma plan_targets:
  "a \<in> set (plan_actions p t price x broken now) \<Longrightarrow> ma_position_id a = bp_position_id p \<and> ma_symbol a = bp_symbol p"
  by (auto simp: plan_actions_def Let_def split: if_splits option.splits)

subsection \<open>The partial flag\<close>

lemma note_managed_parts [world_simps]:
  "w_trades (note_managed now a tag d w) = w_trades w"
  "w_intents (note_managed now a tag d w) = w_intents w"
  "w_days (note_managed now a tag d w) = w_days w"
  by (simp_all add: note_managed_def note_event_def split: option.split)

lemma mark_partial_lookup:
  "by_position_id (mark_partial_taken rows p now) p' =
     (if p' = p then map_option (\<lambda>r. r\<lparr> td_partial_taken := True, td_updated_at := now \<rparr>) (by_position_id rows p)
      else by_position_id rows p')"
  unfolding mark_partial_taken_def by (rule by_position_id_at) simp

text \<open>Once set, nothing the manager does clears it.\<close>

definition partial_recorded :: "trade_table \<Rightarrow> string \<Rightarrow> bool" where
  "partial_recorded rows p =
     (case by_position_id rows p of None \<Rightarrow> False | Some r \<Rightarrow> td_partial_taken r)"

lemma apply_action_trades:
  assumes "apply_action mg i a w = (e, outcome, w')"
  obtains "w_trades w' = w_trades w" "ma_kind a = PARTIAL_CLOSE \<Longrightarrow> outcome = Some Applied \<Longrightarrow> False"
      "ma_kind a = PARTIAL_CLOSE \<Longrightarrow> outcome = Some (OutcomeUnknown why) \<Longrightarrow> False"
  | "ma_kind a = MOVE_STOP"
      "w_trades w' = update_protection (w_trades w) (ma_position_id a) (ma_stop_loss a) None (mg_now mg)"
  | "ma_kind a = PARTIAL_CLOSE"
      "w_trades w' = mark_partial_taken (w_trades w) (ma_position_id a) (mg_now mg)"
  using assms
  by (cases "ma_kind a")
    (auto simp: apply_action_def action_done_def action_raised_def world_simps Let_def
      split: sum.splits option.splits if_splits)

lemma apply_action_records_partial:
  assumes "apply_action mg i a w = (e, outcome, w')" and "ma_kind a = PARTIAL_CLOSE"
    and "outcome = Some Applied \<or> outcome = Some (OutcomeUnknown why)"
  shows "w_trades w' = mark_partial_taken (w_trades w) (ma_position_id a) (mg_now mg)"
  using assms
  by (auto simp: apply_action_def action_done_def action_raised_def world_simps Let_def
      split: sum.splits option.splits if_splits)

lemma partial_recorded_protection:
  "partial_recorded (update_protection rows q sl tp now) p = partial_recorded rows p"
  unfolding partial_recorded_def update_protection_def
  by (subst by_position_id_at) (auto split: option.split)

lemma apply_action_keeps_partial:
  assumes "apply_action mg i a w = (e, outcome, w')" and "partial_recorded (w_trades w) p"
  shows "partial_recorded (w_trades w') p"
  using assms(1)
proof (cases rule: apply_action_trades)
  case 3
  with assms(2) show ?thesis
    by (auto simp: partial_recorded_def mark_partial_lookup split: option.splits)
qed (use assms(2) in \<open>simp_all add: partial_recorded_protection\<close>)

lemma apply_actions_keeps_partial:
  "apply_actions mg i as w = (r, w') \<Longrightarrow> partial_recorded (w_trades w) p \<Longrightarrow> partial_recorded (w_trades w') p"
proof (induction as arbitrary: i w r)
  case (Cons a as)
  obtain e out w1 where a: "apply_action mg i a w = (e, out, w1)" by (cases "apply_action mg i a w") auto
  have p: "partial_recorded (w_trades w1) p" using apply_action_keeps_partial [OF a Cons.prems(2)] .
  show ?case
  proof (cases e)
    case (Some x)
    with Cons.prems(1) a p show ?thesis by simp
  next
    case None
    obtain r2 w2 where as: "apply_actions mg (Suc i) as w1 = (r2, w2)" by force
    with None Cons.prems(1) a have "w' = w2" by (auto split: sum.splits)
    with as have "apply_actions mg (Suc i) as w1 = (r2, w')" by simp
    from Cons.IH [OF this p] show ?thesis .
  qed
qed simp

subsection \<open>Excursions\<close>

definition excursions_ok :: "trade \<Rightarrow> real list \<Rightarrow> bool" where
  "excursions_ok r es = (td_mfe r = Some (Max (set (map (max 0) es)))
     \<and> td_mae r = Some (Min (set (map (min 0) es))))"

fun feed_excursions :: "trade_table \<Rightarrow> string \<Rightarrow> (real \<times> micros) list \<Rightarrow> trade_table" where
  "feed_excursions rows p [] = rows"
| "feed_excursions rows p ((e, now) # es) =
     feed_excursions (update_excursions rows p (max 0 e) (min 0 e) now) p es"

lemma feed_excursions_snoc:
  "feed_excursions rows p (es @ [(e, now)]) =
     update_excursions (feed_excursions rows p es) p (max 0 e) (min 0 e) now"
  by (induction rows p es rule: feed_excursions.induct) simp_all

lemma feed_excursions_extremes:
  assumes "by_position_id rows p = Some r" and "td_mfe r = None" and "td_mae r = None" and "es \<noteq> []"
  shows "\<exists>r'. by_position_id (feed_excursions rows p es) p = Some r' \<and> excursions_ok r' (map fst es)"
  using assms(4)
proof (induction es rule: rev_induct)
  case (snoc x es)
  obtain e now where x: "x = (e, now)" by (cases x)
  show ?case
  proof (cases "es = []")
    case True
    then show ?thesis using assms(1-3)
      by (simp add: x by_position_id_excursions excursions_ok_def)
  next
    case False
    with snoc.IH obtain r' where r': "by_position_id (feed_excursions rows p es) p = Some r'"
      "excursions_ok r' (map fst es)" by blast
    have "Max (set (map (max 0) (map fst es @ [e]))) = max (Max (set (map (max 0) (map fst es)))) (max 0 e)"
      and "Min (set (map (min 0) (map fst es @ [e]))) = min (Min (set (map (min 0) (map fst es)))) (min 0 e)"
      using False by (simp_all add: max.commute min.commute)
    then show ?thesis using r'
      by (auto simp: x feed_excursions_snoc by_position_id_excursions excursions_ok_def
        not_less max_absorb1 min_absorb1)
  qed
qed simp

subsection \<open>The recorded stop and the multiple\<close>

lemma break_even_stop:
  assumes "a \<in> set (plan_actions p t price x broken now)" and "ma_reason a = BreakEven r0"
  shows "ma_kind a = MOVE_STOP" and "ma_position_id a = bp_position_id p"
    and "ma_stop_loss a = Some (let risk = \<bar>plan_entry p t - the (plan_stop p t)\<bar> in
      if bp_direction p = ''BUY'' then plan_entry p t + risk * (5 / 100) else plan_entry p t - risk * (5 / 100))"
  using assms by (auto simp: plan_actions_def Let_def split: if_splits option.splits)

lemma r_multiple_scaled:
  assumes "\<bar>entry - stop'\<bar> = \<bar>entry - stop\<bar> * (5 / 100)"
  shows "r_multiple direction entry stop' q = 20 * r_multiple direction entry stop q"
proof -
  define risk where "risk = \<bar>entry - stop\<bar>"
  have "\<bar>entry - stop'\<bar> = risk * (5 / 100)" using assms by (simp add: risk_def)
  then show ?thesis unfolding r_multiple_def Let_def risk_def [symmetric] by (auto simp: field_simps)
qed

lemma protection_row:
  assumes "by_position_id rows p = Some r"
  shows "by_position_id (update_protection rows p sl tp now) p = Some (r\<lparr>
    td_stop_loss := coalesce sl (td_stop_loss r), td_take_profit := coalesce tp (td_take_profit r),
    td_updated_at := now \<rparr>)"
  using assms by (simp add: update_protection_def by_position_id_at)

subsection \<open>Properties\<close>

text \<open>C15. A planned stop only ever tightens protection: every stop the plan moves to lies strictly
  on the safe side of the market price, and strictly beyond the stop the broker has now, above
  it for a long and below it for a short.\<close>

theorem stop_only_tightens:
  assumes "a \<in> set (plan_actions p t price x broken now)" and "ma_kind a = MOVE_STOP"
  shows "\<exists>stop. ma_stop_loss a = Some stop
    \<and> (bp_direction p \<noteq> ''BUY'' \<or> (stop < price
        \<and> (case bp_stop_loss p of None \<Rightarrow> True | Some s \<Rightarrow> s < stop)))
    \<and> (bp_direction p \<noteq> ''SELL'' \<or> (price < stop
        \<and> (case bp_stop_loss p of None \<Rightarrow> True | Some s \<Rightarrow> stop < s)))"
  using planned_stop_protects [OF assms] by (auto split: option.split)

lemma demo_plan:
  "plan_actions demo_position None (111 / 100) default_execution_config False 0
     = [\<lparr> ma_kind = MOVE_STOP, ma_position_id = ''p1'', ma_symbol = ''EURUSD'', ma_reason = BreakEven 1,
          ma_stop_loss = Some (11005 / 10000), ma_quantity = None \<rparr>,
        \<lparr> ma_kind = PARTIAL_CLOSE, ma_position_id = ''p1'', ma_symbol = ''EURUSD'', ma_reason = PartialTake 1,
          ma_stop_loss = None, ma_quantity = Some (5 / 100) \<rparr>]"
  by (simp add: plan_actions_def plan_entry_def plan_stop_def demo_position_def truthy_def r_multiple_def
      default_execution_config_def R_EPSILON_def stop_is_behind_market_def Let_def py_num total_seconds_def)

theorem stop_only_tightens_witness:
  "\<exists>stop. ma_stop_loss (plan_actions demo_position None (111 / 100) default_execution_config False 0 ! 0) = Some stop
     \<and> stop < 111 / 100 \<and> 109 / 100 < stop"
proof -
  let ?a = "plan_actions demo_position None (111 / 100) default_execution_config False 0 ! 0"
  have "?a \<in> set (plan_actions demo_position None (111 / 100) default_execution_config False 0)"
    "ma_kind ?a = MOVE_STOP" by (simp_all add: demo_plan)
  from stop_only_tightens [OF this] show ?thesis by (simp add: demo_position_def)
qed

text \<open>C16. A partial profit is taken at most once per recorded trade: once a partial close was
  applied, or sent with an unknown outcome, no later batch of management actions clears the
  mark and no later plan for the row contains another partial close.\<close>

theorem partial_taken_once:
  assumes "apply_action mg i a w = (e, outcome, w1)" and "ma_kind a = PARTIAL_CLOSE"
    and "outcome = Some Applied \<or> outcome = Some (OutcomeUnknown why)"
    and "by_position_id (w_trades w) (ma_position_id a) \<noteq> None"
    and "apply_actions mg' j as w1 = (r, w2)"
    and "by_position_id (w_trades w2) (ma_position_id a) = Some row"
    and "b \<in> set (plan_actions p (Some row) price x broken now)"
  shows "ma_kind b \<noteq> PARTIAL_CLOSE"
proof -
  have "partial_recorded (w_trades w1) (ma_position_id a)"
    using apply_action_records_partial [OF assms(1-3)] assms(4)
    by (auto simp: partial_recorded_def mark_partial_lookup)
  then have "partial_recorded (w_trades w2) (ma_position_id a)"
    by (rule apply_actions_keeps_partial [OF assms(5)])
  then have "td_partial_taken row" using assms(6) by (simp add: partial_recorded_def)
  with assms(7) show ?thesis by (intro no_partial_when_taken)
qed

definition open_world :: world where
  "open_world = empty_world\<lparr> w_trades := [(blank_trade ''x1'' ''EURUSD'' ''BUY'' OPEN 0)
     \<lparr> td_position_id := Some ''p1'', td_actual_entry := Some (11 / 10), td_stop_loss := Some (109 / 100) \<rparr>] \<rparr>"

definition demo_manage :: manage_venue where
  "demo_manage = \<lparr> mg_now = 0, mg_modify = (\<lambda>_. Inr ()), mg_close = (\<lambda>_. Inr ()),
     mg_quote = (\<lambda>_. Inl \<lparr> exn_class = BrokerError, exn_message = [] \<rparr>) \<rparr>"

lemma open_world_row:
  "by_position_id (w_trades open_world) ''p1'' = Some ((blank_trade ''x1'' ''EURUSD'' ''BUY'' OPEN 0)
     \<lparr> td_position_id := Some ''p1'', td_actual_entry := Some (11 / 10), td_stop_loss := Some (109 / 100) \<rparr>)"
  by (simp add: open_world_def by_position_id_def find_row_def)

theorem partial_taken_once_witness:
  "\<exists>row. by_position_id (w_trades (snd (snd (apply_action demo_manage 0
       (plan_actions demo_position None (111 / 100) default_execution_config False 0 ! 1) open_world)))) ''p1'' = Some row
     \<and> list_all (\<lambda>b. ma_kind b \<noteq> PARTIAL_CLOSE)
         (plan_actions demo_position (Some row) (111 / 100) default_execution_config False 0)"
proof -
  let ?a = "plan_actions demo_position None (111 / 100) default_execution_config False 0 ! 1"
  let ?w1 = "snd (snd (apply_action demo_manage 0 ?a open_world))"
  have a: "ma_kind ?a = PARTIAL_CLOSE" "ma_position_id ?a = ''p1''" "truthy (ma_quantity ?a)"
    by (simp_all add: demo_plan truthy_def)
  have x: "apply_action demo_manage 0 ?a open_world = (None, Some Applied, ?w1)"
    using a by (simp add: apply_action_def demo_manage_def Let_def)
  have "w_trades ?w1 = mark_partial_taken (w_trades open_world) ''p1'' (mg_now demo_manage)"
    using apply_action_records_partial [OF x a(1)] a(2) by simp
  then obtain row where row: "by_position_id (w_trades ?w1) ''p1'' = Some row"
    by (simp add: mark_partial_lookup open_world_row)
  have "ma_kind b \<noteq> PARTIAL_CLOSE"
    if "b \<in> set (plan_actions demo_position (Some row) (111 / 100) default_execution_config False 0)" for b
    by (rule partial_taken_once [OF x a(1) _ _ _ _ that, of undefined demo_manage 0 "[]" "Inr []" ?w1])
      (use a(2) open_world_row row in simp_all)
  with row show ?thesis by (auto simp: list_all_iff)
qed

text \<open>Moving the stop to break-even overwrites the stop the trade was planned with, and every
  later decision measures profit against it: after the move, at any price, the R multiple the
  manager works with is twenty times the one it worked with before.\<close>

theorem break_even_inflates_r:
  assumes "a \<in> set (plan_actions p (Some t) price x broken now)" and "ma_reason a = BreakEven r0"
    and "by_position_id (w_trades w) (bp_position_id p) = Some t" and "truthy (ma_stop_loss a)"
    and "mg_modify mg i = Inr ()"
  shows "\<exists>t'. by_position_id (w_trades (snd (snd (apply_action mg i a w)))) (bp_position_id p) = Some t'
    \<and> r_multiple direction (plan_entry p (Some t')) (the (plan_stop p (Some t'))) q
      = 20 * r_multiple direction (plan_entry p (Some t)) (the (plan_stop p (Some t))) q"
proof -
  note be = break_even_stop [OF assms(1,2)]
  let ?w' = "snd (snd (apply_action mg i a w))"
  have "w_trades ?w' = update_protection (w_trades w) (bp_position_id p) (ma_stop_loss a) None (mg_now mg)"
    using be assms(5) by (simp add: apply_action_def action_done_def Let_def world_simps)
  then have row: "by_position_id (w_trades ?w') (bp_position_id p) = Some (t\<lparr> td_stop_loss := ma_stop_loss a,
      td_take_profit := coalesce None (td_take_profit t), td_updated_at := mg_now mg \<rparr>)" (is "_ = Some ?t'")
    using protection_row [OF assms(3)] be(3) by (simp add: coalesce_def)
  have entry: "plan_entry p (Some ?t') = plan_entry p (Some t)" by (simp add: plan_entry_def)
  have "plan_stop p (Some ?t') = ma_stop_loss a" using assms(4) by (simp add: plan_stop_def)
  then have "\<bar>plan_entry p (Some t) - the (plan_stop p (Some ?t'))\<bar>
      = \<bar>plan_entry p (Some t) - the (plan_stop p (Some t))\<bar> * (5 / 100)"
    using be(3) by (simp add: Let_def)
  from r_multiple_scaled [OF this] row entry show ?thesis by auto
qed

theorem break_even_inflates_r_witness:
  "\<exists>t'. by_position_id (w_trades (snd (snd (apply_action demo_manage 0
       \<lparr> ma_kind = MOVE_STOP, ma_position_id = ''p1'', ma_symbol = ''EURUSD'', ma_reason = BreakEven 1,
          ma_stop_loss = Some (11005 / 10000), ma_quantity = None \<rparr> open_world)))) ''p1'' = Some t'
     \<and> r_multiple ''BUY'' (plan_entry demo_position (Some t')) (the (plan_stop demo_position (Some t'))) (1111 / 1000) = 22"
proof -
  let ?a = "\<lparr> ma_kind = MOVE_STOP, ma_position_id = ''p1'', ma_symbol = ''EURUSD'', ma_reason = BreakEven 1,
          ma_stop_loss = Some (11005 / 10000), ma_quantity = None \<rparr>"
  let ?t = "(blank_trade ''x1'' ''EURUSD'' ''BUY'' OPEN 0)
     \<lparr> td_position_id := Some ''p1'', td_actual_entry := Some (11 / 10), td_stop_loss := Some (109 / 100) \<rparr>"
  have "?a \<in> set (plan_actions demo_position (Some ?t) (111 / 100) default_execution_config False 0)"
    by (simp add: plan_actions_def plan_entry_def plan_stop_def demo_position_def truthy_def r_multiple_def
      default_execution_config_def R_EPSILON_def stop_is_behind_market_def Let_def py_num or_else_def)
  moreover have "by_position_id (w_trades open_world) (bp_position_id demo_position) = Some ?t"
    by (simp add: open_world_row demo_position_def)
  ultimately show ?thesis
    using break_even_inflates_r [of ?a demo_position ?t "111 / 100" default_execution_config False 0 1 open_world
        demo_manage 0 "''BUY''" "1111 / 1000"]
    by (simp add: demo_position_def demo_manage_def truthy_def plan_entry_def plan_stop_def r_multiple_def or_else_def)
qed

text \<open>The recorded excursions are the extremes: after any non-empty sequence of tracked prices
  the favourable excursion is the largest non-negative move seen and the adverse one the
  smallest non-positive.\<close>

theorem excursions_are_extremes:
  assumes "by_position_id rows p = Some r" and "td_mfe r = None" and "td_mae r = None" and "es \<noteq> []"
  shows "\<exists>r'. by_position_id (feed_excursions rows p es) p = Some r' \<and> excursions_ok r' (map fst es)"
  using assms by (rule feed_excursions_extremes)

theorem excursions_are_extremes_witness:
  "\<exists>r'. by_position_id (feed_excursions (w_trades open_world) ''p1'' [(3, 0), (- 2, 1), (1, 2)]) ''p1'' = Some r'
     \<and> td_mfe r' = Some 3 \<and> td_mae r' = Some (- 2)"
  using excursions_are_extremes [OF open_world_row, of "[(3, 0), (- 2, 1), (1, 2)]"]
  by (auto simp: excursions_ok_def blank_trade_def)

end
