(* ===== verification/AI_Gate.thy ===== *)
theory AI_Gate
  imports Risk_Engine
begin

text \<open>
  The AI gate: the response schema (\<open>bot/ai/schema.py\<close>) and the cross-check of a decision
  against the engine's candidate (\<open>bot/ai/validator.py\<close>). Python's \<open>json.loads\<close>, the text of
  \<open>str()\<close> on a number or container and \<open>float()\<close> on a text are the record \<open>python\<close> of
  functions of the standard library, parameters of the model.
\<close>

datatype float_value = Real real | Infinite | NotANumberValue | Unreadable

datatype json =
    JNull | JBool bool | JNumber float_value | JText string | JArray "json list"
  | JObject "(string \<times> json) list"

record python =
  py_loads :: "string \<Rightarrow> json option"
  py_repr :: "json \<Rightarrow> string"
  py_float :: "string \<Rightarrow> float_value"

fun str_of :: "python \<Rightarrow> json \<Rightarrow> string" where
  "str_of py (JText s) = s"
| "str_of py JNull = ''None''"
| "str_of py (JBool b) = (if b then ''True'' else ''False'')"
| "str_of py v = py_repr py v"

fun float_of :: "python \<Rightarrow> json \<Rightarrow> float_value" where
  "float_of py (JNumber x) = x"
| "float_of py (JBool b) = Real (if b then 1 else 0)"
| "float_of py (JText s) = py_float py s"
| "float_of py _ = Unreadable"

definition REQUIRED_FIELDS :: "string list" where
  "REQUIRED_FIELDS = [''decision'', ''confidence'', ''reason'']"

definition ALLOWED_DECISIONS :: "string list" where
  "ALLOWED_DECISIONS = [''TRADE'', ''NO_TRADE'']"

definition ALLOWED_GRADES :: "string list" where
  "ALLOWED_GRADES = [''A+'', ''A'', ''B'', ''C'', ''NO_TRADE'', [] ]"

record ai_decision =
  ai_decision :: string
  ai_direction :: "string option"
  ai_confidence :: int
  ai_setup_grade :: string
  ai_reason :: string
  ai_invalidations :: "string list"
  ai_entry :: "real option"
  ai_stop :: "real option"
  ai_target :: "real option"
  ai_provider :: string
  ai_model :: string

definition wants_trade :: "ai_decision \<Rightarrow> bool" where
  "wants_trade d = (ai_decision d = ''TRADE'')"

definition violation :: "string \<Rightarrow> exn" where
  "violation msg = \<lparr> exn_class = AIContractViolation, exn_message = msg \<rparr>"

subsection \<open>Finding the object\<close>

definition fence :: string where "fence = replicate 3 (char_of (96 :: nat))"

definition strip_fences :: "string \<Rightarrow> string" where
  "strip_fences s =
     (let opened = (if starts_with s fence
            then (let rest = drop 3 s in
                  dropWhile is_space (if starts_with (lower rest) ''json'' then drop 4 rest else rest))
            else s);
          back = rev opened
      in if starts_with back fence then rev (dropWhile is_space (drop 3 back)) else opened)"

text \<open>The scan for the first balanced object; \<open>start\<close> is -1 until an opening brace is met.\<close>

fun scan_object :: "string \<Rightarrow> string \<Rightarrow> int \<Rightarrow> int \<Rightarrow> int \<Rightarrow> string option" where
  "scan_object text [] index depth start = None"
| "scan_object text (c # cs) index depth start =
     (if c = CHR ''{'' then
        scan_object text cs (index + 1) (depth + 1) (if depth = 0 then index else start)
      else if c = CHR ''}'' then
        (if depth - 1 = 0 \<and> start \<ge> 0
         then Some (take (nat (index + 1 - start)) (drop (nat start) text))
         else scan_object text cs (index + 1) (depth - 1) start)
      else scan_object text cs (index + 1) depth start)"

definition extract_json_object :: "python \<Rightarrow> string \<Rightarrow> exn + (string \<times> json) list" where
  "extract_json_object py raw =
     (if strip raw = [] then Inl (violation ''model returned an empty response'')
      else
        (let text = strip_fences (strip raw);
             scanned =
               (case scan_object text text 0 0 (- 1) of
                  None \<Rightarrow> Inl (violation ''no JSON object found in the model response'')
                | Some part \<Rightarrow>
                    (case py_loads py part of
                       None \<Rightarrow> Inl (violation ''model response is not valid JSON'')
                     | Some (JObject fs) \<Rightarrow> Inr fs
                     | Some _ \<Rightarrow> Inl (violation ''model returned JSON that is not an object'')))
         in case py_loads py text of Some (JObject fs) \<Rightarrow> Inr fs | _ \<Rightarrow> scanned))"

subsection \<open>The decision\<close>

definition payload_get :: "(string \<times> json) list \<Rightarrow> string \<Rightarrow> json \<Rightarrow> json" where
  "payload_get payload k d = (case map_of payload k of None \<Rightarrow> d | Some v \<Rightarrow> v)"

definition number_or_none :: "python \<Rightarrow> json \<Rightarrow> real option" where
  "number_or_none py v =
     (if v = JNull \<or> v = JText [] then None
      else case float_of py v of Real x \<Rightarrow> Some x | _ \<Rightarrow> None)"

text \<open>\<open>s.replace(old, new)\<close>; \<open>skip\<close> counts the characters of a match still to drop.\<close>

fun replace_text :: "string \<Rightarrow> string \<Rightarrow> nat \<Rightarrow> string \<Rightarrow> string" where
  "replace_text old new skip [] = []"
| "replace_text old new (Suc k) (c # cs) = replace_text old new k cs"
| "replace_text old new 0 (c # cs) =
     (if starts_with (c # cs) old then new @ replace_text old new (length old - 1) cs
      else c # replace_text old new 0 cs)"

text \<open>\<open>int(round(float(v)))\<close>: a nan is a \<open>ValueError\<close>, which is caught; an infinity an
  \<open>OverflowError\<close>, which is not.\<close>

definition read_confidence :: "python \<Rightarrow> json \<Rightarrow> exn + int" where
  "read_confidence py v =
     (case float_of py v of
        Real x \<Rightarrow> Inr (round_half_even x)
      | Infinite \<Rightarrow> Inl \<lparr> exn_class = OtherException,
          exn_message = ''OverflowError: cannot convert float infinity to integer'' \<rparr>
      | _ \<Rightarrow> Inl (violation ''confidence is not numeric''))"

definition read_direction :: "python \<Rightarrow> (string \<times> json) list \<Rightarrow> exn + (string \<times> string option)" where
  "read_direction py payload =
     (let raw = map (\<lambda>c. if c = CHR '' '' then CHR ''_'' else c)
            (upper (strip (str_of py (payload_get payload ''decision'' (JText [])))))
      in if raw = ''BUY'' \<or> raw = ''SELL'' then Inr (''TRADE'', Some raw)
         else if raw \<in> set ALLOWED_DECISIONS then
           (let d = upper (strip (str_of py (payload_get payload ''direction'' (JText []))))
            in Inr (raw, if d = ''BUY'' \<or> d = ''SELL'' then Some d else None))
         else Inl (violation ''unknown decision value''))"

definition read_grade :: "python \<Rightarrow> (string \<times> json) list \<Rightarrow> string" where
  "read_grade py payload =
     (let grade = replace_text ''NO TRADE'' ''NO_TRADE'' 0
            (upper (strip (str_of py (payload_get payload ''setup_grade''
              (payload_get payload ''setupGrade'' (JText []))))))
      in if grade \<in> set ALLOWED_GRADES then grade else [])"

definition read_invalidations :: "python \<Rightarrow> json \<Rightarrow> string list" where
  "read_invalidations py v = (case v of
       JText s \<Rightarrow> [s] | JArray xs \<Rightarrow> map (str_of py) (take 8 xs) | _ \<Rightarrow> [])"

definition parse_decision ::
  "python \<Rightarrow> (string \<times> json) list \<Rightarrow> string \<Rightarrow> string \<Rightarrow> exn + ai_decision" where
  "parse_decision py payload provider model =
     (if list_ex (\<lambda>f. map_of payload f = None) REQUIRED_FIELDS
      then Inl (violation ''model response is missing a required field'')
      else case read_direction py payload of
        Inl e \<Rightarrow> Inl e
      | Inr (decision, direction) \<Rightarrow>
          (case read_confidence py (payload_get payload ''confidence'' JNull) of
             Inl e \<Rightarrow> Inl e
           | Inr confidence \<Rightarrow>
               if \<not> (0 \<le> confidence \<and> confidence \<le> 100) then Inl (violation ''confidence is outside 0-100'')
               else
                 (let grade = read_grade py payload;
                      reason = strip (str_of py (payload_get payload ''reason'' (JText [])))
                  in if reason = [] then Inl (violation ''reason is empty'')
                     else if decision = ''TRADE'' \<and> direction = None
                     then Inl (violation ''decision is TRADE but no valid direction was provided'')
                     else Inr \<lparr> ai_decision = decision, ai_direction = direction,
                       ai_confidence = confidence, ai_setup_grade = grade,
                       ai_reason = take 1200 reason,
                       ai_invalidations = read_invalidations py
                         (payload_get payload ''invalidations'' (JArray [])),
                       ai_entry = number_or_none py (payload_get payload ''entry'' JNull),
                       ai_stop = number_or_none py (payload_get payload ''sl''
                         (payload_get payload ''stop_loss'' JNull)),
                       ai_target = number_or_none py (payload_get payload ''tp''
                         (payload_get payload ''take_profit'' JNull)),
                       ai_provider = provider, ai_model = model \<rparr>)))"

subsection \<open>The cross-check\<close>

datatype level = EntryLevel | StopLevel | TargetLevel

datatype validation_reason =
    Vetoed | DirectionContradicted | ConfidenceTooLow int int | NonPositiveLevel level real
  | LevelDiverges level real real | StopAboveTarget | TargetAboveStop | Confirmed string int

record ai_validation =
  av_approved :: bool
  av_reasons :: "validation_reason list"
  av_contract_breach :: bool

definition level_note :: "real \<Rightarrow> level \<Rightarrow> real option \<Rightarrow> real \<Rightarrow> validation_reason list" where
  "level_note tolerance label proposed actual =
     (case proposed of
        None \<Rightarrow> []
      | Some x \<Rightarrow> if x \<le> 0 then [NonPositiveLevel label x]
          else if \<bar>x - actual\<bar> > tolerance then [LevelDiverges label x actual]
          else [])"

definition validate_ai_decision :: "ai_decision \<Rightarrow> setup_candidate \<Rightarrow> int \<Rightarrow> ai_validation" where
  "validate_ai_decision d c min_confidence =
     (let refuse = \<lambda>reason breach. \<lparr> av_approved = False, av_reasons = [reason],
            av_contract_breach = breach \<rparr>;
          tolerance = max (cd_stop_distance c * (3 / 2)) (cd_atr c * 2);
          flags = level_note tolerance EntryLevel (ai_entry d) (cd_entry c)
            @ level_note tolerance StopLevel (ai_stop d) (cd_stop_loss c)
            @ level_note tolerance TargetLevel (ai_target d) (cd_take_profit c)
      in if \<not> wants_trade d then refuse Vetoed False
         else if ai_direction d \<noteq> Some (cd_direction c) then refuse DirectionContradicted True
         else if ai_confidence d < min_confidence
         then refuse (ConfidenceTooLow (ai_confidence d) min_confidence) False
         else if truthy (ai_stop d) \<and> truthy (ai_target d) \<and> cd_direction c = ''BUY''
             \<and> \<not> the (ai_stop d) < the (ai_target d) then refuse StopAboveTarget True
         else if truthy (ai_stop d) \<and> truthy (ai_target d) \<and> cd_direction c = ''SELL''
             \<and> \<not> the (ai_target d) < the (ai_stop d) then refuse TargetAboveStop True
         else \<lparr> av_approved = True,
                av_reasons = Confirmed (cd_direction c) (ai_confidence d) # flags,
                av_contract_breach = (flags \<noteq> []) \<rparr>)"

lemma read_direction_Inr:
  "read_direction py payload = Inr (decision, direction) \<Longrightarrow>
     decision \<in> set ALLOWED_DECISIONS \<and> (direction = None \<or> direction = Some ''BUY'' \<or> direction = Some ''SELL'')"
  by (auto simp: read_direction_def Let_def ALLOWED_DECISIONS_def split: if_splits)

lemma parse_decision_Inr:
  assumes "parse_decision py payload provider model = Inr d"
  shows "ai_decision d \<in> set ALLOWED_DECISIONS" and "0 \<le> ai_confidence d" and "ai_confidence d \<le> 100"
    and "ai_setup_grade d \<in> set ALLOWED_GRADES" and "ai_reason d \<noteq> []" and "length (ai_reason d) \<le> 1200"
    and "wants_trade d \<Longrightarrow> ai_direction d = Some ''BUY'' \<or> ai_direction d = Some ''SELL''"
  using assms read_direction_Inr [of py payload]
  by (auto simp: parse_decision_def Let_def wants_trade_def read_grade_def ALLOWED_GRADES_def
    split: if_splits sum.splits)

lemma validation_approved:
  "av_approved (validate_ai_decision d c m) \<longleftrightarrow>
     wants_trade d \<and> ai_direction d = Some (cd_direction c) \<and> m \<le> ai_confidence d
     \<and> (truthy (ai_stop d) \<and> truthy (ai_target d) \<longrightarrow>
        (cd_direction c = ''BUY'' \<longrightarrow> the (ai_stop d) < the (ai_target d))
        \<and> (cd_direction c = ''SELL'' \<longrightarrow> the (ai_target d) < the (ai_stop d)))"
  by (auto simp: validate_ai_decision_def Let_def)

subsection \<open>Properties\<close>

text \<open>C25. A model response that parses satisfies the contract: the decision is one of the two allowed
  words, the confidence lies in 0..100, the grade is a known one, the reason is non-empty and
  bounded, and a wish to trade names a side.\<close>

theorem parsed_decision_contract:
  assumes "parse_decision py payload provider model = Inr d"
  shows "ai_decision d \<in> set ALLOWED_DECISIONS \<and> 0 \<le> ai_confidence d \<and> ai_confidence d \<le> 100
    \<and> ai_setup_grade d \<in> set ALLOWED_GRADES \<and> ai_reason d \<noteq> [] \<and> length (ai_reason d) \<le> 1200
    \<and> (\<not> wants_trade d \<or> ai_direction d = Some ''BUY'' \<or> ai_direction d = Some ''SELL'')"
  using parse_decision_Inr [OF assms] by blast

definition plain_python :: python where
  "plain_python = \<lparr> py_loads = (\<lambda>_. None), py_repr = (\<lambda>_. ''0''), py_float = (\<lambda>_. Unreadable) \<rparr>"

definition sample_payload :: "(string \<times> json) list" where
  "sample_payload = [(''decision'', JText ''BUY''), (''confidence'', JNumber (Real 70)), (''reason'', JText ''ok'')]"

lemma sample_parsed:
  obtains d where "parse_decision plain_python sample_payload ''p'' ''m'' = Inr d"
    and "wants_trade d" and "ai_direction d = Some ''BUY''" and "ai_confidence d = 70"
    and "ai_stop d = None"
proof -
  have texts: "upper (strip ''BUY'') = ''BUY''" "strip ''ok'' = ''ok''" "upper (strip []) = []"
    by code_simp+
  have space: "map (\<lambda>c. if c = CHR '' '' then CHR ''_'' else c) ''BUY'' = ''BUY''" by simp
  have dir: "read_direction plain_python sample_payload = Inr (''TRADE'', Some ''BUY'')"
    unfolding read_direction_def Let_def by (simp add: payload_get_def sample_payload_def texts)
  have conf: "read_confidence plain_python (payload_get sample_payload ''confidence'' JNull) = Inr 70"
    by (simp add: read_confidence_def payload_get_def sample_payload_def py_num)
  have required: "\<not> list_ex (\<lambda>f. map_of sample_payload f = None) REQUIRED_FIELDS"
    by (simp add: REQUIRED_FIELDS_def sample_payload_def)
  have get: "payload_get sample_payload ''reason'' (JText []) = JText ''ok''"
    "payload_get sample_payload ''sl'' x = x" "payload_get sample_payload ''stop_loss'' x = x" for x
    by (simp_all add: payload_get_def sample_payload_def)
  have "\<exists>d. parse_decision plain_python sample_payload ''p'' ''m'' = Inr d \<and> wants_trade d
      \<and> ai_direction d = Some ''BUY'' \<and> ai_confidence d = 70 \<and> ai_stop d = None"
    by (simp add: parse_decision_def dir conf required get texts wants_trade_def number_or_none_def Let_def)
  with that show thesis by blast
qed

theorem parsed_decision_contract_witness:
  "\<exists>d. parse_decision plain_python sample_payload ''p'' ''m'' = Inr d \<and> ai_confidence d \<le> 100"
proof -
  obtain d where d: "parse_decision plain_python sample_payload ''p'' ''m'' = Inr d" by (rule sample_parsed)
  with parsed_decision_contract [OF d] show ?thesis by blast
qed



text \<open>An infinite confidence is not a contract violation but an uncaught overflow: it leaves the
  parser as an exception outside the bot's hierarchy, which no handler of the gate catches.\<close>

theorem infinite_confidence_escapes:
  "\<exists>e. parse_decision py [(''decision'', JText ''BUY''), (''confidence'', JNumber Infinite), (''reason'', JText ''ok'')]
      provider model = Inl e \<and> \<not> isinstance e BotError"
proof -
  let ?payload = "[(''decision'', JText ''BUY''), (''confidence'', JNumber Infinite), (''reason'', JText ''ok'')]"
  have buy: "upper (strip ''BUY'') = ''BUY''" by code_simp
  have "read_direction py ?payload = Inr (''TRADE'', Some ''BUY'')"
    unfolding read_direction_def Let_def by (simp add: payload_get_def buy)
  then have "parse_decision py ?payload provider model = Inl \<lparr> exn_class = OtherException,
      exn_message = ''OverflowError: cannot convert float infinity to integer'' \<rparr>"
    by (simp add: parse_decision_def REQUIRED_FIELDS_def payload_get_def read_confidence_def)
  moreover have "\<not> isinstance \<lparr> exn_class = OtherException,
      exn_message = ''OverflowError: cannot convert float infinity to integer'' \<rparr> BotError"
    by code_simp
  ultimately show ?thesis by blast
qed

end
