(* ===== verification/Indicators.thy ===== *)
theory Indicators
  imports Market_Data
begin

text \<open>
  The numeric primitives of the setup engine, \<open>bot/smc/indicators.py\<close>, and the list helpers the
  detectors share: Python's negative slices and \<open>max\<close>/\<open>min\<close> with a key, which keep the first
  extreme element. Prices are exact reals. A period is a positive number; the code divides by
  it.
\<close>

subsection \<open>Slices and keyed extremes\<close>

text \<open>\<open>xs[-n:]\<close>; for \<open>n = 0\<close> Python returns the whole list.\<close>

definition tail_slice :: "nat \<Rightarrow> 'a list \<Rightarrow> 'a list" where
  "tail_slice n xs = (if n = 0 then xs else drop (length xs - n) xs)"

definition slice :: "nat \<Rightarrow> nat \<Rightarrow> 'a list \<Rightarrow> 'a list" where
  "slice a b xs = take (b - a) (drop a xs)"

fun max_by :: "('a \<Rightarrow> 'k :: linorder) \<Rightarrow> 'a list \<Rightarrow> 'a option" where
  "max_by f [] = None"
| "max_by f (x # xs) = Some (fold (\<lambda>y best. if f y > f best then y else best) xs x)"

fun min_by :: "('a \<Rightarrow> 'k :: linorder) \<Rightarrow> 'a list \<Rightarrow> 'a option" where
  "min_by f [] = None"
| "min_by f (x # xs) = Some (fold (\<lambda>y best. if f y < f best then y else best) xs x)"

definition last_of :: "'a list \<Rightarrow> 'a option" where
  "last_of xs = (if xs = [] then None else Some (last xs))"

lemma fold_max_by:
  "fold (\<lambda>y best. if f y > f best then y else best) xs x \<in> insert x (set xs)
   \<and> (\<forall>y \<in> insert x (set xs). f y \<le> (f (fold (\<lambda>y best. if f y > f best then y else best) xs x) :: 'k :: linorder))"
proof (induction xs arbitrary: x)
  case (Cons a xs)
  from Cons.IH [of "if f a > f x then a else x"] show ?case
    by (auto split: if_splits)
qed simp

lemma fold_min_by:
  "fold (\<lambda>y best. if f y < f best then y else best) xs x \<in> insert x (set xs)
   \<and> (\<forall>y \<in> insert x (set xs). (f (fold (\<lambda>y best. if f y < f best then y else best) xs x) :: 'k :: linorder) \<le> f y)"
proof (induction xs arbitrary: x)
  case (Cons a xs)
  from Cons.IH [of "if f a < f x then a else x"] show ?case
    by (auto split: if_splits)
qed simp

lemma max_by_Some: "max_by f xs = Some m \<Longrightarrow> m \<in> set xs \<and> (\<forall>y \<in> set xs. f y \<le> f m)"
  using fold_max_by [of f "tl xs" "hd xs"] by (cases xs) auto

lemma min_by_Some: "min_by f xs = Some m \<Longrightarrow> m \<in> set xs \<and> (\<forall>y \<in> set xs. f m \<le> f y)"
  using fold_min_by [of f "tl xs" "hd xs"] by (cases xs) auto

lemma max_by_None [simp]: "max_by f xs = None \<longleftrightarrow> xs = []"
  by (cases xs) simp_all

lemma min_by_None [simp]: "min_by f xs = None \<longleftrightarrow> xs = []"
  by (cases xs) simp_all

lemma last_of_Some: "last_of xs = Some x \<Longrightarrow> x \<in> set xs"
  by (auto simp: last_of_def split: if_splits)

lemma last_of_None [simp]: "last_of xs = None \<longleftrightarrow> xs = []"
  by (simp add: last_of_def)

lemma last_of_simps [simp]: "last_of [] = None" "last_of (xs @ [x]) = Some x"
  by (simp_all add: last_of_def)

lemma set_tail_slice: "set (tail_slice n xs) \<subseteq> set xs"
  by (auto simp: tail_slice_def dest: in_set_dropD)

text \<open>\<open>max(xs, key=...)\<close> with a tuple of keys, as a preference of one element over another: what the
  choice relies on is that the preference is asymmetric and that its negation is transitive.\<close>

locale preference =
  fixes better :: "'a \<Rightarrow> 'a \<Rightarrow> bool"
  assumes asymmetric: "better x y \<Longrightarrow> \<not> better y x"
    and negatively_transitive: "\<not> better x y \<Longrightarrow> \<not> better y z \<Longrightarrow> \<not> better x z"
begin

lemma fold_preferred:
  "fold (\<lambda>y best. if better y best then y else best) xs x \<in> insert x (set xs)
   \<and> (\<forall>y \<in> insert x (set xs). \<not> better y (fold (\<lambda>y best. if better y best then y else best) xs x))"
proof (induction xs arbitrary: x)
  case Nil
  then show ?case using asymmetric by auto
next
  case (Cons a xs)
  show ?case
  proof (cases "better a x")
    case True
    then have "\<not> better x (fold (\<lambda>y best. if better y best then y else best) xs a)"
      using Cons.IH [of a] asymmetric negatively_transitive by (meson insertI1)
    then show ?thesis using Cons.IH [of a] True by auto
  next
    case False
    then have "\<not> better a (fold (\<lambda>y best. if better y best then y else best) xs x)"
      using Cons.IH [of x] negatively_transitive by (meson insertI1)
    then show ?thesis using Cons.IH [of x] False by auto
  qed
qed

end

definition preferred :: "('a \<Rightarrow> 'a \<Rightarrow> bool) \<Rightarrow> 'a list \<Rightarrow> 'a option" where
  "preferred better xs =
     (case xs of [] \<Rightarrow> None | y # ys \<Rightarrow> Some (fold (\<lambda>z best. if better z best then z else best) ys y))"

context preference
begin

lemma preferred_Some:
  "preferred better xs = Some m \<Longrightarrow> m \<in> set xs \<and> (\<forall>y \<in> set xs. \<not> better y m)"
  using fold_preferred by (auto simp: preferred_def split: list.splits)

end

lemma preferred_None [simp]: "preferred better xs = None \<longleftrightarrow> xs = []"
  by (simp add: preferred_def split: list.split)

subsection \<open>True ranges and their averages\<close>

definition true_range :: "candle \<Rightarrow> candle \<Rightarrow> real" where
  "true_range previous c = max (candle_range c)
     (max \<bar>c_high c - c_close previous\<bar> \<bar>c_low c - c_close previous\<bar>)"

fun ranges_after :: "candle \<Rightarrow> candle list \<Rightarrow> real list" where
  "ranges_after previous [] = []"
| "ranges_after previous (c # cs) = true_range previous c # ranges_after c cs"

fun true_ranges :: "candle list \<Rightarrow> real list" where
  "true_ranges [] = []"
| "true_ranges (c # cs) = candle_range c # ranges_after c cs"

definition atr :: "candle list \<Rightarrow> nat \<Rightarrow> real" where
  "atr candles period =
     (if candles = [] then 0
      else (let ranges = true_ranges candles;
                window = (if length ranges \<ge> period then tail_slice period ranges else ranges)
            in sum_list window / real (length window)))"

text \<open>The loop of \<open>atr_series\<close> at one index, with the running sum of the first \<open>period\<close> ranges.\<close>

fun atr_walk :: "nat \<Rightarrow> real list \<Rightarrow> nat \<Rightarrow> real \<Rightarrow> real list \<Rightarrow> real list" where
  "atr_walk period ranges index running [] = []"
| "atr_walk period ranges index running (v # vs) =
     (if index < period then
        (running + v) / real (index + 1) # atr_walk period ranges (index + 1) (running + v) vs
      else
        sum_list (slice (index + 1 - period) (index + 1) ranges) / real period
          # atr_walk period ranges (index + 1) running vs)"

definition atr_series :: "candle list \<Rightarrow> nat \<Rightarrow> real list" where
  "atr_series candles period = (let ranges = true_ranges candles in atr_walk period ranges 0 0 ranges)"

definition average_body :: "candle list \<Rightarrow> real" where
  "average_body candles =
     (if candles = [] then 0 else sum_list (map body candles) / real (length candles))"

definition value_at :: "real list \<Rightarrow> real \<Rightarrow> real" where
  "value_at values fraction =
     (if values = [] then 0
      else (let ordered = sort values;
                position = max 0 (min (int (length ordered) - 1)
                  (round_half_even (fraction * of_int (int (length ordered) - 1))))
            in ordered ! nat position))"

subsection \<open>The rolling average is the average\<close>

lemma length_ranges_after [simp]: "length (ranges_after p cs) = length cs"
  by (induction p cs rule: ranges_after.induct) simp_all

lemma length_true_ranges [simp]: "length (true_ranges cs) = length cs"
  by (cases cs) simp_all

lemma ranges_after_take: "ranges_after p (take n cs) = take n (ranges_after p cs)"
  by (induction p cs arbitrary: n rule: ranges_after.induct) (simp_all add: take_Cons split: nat.split)

lemma true_ranges_take: "true_ranges (take n cs) = take n (true_ranges cs)"
  by (cases cs) (simp_all add: take_Cons ranges_after_take split: nat.split)

lemma length_atr_walk [simp]: "length (atr_walk period ranges index running vs) = length vs"
  by (induction period ranges index running vs rule: atr_walk.induct) simp_all

lemma length_atr_series [simp]: "length (atr_series cs period) = length cs"
  by (simp add: atr_series_def Let_def)

text \<open>The reference: the mean of the last \<open>period\<close> true ranges up to and including an index.\<close>

definition mean_range :: "real list \<Rightarrow> nat \<Rightarrow> nat \<Rightarrow> real" where
  "mean_range ranges period i =
     (let window = drop (Suc i - period) (take (Suc i) ranges) in sum_list window / real (length window))"

lemma atr_walk_nth:
  assumes "i < length vs" and "index + length vs \<le> length ranges"
    and "vs = drop index ranges" and "running = sum_list (take (min index period) ranges)" and "0 < period"
  shows "atr_walk period ranges index running vs ! i = mean_range ranges period (index + i)"
  using assms
proof (induction period ranges index running vs arbitrary: i rule: atr_walk.induct)
  case (2 period ranges index running v vs)
  have less: "index < length ranges" using 2(4) by simp
  have v: "v = ranges ! index" and vs: "vs = drop (index + 1) ranges"
    using 2(5) less by (metis Cons_nth_drop_Suc Suc_eq_plus1 list.inject)+
  show ?case
  proof (cases "index < period")
    case True
    then have r: "running + v = sum_list (take (Suc index) ranges)"
      using 2(6) v less by (simp add: take_Suc_conv_app_nth)
    show ?thesis
    proof (cases i)
      case 0
      have "length (take (Suc index) ranges) = index + 1" using less by simp
      then show ?thesis using 0 True r by (simp add: mean_range_def Let_def)
    next
      case (Suc j)
      have "min (index + 1) period = Suc index" using True by simp
      then show ?thesis using 2(1) [OF True, of j] 2(3,4,7) Suc True r vs by simp
    qed
  next
    case False
    show ?thesis
    proof (cases i)
      case 0
      have "slice (index + 1 - period) (index + 1) ranges = drop (Suc index - period) (take (Suc index) ranges)"
        by (simp add: slice_def take_drop)
      moreover have "length (drop (Suc index - period) (take (Suc index) ranges)) = period"
        using less False 2(7) by simp
      ultimately show ?thesis using 0 False by (simp add: mean_range_def Let_def)
    next
      case (Suc j)
      have "min (index + 1) period = min index period" using False by simp
      then show ?thesis using 2(2) [OF False, of j] 2(3,4,6,7) Suc False vs by simp
    qed
  qed
qed simp

lemma atr_series_nth:
  assumes "i < length cs" and "0 < period"
  shows "atr_series cs period ! i = mean_range (true_ranges cs) period i"
  using atr_walk_nth [of i "true_ranges cs" 0 "true_ranges cs" 0 period] assms
  by (simp add: atr_series_def Let_def)

lemma mean_range_take: "i < n \<Longrightarrow> mean_range (take n ranges) period i = mean_range ranges period i"
  by (simp add: mean_range_def min_absorb1)

lemma atr_series_take:
  assumes "0 < period"
  shows "atr_series (take n cs) period = take n (atr_series cs period)"
proof (rule nth_equalityI)
  show "length (atr_series (take n cs) period) = length (take n (atr_series cs period))" by simp
next
  fix i assume "i < length (atr_series (take n cs) period)"
  then show "atr_series (take n cs) period ! i = take n (atr_series cs period) ! i"
    using assms by (simp add: atr_series_nth true_ranges_take mean_range_take)
qed

lemma atr_is_last:
  assumes "cs \<noteq> []" and "0 < period"
  shows "atr cs period = last (atr_series cs period)"
proof -
  have "atr_series cs period \<noteq> []" using assms(1) by (simp flip: length_greater_0_conv)
  then have "last (atr_series cs period) = mean_range (true_ranges cs) period (length cs - 1)"
    using assms by (simp add: last_conv_nth atr_series_nth)
  also have "\<dots> = atr cs period"
    using assms by (cases "length cs \<ge> period")
      (auto simp: mean_range_def atr_def tail_slice_def Let_def Suc_diff_le)
  finally show ?thesis by simp
qed

lemma ranges_after_nonneg: "list_all candle_ok cs \<Longrightarrow> \<forall>v \<in> set (ranges_after p cs). 0 \<le> v"
  by (induction p cs rule: ranges_after.induct) (auto simp: true_range_def le_max_iff_disj)

lemma true_ranges_nonneg: "list_all candle_ok cs \<Longrightarrow> \<forall>v \<in> set (true_ranges cs). 0 \<le> v"
  using ranges_after_nonneg by (cases cs) (auto simp: candle_ok_def candle_range_def)

subsection \<open>Loops over the candle indices\<close>

lemma atr_series_nonneg:
  assumes "list_all candle_ok cs" and "0 < period" and "i < length cs"
  shows "0 \<le> atr_series cs period ! i"
proof -
  have "\<forall>v \<in> set (drop (Suc i - period) (take (Suc i) (true_ranges cs))). 0 \<le> v"
    using true_ranges_nonneg [OF assms(1)] by (auto dest: in_set_dropD in_set_takeD)
  then have "0 \<le> sum_list (drop (Suc i - period) (take (Suc i) (true_ranges cs)))"
    by (simp add: sum_list_nonneg)
  then show ?thesis using assms by (simp add: atr_series_nth mean_range_def)
qed

lemma map_filter_cong:
  "(\<And>x. x \<in> set xs \<Longrightarrow> f x = g x) \<Longrightarrow> List.map_filter f xs = List.map_filter g xs"
  by (induction xs) (auto split: option.split)

lemma map_map_filter: "map g (List.map_filter f xs) = List.map_filter (\<lambda>x. map_option g (f x)) xs"
  by (induction xs) (auto split: option.split)

lemma filter_map_filter:
  "(\<And>x y. f x = Some y \<Longrightarrow> P y = Q x) \<Longrightarrow>
   filter P (List.map_filter f xs) = List.map_filter (\<lambda>x. if Q x then f x else None) xs"
  by (induction xs) (auto split: option.split)

text \<open>A loop that reports at most one finding per index, each from the candles up to it.\<close>

lemma map_filter_index:
  assumes "\<And>i. i < n \<Longrightarrow> i < length cs \<Longrightarrow> f (take n cs) i = f cs i"
    and "\<And>i e. f cs i = Some e \<Longrightarrow> k e = i"
  shows "List.map_filter (f (take n cs)) [0 ..< length (take n cs)]
    = filter (\<lambda>e. k e < n) (List.map_filter (f cs) [0 ..< length cs])"
proof -
  let ?m = "length (take n cs)"
  have "List.map_filter (f (take n cs)) [0 ..< ?m] = List.map_filter (f cs) [0 ..< ?m]"
    using assms(1) by (intro map_filter_cong) auto
  also have "\<dots> = filter (\<lambda>e. k e < n) (List.map_filter (f cs) [0 ..< length cs])"
  proof -
    have split: "[0 ..< length cs] = [0 ..< ?m] @ [?m ..< length cs]"
      using upt_add_eq_append [of 0 ?m "length cs - ?m"] by simp
    have a: "filter (\<lambda>e. k e < n) (List.map_filter (f cs) [0 ..< ?m]) = List.map_filter (f cs) [0 ..< ?m]"
      using assms(2) by (fastforce simp: filter_id_conv set_map_filter)
    have b: "filter (\<lambda>e. k e < n) (List.map_filter (f cs) [?m ..< length cs]) = []"
      using assms(2) by (fastforce simp: filter_empty_conv set_map_filter)
    show ?thesis unfolding split map_filter_append filter_append a b by simp
  qed
  finally show ?thesis .
qed


lemma indices_increase:
  assumes "\<And>i e. f i = Some e \<Longrightarrow> k e = i"
  shows "sorted_wrt (\<lambda>d e. k d < (k e :: nat)) (List.map_filter f [a ..< b])"
proof (induction b)
  case (Suc b)
  show ?case using Suc assms
    by (auto simp: map_filter_append sorted_wrt_append set_map_filter split: option.split)
qed simp

subsection \<open>Sample series\<close>

definition bar :: "int \<Rightarrow> real \<Rightarrow> real \<Rightarrow> real \<Rightarrow> real \<Rightarrow> candle" where
  "bar k o' h l c = \<lparr> c_timestamp = k * 900000000, c_open = o', c_high = h, c_low = l, c_close = c,
     c_volume = 0, c_timeframe = ''M15'' \<rparr>"

lemma bar_fields [simp]:
  "c_timestamp (bar k o' h l c) = k * 900000000" "c_open (bar k o' h l c) = o'"
  "c_high (bar k o' h l c) = h" "c_low (bar k o' h l c) = l" "c_close (bar k o' h l c) = c"
  "c_timeframe (bar k o' h l c) = ''M15''" "c_volume (bar k o' h l c) = 0"
  by (simp_all add: bar_def)

definition zigzag :: "candle list" where
  "zigzag = [bar 0 1 2 1 2, bar 1 2 3 2 2, bar 2 2 2 (1 / 2) 1, bar 3 1 2 1 2]"

end
