(* ===== verification/Swings.thy ===== *)
theory Swings
  imports Indicators
begin

text \<open>
  Swing detection, \<open>bot/smc/swings.py\<close>: strict fractal pivots with the candle at which each is
  knowable, the protected and external levels, and the trend read from confirmed pivots. The
  interface \<open>causal_detector\<close> states what the engine relies on in every detector of this kind:
  that a truncated series shows exactly the findings already confirmed in it.
\<close>

subsection \<open>Detectors that do not repaint\<close>

locale causal_detector =
  fixes detect :: "candle list \<Rightarrow> 'e list"
    and known_from :: "'e \<Rightarrow> nat"
  assumes prefix: "detect (take n cs) = filter (\<lambda>e. known_from e < n) (detect cs)"
begin

lemma only_the_past:
  assumes "take n cs = take n cs'"
  shows "filter (\<lambda>e. known_from e < n) (detect cs) = filter (\<lambda>e. known_from e < n) (detect cs')"
  using assms by (simp flip: prefix)

lemma keeps_findings: "set (detect (take n cs)) \<subseteq> set (detect cs)"
  by (simp add: prefix)

lemma known_in_series: "e \<in> set (detect cs) \<Longrightarrow> known_from e < length cs"
proof -
  have "detect cs = filter (\<lambda>e. known_from e < length cs) (detect cs)"
    using prefix [of "length cs" cs] by simp
  then show "e \<in> set (detect cs) \<Longrightarrow> known_from e < length cs"
    by (simp add: eq_commute [of "detect cs"] filter_id_conv)
qed

end

subsection \<open>Pivots\<close>

datatype swing_kind = High | Low

record swing_point =
  sw_index :: nat
  sw_confirmed_index :: nat
  sw_timestamp :: micros
  sw_price :: real
  sw_kind :: swing_kind
  sw_strength :: nat

record swing_set =
  ss_highs :: "swing_point list"
  ss_lows :: "swing_point list"

definition known_highs :: "swing_set \<Rightarrow> int \<Rightarrow> swing_point list" where
  "known_highs swings at_index = filter (\<lambda>p. int (sw_confirmed_index p) \<le> at_index) (ss_highs swings)"

definition known_lows :: "swing_set \<Rightarrow> int \<Rightarrow> swing_point list" where
  "known_lows swings at_index = filter (\<lambda>p. int (sw_confirmed_index p) \<le> at_index) (ss_lows swings)"

definition neighbours :: "candle list \<Rightarrow> nat \<Rightarrow> nat \<Rightarrow> candle list" where
  "neighbours candles window i =
     slice (i - window) i candles @ slice (i + 1) (i + window + 1) candles"

definition is_high :: "candle list \<Rightarrow> nat \<Rightarrow> nat \<Rightarrow> bool" where
  "is_high candles window i =
     list_all (\<lambda>other. c_high (candles ! i) > c_high other) (neighbours candles window i)"

definition is_low :: "candle list \<Rightarrow> nat \<Rightarrow> nat \<Rightarrow> bool" where
  "is_low candles window i =
     list_all (\<lambda>other. c_low (candles ! i) < c_low other) (neighbours candles window i)"

definition high_point :: "candle list \<Rightarrow> nat \<Rightarrow> nat \<Rightarrow> swing_point" where
  "high_point candles window i =
     \<lparr> sw_index = i, sw_confirmed_index = i + window, sw_timestamp = c_timestamp (candles ! i),
       sw_price = c_high (candles ! i), sw_kind = High, sw_strength = window \<rparr>"

definition low_point :: "candle list \<Rightarrow> nat \<Rightarrow> nat \<Rightarrow> swing_point" where
  "low_point candles window i =
     \<lparr> sw_index = i, sw_confirmed_index = i + window, sw_timestamp = c_timestamp (candles ! i),
       sw_price = c_low (candles ! i), sw_kind = Low, sw_strength = window \<rparr>"

definition swing_highs :: "nat \<Rightarrow> candle list \<Rightarrow> swing_point list" where
  "swing_highs window candles =
     map (high_point candles window)
       (filter (is_high candles window) [window ..< length candles - window])"

definition swing_lows :: "nat \<Rightarrow> candle list \<Rightarrow> swing_point list" where
  "swing_lows window candles =
     map (low_point candles window)
       (filter (is_low candles window) [window ..< length candles - window])"

text \<open>A window below one is the \<open>ValueError\<close> of the code.\<close>

definition detect_swings :: "candle list \<Rightarrow> int \<Rightarrow> swing_set option" where
  "detect_swings candles window =
     (if window < 1 then None
      else Some \<lparr> ss_highs = swing_highs (nat window) candles,
                  ss_lows = swing_lows (nat window) candles \<rparr>)"

subsection \<open>Structure of the pivots\<close>

record structure_levels =
  external_high :: "swing_point option"
  external_low :: "swing_point option"
  internal_high :: "swing_point option"
  internal_low :: "swing_point option"
  protected_high :: "swing_point option"
  protected_low :: "swing_point option"

definition classify_structure :: "swing_set \<Rightarrow> int \<Rightarrow> structure_levels" where
  "classify_structure swings at_index =
     (let highs = known_highs swings at_index; lows = known_lows swings at_index in
      \<lparr> external_high = max_by sw_price (tail_slice 6 highs),
        external_low = min_by sw_price (tail_slice 6 lows),
        internal_high = last_of highs,
        internal_low = last_of lows,
        protected_high = (case last_of lows of None \<Rightarrow> None
            | Some l \<Rightarrow> last_of (filter (\<lambda>p. sw_index p < sw_index l) highs)),
        protected_low = (case last_of highs of None \<Rightarrow> None
            | Some h \<Rightarrow> last_of (filter (\<lambda>p. sw_index p < sw_index h) lows)) \<rparr>)"

text \<open>Of a sweep the reading of swings needs its candle and its direction.\<close>

type_synonym sweep_mark = "nat \<times> candle_direction"

definition without_swept_points :: "swing_set \<Rightarrow> sweep_mark list \<Rightarrow> swing_set" where
  "without_swept_points swings sweeps =
     (let highs = filter (\<lambda>p. (sw_index p, Bearish) \<notin> set sweeps) (ss_highs swings);
          lows = filter (\<lambda>p. (sw_index p, Bullish) \<notin> set sweeps) (ss_lows swings)
      in \<lparr> ss_highs = (if highs \<noteq> [] then highs else ss_highs swings),
           ss_lows = (if lows \<noteq> [] then lows else ss_lows swings) \<rparr>)"

datatype bias = Bullish_Bias | Bearish_Bias | Range_Bias

text \<open>The last two prices of a sequence of points, when there are two.\<close>

definition last_step :: "(real \<Rightarrow> real \<Rightarrow> bool) \<Rightarrow> swing_point list \<Rightarrow> bool" where
  "last_step r points =
     (length points \<ge> 2 \<and> r (sw_price (points ! (length points - 2))) (sw_price (points ! (length points - 1))))"

definition swing_bias :: "swing_set \<Rightarrow> int \<Rightarrow> bias" where
  "swing_bias swings at_index =
     (let highs = known_highs swings at_index; lows = known_lows swings at_index in
      if length highs < 2 \<and> length lows < 2 then Range_Bias
      else
        (let higher_highs = last_step (\<lambda>a b. b > a) highs; lower_highs = last_step (\<lambda>a b. b < a) highs;
             higher_lows = last_step (\<lambda>a b. b > a) lows; lower_lows = last_step (\<lambda>a b. b < a) lows in
         if (higher_highs \<or> higher_lows) \<and> \<not> lower_highs \<and> \<not> lower_lows then Bullish_Bias
         else if (lower_highs \<or> lower_lows) \<and> \<not> higher_highs \<and> \<not> higher_lows then Bearish_Bias
         else Range_Bias))"

subsection \<open>Pivots are exact\<close>

lemma set_slice: "b \<le> length xs \<Longrightarrow> set (slice a b xs) = {xs ! j | j. a \<le> j \<and> j < b}"
proof (intro equalityI subsetI)
  assume b: "b \<le> length xs"
  show "x \<in> {xs ! j | j. a \<le> j \<and> j < b}" if "x \<in> set (slice a b xs)" for x
  proof -
    from that obtain k where "k < length (slice a b xs)" "x = slice a b xs ! k"
      by (metis in_set_conv_nth)
    then show ?thesis using b by (intro CollectI exI [of _ "a + k"]) (auto simp: slice_def)
  qed
  show "x \<in> set (slice a b xs)" if "x \<in> {xs ! j | j. a \<le> j \<and> j < b}" for x
  proof -
    from that obtain j where "x = xs ! j" "a \<le> j" "j < b" by blast
    then have "slice a b xs ! (j - a) = x" and "j - a < length (slice a b xs)"
      using b by (auto simp: slice_def)
    then show ?thesis by (metis nth_mem)
  qed
qed

lemma set_neighbours:
  assumes "window \<le> i" and "i + window < length cs"
  shows "set (neighbours cs window i) = {cs ! j | j. i - window \<le> j \<and> j \<le> i + window \<and> j \<noteq> i}"
proof -
  have "set (neighbours cs window i) = {cs ! j | j. i - window \<le> j \<and> j < i} \<union> {cs ! j | j. i + 1 \<le> j \<and> j < i + window + 1}"
    using assms by (simp add: neighbours_def set_slice)
  also have "\<dots> = {cs ! j | j. i - window \<le> j \<and> j \<le> i + window \<and> j \<noteq> i}"
    by (auto simp: set_eq_iff) (metis Suc_leI less_Suc_eq_le linorder_neqE_nat)+
  finally show ?thesis .
qed

lemma is_high_iff:
  assumes "window \<le> i" and "i + window < length cs"
  shows "is_high cs window i \<longleftrightarrow>
    (\<forall>j \<in> {i - window .. i + window} - {i}. c_high (cs ! j) < c_high (cs ! i))"
  unfolding is_high_def list_all_iff set_neighbours [OF assms] by fastforce

lemma is_low_iff:
  assumes "window \<le> i" and "i + window < length cs"
  shows "is_low cs window i \<longleftrightarrow>
    (\<forall>j \<in> {i - window .. i + window} - {i}. c_low (cs ! i) < c_low (cs ! j))"
  unfolding is_low_def list_all_iff set_neighbours [OF assms] by fastforce

lemma neighbours_take:
  "i + window < n \<Longrightarrow> neighbours (take n cs) window i = neighbours cs window i"
  by (simp add: neighbours_def slice_def drop_take min_def)

lemma upt_filter_prefix:
  "m \<le> n \<Longrightarrow> filter P [a ..< m] = filter (\<lambda>i. P i \<and> i < m) [a ..< (n::nat)]"
proof -
  assume "m \<le> n"
  then have "filter (\<lambda>i. i < m) [a ..< n] = [a ..< m]"
  proof (induction n)
    case (Suc n)
    then show ?case by (cases "m = Suc n") (auto simp: filter_id_conv)
  qed simp
  then show ?thesis by (metis (no_types, lifting) filter_cong filter_filter conj_commute)
qed

lemma pivots_take:
  assumes "\<And>i. i + w < n \<Longrightarrow> P (take n cs) i = P cs i"
    and "\<And>i. i + w < n \<Longrightarrow> f (take n cs) i = f cs i"
    and "\<And>i. k (f cs i) = i + w"
  shows "map (f (take n cs)) (filter (P (take n cs)) [w ..< length (take n cs) - w])
    = filter (\<lambda>e. k e < n) (map (f cs) (filter (P cs) [w ..< length cs - w]))"
proof -
  let ?m = "length (take n cs) - w"
  have "filter (P (take n cs)) [w ..< ?m] = filter (P cs) [w ..< ?m]"
    using assms(1) by (intro filter_cong refl) (auto simp: less_diff_conv)
  also have "\<dots> = filter (\<lambda>i. P cs i \<and> i < ?m) [w ..< length cs - w]"
    by (rule upt_filter_prefix) (simp add: diff_le_mono)
  also have "\<dots> = filter (\<lambda>i. P cs i \<and> i + w < n) [w ..< length cs - w]"
    by (rule filter_cong) (auto simp: less_diff_conv)
  finally have f: "filter (P (take n cs)) [w ..< ?m] = filter (\<lambda>i. P cs i \<and> i + w < n) [w ..< length cs - w]" .
  show ?thesis unfolding f filter_map o_def assms(3) filter_filter
    using assms(2) by (auto intro!: map_cong filter_cong simp: conj_commute)
qed

lemma swing_highs_take:
  "swing_highs window (take n cs) = filter (\<lambda>p. sw_confirmed_index p < n) (swing_highs window cs)"
  unfolding swing_highs_def
  by (rule pivots_take [where P = "\<lambda>c. is_high c window" and f = "\<lambda>c. high_point c window"])
    (auto simp: is_high_def high_point_def neighbours_take)

lemma swing_lows_take:
  "swing_lows window (take n cs) = filter (\<lambda>p. sw_confirmed_index p < n) (swing_lows window cs)"
  unfolding swing_lows_def
  by (rule pivots_take [where P = "\<lambda>c. is_low c window" and f = "\<lambda>c. low_point c window"])
    (auto simp: is_low_def low_point_def neighbours_take)

interpretation highs: causal_detector "swing_highs window" sw_confirmed_index for window
  by unfold_locales (rule swing_highs_take)

interpretation lows: causal_detector "swing_lows window" sw_confirmed_index for window
  by unfold_locales (rule swing_lows_take)

lemma swing_highs_mem:
  "p \<in> set (swing_highs w cs) \<longleftrightarrow>
     (\<exists>i. w \<le> i \<and> i + w < length cs \<and> is_high cs w i \<and> p = high_point cs w i)"
  by (auto simp: swing_highs_def less_diff_conv)

lemma swing_lows_mem:
  "p \<in> set (swing_lows w cs) \<longleftrightarrow>
     (\<exists>i. w \<le> i \<and> i + w < length cs \<and> is_low cs w i \<and> p = low_point cs w i)"
  by (auto simp: swing_lows_def less_diff_conv)

lemma pivot_indices_increase:
  "sorted_wrt (\<lambda>p q. sw_index p < sw_index q) (swing_highs w cs)"
  "sorted_wrt (\<lambda>p q. sw_index p < sw_index q) (swing_lows w cs)"
  by (simp_all add: swing_highs_def swing_lows_def sorted_wrt_map high_point_def low_point_def
    sorted_wrt_filter)

lemma known_highs_point: "p \<in> set (known_highs s t) \<Longrightarrow> p \<in> set (ss_highs s) \<and> int (sw_confirmed_index p) \<le> t"
  by (auto simp: known_highs_def)

lemma known_lows_point: "p \<in> set (known_lows s t) \<Longrightarrow> p \<in> set (ss_lows s) \<and> int (sw_confirmed_index p) \<le> t"
  by (auto simp: known_lows_def)

text \<open>The pivots by their definition, over candle indices.\<close>

definition pivot_highs :: "candle list \<Rightarrow> nat \<Rightarrow> nat set" where
  "pivot_highs cs w = {i. w \<le> i \<and> i + w < length cs
     \<and> (\<forall>j \<in> {i - w .. i + w} - {i}. c_high (cs ! j) < c_high (cs ! i))}"

definition pivot_lows :: "candle list \<Rightarrow> nat \<Rightarrow> nat set" where
  "pivot_lows cs w = {i. w \<le> i \<and> i + w < length cs
     \<and> (\<forall>j \<in> {i - w .. i + w} - {i}. c_low (cs ! i) < c_low (cs ! j))}"

lemma swing_highs_indices: "sw_index ` set (swing_highs w cs) = pivot_highs cs w"
proof -
  have "sw_index ` set (swing_highs w cs) = {i. w \<le> i \<and> i + w < length cs \<and> is_high cs w i}"
    by (force simp: swing_highs_def high_point_def less_diff_conv)
  also have "\<dots> = pivot_highs cs w"
    unfolding pivot_highs_def by (rule Collect_cong) (metis is_high_iff)
  finally show ?thesis .
qed

lemma swing_lows_indices: "sw_index ` set (swing_lows w cs) = pivot_lows cs w"
proof -
  have "sw_index ` set (swing_lows w cs) = {i. w \<le> i \<and> i + w < length cs \<and> is_low cs w i}"
    by (force simp: swing_lows_def low_point_def less_diff_conv)
  also have "\<dots> = pivot_lows cs w"
    unfolding pivot_lows_def by (rule Collect_cong) (metis is_low_iff)
  finally show ?thesis .
qed

text \<open>C31. Swing detection is exact and never repaints: a candle is reported as a swing high
  exactly when it strictly exceeds every candle within the window on both sides (a swing low
  likewise), and truncating the series after any candle shows exactly the pivots confirmed by
  then.\<close>

theorem swings_exact_and_causal:
  assumes "detect_swings cs window = Some full"
    and "detect_swings (take n cs) window = Some truncated"
  shows "set (map sw_index (ss_highs full)) = pivot_highs cs (nat window)
    \<and> set (map sw_index (ss_lows full)) = pivot_lows cs (nat window)
    \<and> ss_highs truncated = known_highs full (int n - 1)
    \<and> ss_lows truncated = known_lows full (int n - 1)"
proof -
  have full: "full = \<lparr> ss_highs = swing_highs (nat window) cs, ss_lows = swing_lows (nat window) cs \<rparr>"
    and truncated: "truncated = \<lparr> ss_highs = swing_highs (nat window) (take n cs),
      ss_lows = swing_lows (nat window) (take n cs) \<rparr>"
    using assms by (auto simp: detect_swings_def split: if_splits)
  have int: "int c \<le> int n - 1 \<longleftrightarrow> c < n" for c by linarith
  show ?thesis
    by (simp add: full truncated known_highs_def known_lows_def int swing_highs_take swing_lows_take
      swing_highs_indices swing_lows_indices)
qed

theorem swings_exact_and_causal_witness:
  "\<exists>full truncated. detect_swings zigzag 1 = Some full
     \<and> detect_swings (take 3 zigzag) 1 = Some truncated
     \<and> pivot_highs zigzag 1 = {1} \<and> pivot_lows zigzag 1 = {2}
     \<and> map sw_price (ss_highs truncated) = [3] \<and> ss_lows truncated = []"
proof -
  let ?full = "\<lparr> ss_highs = swing_highs 1 zigzag, ss_lows = swing_lows 1 zigzag \<rparr>"
  let ?cut = "\<lparr> ss_highs = swing_highs 1 (take 3 zigzag), ss_lows = swing_lows 1 (take 3 zigzag) \<rparr>"
  have f: "detect_swings zigzag 1 = Some ?full" and c: "detect_swings (take 3 zigzag) 1 = Some ?cut"
    by (simp_all add: detect_swings_def)
  have h: "swing_highs 1 zigzag = [high_point zigzag 1 1]" and l: "swing_lows 1 zigzag = [low_point zigzag 1 2]"
    by (simp_all add: swing_highs_def swing_lows_def is_high_def is_low_def neighbours_def slice_def
      zigzag_def bar_def upt_rec numeral_2_eq_2)
  have price: "sw_price (high_point zigzag 1 1) = 3"
    by (simp add: high_point_def zigzag_def bar_def)
  have index: "sw_index (high_point zigzag 1 1) = 1" "sw_index (low_point zigzag 1 2) = 2"
    "sw_confirmed_index (high_point zigzag 1 1) = 2" "sw_confirmed_index (low_point zigzag 1 2) = 3"
    by (simp_all add: high_point_def low_point_def)
  note exact = swings_exact_and_causal [OF f c]
  have pivots: "pivot_highs zigzag 1 = {1}" "pivot_lows zigzag 1 = {2}"
    using exact by (simp_all only: swing_set.simps h l list.map list.set index nat_one_as_int [symmetric])
  have "ss_highs ?cut = [high_point zigzag 1 1]" "ss_lows ?cut = []"
    using exact by (simp_all only: swing_set.simps h l known_highs_def known_lows_def filter.simps index) simp_all
  then show ?thesis
    by (intro exI [of _ ?full] exI [of _ ?cut] conjI f c pivots)
      (simp_all only: price list.map)
qed

end
