(* ===== verification/Displacement.thy ===== *)
theory Displacement
  imports Swings
begin

text \<open>
  Displacement, \<open>bot/smc/displacement.py\<close>: the candles whose body is large against the ATR,
  dominates its own range and follows the net move, graded between 0 and 1. What is known of a
  displacement at its own candle never changes later; whether it leaves a gap, and with it its
  quality, is read from the next candle as soon as there is one. The configured factors are
  positive and the body ratio below one, where the code divides by them.
\<close>

record displacement =
  dp_index :: nat
  dp_timestamp :: micros
  dp_direction :: candle_direction
  dp_body :: real
  dp_atr :: real
  dp_atr_multiple :: real
  dp_body_ratio :: real
  dp_leaves_gap :: bool
  dp_quality :: real

definition creates_gap :: "candle list \<Rightarrow> nat \<Rightarrow> candle_direction \<Rightarrow> bool" where
  "creates_gap candles index direction =
     (if index < 1 \<or> index + 1 \<ge> length candles then
        (if index \<ge> 1 then
           (let previous = candles ! (index - 1); current = candles ! index in
            if direction = Bullish then c_low current > c_high previous
            else c_high current < c_low previous)
         else False)
      else
        (let left = candles ! (index - 1); right = candles ! (index + 1) in
         if direction = Bullish then c_low right > c_high left
         else c_high right < c_low left))"

record displacement_params =
  dm_atr_period :: nat
  dm_atr_multiple :: real
  dm_body_ratio :: real
  dm_impulse_window :: nat

definition displacement_quality :: "displacement_params \<Rightarrow> real \<Rightarrow> real \<Rightarrow> bool \<Rightarrow> real" where
  "displacement_quality p multiple ratio leaves_gap =
     min 1 (45 / 100 * min (multiple / (dm_atr_multiple p * 2)) 1
        + 35 / 100 * min ((ratio - dm_body_ratio p) / (1 - dm_body_ratio p)) 1
        + (if leaves_gap then 20 / 100 else 5 / 100))"

text \<open>One turn of the loop; the series of ATR values is computed once.\<close>

definition displacement_of ::
  "displacement_params \<Rightarrow> candle list \<Rightarrow> real list \<Rightarrow> nat \<Rightarrow> displacement option" where
  "displacement_of p candles atrs index =
     (let candle = candles ! index; current_atr = atrs ! index in
      if index < dm_atr_period p div 2 then None
      else if current_atr \<le> 0 then None
      else
        (let multiple = body candle / current_atr;
             range = (if candle_range candle \<noteq> 0 then candle_range candle else current_atr);
             ratio = body candle / range in
         if multiple < dm_atr_multiple p \<or> ratio < dm_body_ratio p then None
         else if candle_direction candle = Neutral then None
         else
           (let net_move = c_close candle - c_open (candles ! (index + 1 - dm_impulse_window p)) in
            if candle_direction candle = Bullish \<and> net_move \<le> 0 then None
            else if candle_direction candle = Bearish \<and> net_move \<ge> 0 then None
            else
              (let leaves_gap = creates_gap candles index (candle_direction candle) in
               Some \<lparr> dp_index = index, dp_timestamp = c_timestamp candle,
                      dp_direction = candle_direction candle, dp_body = body candle,
                      dp_atr = current_atr, dp_atr_multiple = multiple, dp_body_ratio = ratio,
                      dp_leaves_gap = leaves_gap,
                      dp_quality = displacement_quality p multiple ratio leaves_gap \<rparr>))))"

definition detect_displacement :: "displacement_params \<Rightarrow> candle list \<Rightarrow> displacement list" where
  "detect_displacement p candles =
     List.map_filter (displacement_of p candles (atr_series candles (dm_atr_period p)))
       [0 ..< length candles]"

definition displacement_at :: "displacement list \<Rightarrow> int \<Rightarrow> int \<Rightarrow> displacement option" where
  "displacement_at displacements index tolerance =
     max_by dp_index (filter (\<lambda>d. index - tolerance \<le> int (dp_index d) \<and> int (dp_index d) \<le> index) displacements)"

subsection \<open>What is known at the candle\<close>

lemma displacement_of_Some:
  assumes "displacement_of p cs atrs i = Some d"
  shows "dp_index d = i" and "dp_direction d = candle_direction (cs ! i)" and "dp_direction d \<noteq> Neutral"
    and "0 < dp_atr d" and "dm_atr_multiple p * dp_atr d \<le> body (cs ! i)"
    and "dp_quality d = displacement_quality p (dp_atr_multiple d) (dp_body_ratio d) (dp_leaves_gap d)"
    and "dm_atr_multiple p \<le> dp_atr_multiple d" and "dm_body_ratio p \<le> dp_body_ratio d"
  using assms by (auto simp: displacement_of_def Let_def field_simps split: if_splits)

lemma detect_displacement_mem:
  "d \<in> set (detect_displacement p cs) \<longleftrightarrow>
     dp_index d < length cs \<and> displacement_of p cs (atr_series cs (dm_atr_period p)) (dp_index d) = Some d"
  by (auto simp: detect_displacement_def set_map_filter dest: displacement_of_Some(1))

lemma displacements_increase: "sorted_wrt (\<lambda>d e. dp_index d < dp_index e) (detect_displacement p cs)"
  unfolding detect_displacement_def by (rule indices_increase) (rule displacement_of_Some(1))

text \<open>A displacement without the two fields that look at the next candle.\<close>

definition core :: "displacement \<Rightarrow> displacement" where
  "core d = d\<lparr> dp_leaves_gap := False, dp_quality := 0 \<rparr>"

lemma core_fields [simp]: "dp_index (core d) = dp_index d" "dp_direction (core d) = dp_direction d"
  by (simp_all add: core_def)

lemma displacement_core_take:
  assumes "i < n" and "i < length cs" and "0 < period" and "0 < dm_impulse_window p"
  shows "map_option core (displacement_of p (take n cs) (atr_series (take n cs) period) i)
    = map_option core (displacement_of p cs (atr_series cs period) i)"
proof -
  have "i + 1 - dm_impulse_window p < n" using assms by simp
  then show ?thesis
    using assms by (auto simp: displacement_of_def Let_def core_def atr_series_take)
qed

lemma displacement_take:
  assumes "i + 1 < n" and "i < length cs" and "0 < period" and "0 < dm_impulse_window p"
  shows "displacement_of p (take n cs) (atr_series (take n cs) period) i
    = displacement_of p cs (atr_series cs period) i"
proof -
  have "creates_gap (take n cs) i dir = creates_gap cs i dir" for dir
    using assms by (auto simp: creates_gap_def Let_def)
  moreover have "i + 1 - dm_impulse_window p < n" using assms by simp
  ultimately show ?thesis
    using assms by (simp add: displacement_of_def Let_def atr_series_take)
qed

definition displacement_cores :: "displacement_params \<Rightarrow> candle list \<Rightarrow> displacement list" where
  "displacement_cores p cs = map core (detect_displacement p cs)"

lemma displacement_cores_take:
  assumes "0 < dm_atr_period p" and "0 < dm_impulse_window p"
  shows "displacement_cores p (take n cs) = filter (\<lambda>d. dp_index d < n) (displacement_cores p cs)"
  unfolding displacement_cores_def detect_displacement_def map_map_filter
  by (rule map_filter_index [where
        f = "\<lambda>cs i. map_option core (displacement_of p cs (atr_series cs (dm_atr_period p)) i)"])
    (use assms displacement_core_take displacement_of_Some(1) in auto)

interpretation impulse: causal_detector 
    "displacement_cores (p\<lparr> dm_atr_period := Suc k, dm_impulse_window := Suc j \<rparr>)" dp_index for p k j
  by unfold_locales (rule displacement_cores_take, simp_all)

lemma displacement_quality_bounds:
  assumes "0 < dm_atr_multiple p" and "dm_body_ratio p < 1"
    and "dm_atr_multiple p \<le> m" and "dm_body_ratio p \<le> r"
  shows "0 < displacement_quality p m r g \<and> displacement_quality p m r g \<le> 1"
proof -
  have "0 \<le> min (m / (dm_atr_multiple p * 2)) 1"
    and "0 \<le> min ((r - dm_body_ratio p) / (1 - dm_body_ratio p)) 1"
    using assms by simp_all
  then show ?thesis unfolding displacement_quality_def by (smt (verit) divide_pos_pos mult_nonneg_nonneg)
qed

subsection \<open>Causality and its exception\<close>

text \<open>A displacement is graded in (0, 1], meets both thresholds, follows its candle, and
  everything but its gap and its quality is fixed at its own candle: truncating the series
  shows the same displacements up to there, and one candle later gap and quality are final
  too.\<close>

theorem displacement_is_causal:
  assumes "0 < dm_atr_period p" and "0 < dm_impulse_window p" and "0 < dm_atr_multiple p"
    and "dm_body_ratio p < 1"
  shows "map core (detect_displacement p (take n cs))
      = filter (\<lambda>d. dp_index d < n) (map core (detect_displacement p cs))
    \<and> filter (\<lambda>d. dp_index d + 1 < n) (detect_displacement p (take n cs))
      = filter (\<lambda>d. dp_index d + 1 < n) (detect_displacement p cs)
    \<and> (\<forall>d \<in> set (detect_displacement p cs). 0 < dp_quality d \<and> dp_quality d \<le> 1
        \<and> dp_direction d = candle_direction (cs ! dp_index d) \<and> dp_direction d \<noteq> Neutral
        \<and> dm_atr_multiple p * dp_atr d \<le> body (cs ! dp_index d))"
proof -
  let ?f = "\<lambda>c. displacement_of p c (atr_series c (dm_atr_period p))"
  have cores: "map core (detect_displacement p (take n cs))
      = filter (\<lambda>d. dp_index d < n) (map core (detect_displacement p cs))"
    using displacement_cores_take [OF assms(1,2)] by (simp only: displacement_cores_def)
  let ?g = "\<lambda>c i. if i + 1 < n then ?f c i else None"
  have filtered: "filter (\<lambda>d. dp_index d + 1 < n) (List.map_filter (?f c) [0 ..< m])
      = List.map_filter (?g c) [0 ..< m]" for c m
    by (rule filter_map_filter) (auto dest: displacement_of_Some(1))
  have "List.map_filter (?g (take n cs)) [0 ..< length (take n cs)]
      = filter (\<lambda>d. dp_index d < n) (List.map_filter (?g cs) [0 ..< length cs])"
    by (rule map_filter_index)
      (use assms displacement_take displacement_of_Some(1) in \<open>auto split: if_splits\<close>)
  also have "\<dots> = List.map_filter (?g cs) [0 ..< length cs]"
    by (auto simp: filter_id_conv set_map_filter dest!: displacement_of_Some(1) split: if_splits)
  finally have settled: "filter (\<lambda>d. dp_index d + 1 < n) (detect_displacement p (take n cs))
      = filter (\<lambda>d. dp_index d + 1 < n) (detect_displacement p cs)"
    unfolding detect_displacement_def filtered .
  have "\<forall>d \<in> set (detect_displacement p cs). 0 < dp_quality d \<and> dp_quality d \<le> 1
        \<and> dp_direction d = candle_direction (cs ! dp_index d) \<and> dp_direction d \<noteq> Neutral
        \<and> dm_atr_multiple p * dp_atr d \<le> body (cs ! dp_index d)"
  proof
    fix d assume "d \<in> set (detect_displacement p cs)"
    then have d: "displacement_of p cs (atr_series cs (dm_atr_period p)) (dp_index d) = Some d"
      by (simp add: detect_displacement_mem)
    show "0 < dp_quality d \<and> dp_quality d \<le> 1
        \<and> dp_direction d = candle_direction (cs ! dp_index d) \<and> dp_direction d \<noteq> Neutral
        \<and> dm_atr_multiple p * dp_atr d \<le> body (cs ! dp_index d)"
      using displacement_quality_bounds [OF assms(3,4) displacement_of_Some(7,8) [OF d]]
        displacement_of_Some(2,3,5,6) [OF d] by simp
  qed
  with cores settled show ?thesis by blast
qed

text \<open>The defaults of the configuration, and a quiet series that ends in a down candle and an
  impulse.\<close>

definition default_displacement :: displacement_params where
  "default_displacement = \<lparr> dm_atr_period = 14, dm_atr_multiple = 13 / 10, dm_body_ratio = 55 / 100,
     dm_impulse_window = 3 \<rparr>"

definition impulse_series :: "candle list" where
  "impulse_series = map (\<lambda>k. bar (int k) 1 2 1 1) [0 ..< 6] @ [bar 6 2 2 1 1, bar 7 1 4 1 4, bar 8 4 5 3 5]"

lemma impulse_series_unfold:
  "impulse_series = [bar 0 1 2 1 1, bar 1 1 2 1 1, bar 2 1 2 1 1, bar 3 1 2 1 1, bar 4 1 2 1 1,
     bar 5 1 2 1 1, bar 6 2 2 1 1, bar 7 1 4 1 4, bar 8 4 5 3 5]"
  by (simp add: impulse_series_def upt_rec)

lemma impulse_bars:
  "impulse_series ! 5 = bar 5 1 2 1 1" "impulse_series ! 6 = bar 6 2 2 1 1"
  "impulse_series ! 7 = bar 7 1 4 1 4" "impulse_series ! 8 = bar 8 4 5 3 5" "length impulse_series = 9"
  by (simp_all add: impulse_series_unfold)

lemma impulse_ranges: "true_ranges impulse_series = [1, 1, 1, 1, 1, 1, 1, 3, 2]"
  by (simp add: impulse_series_unfold true_range_def candle_range_def max_def)

lemma impulse_atr: "atr_series impulse_series 14 ! 7 = 5 / 4"
  by (simp add: atr_series_nth impulse_bars mean_range_def impulse_ranges)

lemmas impulse_eval = displacement_of_def Let_def default_displacement_def body_def candle_range_def
  candle_direction_def creates_gap_def impulse_bars impulse_atr

definition impulse :: "bool \<Rightarrow> displacement" where
  "impulse gap = \<lparr> dp_index = 7, dp_timestamp = 6300000000, dp_direction = Bullish, dp_body = 3,
       dp_atr = 5 / 4, dp_atr_multiple = 12 / 5, dp_body_ratio = 1, dp_leaves_gap = gap,
       dp_quality = displacement_quality default_displacement (12 / 5) 1 gap \<rparr>"

lemma impulse_fields [simp]:
  "dp_index (impulse g) = 7" "dp_direction (impulse g) = Bullish" "dp_leaves_gap (impulse g) = g"
  by (simp_all add: impulse_def)

lemma impulse_found:
  "impulse True \<in> set (detect_displacement default_displacement impulse_series)"
  "impulse False \<in> set (detect_displacement default_displacement (take 8 impulse_series))"
  by (simp_all add: detect_displacement_mem impulse_def impulse_eval atr_series_take)

theorem displacement_is_causal_witness:
  "map core (detect_displacement default_displacement (take 8 impulse_series))
     = filter (\<lambda>d. dp_index d < 8) (map core (detect_displacement default_displacement impulse_series))
   \<and> detect_displacement default_displacement impulse_series \<noteq> []"
  using displacement_is_causal [of default_displacement 8 impulse_series] impulse_found
  by (auto simp: default_displacement_def)

text \<open>The last displacement of a series repaints: the gap is read from the next candle, so
  the same displacement gains a gap and quality when that candle prints, although the scan is
  documented to use only data up to each index.\<close>

theorem last_displacement_repaints:
  "\<exists>d \<in> set (detect_displacement default_displacement (take 8 impulse_series)).
   \<exists>e \<in> set (detect_displacement default_displacement impulse_series).
     dp_index d = 7 \<and> dp_index e = 7 \<and> \<not> dp_leaves_gap d \<and> dp_leaves_gap e
     \<and> dp_quality d < dp_quality e"
proof -
  have "dp_quality (impulse False) < dp_quality (impulse True)"
    by (simp add: displacement_quality_def default_displacement_def impulse_def)
  then show ?thesis
    by (intro bexI [of _ "impulse False"] bexI [of _ "impulse True"] impulse_found)
      (simp_all add: impulse_def)
qed

end
