(* ===== verification/Structure.thy ===== *)
theory Structure
  imports Displacement
begin

text \<open>
  Breaks of structure and changes of character, \<open>bot/smc/structure.py\<close>. The loop over the
  candles carries the levels already broken, the prevailing trend and the events so far; its
  body is one step of a fold. The buffer is a fraction of the ATR at the candle.
\<close>

datatype break_type = BOS | CHoCH

record structure_event =
  se_index :: nat
  se_timestamp :: micros
  se_direction :: candle_direction
  se_event_type :: break_type
  se_level :: real
  se_level_index :: nat
  se_close :: real
  se_displaced :: bool
  se_displacement_quality :: real
  se_clearance_atr :: real

record structure_state =
  st_broken :: "(swing_kind \<times> nat) list"
  st_trend :: "bias option"
  st_events :: "structure_event list"

definition direction_bias :: "candle_direction \<Rightarrow> bias" where
  "direction_bias d = (case d of Bullish \<Rightarrow> Bullish_Bias | Bearish \<Rightarrow> Bearish_Bias | Neutral \<Rightarrow> Range_Bias)"

definition break_event ::
  "candle \<Rightarrow> nat \<Rightarrow> real \<Rightarrow> displacement list \<Rightarrow> bias option \<Rightarrow> candle_direction \<Rightarrow> swing_point \<Rightarrow> structure_event" where
  "break_event candle index current_atr displacements trend direction target =
     (let move = displacement_at displacements (int index) 1 in
      \<lparr> se_index = index, se_timestamp = c_timestamp candle, se_direction = direction,
        se_event_type = (if direction = Bullish then (if trend = Some Bearish_Bias then CHoCH else BOS)
                         else (if trend = Some Bullish_Bias then CHoCH else BOS)),
        se_level = sw_price target, se_level_index = sw_index target, se_close = c_close candle,
        se_displaced = (move \<noteq> None),
        se_displacement_quality = (case move of None \<Rightarrow> 0 | Some d \<Rightarrow> dp_quality d),
        se_clearance_atr = (if direction = Bullish then (c_close candle - sw_price target) / current_atr
                            else (sw_price target - c_close candle) / current_atr) \<rparr>)"

definition record_break :: "swing_kind \<Rightarrow> structure_event \<Rightarrow> structure_state \<Rightarrow> structure_state" where
  "record_break kind event st =
     \<lparr> st_broken = (kind, se_level_index event) # st_broken st,
       st_trend = Some (direction_bias (se_direction event)), st_events = st_events st @ [event] \<rparr>"

definition infer_trend :: "swing_set \<Rightarrow> nat \<Rightarrow> bias option \<Rightarrow> bias option" where
  "infer_trend swings index trend =
     (case trend of Some b \<Rightarrow> Some b
      | None \<Rightarrow> (let inferred = swing_bias swings (int index) in
                 if inferred \<noteq> Range_Bias then Some inferred else None))"

definition target_of :: "swing_kind \<Rightarrow> (swing_kind \<times> nat) list \<Rightarrow> nat \<Rightarrow> swing_point list \<Rightarrow> swing_point option" where
  "target_of kind broken index points =
     last_of (filter (\<lambda>p. sw_index p < index \<and> (kind, sw_index p) \<notin> set broken) points)"

definition structure_step ::
  "real \<Rightarrow> candle list \<Rightarrow> swing_set \<Rightarrow> displacement list \<Rightarrow> real list \<Rightarrow> nat \<Rightarrow> structure_state \<Rightarrow> structure_state" where
  "structure_step buffer_atr candles swings displacements atrs index st =
     (let candle = candles ! index; current_atr = (if atrs ! index > 0 then atrs ! index else 0) in
      if current_atr \<le> 0 then st
      else
        (let buffer = current_atr * buffer_atr;
             trend = infer_trend swings index (st_trend st);
             target_high = target_of High (st_broken st) index (known_highs swings (int index));
             target_low = target_of Low (st_broken st) index (known_lows swings (int index));
             st' = st\<lparr> st_trend := trend \<rparr>;
             low_break = (case target_low of None \<Rightarrow> st'
               | Some t \<Rightarrow> if c_close candle < sw_price t - buffer
                   then record_break Low (break_event candle index current_atr displacements trend Bearish t) st'
                   else st')
         in (case target_high of None \<Rightarrow> low_break
             | Some t \<Rightarrow> if c_close candle > sw_price t + buffer
                 then record_break High (break_event candle index current_atr displacements trend Bullish t) st'
                 else low_break)))"

definition structure_run ::
  "nat \<Rightarrow> real \<Rightarrow> candle list \<Rightarrow> swing_set \<Rightarrow> displacement list \<Rightarrow> nat list \<Rightarrow> structure_state" where
  "structure_run atr_period buffer_atr candles swings displacements indices =
     fold (structure_step buffer_atr candles swings displacements (atr_series candles atr_period)) indices
       \<lparr> st_broken = [], st_trend = None, st_events = [] \<rparr>"

definition detect_structure_events ::
  "nat \<Rightarrow> real \<Rightarrow> candle list \<Rightarrow> swing_set \<Rightarrow> displacement list \<Rightarrow> structure_event list" where
  "detect_structure_events atr_period buffer_atr candles swings displacements =
     st_events (structure_run atr_period buffer_atr candles swings displacements [0 ..< length candles])"

text \<open>The rationale is the case that decided, with the figures its sentence prints.\<close>

datatype bias_reason =
    RecentCHoCH candle_direction int | ConfirmedBOS candle_direction int
  | Conflicted bias candle_direction | SequenceOnly bias | NoStructure

definition structural_bias ::
  "structure_event list \<Rightarrow> swing_set \<Rightarrow> int \<Rightarrow> sweep_mark list \<Rightarrow> bias \<times> bias_reason" where
  "structural_bias events swings at_index sweeps =
     (let sequence_bias = swing_bias (without_swept_points swings sweeps) at_index;
          rest = (if sequence_bias \<noteq> Range_Bias then (sequence_bias, SequenceOnly sequence_bias)
                  else (Range_Bias, NoStructure))
      in case last_of (filter (\<lambda>e. int (se_index e) \<le> at_index) events) of
           None \<Rightarrow> rest
         | Some latest \<Rightarrow>
             (let age = at_index - int (se_index latest); direction = se_direction latest in
              if age \<le> 30 then
                (if se_event_type latest = CHoCH then (direction_bias direction, RecentCHoCH direction age)
                 else if sequence_bias = direction_bias direction \<or> sequence_bias = Range_Bias
                 then (direction_bias direction, ConfirmedBOS direction age)
                 else (sequence_bias, Conflicted sequence_bias direction))
              else rest))"

subsection \<open>One step\<close>

text \<open>What a step may add: nothing but the inferred trend, or one break of a confirmed, unbroken
  level by a close beyond the buffer.\<close>

definition breaks_level ::
  "real \<Rightarrow> candle list \<Rightarrow> swing_set \<Rightarrow> real list \<Rightarrow> structure_event \<Rightarrow> bool" where
  "breaks_level buffer_atr candles swings atrs e =
     (0 < atrs ! se_index e \<and> se_level_index e < se_index e \<and> se_close e = c_close (candles ! se_index e)
      \<and> (if se_direction e = Bullish
         then se_close e > se_level e + atrs ! se_index e * buffer_atr
           \<and> (\<exists>p \<in> set (known_highs swings (int (se_index e)))
                . sw_index p = se_level_index e \<and> sw_price p = se_level e)
         else se_direction e = Bearish \<and> se_close e < se_level e - atrs ! se_index e * buffer_atr
           \<and> (\<exists>p \<in> set (known_lows swings (int (se_index e)))
                . sw_index p = se_level_index e \<and> sw_price p = se_level e)))"

definition level_key :: "structure_event \<Rightarrow> swing_kind \<times> nat" where
  "level_key e = (if se_direction e = Bullish then High else Low, se_level_index e)"

lemma target_of_Some:
  "target_of kind broken index points = Some t \<Longrightarrow>
     t \<in> set points \<and> sw_index t < index \<and> (kind, sw_index t) \<notin> set broken"
  by (auto simp: target_of_def dest!: last_of_Some)

lemma structure_step_cases:
  obtains (quiet) t where "structure_step b cs sw ds atrs i st = st\<lparr> st_trend := t \<rparr>"
      and "st_trend st \<noteq> None \<Longrightarrow> t = st_trend st"
  | (break) e where
      "structure_step b cs sw ds atrs i st =
         \<lparr> st_broken = level_key e # st_broken st, st_trend = Some (direction_bias (se_direction e)),
           st_events = st_events st @ [e] \<rparr>"
      and "se_index e = i" and "level_key e \<notin> set (st_broken st)" and "breaks_level b cs sw atrs e"
      and "st_trend st \<noteq> None \<Longrightarrow>
        se_event_type e = (if st_trend st = Some (direction_bias (case se_direction e of Bullish \<Rightarrow> Bearish | _ \<Rightarrow> Bullish))
          then CHoCH else BOS)"
proof -
  have trend: "st_trend st \<noteq> None \<Longrightarrow> infer_trend sw i (st_trend st) = st_trend st"
    by (auto simp: infer_trend_def)
  have made: "\<exists>e. record_break k (break_event (cs ! i) i a ds tr dir t) (st\<lparr> st_trend := tr \<rparr>) =
         \<lparr> st_broken = level_key e # st_broken st, st_trend = Some (direction_bias (se_direction e)),
           st_events = st_events st @ [e] \<rparr>
      \<and> se_index e = i \<and> level_key e = (k, sw_index t) \<and> breaks_level b cs sw atrs e
      \<and> se_event_type e = (if tr = Some (direction_bias (case dir of Bullish \<Rightarrow> Bearish | _ \<Rightarrow> Bullish)) then CHoCH else BOS)
      \<and> se_direction e = dir"
    if "0 < atrs ! i" "a = atrs ! i" "sw_index t < i"
      "(k = High \<and> dir = Bullish \<and> t \<in> set (known_highs sw (int i)) \<and> c_close (cs ! i) > sw_price t + atrs ! i * b)
       \<or> (k = Low \<and> dir = Bearish \<and> t \<in> set (known_lows sw (int i)) \<and> c_close (cs ! i) < sw_price t - atrs ! i * b)"
    for k a tr dir t
    using that by (intro exI [of _ "break_event (cs ! i) i a ds tr dir t"])
      (auto simp: record_break_def break_event_def level_key_def breaks_level_def Let_def direction_bias_def)
  show thesis
  proof (cases "atrs ! i > 0")
    case False
    then have "structure_step b cs sw ds atrs i st = st\<lparr> st_trend := st_trend st \<rparr>"
      by (simp add: structure_step_def Let_def)
    then show thesis using quiet by blast
  next
    case True
    let ?tr = "infer_trend sw i (st_trend st)"
    have "(\<exists>t. target_of High (st_broken st) i (known_highs sw (int i)) = Some t
        \<and> c_close (cs ! i) > sw_price t + atrs ! i * b
        \<and> structure_step b cs sw ds atrs i st =
           record_break High (break_event (cs ! i) i (atrs ! i) ds ?tr Bullish t) (st\<lparr> st_trend := ?tr \<rparr>))
      \<or> (\<exists>t. target_of Low (st_broken st) i (known_lows sw (int i)) = Some t
        \<and> c_close (cs ! i) < sw_price t - atrs ! i * b
        \<and> structure_step b cs sw ds atrs i st =
           record_break Low (break_event (cs ! i) i (atrs ! i) ds ?tr Bearish t) (st\<lparr> st_trend := ?tr \<rparr>))
      \<or> structure_step b cs sw ds atrs i st = st\<lparr> st_trend := ?tr \<rparr>"
      using True by (auto simp: structure_step_def Let_def split: option.split)
    then consider (high) t where "target_of High (st_broken st) i (known_highs sw (int i)) = Some t"
        "c_close (cs ! i) > sw_price t + atrs ! i * b"
        "structure_step b cs sw ds atrs i st =
           record_break High (break_event (cs ! i) i (atrs ! i) ds ?tr Bullish t) (st\<lparr> st_trend := ?tr \<rparr>)"
      | (low) t where "target_of Low (st_broken st) i (known_lows sw (int i)) = Some t"
        "c_close (cs ! i) < sw_price t - atrs ! i * b"
        "structure_step b cs sw ds atrs i st =
           record_break Low (break_event (cs ! i) i (atrs ! i) ds ?tr Bearish t) (st\<lparr> st_trend := ?tr \<rparr>)"
      | (none) "structure_step b cs sw ds atrs i st = st\<lparr> st_trend := ?tr \<rparr>"
      by blast
    then show thesis
    proof cases
      case high
      from target_of_Some [OF high(1)] made [of "atrs ! i" t High Bullish ?tr] True high(2)
      obtain e where "structure_step b cs sw ds atrs i st =
         \<lparr> st_broken = level_key e # st_broken st, st_trend = Some (direction_bias (se_direction e)),
           st_events = st_events st @ [e] \<rparr>" "se_index e = i" "level_key e = (High, sw_index t)"
        "breaks_level b cs sw atrs e" "se_direction e = Bullish"
        "se_event_type e = (if ?tr = Some (direction_bias Bearish) then CHoCH else BOS)"
        unfolding high(3) by auto
      then show thesis using break [of e] target_of_Some [OF high(1)] trend by simp
    next
      case low
      from target_of_Some [OF low(1)] made [of "atrs ! i" t Low Bearish ?tr] True low(2)
      obtain e where "structure_step b cs sw ds atrs i st =
         \<lparr> st_broken = level_key e # st_broken st, st_trend = Some (direction_bias (se_direction e)),
           st_events = st_events st @ [e] \<rparr>" "se_index e = i" "level_key e = (Low, sw_index t)"
        "breaks_level b cs sw atrs e" "se_direction e = Bearish"
        "se_event_type e = (if ?tr = Some (direction_bias Bullish) then CHoCH else BOS)"
        unfolding low(3) by auto
      then show thesis using break [of e] target_of_Some [OF low(1)] trend by simp
    next
      case none
      then show thesis using quiet trend by blast
    qed
  qed
qed

subsection \<open>The run of the loop\<close>

definition alternates :: "structure_event list \<Rightarrow> bool" where
  "alternates es = (\<forall>k. Suc k < length es \<longrightarrow>
     (se_event_type (es ! Suc k) = CHoCH \<longleftrightarrow> se_direction (es ! Suc k) \<noteq> se_direction (es ! k)))"

definition run_ok :: "real \<Rightarrow> candle list \<Rightarrow> swing_set \<Rightarrow> real list \<Rightarrow> nat \<Rightarrow> structure_state \<Rightarrow> bool" where
  "run_ok b cs sw atrs n st =
     (list_all (\<lambda>e. se_index e < n \<and> breaks_level b cs sw atrs e) (st_events st)
      \<and> sorted_wrt (\<lambda>d e. se_index d < se_index e) (st_events st)
      \<and> set (st_broken st) = level_key ` set (st_events st)
      \<and> distinct (map level_key (st_events st))
      \<and> (st_events st \<noteq> [] \<longrightarrow> st_trend st = Some (direction_bias (se_direction (last (st_events st)))))
      \<and> alternates (st_events st))"

lemma breaks_level_direction: "breaks_level b cs sw atrs e \<Longrightarrow> se_direction e \<noteq> Neutral"
  by (auto simp: breaks_level_def)

lemma direction_bias_eq [simp]: "direction_bias d = direction_bias d' \<longleftrightarrow> d = d'"
  by (cases d; cases d') (simp_all add: direction_bias_def)

lemma alternates_snoc:
  assumes "alternates es"
    and "es \<noteq> [] \<Longrightarrow> (se_event_type e = CHoCH \<longleftrightarrow> se_direction e \<noteq> se_direction (last es))"
  shows "alternates (es @ [e])"
  using assms by (auto simp: alternates_def nth_append last_conv_nth less_Suc_eq)
    (metis One_nat_def diff_Suc_1 length_0_conv list.size(3) nat.distinct(1))+

lemma run_ok_step:
  assumes ok: "run_ok b cs sw atrs n st"
  shows "run_ok b cs sw atrs (Suc n) (structure_step b cs sw ds atrs n st)"
proof (rule structure_step_cases [of b cs sw ds atrs n st])
  fix t assume "structure_step b cs sw ds atrs n st = st\<lparr> st_trend := t \<rparr>" "st_trend st \<noteq> None \<Longrightarrow> t = st_trend st"
  then show ?thesis using ok by (auto simp: run_ok_def list_all_iff)
next
  fix e assume step: "structure_step b cs sw ds atrs n st =
         \<lparr> st_broken = level_key e # st_broken st, st_trend = Some (direction_bias (se_direction e)),
           st_events = st_events st @ [e] \<rparr>"
    and e: "se_index e = n" "level_key e \<notin> set (st_broken st)" "breaks_level b cs sw atrs e"
    and kind: "st_trend st \<noteq> None \<Longrightarrow>
        se_event_type e = (if st_trend st = Some (direction_bias (case se_direction e of Bullish \<Rightarrow> Bearish | _ \<Rightarrow> Bullish))
          then CHoCH else BOS)"
  have "alternates (st_events st @ [e])"
  proof (rule alternates_snoc)
    show "alternates (st_events st)" using ok by (simp add: run_ok_def)
    assume nonempty: "st_events st \<noteq> []"
    then have "last (st_events st) \<in> set (st_events st)" by simp
    then have "se_direction (last (st_events st)) \<noteq> Neutral"
      using ok breaks_level_direction by (auto simp: run_ok_def list_all_iff)
    moreover have "st_trend st = Some (direction_bias (se_direction (last (st_events st))))"
      using ok nonempty by (simp add: run_ok_def)
    ultimately show "se_event_type e = CHoCH \<longleftrightarrow> se_direction e \<noteq> se_direction (last (st_events st))"
      using kind breaks_level_direction [OF e(3)]
      by (cases "se_direction e"; cases "se_direction (last (st_events st))") auto
  qed
  then show ?thesis using ok e
    by (auto simp: run_ok_def step list_all_iff sorted_wrt_append)
qed

lemma run_ok_upto:
  "run_ok b cs sw (atr_series cs period) n (structure_run period b cs sw ds [0 ..< n])"
  by (induction n) (simp_all add: structure_run_def run_ok_step, simp add: run_ok_def alternates_def)

lemma structure_step_extends:
  "\<exists>es. st_events (structure_step b cs sw ds atrs i st) = st_events st @ es \<and> (\<forall>e \<in> set es. se_index e = i)"
  by (rule structure_step_cases [of b cs sw ds atrs i st]) auto

lemma run_extends:
  assumes "m \<le> n"
  shows "\<exists>es. st_events (structure_run period b cs sw ds [0 ..< n])
      = st_events (structure_run period b cs sw ds [0 ..< m]) @ es \<and> (\<forall>e \<in> set es. m \<le> se_index e)"
  using assms
proof (induction n)
  case (Suc n)
  show ?case
  proof (cases "m = Suc n")
    case False
    with Suc obtain es where "st_events (structure_run period b cs sw ds [0 ..< n])
      = st_events (structure_run period b cs sw ds [0 ..< m]) @ es" "\<forall>e \<in> set es. m \<le> se_index e"
      by auto
    moreover obtain es' where "st_events (structure_run period b cs sw ds [0 ..< Suc n])
      = st_events (structure_run period b cs sw ds [0 ..< n]) @ es'" "\<forall>e \<in> set es'. se_index e = n"
      using structure_step_extends [of b cs sw ds "atr_series cs period" n "structure_run period b cs sw ds [0 ..< n]"]
      by (auto simp: structure_run_def)
    ultimately show ?thesis using Suc(2) False by (intro exI [of _ "es @ es'"]) auto
  qed simp
qed simp

subsection \<open>Truncated series\<close>

text \<open>The events without the quality of the displacement, the one figure that may still change.\<close>

definition event_core :: "structure_event \<Rightarrow> structure_event" where
  "event_core e = e\<lparr> se_displacement_quality := 0 \<rparr>"

definition state_core :: "structure_state \<Rightarrow> structure_state" where
  "state_core st = st\<lparr> st_events := map event_core (st_events st) \<rparr>"

lemma event_core_fields [simp]:
  "se_index (event_core e) = se_index e" "se_level_index (event_core e) = se_level_index e"
  "se_direction (event_core e) = se_direction e"
  by (simp_all add: event_core_def)

lemma state_core_fields:
  "state_core st = state_core st' \<longleftrightarrow> st_broken st = st_broken st' \<and> st_trend st = st_trend st'
     \<and> map event_core (st_events st) = map event_core (st_events st')"
  by (cases st; cases st') (auto simp: state_core_def)

lemma break_event_core:
  assumes "(displacement_at ds (int i) 1 = None) = (displacement_at ds' (int i) 1 = None)"
  shows "event_core (break_event c i a ds tr dir t) = event_core (break_event c i a ds' tr dir t)"
  using assms by (cases "displacement_at ds (int i) 1"; cases "displacement_at ds' (int i) 1")
    (simp_all add: break_event_def event_core_def Let_def)

lemma record_break_core:
  assumes "state_core st = state_core st'" and "event_core e = event_core e'"
  shows "state_core (record_break k e st) = state_core (record_break k e' st')"
proof -
  have "se_level_index e = se_level_index e'" "se_direction e = se_direction e'"
    using assms(2) by (metis event_core_fields)+
  then show ?thesis using assms by (simp add: record_break_def state_core_fields)
qed

lemma infer_trend_cong:
  assumes "known_highs sw (int i) = known_highs sw' (int i)" and "known_lows sw (int i) = known_lows sw' (int i)"
  shows "infer_trend sw i t = infer_trend sw' i t"
proof -
  have "swing_bias sw (int i) = swing_bias sw' (int i)" using assms by (simp add: swing_bias_def)
  then show ?thesis by (simp add: infer_trend_def split: option.split)
qed

lemma structure_step_core:
  assumes "cs ! i = cs' ! i" and "atrs ! i = atrs' ! i"
    and "known_highs sw (int i) = known_highs sw' (int i)" and "known_lows sw (int i) = known_lows sw' (int i)"
    and "(displacement_at ds (int i) 1 = None) = (displacement_at ds' (int i) 1 = None)"
    and core: "state_core st = state_core st'"
  shows "state_core (structure_step b cs sw ds atrs i st) = state_core (structure_step b cs' sw' ds' atrs' i st')"
proof -
  have st: "st_broken st = st_broken st'" "st_trend st = st_trend st'"
    using core by (simp_all add: state_core_fields)
  have core': "state_core (st\<lparr> st_trend := t \<rparr>) = state_core (st'\<lparr> st_trend := t \<rparr>)" for t
    using core by (simp add: state_core_fields)
  note breaks = record_break_core [OF core' break_event_core [OF assms(5)]]
  show ?thesis
    using core core' breaks
    by (simp add: structure_step_def Let_def assms(1-4) st infer_trend_cong [OF assms(3,4)] split: option.split)
qed

lemma structure_run_core:
  assumes "\<And>i. i < n \<Longrightarrow> cs ! i = cs' ! i" and "\<And>i. i < n \<Longrightarrow> atr_series cs p ! i = atr_series cs' p ! i"
    and "\<And>i. i < n \<Longrightarrow> known_highs sw (int i) = known_highs sw' (int i)"
    and "\<And>i. i < n \<Longrightarrow> known_lows sw (int i) = known_lows sw' (int i)"
    and "\<And>i. i < n \<Longrightarrow> (displacement_at ds (int i) 1 = None) = (displacement_at ds' (int i) 1 = None)"
  shows "state_core (structure_run p b cs sw ds [0 ..< n]) = state_core (structure_run p b cs' sw' ds' [0 ..< n])"
  using assms
proof (induction n)
  case (Suc n)
  then have "state_core (structure_run p b cs sw ds [0 ..< n]) = state_core (structure_run p b cs' sw' ds' [0 ..< n])"
    by simp
  then show ?case using Suc(2-6) structure_step_core [of cs n cs' "atr_series cs p" "atr_series cs' p" sw sw' ds ds'
      "structure_run p b cs sw ds [0 ..< n]" "structure_run p b cs' sw' ds' [0 ..< n]" b]
    by (simp add: structure_run_def)
qed (simp add: structure_run_def)

lemma filter_known:
  "i < n \<Longrightarrow> filter (\<lambda>p. k p < n \<and> k p \<le> i) xs = filter (\<lambda>p. k p \<le> (i :: nat)) xs"
  by (induction xs) auto

lemma known_highs_take:
  assumes "detect_swings cs w = Some sw" and "detect_swings (take n cs) w = Some sw'" and "i < n"
  shows "known_highs sw' (int i) = known_highs sw (int i)" and "known_lows sw' (int i) = known_lows sw (int i)"
  using assms
  by (auto simp: known_highs_def known_lows_def detect_swings_def swing_highs_take swing_lows_take
    filter_known split: if_splits)

lemma displacement_at_None:
  "displacement_at ds i k = None \<longleftrightarrow>
     filter (\<lambda>d. i - k \<le> int (dp_index d) \<and> int (dp_index d) \<le> i) (map core ds) = []"
  by (simp add: displacement_at_def filter_empty_conv)

lemma displacement_at_take:
  assumes "0 < dm_atr_period p" and "0 < dm_impulse_window p" and "i < n"
  shows "(displacement_at (detect_displacement p (take n cs)) (int i) k = None)
     = (displacement_at (detect_displacement p cs) (int i) k = None)"
  using displacement_cores_take [OF assms(1,2), of n cs] assms(3)
  by (auto simp: displacement_at_None displacement_cores_def filter_empty_conv)

lemma structure_events_take:
  assumes period: "0 < period" "0 < dm_atr_period p" "0 < dm_impulse_window p"
    and sw: "detect_swings cs w = Some sw" "detect_swings (take n cs) w = Some sw'"
  shows "map event_core (detect_structure_events period b (take n cs) sw' (detect_displacement p (take n cs)))
    = filter (\<lambda>e. se_index e < n) (map event_core (detect_structure_events period b cs sw (detect_displacement p cs)))"
proof -
  let ?m = "length (take n cs)" and ?ds = "detect_displacement p cs"
  have le: "?m \<le> length cs" by simp
  have "state_core (structure_run period b (take n cs) sw' (detect_displacement p (take n cs)) [0 ..< ?m])
      = state_core (structure_run period b cs sw ?ds [0 ..< ?m])"
    using known_highs_take [OF sw] displacement_at_take [OF period(2,3)] period(1)
    by (intro structure_run_core) (auto simp: atr_series_take)
  then have prefix: "map event_core (detect_structure_events period b (take n cs) sw' (detect_displacement p (take n cs)))
      = map event_core (st_events (structure_run period b cs sw ?ds [0 ..< ?m]))"
    by (simp add: detect_structure_events_def state_core_fields)
  obtain es where es: "detect_structure_events period b cs sw ?ds
      = st_events (structure_run period b cs sw ?ds [0 ..< ?m]) @ es" "\<forall>e \<in> set es. ?m \<le> se_index e"
    using run_extends [OF le, of period b cs sw ?ds] by (auto simp: detect_structure_events_def)
  have early: "e \<in> set (st_events (structure_run period b cs sw ?ds [0 ..< ?m])) \<Longrightarrow> se_index e < n" for e
    using run_ok_upto [of b cs sw period ?m ?ds] by (auto simp: run_ok_def list_all_iff)
  have late: "e \<in> set es \<Longrightarrow> \<not> se_index e < n" for e
  proof
    assume e: "e \<in> set es" and "se_index e < n"
    moreover have "se_index e < length cs"
      using run_ok_upto [of b cs sw period "length cs" ?ds] e es(1)
      by (auto simp: run_ok_def list_all_iff detect_structure_events_def)
    ultimately show False using es(2) by fastforce
  qed
  show ?thesis
    unfolding prefix es(1) using early late by (auto simp: filter_map o_def filter_empty_conv filter_id_conv)
qed

definition structure_cores :: "nat \<Rightarrow> real \<Rightarrow> nat \<Rightarrow> displacement_params \<Rightarrow> candle list \<Rightarrow> structure_event list" where
  "structure_cores period b w p cs =
     (case detect_swings cs (int w) of None \<Rightarrow> []
      | Some sw \<Rightarrow> map event_core (detect_structure_events period b cs sw (detect_displacement p cs)))"

interpretation breaks: causal_detector
  "structure_cores (Suc k) b w (p\<lparr> dm_atr_period := Suc k, dm_impulse_window := Suc j \<rparr>)" se_index for b w p k j
proof
  fix n cs
  show "structure_cores (Suc k) b w (p\<lparr> dm_atr_period := Suc k, dm_impulse_window := Suc j \<rparr>) (take n cs)
    = filter (\<lambda>e. se_index e < n) (structure_cores (Suc k) b w (p\<lparr> dm_atr_period := Suc k, dm_impulse_window := Suc j \<rparr>) cs)"
  proof (cases "w = 0")
    case True
    then show ?thesis by (simp add: structure_cores_def detect_swings_def)
  next
    case False
    then obtain sw sw' where "detect_swings cs (int w) = Some sw" "detect_swings (take n cs) (int w) = Some sw'"
      by (simp add: detect_swings_def)
    then show ?thesis by (simp add: structure_cores_def structure_events_take)
  qed
qed

text \<open>C32. Every structure event closes beyond a level whose swing was already confirmed at its
  candle, by at least the buffer; each level breaks once, the events are in candle order, an
  event is a change of character exactly when it turns against the one before, and truncating
  the series shows the same events (but for the quality of the displacement).\<close>

theorem structure_events_sound:
  assumes "0 < period" and "0 < dm_atr_period p" and "0 < dm_impulse_window p"
    and "detect_swings cs w = Some sw" and "detect_swings (take n cs) w = Some sw'"
  shows "list_all (breaks_level b cs sw (atr_series cs period))
        (detect_structure_events period b cs sw (detect_displacement p cs))
    \<and> distinct (map level_key (detect_structure_events period b cs sw (detect_displacement p cs)))
    \<and> sorted_wrt (\<lambda>d e. se_index d < se_index e) (detect_structure_events period b cs sw (detect_displacement p cs))
    \<and> alternates (detect_structure_events period b cs sw (detect_displacement p cs))
    \<and> map event_core (detect_structure_events period b (take n cs) sw' (detect_displacement p (take n cs)))
      = filter (\<lambda>e. se_index e < n) (map event_core (detect_structure_events period b cs sw (detect_displacement p cs)))"
proof -
  have "run_ok b cs sw (atr_series cs period) (length cs)
      (structure_run period b cs sw (detect_displacement p cs) [0 ..< length cs])"
    by (rule run_ok_upto)
  then show ?thesis
    using structure_events_take [OF assms]
    by (simp add: run_ok_def list_all_iff flip: detect_structure_events_def)
qed

text \<open>A high of 3, a higher close, and a close below the low of the pullback.\<close>

definition break_series :: "candle list" where
  "break_series = [bar 0 1 2 1 2, bar 1 2 3 2 2, bar 2 2 2 1 2, bar 3 2 5 2 5, bar 4 5 6 (1 / 2) (1 / 2)]"

lemma break_swings:
  "detect_swings break_series 1 = Some
     \<lparr> ss_highs = [\<lparr> sw_index = 1, sw_confirmed_index = 2, sw_timestamp = 900000000, sw_price = 3,
         sw_kind = High, sw_strength = 1 \<rparr>],
       ss_lows = [\<lparr> sw_index = 2, sw_confirmed_index = 3, sw_timestamp = 1800000000, sw_price = 1,
         sw_kind = Low, sw_strength = 1 \<rparr>] \<rparr>"
  by (simp add: detect_swings_def swing_highs_def swing_lows_def is_high_def is_low_def neighbours_def
    slice_def high_point_def low_point_def break_series_def upt_rec)

lemma break_atrs: "atr_series break_series 1 = [1, 1, 1, 3, 11 / 2]"
proof -
  have ranges: "true_ranges break_series = [1, 1, 1, 3, 11 / 2]"
    by (simp add: break_series_def true_range_def candle_range_def)
  show ?thesis by (simp add: atr_series_def ranges slice_def)
qed

lemma break_quiet: "detect_displacement default_displacement break_series = []"
  by (simp add: detect_displacement_def break_series_def displacement_of_def default_displacement_def upt_rec)

lemma break_bars:
  "length break_series = 5" "break_series ! 3 = bar 3 2 5 2 5"
  "break_series ! 4 = bar 4 5 6 (1 / 2) (1 / 2)"
  "break_series ! 0 = bar 0 1 2 1 2" "break_series ! Suc 0 = bar 1 2 3 2 2" "break_series ! 2 = bar 2 2 2 1 2"
  by (simp_all add: break_series_def)

lemma break_types:
  "map (\<lambda>e. (se_index e, se_event_type e))
     (detect_structure_events 1 (8 / 100) break_series
        (the (detect_swings break_series 1)) (detect_displacement default_displacement break_series))
   = [(3, BOS), (4, CHoCH)]"
proof -
  let ?sw = "the (detect_swings break_series 1)"
  let ?step = "structure_step (8 / 100) break_series ?sw [] [1, 1, 1, 3, 11 / 2]"
  let ?init = "\<lparr> st_broken = [], st_trend = None, st_events = [] \<rparr>"
  let ?e = "break_event (bar 3 2 5 2 5) 3 3 [] None Bullish (hd (ss_highs ?sw))"
  let ?f = "break_event (bar 4 5 6 (1 / 2) (1 / 2)) 4 (11 / 2) [] (Some Bullish_Bias) Bearish (hd (ss_lows ?sw))"
  let ?s3 = "\<lparr> st_broken = [(High, 1)], st_trend = Some Bullish_Bias, st_events = [?e] \<rparr>"
  let ?s4 = "\<lparr> st_broken = [(Low, 2), (High, 1)], st_trend = Some Bearish_Bias, st_events = [?e, ?f] \<rparr>"
  note eval = structure_step_def Let_def infer_trend_def swing_bias_def known_highs_def known_lows_def
    target_of_def last_of_def record_break_def direction_bias_def break_swings break_bars break_event_def
  have "?step 0 ?init = ?init" "?step 1 ?init = ?init" "?step 2 ?init = ?init"
    by (simp_all add: eval)
  moreover have "?step 3 ?init = ?s3" by (simp add: eval)
  moreover have "?step 4 ?s3 = ?s4" by (simp add: eval)
  moreover have "[0 ..< 5] = [0, 1, 2, 3, 4]" by (simp add: upt_rec)
  ultimately have "structure_run 1 (8 / 100) break_series ?sw [] [0 ..< 5] = ?s4"
    by (simp add: structure_run_def break_atrs [simplified])
  then show ?thesis
    by (simp add: detect_structure_events_def break_quiet break_bars break_event_def Let_def)
qed

theorem structure_events_sound_witness:
  "alternates (detect_structure_events 1 (8 / 100) break_series
      (the (detect_swings break_series 1)) (detect_displacement default_displacement break_series))
   \<and> map (\<lambda>e. (se_index e, se_event_type e)) (detect_structure_events 1 (8 / 100) break_series
      (the (detect_swings break_series 1)) (detect_displacement default_displacement break_series))
     = [(3, BOS), (4, CHoCH)]"
proof -
  obtain sw' where cut: "detect_swings (take 3 break_series) 1 = Some sw'"
    by (simp add: detect_swings_def)
  have full: "detect_swings break_series 1 = Some (the (detect_swings break_series 1))"
    by (simp add: break_swings)
  show ?thesis
    using structure_events_sound [OF _ _ _ full cut, of 1 default_displacement "8 / 100"] break_types
    by (simp add: default_displacement_def)
qed

end
