(* ===== verification/Fvg.thy ===== *)
theory Fvg
  imports Structure
begin

text \<open>
  Fair value gaps, \<open>bot/smc/fvg.py\<close>: three-candle imbalances, their forward lifecycle and the
  choice of the gap an entry uses. The lifecycle loop that stops at the first candle spending a
  zone, shared with the order blocks, is \<open>first_spent\<close>.
\<close>

subsection \<open>Zones that are spent once\<close>

text \<open>The candle index of the first mitigation or invalidation, whichever comes first; on one
  candle the invalidation is asked first.\<close>

fun first_spent :: "('c \<Rightarrow> bool) \<Rightarrow> ('c \<Rightarrow> bool) \<Rightarrow> nat \<Rightarrow> 'c list \<Rightarrow> nat option \<times> nat option" where
  "first_spent invalid mitigated probe [] = (None, None)"
| "first_spent invalid mitigated probe (c # cs) =
     (if invalid c then (None, Some probe)
      else if mitigated c then (Some probe, None)
      else first_spent invalid mitigated (probe + 1) cs)"

definition spent_by :: "nat option \<Rightarrow> int \<Rightarrow> bool" where
  "spent_by m at_index = (case m of None \<Rightarrow> False | Some i \<Rightarrow> int i \<le> at_index)"

lemma spent_by_simps [simp]: "spent_by None t = False" "spent_by (Some i) t = (int i \<le> t)"
  by (simp_all add: spent_by_def)

lemma first_spent_exclusive:
  "first_spent v g a cs = (m, i) \<Longrightarrow> m = None \<or> i = None"
  by (induction v g a cs rule: first_spent.induct) (auto split: if_splits)

lemma first_spent_iff:
  "first_spent v g a cs = (m, i) \<Longrightarrow>
     (spent_by m t \<or> spent_by i t) \<longleftrightarrow> (\<exists>j < length cs. int (a + j) \<le> t \<and> (v (cs ! j) \<or> g (cs ! j)))"
proof (induction v g a cs rule: first_spent.induct)
  case (2 v g a c cs)
  show ?case
  proof (cases "v c \<or> g c")
    case True
    then have "(spent_by m t \<or> spent_by i t) \<longleftrightarrow> int a \<le> t" using 2(2) by (auto split: if_splits)
    moreover have "int a \<le> t \<longleftrightarrow>
      (\<exists>j < length (c # cs). int (a + j) \<le> t \<and> (v ((c # cs) ! j) \<or> g ((c # cs) ! j)))"
      using True by (auto intro: exI [of _ 0])
    ultimately show ?thesis by simp
  next
    case False
    then have "(spent_by m t \<or> spent_by i t) \<longleftrightarrow> (\<exists>j < length cs. int (a + 1 + j) \<le> t \<and> (v (cs ! j) \<or> g (cs ! j)))"
      using 2 by simp
    also have "\<dots> \<longleftrightarrow> (\<exists>j < length (c # cs). int (a + j) \<le> t \<and> (v ((c # cs) ! j) \<or> g ((c # cs) ! j)))"
      using False by (simp add: Ex_less_Suc2 algebra_simps)
    finally show ?thesis .
  qed
qed simp

lemma first_spent_drop:
  assumes "first_spent v g a (drop a cs) = (m, i)"
  shows "(spent_by m t \<or> spent_by i t) \<longleftrightarrow>
    (\<exists>j. a \<le> j \<and> j < length cs \<and> int j \<le> t \<and> (v (cs ! j) \<or> g (cs ! j)))"
proof -
  have "(\<exists>j < length (drop a cs). int (a + j) \<le> t \<and> (v (drop a cs ! j) \<or> g (drop a cs ! j)))
    \<longleftrightarrow> (\<exists>j. a \<le> j \<and> j < length cs \<and> int j \<le> t \<and> (v (cs ! j) \<or> g (cs ! j)))"
  proof
    assume "\<exists>j. a \<le> j \<and> j < length cs \<and> int j \<le> t \<and> (v (cs ! j) \<or> g (cs ! j))"
    then obtain j where "a \<le> j" "j < length cs" "int j \<le> t" "v (cs ! j) \<or> g (cs ! j)" by blast
    then show "\<exists>j < length (drop a cs). int (a + j) \<le> t \<and> (v (drop a cs ! j) \<or> g (drop a cs ! j))"
      by (intro exI [of _ "j - a"]) auto
  next
    assume "\<exists>j < length (drop a cs). int (a + j) \<le> t \<and> (v (drop a cs ! j) \<or> g (drop a cs ! j))"
    then obtain j where "j < length (drop a cs)" "int (a + j) \<le> t" "v (drop a cs ! j) \<or> g (drop a cs ! j)" by blast
    then show "\<exists>j. a \<le> j \<and> j < length cs \<and> int j \<le> t \<and> (v (cs ! j) \<or> g (cs ! j))"
      by (intro exI [of _ "a + j"]) auto
  qed
  then show ?thesis using first_spent_iff [OF assms, of t] by blast
qed

subsection \<open>Gaps\<close>

record fair_value_gap =
  fg_index :: nat
  fg_timestamp :: micros
  fg_direction :: candle_direction
  fg_lower :: real
  fg_upper :: real
  fg_size :: real
  fg_size_atr :: real
  fg_displaced :: bool
  fg_displacement_quality :: real
  fg_mitigated_index :: "nat option"
  fg_invalidated_index :: "nat option"
  fg_fill_fraction :: real

definition fg_midpoint :: "fair_value_gap \<Rightarrow> real" where
  "fg_midpoint g = (fg_upper g + fg_lower g) / 2"

definition fg_age :: "fair_value_gap \<Rightarrow> int \<Rightarrow> int" where
  "fg_age g at_index = at_index - int (fg_index g)"

definition fg_is_live :: "fair_value_gap \<Rightarrow> int \<Rightarrow> int \<Rightarrow> bool" where
  "fg_is_live g at_index max_age =
     (if int (fg_index g) > at_index then False
      else if spent_by (fg_mitigated_index g) at_index then False
      else if spent_by (fg_invalidated_index g) at_index then False
      else fg_age g at_index \<le> max_age)"

definition fg_contains :: "fair_value_gap \<Rightarrow> real \<Rightarrow> bool" where
  "fg_contains g price = (fg_lower g \<le> price \<and> price \<le> fg_upper g)"

text \<open>\<open>displacement_by_index.get(i)\<close>: of equal keys the dict keeps the last.\<close>

definition displacement_by_index :: "displacement list \<Rightarrow> nat \<Rightarrow> displacement option" where
  "displacement_by_index displacements i = last_of (filter (\<lambda>d. dp_index d = i) displacements)"

definition gap_invalidated :: "candle_direction \<Rightarrow> real \<Rightarrow> real \<Rightarrow> candle \<Rightarrow> bool" where
  "gap_invalidated direction lo hi c =
     (if direction = Bullish then c_close c < lo else c_close c > hi)"

definition gap_mitigated :: "candle_direction \<Rightarrow> real \<Rightarrow> real \<Rightarrow> candle \<Rightarrow> bool" where
  "gap_mitigated direction lo hi c =
     (if direction = Bullish then c_low c \<le> lo else c_high c \<ge> hi)"

definition penetration :: "candle_direction \<Rightarrow> real \<Rightarrow> real \<Rightarrow> candle \<Rightarrow> real" where
  "penetration direction lo hi c =
     (if direction = Bullish then max 0 (hi - c_low c) else max 0 (c_high c - lo))"

text \<open>The probing loop: mitigation index, invalidation index and the largest fill so far.\<close>

fun gap_life ::
  "candle_direction \<Rightarrow> real \<Rightarrow> real \<Rightarrow> nat \<Rightarrow> real \<Rightarrow> candle list \<Rightarrow> nat option \<times> nat option \<times> real" where
  "gap_life direction lo hi probe max_fill [] = (None, None, max_fill)"
| "gap_life direction lo hi probe max_fill (c # cs) =
     (if gap_invalidated direction lo hi c then (None, Some probe, max_fill)
      else if gap_mitigated direction lo hi c then (Some probe, None, 1)
      else gap_life direction lo hi (probe + 1)
        (max max_fill (min 1 (if hi - lo \<noteq> 0
           then penetration direction lo hi c / (hi - lo) else 0))) cs)"

definition imbalance :: "candle \<Rightarrow> candle \<Rightarrow> (candle_direction \<times> real \<times> real) option" where
  "imbalance left right =
     (if c_low right > c_high left then Some (Bullish, c_high left, c_low right)
      else if c_high right < c_low left then Some (Bearish, c_high right, c_low left)
      else None)"

text \<open>The tests of the loop that decide whether there is a gap at an index.\<close>

definition gap_frame ::
  "real \<Rightarrow> candle list \<Rightarrow> real list \<Rightarrow> nat \<Rightarrow> (candle_direction \<times> real \<times> real) option" where
  "gap_frame min_size_atr candles atrs index =
     (let current_atr = atrs ! index in
      if current_atr \<le> 0 then None
      else case imbalance (candles ! (index - 2)) (candles ! index) of
          None \<Rightarrow> None
        | Some (direction, lo, hi) \<Rightarrow>
            if hi - lo < current_atr * min_size_atr then None else Some (direction, lo, hi))"

definition gap_at ::
  "real \<Rightarrow> candle list \<Rightarrow> displacement list \<Rightarrow> real list \<Rightarrow> nat \<Rightarrow> fair_value_gap option" where
  "gap_at min_size_atr candles displacements atrs index =
     (case gap_frame min_size_atr candles atrs index of
        None \<Rightarrow> None
      | Some (direction, lo, hi) \<Rightarrow>
          (let move = coalesce (displacement_by_index displacements (index - 1))
                        (displacement_by_index displacements index);
               (mitigated, invalidated, fill) =
                 gap_life direction lo hi (index + 1) 0 (drop (index + 1) candles)
           in Some \<lparr> fg_index = index, fg_timestamp = c_timestamp (candles ! index),
                fg_direction = direction, fg_lower = lo, fg_upper = hi, fg_size = hi - lo,
                fg_size_atr = (hi - lo) / (atrs ! index),
                fg_displaced = (case move of None \<Rightarrow> False | Some d \<Rightarrow> dp_direction d = direction),
                fg_displacement_quality = (case move of None \<Rightarrow> 0 | Some d \<Rightarrow> dp_quality d),
                fg_mitigated_index = mitigated, fg_invalidated_index = invalidated,
                fg_fill_fraction = fill \<rparr>))"

definition detect_fair_value_gaps ::
  "nat \<Rightarrow> real \<Rightarrow> candle list \<Rightarrow> displacement list \<Rightarrow> fair_value_gap list" where
  "detect_fair_value_gaps atr_period min_size_atr candles displacements =
     (if length candles < 3 then []
      else List.map_filter (gap_at min_size_atr candles displacements (atr_series candles atr_period))
             [2 ..< length candles])"

text \<open>\<open>"bullish" if direction == "BUY" else "bearish"\<close>, and the keys of the preference order.\<close>

definition wanted_direction :: "string \<Rightarrow> candle_direction" where
  "wanted_direction direction = (if direction = ''BUY'' then Bullish else Bearish)"

definition better_gap :: "fair_value_gap \<Rightarrow> fair_value_gap \<Rightarrow> bool" where
  "better_gap g best =
     (if fg_displaced g \<noteq> fg_displaced best then fg_displaced g
      else if fg_size_atr g \<noteq> fg_size_atr best then fg_size_atr g > fg_size_atr best
      else fg_index g > fg_index best)"

definition near_reference :: "nat option \<Rightarrow> int \<Rightarrow> nat \<Rightarrow> bool" where
  "near_reference reference_index lookback index =
     (case reference_index of None \<Rightarrow> True | Some r \<Rightarrow> int index \<ge> int r - lookback)"

definition best_entry_gap ::
  "fair_value_gap list \<Rightarrow> string \<Rightarrow> int \<Rightarrow> int \<Rightarrow> nat option \<Rightarrow> int \<Rightarrow> fair_value_gap option" where
  "best_entry_gap gaps direction at_index max_age reference_index lookback =
     preferred better_gap
       (filter (\<lambda>g. fg_direction g = wanted_direction direction \<and> fg_is_live g at_index max_age
             \<and> near_reference reference_index lookback (fg_index g)) gaps)"

subsection \<open>Lifecycle\<close>

lemma gap_life_first_spent:
  "first_spent (gap_invalidated d lo hi) (gap_mitigated d lo hi) a cs =
     (fst (gap_life d lo hi a f cs), fst (snd (gap_life d lo hi a f cs)))"
  by (induction d lo hi a f cs rule: gap_life.induct) auto

lemma gap_life_fill:
  "lo < hi \<Longrightarrow> 0 \<le> f \<Longrightarrow> f \<le> 1 \<Longrightarrow>
     0 \<le> snd (snd (gap_life d lo hi a f cs)) \<and> snd (snd (gap_life d lo hi a f cs)) \<le> 1"
  by (induction d lo hi a f cs rule: gap_life.induct) (auto simp: penetration_def)

lemma imbalance_Some:
  "imbalance l r = Some (d, lo, hi) \<Longrightarrow> lo < hi \<and> d \<noteq> Neutral
     \<and> (if d = Bullish then lo = c_high l \<and> hi = c_low r else lo = c_high r \<and> hi = c_low l)"
  by (auto simp: imbalance_def split: if_splits)

text \<open>The gap at an index, by its definition: the imbalance of the outer candles, and live until
  the first candle that trades through or closes beyond it.\<close>

definition untouched :: "candle list \<Rightarrow> fair_value_gap \<Rightarrow> int \<Rightarrow> bool" where
  "untouched cs g t = (\<forall>j < length cs. fg_index g < j \<and> int j \<le> t \<longrightarrow>
     \<not> gap_invalidated (fg_direction g) (fg_lower g) (fg_upper g) (cs ! j)
     \<and> \<not> gap_mitigated (fg_direction g) (fg_lower g) (fg_upper g) (cs ! j))"

definition sound_gap :: "real \<Rightarrow> candle list \<Rightarrow> real list \<Rightarrow> fair_value_gap \<Rightarrow> bool" where
  "sound_gap m cs atrs g =
     (fg_lower g < fg_upper g \<and> fg_size g = fg_upper g - fg_lower g
      \<and> imbalance (cs ! (fg_index g - 2)) (cs ! fg_index g) = Some (fg_direction g, fg_lower g, fg_upper g)
      \<and> 2 \<le> fg_index g \<and> fg_index g < length cs
      \<and> 0 < atrs ! fg_index g \<and> atrs ! fg_index g * m \<le> fg_size g
      \<and> 0 \<le> fg_fill_fraction g \<and> fg_fill_fraction g \<le> 1
      \<and> (fg_mitigated_index g = None \<or> fg_invalidated_index g = None))"

lemma gap_at_Some:
  assumes g: "gap_at m cs ds atrs i = Some g" and i: "2 \<le> i" "i < length cs"
  shows "fg_index g = i" and "sound_gap m cs atrs g"
    and "fg_is_live g t age \<longleftrightarrow> int i \<le> t \<and> untouched cs g t \<and> t - int i \<le> age"
proof -
  from g obtain lo hi d mi iv f where im: "imbalance (cs ! (i - 2)) (cs ! i) = Some (d, lo, hi)"
    and life: "gap_life d lo hi (i + 1) 0 (drop (i + 1) cs) = (mi, iv, f)"
    and atr: "0 < atrs ! i" "atrs ! i * m \<le> hi - lo"
    and fields: "fg_index g = i" "fg_direction g = d" "fg_lower g = lo" "fg_upper g = hi" "fg_size g = hi - lo"
      "fg_mitigated_index g = mi" "fg_invalidated_index g = iv" "fg_fill_fraction g = f"
    by (auto simp: gap_at_def gap_frame_def Let_def split: if_splits option.splits prod.splits)
  show "fg_index g = i" by (rule fields)
  have spent: "first_spent (gap_invalidated d lo hi) (gap_mitigated d lo hi) (i + 1) (drop (i + 1) cs) = (mi, iv)"
    using gap_life_first_spent [of d lo hi "i + 1" "drop (i + 1) cs" 0] life by simp
  have lh: "lo < hi" using imbalance_Some [OF im] by simp
  show "sound_gap m cs atrs g"
    using im atr i lh gap_life_fill [OF lh, of 0 d "i + 1" "drop (i + 1) cs"] first_spent_exclusive [OF spent]
    by (simp add: sound_gap_def fields life [simplified])
  have "(spent_by mi t \<or> spent_by iv t) \<longleftrightarrow> \<not> untouched cs g t"
    unfolding first_spent_drop [OF spent] untouched_def fields by (metis Suc_eq_plus1 Suc_le_eq)
  then show "fg_is_live g t age \<longleftrightarrow> int i \<le> t \<and> untouched cs g t \<and> t - int i \<le> age"
    by (auto simp: fg_is_live_def fg_age_def fields)
qed

lemma detect_gaps_mem:
  assumes "g \<in> set (detect_fair_value_gaps period m cs ds)"
  shows "gap_at m cs ds (atr_series cs period) (fg_index g) = Some g" and "2 \<le> fg_index g" and "fg_index g < length cs"
proof -
  from assms obtain i where i: "2 \<le> i" "i < length cs" "gap_at m cs ds (atr_series cs period) i = Some g"
    by (auto simp: detect_fair_value_gaps_def set_map_filter split: if_splits)
  with gap_at_Some(1) have "fg_index g = i" by blast
  with i show "gap_at m cs ds (atr_series cs period) (fg_index g) = Some g" "2 \<le> fg_index g" "fg_index g < length cs"
    by simp_all
qed

text \<open>What an entry reads of a gap: its place, its edges, whether it is live.\<close>

type_synonym zone_view = "nat \<times> candle_direction \<times> real \<times> real"

definition fg_zone :: "fair_value_gap \<Rightarrow> zone_view" where
  "fg_zone g = (fg_index g, fg_direction g, fg_lower g, fg_upper g)"

definition live_zones :: "fair_value_gap list \<Rightarrow> int \<Rightarrow> int \<Rightarrow> zone_view list" where
  "live_zones gaps t age = map fg_zone (filter (\<lambda>g. fg_is_live g t age) gaps)"

lemma gap_at_zone:
  "map_option fg_zone (gap_at m cs ds atrs i) = map_option (Pair i) (gap_frame m cs atrs i)"
  by (auto simp: gap_at_def fg_zone_def Let_def split: option.split prod.split)

lemma gap_at_take:
  assumes "i < n" and "2 \<le> i" and "i < length cs" and "0 < period" and "int t < int n" and "int t < int (length cs)"
  shows "(case gap_at m (take n cs) ds' (atr_series (take n cs) period) i of None \<Rightarrow> None
       | Some g \<Rightarrow> if fg_is_live g (int t) age then Some (fg_zone g) else None)
    = (case gap_at m cs ds (atr_series cs period) i of None \<Rightarrow> None
       | Some g \<Rightarrow> if fg_is_live g (int t) age then Some (fg_zone g) else None)"
proof -
  let ?cut = "take n cs"
  have nths: "?cut ! (i - 2) = cs ! (i - 2)" "?cut ! i = cs ! i" using assms(1) by simp_all
  have frame: "gap_frame m ?cut (atr_series ?cut period) i = gap_frame m cs (atr_series cs period) i"
    unfolding gap_frame_def nths using assms by (simp add: atr_series_take)
  show ?thesis
  proof (cases "gap_frame m cs (atr_series cs period) i")
    case None
    then show ?thesis by (simp add: gap_at_def frame)
  next
    case (Some z)
    then obtain g g' where g: "gap_at m cs ds (atr_series cs period) i = Some g"
        "gap_at m ?cut ds' (atr_series ?cut period) i = Some g'" "fg_zone g = (i, z)" "fg_zone g' = (i, z)"
      using gap_at_zone [of m cs ds "atr_series cs period" i]
        gap_at_zone [of m ?cut ds' "atr_series ?cut period" i] frame by auto
    then have "untouched ?cut g' (int t) = untouched cs g (int t)"
      using assms(5) by (cases z) (auto simp: untouched_def fg_zone_def)
    then have "fg_is_live g' (int t) age = fg_is_live g (int t) age"
      using gap_at_Some(3) [OF g(1) assms(2,3)] gap_at_Some(3) [OF g(2) assms(2)] assms(1,3) by simp
    with g show ?thesis by simp
  qed
qed

text \<open>A gap's zone at candle \<open>t\<close> as an option: \<open>None\<close> when there is no live gap.\<close>

lemma live_zones_eq:
  "live_zones (List.map_filter f is) t age =
     List.map_filter (\<lambda>i. case f i of None \<Rightarrow> None | Some g \<Rightarrow> if fg_is_live g t age then Some (fg_zone g) else None) is"
  by (induction "is") (auto simp: live_zones_def split: option.split)

lemma map_filter_none: "(\<And>x. x \<in> set xs \<Longrightarrow> f x = None) \<Longrightarrow> List.map_filter f xs = []"
  by (induction xs) auto

lemma live_zones_detect:
  "live_zones (detect_fair_value_gaps period m cs ds) t age =
     List.map_filter (\<lambda>i. case gap_at m cs ds (atr_series cs period) i of None \<Rightarrow> None
       | Some g \<Rightarrow> if fg_is_live g t age then Some (fg_zone g) else None) [2 ..< length cs]"
  by (cases "length cs < 3") (simp_all add: detect_fair_value_gaps_def live_zones_eq, simp add: live_zones_def)

lemma live_zones_take:
  assumes "0 < period" and "t < n" and "t < length cs"
  shows "live_zones (detect_fair_value_gaps period m (take n cs) ds') (int t) age
    = live_zones (detect_fair_value_gaps period m cs ds) (int t) age"
proof -
  let ?f = "\<lambda>cs ds i. case gap_at m cs ds (atr_series cs period) i of None \<Rightarrow> None
       | Some g \<Rightarrow> if fg_is_live g (int t) age then Some (fg_zone g) else None"
  let ?n = "length (take n cs)"
  have "List.map_filter (?f (take n cs) ds') [2 ..< ?n] = List.map_filter (?f cs ds) [2 ..< ?n]"
    using assms gap_at_take [of _ n cs period t age m ds' ds] by (intro map_filter_cong) auto
  also have "\<dots> = List.map_filter (?f cs ds) [2 ..< length cs]"
  proof (cases "2 \<le> ?n")
    case True
    have late: "?f cs ds i = None" if "i \<in> set [?n ..< length cs]" for i
    proof (cases "gap_at m cs ds (atr_series cs period) i")
      case (Some g)
      have "\<not> fg_is_live g (int t) age"
        using gap_at_Some(3) [OF Some, of "int t" age] that True assms(2,3)
        by (auto simp: min_def split: if_splits)
      then show ?thesis by (simp add: Some)
    qed simp
    have "[2 ..< length cs] = [2 ..< ?n] @ [?n ..< length cs]"
      using True upt_add_eq_append [of 2 ?n "length cs - ?n"] by simp
    then show ?thesis by (simp only: map_filter_append map_filter_none [OF late] append_Nil2)
  next
    case False
    have "?f cs ds i = None" if "i \<in> set [2 ..< length cs]" for i
    proof (cases "gap_at m cs ds (atr_series cs period) i")
      case (Some g)
      have "\<not> fg_is_live g (int t) age"
        using gap_at_Some(3) [OF Some, of "int t" age] that False assms(2,3)
        by (auto simp: min_def split: if_splits)
      then show ?thesis by (simp add: Some)
    qed simp
    then have "List.map_filter (?f cs ds) [2 ..< length cs] = []" by (rule map_filter_none)
    moreover have "[2 ..< ?n] = []" using False by (auto simp: not_le min_less_iff_disj less_imp_le)
    ultimately show ?thesis by (simp only: List.map_filter_simps)
  qed
  finally show ?thesis by (simp only: live_zones_detect)
qed

text \<open>Every reported gap is a true imbalance of at least the configured size with its fill
  in [0, 1] and never both mitigated and invalidated; it is live at a candle exactly when it has
  formed, no candle since has traded through or closed beyond it, and it is not too old. Liveness
  uses no later candle: the zones live at a candle are the same on the series cut behind it.\<close>

theorem gap_lifecycle:
  assumes "0 < period" and "t < n" and "t < length cs"
  shows "list_all (sound_gap m cs (atr_series cs period)) (detect_fair_value_gaps period m cs ds)
    \<and> list_all (\<lambda>g. fg_is_live g (int t) age =
          (int (fg_index g) \<le> int t \<and> untouched cs g (int t) \<and> int t - int (fg_index g) \<le> age))
        (detect_fair_value_gaps period m cs ds)
    \<and> live_zones (detect_fair_value_gaps period m (take n cs) ds') (int t) age
      = live_zones (detect_fair_value_gaps period m cs ds) (int t) age"
proof -
  have "sound_gap m cs (atr_series cs period) g \<and> fg_is_live g (int t) age =
      (int (fg_index g) \<le> int t \<and> untouched cs g (int t) \<and> int t - int (fg_index g) \<le> age)"
    if "g \<in> set (detect_fair_value_gaps period m cs ds)" for g
    using gap_at_Some [OF detect_gaps_mem [OF that]] by simp
  then show ?thesis using live_zones_take [OF assms, of m ds' age ds] by (auto simp: list_all_iff)
qed

definition gap_series :: "candle list" where
  "gap_series = [bar 0 1 2 1 2, bar 1 2 5 2 5, bar 2 5 6 4 6, bar 3 6 6 3 4, bar 4 4 4 1 3]"

lemma gap_atrs: "atr_series gap_series 1 = [1, 3, 2, 3, 3]"
proof -
  have ranges: "true_ranges gap_series = [1, 3, 2, 3, 3]"
    by (simp add: gap_series_def true_range_def candle_range_def)
  show ?thesis by (simp add: atr_series_def ranges slice_def)
qed

lemma gap_found:
  "map (\<lambda>g. (fg_zone g, fg_mitigated_index g, fg_fill_fraction g)) (detect_fair_value_gaps 1 (12 / 100) gap_series [])
   = [((2, Bullish, 2, 4), Some 4, 1)]"
  by (simp add: detect_fair_value_gaps_def gap_atrs [simplified])
    (simp add: gap_series_def upt_rec gap_at_def gap_frame_def imbalance_def gap_invalidated_def
      gap_mitigated_def penetration_def Let_def fg_zone_def)

theorem gap_lifecycle_witness:
  "live_zones (detect_fair_value_gaps 1 (12 / 100) (take 4 gap_series) []) 3 60
     = live_zones (detect_fair_value_gaps 1 (12 / 100) gap_series []) 3 60
   \<and> map (\<lambda>g. (fg_zone g, fg_mitigated_index g, fg_fill_fraction g))
       (detect_fair_value_gaps 1 (12 / 100) gap_series []) = [((2, Bullish, 2, 4), Some 4, 1)]"
  using gap_lifecycle [of 1 3 4 gap_series "12 / 100" "[]" 60 "[]"] gap_found by (simp add: gap_series_def)

subsection \<open>The entry gap\<close>

interpretation gap_order: preference better_gap
proof
  show "better_gap x y \<Longrightarrow> \<not> better_gap y x" for x y
    by (auto simp: better_gap_def split: if_splits)
  show "\<not> better_gap x y \<Longrightarrow> \<not> better_gap y z \<Longrightarrow> \<not> better_gap x z" for x y z
    by (cases "fg_displaced x"; cases "fg_displaced y"; cases "fg_displaced z")
      (simp_all add: better_gap_def split: if_splits)
qed

lemma best_entry_gap_Some:
  assumes "best_entry_gap gaps direction t age ref back = Some g"
  shows "g \<in> set gaps \<and> fg_direction g = wanted_direction direction \<and> fg_is_live g t age
    \<and> near_reference ref back (fg_index g)
    \<and> (\<forall>h \<in> set gaps. fg_direction h = wanted_direction direction \<and> fg_is_live h t age
         \<and> near_reference ref back (fg_index h) \<longrightarrow> \<not> better_gap h g)"
  using gap_order.preferred_Some [OF assms [unfolded best_entry_gap_def]] by auto

end
