(* ===== verification/Order_Blocks.thy ===== *)
theory Order_Blocks
  imports Fvg
begin

text \<open>
  Order blocks, \<open>bot/smc/orderblocks.py\<close>: the last opposing candle before a displacement that
  broke structure or left an imbalance, its lifecycle and the choice of the block an entry uses.
\<close>

record order_block =
  ob_index :: nat
  ob_confirmed_index :: nat
  ob_timestamp :: micros
  ob_direction :: candle_direction
  ob_lower :: real
  ob_upper :: real
  ob_displacement_index :: nat
  ob_strength :: real
  ob_broke_structure :: bool
  ob_has_imbalance :: bool
  ob_mitigated_index :: "nat option"
  ob_invalidated_index :: "nat option"

definition ob_midpoint :: "order_block \<Rightarrow> real" where
  "ob_midpoint b = (ob_upper b + ob_lower b) / 2"

definition ob_is_live :: "order_block \<Rightarrow> int \<Rightarrow> int \<Rightarrow> bool" where
  "ob_is_live b at_index max_age =
     (if int (ob_confirmed_index b) > at_index then False
      else if spent_by (ob_invalidated_index b) at_index then False
      else if spent_by (ob_mitigated_index b) at_index then False
      else at_index - int (ob_index b) \<le> max_age)"

definition opposing :: "candle_direction \<Rightarrow> candle_direction" where
  "opposing d = (if d = Bullish then Bearish else Bullish)"

text \<open>The search backwards from the displacement, at most \<open>lookback\<close> candles.\<close>

definition origin_of :: "candle list \<Rightarrow> nat \<Rightarrow> displacement \<Rightarrow> nat option" where
  "origin_of candles lookback move =
     List.find (\<lambda>i. candle_direction (candles ! i) = opposing (dp_direction move))
       (rev [dp_index move - lookback ..< dp_index move])"

definition leg_broke_structure :: "displacement \<Rightarrow> structure_event list \<Rightarrow> bool" where
  "leg_broke_structure move events =
     list_ex (\<lambda>e. dp_index move \<le> se_index e \<and> se_index e \<le> dp_index move + 3
       \<and> se_direction e = dp_direction move) events"

definition leg_has_imbalance :: "displacement \<Rightarrow> fair_value_gap list \<Rightarrow> bool" where
  "leg_has_imbalance move gaps =
     list_ex (\<lambda>g. fg_direction g = dp_direction move \<and> int (dp_index move) - 1 \<le> int (fg_index g)
       \<and> fg_index g \<le> dp_index move + 2) gaps"

definition block_invalidated :: "candle_direction \<Rightarrow> candle \<Rightarrow> real \<Rightarrow> candle \<Rightarrow> bool" where
  "block_invalidated direction origin current_atr c =
     (if direction = Bullish then c_close c < c_low origin - current_atr * (1 / 10)
      else c_close c > c_high origin + current_atr * (1 / 10))"

definition block_mitigated :: "candle_direction \<Rightarrow> candle \<Rightarrow> candle \<Rightarrow> bool" where
  "block_mitigated direction origin c =
     (if direction = Bullish then c_low c \<le> c_low origin else c_high c \<ge> c_high origin)"

definition block_at ::
  "candle list \<Rightarrow> real list \<Rightarrow> structure_event list \<Rightarrow> fair_value_gap list \<Rightarrow> displacement \<Rightarrow> nat \<Rightarrow> order_block option" where
  "block_at candles atrs events gaps move origin_index =
     (let origin = candles ! origin_index;
          current_atr = (if atrs ! dp_index move \<noteq> 0 then atrs ! dp_index move else 1);
          broke_structure = leg_broke_structure move events;
          has_imbalance = leg_has_imbalance move gaps
      in if \<not> broke_structure \<and> \<not> has_imbalance \<and> \<not> dp_leaves_gap move then None
         else
           (let (mitigated, invalidated) =
                  first_spent (block_invalidated (dp_direction move) origin current_atr)
                    (block_mitigated (dp_direction move) origin) (dp_index move + 1)
                    (drop (dp_index move + 1) candles)
            in Some \<lparr> ob_index = origin_index, ob_confirmed_index = dp_index move,
                 ob_timestamp = c_timestamp origin, ob_direction = dp_direction move,
                 ob_lower = c_low origin, ob_upper = c_high origin,
                 ob_displacement_index = dp_index move,
                 ob_strength = min 1 (45 / 100 * dp_quality move
                   + (if broke_structure then 30 / 100 else 0)
                   + (if has_imbalance then 15 / 100 else 0)
                   + 10 / 100 * min 1 (candle_range origin / current_atr)),
                 ob_broke_structure = broke_structure, ob_has_imbalance = has_imbalance,
                 ob_mitigated_index = mitigated, ob_invalidated_index = invalidated \<rparr>))"

text \<open>The loop over the displacements, with the origins seen and the blocks so far.\<close>

fun collect_blocks ::
  "(displacement \<Rightarrow> nat option) \<Rightarrow> (displacement \<Rightarrow> nat \<Rightarrow> order_block option) \<Rightarrow>
   (candle_direction \<times> nat) list \<Rightarrow> displacement list \<Rightarrow> order_block list" where
  "collect_blocks origin build seen [] = []"
| "collect_blocks origin build seen (move # moves) =
     (case origin move of
        None \<Rightarrow> collect_blocks origin build seen moves
      | Some i \<Rightarrow>
          if (dp_direction move, i) \<in> set seen then collect_blocks origin build seen moves
          else (case build move i of None \<Rightarrow> [] | Some b \<Rightarrow> [b])
            @ collect_blocks origin build ((dp_direction move, i) # seen) moves)"

definition detect_order_blocks ::
  "nat \<Rightarrow> nat \<Rightarrow> candle list \<Rightarrow> displacement list \<Rightarrow> structure_event list \<Rightarrow> fair_value_gap list \<Rightarrow> order_block list" where
  "detect_order_blocks lookback atr_period candles displacements events gaps =
     (if candles = [] \<or> displacements = [] then []
      else sort_key ob_index
        (collect_blocks (origin_of candles lookback)
          (block_at candles (atr_series candles atr_period) events gaps) [] displacements))"

definition better_block :: "order_block \<Rightarrow> order_block \<Rightarrow> bool" where
  "better_block b best =
     (if ob_strength b \<noteq> ob_strength best then ob_strength b > ob_strength best
      else ob_index b > ob_index best)"

definition best_entry_block ::
  "order_block list \<Rightarrow> string \<Rightarrow> int \<Rightarrow> int \<Rightarrow> nat option \<Rightarrow> int \<Rightarrow> order_block option" where
  "best_entry_block blocks direction at_index max_age reference_index lookback =
     preferred better_block
       (filter (\<lambda>b. ob_direction b = wanted_direction direction \<and> ob_is_live b at_index max_age
             \<and> near_reference reference_index lookback (ob_index b)) blocks)"

subsection \<open>Origins\<close>

lemma origin_of_Some:
  assumes "origin_of cs back move = Some i"
  shows "i < dp_index move" and "dp_index move - back \<le> i"
    and "candle_direction (cs ! i) = opposing (dp_direction move)"
    and "\<And>j. i < j \<Longrightarrow> j < dp_index move \<Longrightarrow> candle_direction (cs ! j) \<noteq> opposing (dp_direction move)"
proof -
  let ?P = "\<lambda>i. candle_direction (cs ! i) = opposing (dp_direction move)"
  let ?is = "rev [dp_index move - back ..< dp_index move]"
  from assms obtain k where k: "k < length ?is" "?P (?is ! k)" "i = ?is ! k" "\<forall>j < k. \<not> ?P (?is ! j)"
    unfolding origin_of_def find_Some_iff by blast
  have nths: "?is ! j = dp_index move - 1 - j" if "j < length ?is" for j
    using that by (auto simp: rev_nth)
  show "i < dp_index move" "dp_index move - back \<le> i" "?P i"
    using k nths [OF k(1)] by auto
  show "\<not> ?P j" if "i < j" "j < dp_index move" for j
  proof -
    have i: "i = dp_index move - 1 - k" using k nths by simp
    define m where "m = dp_index move - 1 - j"
    have m: "m < k" "m < length ?is" using that i k(1) by (auto simp: m_def)
    then have "?is ! m = j" using nths [OF m(2)] that by (simp add: m_def)
    with k(4) m(1) show ?thesis by metis
  qed
qed

text \<open>A block as it is documented: the last opposing candle before its displacement.\<close>

definition sound_block ::
  "candle list \<Rightarrow> nat \<Rightarrow> real list \<Rightarrow> structure_event list \<Rightarrow> fair_value_gap list \<Rightarrow> displacement \<Rightarrow> order_block \<Rightarrow> bool" where
  "sound_block cs back atrs events gaps move b =
     (ob_confirmed_index b = dp_index move \<and> ob_direction b = dp_direction move
      \<and> ob_index b < dp_index move \<and> dp_index move - back \<le> ob_index b
      \<and> candle_direction (cs ! ob_index b) = opposing (ob_direction b)
      \<and> (\<forall>j. ob_index b < j \<and> j < dp_index move \<longrightarrow> candle_direction (cs ! j) \<noteq> opposing (ob_direction b))
      \<and> ob_lower b = c_low (cs ! ob_index b) \<and> ob_upper b = c_high (cs ! ob_index b)
      \<and> (leg_broke_structure move events \<or> leg_has_imbalance move gaps \<or> dp_leaves_gap move)
      \<and> (ob_mitigated_index b = None \<or> ob_invalidated_index b = None))"

definition block_untouched :: "candle list \<Rightarrow> order_block \<Rightarrow> int \<Rightarrow> bool" where
  "block_untouched cs b t = (\<forall>j < length cs. ob_confirmed_index b < j \<and> int j \<le> t \<longrightarrow>
     \<not> block_mitigated (ob_direction b) (cs ! ob_index b) (cs ! j))"

lemma block_at_Some:
  assumes b: "block_at cs atrs events gaps move i = Some b" and o': "origin_of cs back move = Some i"
    and ok: "list_all candle_ok cs" and atr: "0 \<le> atrs ! dp_index move"
  shows "sound_block cs back atrs events gaps move b" and "ob_index b = i"
    and "ob_is_live b t age \<longleftrightarrow>
      int (ob_confirmed_index b) \<le> t \<and> block_untouched cs b t \<and> t - int (ob_index b) \<le> age"
proof -
  define a where "a = (if atrs ! dp_index move \<noteq> 0 then atrs ! dp_index move else 1)"
  obtain mi iv where spent: "first_spent (block_invalidated (dp_direction move) (cs ! i) a)
      (block_mitigated (dp_direction move) (cs ! i)) (dp_index move + 1) (drop (dp_index move + 1) cs) = (mi, iv)"
    by fastforce
  from b spent have leg: "leg_broke_structure move events \<or> leg_has_imbalance move gaps \<or> dp_leaves_gap move"
    and fields: "ob_index b = i" "ob_confirmed_index b = dp_index move" "ob_direction b = dp_direction move"
      "ob_lower b = c_low (cs ! i)" "ob_upper b = c_high (cs ! i)"
      "ob_mitigated_index b = mi" "ob_invalidated_index b = iv"
    by (auto simp: block_at_def Let_def a_def split: if_splits)
  show "ob_index b = i" by (rule fields)
  show "sound_block cs back atrs events gaps move b"
    using leg first_spent_exclusive [OF spent] origin_of_Some [OF o']
    by (simp add: sound_block_def fields)
  have weaker: "block_invalidated (dp_direction move) (cs ! i) a c \<Longrightarrow> block_mitigated (dp_direction move) (cs ! i) c"
    if "c \<in> set cs" for c
  proof -
    have "candle_ok c" "0 \<le> a" using ok atr that by (auto simp: list_all_iff a_def)
    then show "block_invalidated (dp_direction move) (cs ! i) a c \<Longrightarrow> block_mitigated (dp_direction move) (cs ! i) c"
      by (auto simp: block_invalidated_def block_mitigated_def candle_ok_def split: if_splits)
  qed
  have "(spent_by mi t \<or> spent_by iv t) \<longleftrightarrow> \<not> block_untouched cs b t"
    unfolding first_spent_drop [OF spent] block_untouched_def fields
    using weaker by (metis Suc_eq_plus1 Suc_le_eq nth_mem)
  then show "ob_is_live b t age \<longleftrightarrow>
      int (ob_confirmed_index b) \<le> t \<and> block_untouched cs b t \<and> t - int (ob_index b) \<le> age"
    by (auto simp: ob_is_live_def fields)
qed

lemma collect_blocks_mem:
  "b \<in> set (collect_blocks origin build seen moves) \<Longrightarrow>
     \<exists>move i. move \<in> set moves \<and> origin move = Some i \<and> build move i = Some b \<and> (dp_direction move, i) \<notin> set seen"
  by (induction origin build seen moves rule: collect_blocks.induct)
    (fastforce split: option.splits if_splits)+

lemma collect_blocks_distinct:
  assumes "\<And>move i b. build move i = Some b \<Longrightarrow> ob_direction b = dp_direction move \<and> ob_index b = i"
  shows "distinct (map (\<lambda>b. (ob_direction b, ob_index b)) (collect_blocks origin build seen moves))"
  using assms
proof (induction origin build seen moves rule: collect_blocks.induct)
  case (2 origin build seen move moves)
  show ?case
  proof (cases "origin move")
    case None
    with 2 show ?thesis by simp
  next
    case (Some i)
    show ?thesis
    proof (cases "(dp_direction move, i) \<in> set seen")
      case True
      with 2 Some show ?thesis by simp
    next
      case False
      let ?rest = "collect_blocks origin build ((dp_direction move, i) # seen) moves"
      have "(ob_direction b, ob_index b) \<noteq> (dp_direction move, i)" if "b \<in> set ?rest" for b
        using collect_blocks_mem [OF that] 2(4) by fastforce
      then show ?thesis
        using 2(3) [OF Some False 2(4)] 2(4) Some False by (fastforce split: option.splits)
    qed
  qed
qed simp

text \<open>Every order block is the last opposing candle before its displacement, at most the
  lookback away, with a leg that broke structure or left an imbalance; no origin is reported
  twice in a direction, the blocks are in candle order, and a block is live at a candle exactly
  when its displacement has printed, no candle since has traded through its far edge, and it is
  not too old.\<close>

theorem order_blocks_sound:
  assumes "list_all candle_ok cs" and "0 < period" and "\<And>d. d \<in> set ds \<Longrightarrow> dp_index d < length cs"
  shows "list_all (\<lambda>b. list_ex (\<lambda>move. sound_block cs back (atr_series cs period) events gaps move b) ds
        \<and> ob_is_live b t age = (int (ob_confirmed_index b) \<le> t \<and> block_untouched cs b t \<and> t - int (ob_index b) \<le> age))
      (detect_order_blocks back period cs ds events gaps)
    \<and> distinct (map (\<lambda>b. (ob_direction b, ob_index b)) (detect_order_blocks back period cs ds events gaps))
    \<and> sorted (map ob_index (detect_order_blocks back period cs ds events gaps))"
proof -
  let ?build = "block_at cs (atr_series cs period) events gaps"
  let ?raw = "collect_blocks (origin_of cs back) ?build [] ds"
  have each: "list_ex (\<lambda>move. sound_block cs back (atr_series cs period) events gaps move b) ds
        \<and> ob_is_live b t age = (int (ob_confirmed_index b) \<le> t \<and> block_untouched cs b t \<and> t - int (ob_index b) \<le> age)"
    if "b \<in> set ?raw" for b
  proof -
    from collect_blocks_mem [OF that] obtain move i where
      m: "move \<in> set ds" "origin_of cs back move = Some i" "?build move i = Some b" by blast
    have "0 \<le> atr_series cs period ! dp_index move"
      using atr_series_nonneg [OF assms(1,2)] assms(3) [OF m(1)] by (simp add: list_all_iff)
    from block_at_Some [OF m(3,2) assms(1) this] m(1) show ?thesis
      by (auto simp: list_ex_iff)
  qed
  have "distinct (map (\<lambda>b. (ob_direction b, ob_index b)) ?raw)"
    by (rule collect_blocks_distinct) (auto simp: block_at_def Let_def split: if_splits prod.splits)
  then show ?thesis
    using each by (auto simp: detect_order_blocks_def list_all_iff distinct_map)
qed

subsection \<open>The entry block\<close>

interpretation block_order: preference better_block
  by unfold_locales (auto simp: better_block_def split: if_splits)

lemma best_entry_block_Some:
  assumes "best_entry_block blocks direction t age ref back = Some b"
  shows "b \<in> set blocks \<and> ob_direction b = wanted_direction direction \<and> ob_is_live b t age
    \<and> near_reference ref back (ob_index b)
    \<and> (\<forall>c \<in> set blocks. ob_direction c = wanted_direction direction \<and> ob_is_live c t age
         \<and> near_reference ref back (ob_index c) \<longrightarrow> \<not> better_block c b)"
  using block_order.preferred_Some [OF assms [unfolded best_entry_block_def]] by auto

subsection \<open>Look-ahead\<close>

lemma impulse_displacements:
  "detect_displacement default_displacement impulse_series = [impulse True]"
  "detect_displacement default_displacement (take 8 impulse_series) = [impulse False]"
proof -
  have atr8: "atr_series impulse_series 14 ! 8 = 4 / 3"
    by (simp add: atr_series_nth impulse_bars mean_range_def impulse_ranges)
  have early: "List.map_filter (displacement_of default_displacement cs atrs) [0 ..< 7] = []" for cs atrs
    by (rule map_filter_none) (simp add: displacement_of_def default_displacement_def Let_def)
  have at7: "displacement_of default_displacement impulse_series (atr_series impulse_series 14) 7 = Some (impulse True)"
    "displacement_of default_displacement (take 8 impulse_series) (atr_series (take 8 impulse_series) 14) 7 = Some (impulse False)"
    using impulse_found by (simp_all add: detect_displacement_mem impulse_def default_displacement_def)
  have at8: "displacement_of default_displacement impulse_series (atr_series impulse_series 14) 8 = None"
    by (simp add: displacement_of_def Let_def atr8 default_displacement_def body_def impulse_bars)
  have "[0 ..< 9] = [0 ..< 7] @ [7, 8]" "[0 ..< 8] = [0 ..< 7] @ [7]" by (simp_all add: upt_rec)
  moreover have period: "dm_atr_period default_displacement = 14" by (simp add: default_displacement_def)
  ultimately show "detect_displacement default_displacement impulse_series = [impulse True]"
    and "detect_displacement default_displacement (take 8 impulse_series) = [impulse False]"
    by (simp_all add: detect_displacement_def impulse_bars early map_filter_append at7 at8 period)
qed

lemma impulse_origin: "origin_of impulse_series 6 (impulse b) = Some 6"
  "origin_of (take 8 impulse_series) 6 (impulse b) = Some 6"
proof -
  have "[1 ..< 7] = [1 ..< 6] @ [6 :: nat]" using upt_Suc_append [of 1 6] by simp
  then show "origin_of impulse_series 6 (impulse b) = Some 6"
    "origin_of (take 8 impulse_series) 6 (impulse b) = Some 6"
    by (simp_all add: origin_of_def impulse_bars candle_direction_def opposing_def)
qed

lemma impulse_block:
  "map (\<lambda>b. (ob_index b, ob_confirmed_index b))
     (detect_order_blocks 6 14 impulse_series [impulse True] [] []) = [(6, 7)]"
proof -
  have "impulse_series \<noteq> []" using impulse_bars by auto
  then show ?thesis
    by (simp add: detect_order_blocks_def impulse_origin block_at_def leg_broke_structure_def
      leg_has_imbalance_def Let_def split: prod.split)
qed

lemma candles_ok_impulse: "list_all candle_ok impulse_series"
  by (simp add: impulse_series_unfold candle_ok_def TIMEFRAME_MINUTES_def)

theorem order_blocks_sound_witness:
  "list_ex (\<lambda>b. sound_block impulse_series 6 (atr_series impulse_series 14) [] [] (impulse True) b)
      (detect_order_blocks 6 14 impulse_series [impulse True] [] [])
   \<and> map (\<lambda>b. (ob_index b, ob_confirmed_index b))
     (detect_order_blocks 6 14 impulse_series [impulse True] [] []) = [(6, 7)]"
proof
  have "dp_index d < length impulse_series" if "d \<in> set [impulse True]" for d
    using that by (simp add: impulse_bars)
  then have "list_all (\<lambda>b. list_ex (\<lambda>move. sound_block impulse_series 6 (atr_series impulse_series 14) [] [] move b) [impulse True]
        \<and> ob_is_live b 7 60 = (int (ob_confirmed_index b) \<le> 7 \<and> block_untouched impulse_series b 7 \<and> 7 - int (ob_index b) \<le> 60))
      (detect_order_blocks 6 14 impulse_series [impulse True] [] [])"
    by (intro order_blocks_sound [THEN conjunct1] candles_ok_impulse) simp_all
  with impulse_block
  show "list_ex (\<lambda>b. sound_block impulse_series 6 (atr_series impulse_series 14) [] [] (impulse True) b)
      (detect_order_blocks 6 14 impulse_series [impulse True] [] [])"
    by (auto simp: list_all_iff list_ex_iff)
qed (rule impulse_block)

text \<open>Order blocks appear in the past: the block behind the last displacement is not reported
  when that candle closes, and once the next candle has printed it is reported as confirmed at
  the earlier one.\<close>

theorem order_block_repaints:
  "detect_order_blocks 6 14 (take 8 impulse_series)
       (detect_displacement default_displacement (take 8 impulse_series)) [] [] = []
   \<and> map (\<lambda>b. (ob_index b, ob_confirmed_index b))
      (detect_order_blocks 6 14 impulse_series (detect_displacement default_displacement impulse_series) [] [])
     = [(6, 7)]"
  using impulse_block
  by (simp add: impulse_displacements detect_order_blocks_def impulse_origin block_at_def
    leg_broke_structure_def leg_has_imbalance_def Let_def)

end
