(* ===== verification/Liquidity.thy ===== *)
theory Liquidity
  imports Order_Blocks Sessions
begin

text \<open>
  The liquidity map and the sweeps, \<open>bot/smc/liquidity.py\<close>: clusters of equal highs and lows,
  recent pivots and session extremes as levels with the candle from which each is visible, the
  nearest pool as a target, and the graded sweeps of these levels. Labels are constructors with
  the figures they print.
\<close>

subsection \<open>Levels\<close>

datatype level_side = Buy_Side | Sell_Side

datatype level_kind = EQUAL_HIGHS | EQUAL_LOWS | PREVIOUS_DAY | SESSION | SWING

definition LEVEL_WEIGHTS :: "level_kind \<Rightarrow> real" where
  "LEVEL_WEIGHTS k = (case k of EQUAL_HIGHS \<Rightarrow> 1 | EQUAL_LOWS \<Rightarrow> 1 | PREVIOUS_DAY \<Rightarrow> 95 / 100
     | SESSION \<Rightarrow> 80 / 100 | SWING \<Rightarrow> 60 / 100)"

datatype level_label = EqualLabel nat level_kind | SwingLabel swing_kind | SessionLabel level_name swing_kind

datatype level_scope = External | Internal

record liquidity_level =
  lv_price :: real
  lv_side :: level_side
  lv_kind :: level_kind
  lv_label :: level_label
  lv_source_index :: nat
  lv_weight :: real
  lv_touches :: nat
  lv_scope :: level_scope

definition visible :: "liquidity_level list \<Rightarrow> int \<Rightarrow> liquidity_level list" where
  "visible levels at_index = filter (\<lambda>l. int (lv_source_index l) \<le> at_index) levels"

definition buy_side :: "liquidity_level list \<Rightarrow> int \<Rightarrow> liquidity_level list" where
  "buy_side levels at_index =
     sort_key lv_price (filter (\<lambda>l. lv_side l = Buy_Side) (visible levels at_index))"

text \<open>\<open>sorted(..., reverse=True)\<close> keeps the order of equal elements.\<close>

definition sell_side :: "liquidity_level list \<Rightarrow> int \<Rightarrow> liquidity_level list" where
  "sell_side levels at_index =
     rev (sort_key lv_price (rev (filter (\<lambda>l. lv_side l = Sell_Side) (visible levels at_index))))"

definition nearest_target ::
  "liquidity_level list \<Rightarrow> real \<Rightarrow> string \<Rightarrow> int \<Rightarrow> real \<Rightarrow> liquidity_level option" where
  "nearest_target levels price direction at_index min_distance =
     (if direction = ''BUY'' then
        List.find (\<lambda>l. lv_price l > price \<and> lv_price l - price \<ge> min_distance) (buy_side levels at_index)
      else
        List.find (\<lambda>l. lv_price l < price \<and> price - lv_price l \<ge> min_distance) (sell_side levels at_index))"

subsection \<open>The map\<close>

fun clusters :: "real \<Rightarrow> swing_point list \<Rightarrow> swing_point list \<Rightarrow> swing_point list list" where
  "clusters tolerance current [] = [current]"
| "clusters tolerance current (p # ps) =
     (if \<bar>sw_price p - sw_price (last current)\<bar> \<le> tolerance
      then clusters tolerance (current @ [p]) ps
      else current # clusters tolerance [p] ps)"

definition cluster_level :: "level_kind \<Rightarrow> swing_point list \<Rightarrow> liquidity_level" where
  "cluster_level kind cluster =
     \<lparr> lv_price = sum_list (map sw_price cluster) / real (length cluster),
       lv_side = (if kind = EQUAL_HIGHS then Buy_Side else Sell_Side), lv_kind = kind,
       lv_label = EqualLabel (length cluster) kind,
       lv_source_index = Max (set (map sw_confirmed_index cluster)),
       lv_weight = LEVEL_WEIGHTS kind * min 1 (70 / 100 + 15 / 100 * real (length cluster)),
       lv_touches = length cluster, lv_scope = External \<rparr>"

definition cluster_equal_levels :: "swing_point list \<Rightarrow> real \<Rightarrow> level_kind \<Rightarrow> liquidity_level list" where
  "cluster_equal_levels points tolerance kind =
     (if points = [] \<or> tolerance \<le> 0 then []
      else case sort_key sw_price points of
          [] \<Rightarrow> []
        | p # ps \<Rightarrow> map (cluster_level kind) (filter (\<lambda>c. 2 \<le> length c) (clusters tolerance [p] ps)))"

definition swing_level :: "level_side \<Rightarrow> swing_point \<Rightarrow> liquidity_level" where
  "swing_level side p =
     \<lparr> lv_price = sw_price p, lv_side = side, lv_kind = SWING,
       lv_label = SwingLabel (if side = Buy_Side then High else Low),
       lv_source_index = sw_confirmed_index p, lv_weight = LEVEL_WEIGHTS SWING, lv_touches = 1,
       lv_scope = Internal \<rparr>"

text \<open>The candle from which a session level is visible, as the loop computes it.\<close>

definition session_source :: "candle list \<Rightarrow> real \<Rightarrow> real \<Rightarrow> nat" where
  "session_source candles high low =
     fold (\<lambda>i source. if c_high (candles ! i) \<le> high \<and> c_low (candles ! i) \<ge> low then min source i else source)
       (rev [0 ..< length candles]) (length candles - 1)"

definition session_levels :: "candle list \<Rightarrow> level_name \<times> real \<times> real \<Rightarrow> liquidity_level list" where
  "session_levels candles named =
     (let (name, high, low) = named; kind = (if name = PreviousDay then PREVIOUS_DAY else SESSION);
          source = session_source candles high low;
          level = (\<lambda>price side edge. \<lparr> lv_price = price, lv_side = side, lv_kind = kind,
            lv_label = SessionLabel name edge, lv_source_index = source,
            lv_weight = LEVEL_WEIGHTS kind, lv_touches = 1, lv_scope = External \<rparr>)
      in [level high Buy_Side High, level low Sell_Side Low])"

definition build_liquidity_map ::
  "candle list \<Rightarrow> swing_set \<Rightarrow> nat \<Rightarrow> real \<Rightarrow> micros option \<Rightarrow> session_config \<Rightarrow> liquidity_level list" where
  "build_liquidity_map candles swings atr_period equal_tolerance_atr now config =
     (if candles = [] then []
      else
        (let reference_atr = last (atr_series candles atr_period);
             tolerance = reference_atr * equal_tolerance_atr;
             moment = (case now of None \<Rightarrow> close_time (last candles) | Some t \<Rightarrow> t)
         in cluster_equal_levels (ss_highs swings) tolerance EQUAL_HIGHS
            @ cluster_equal_levels (ss_lows swings) tolerance EQUAL_LOWS
            @ map (swing_level Buy_Side) (tail_slice 8 (ss_highs swings))
            @ map (swing_level Sell_Side) (tail_slice 8 (ss_lows swings))
            @ concat (map (session_levels candles) (session_extremes candles moment config))))"

subsection \<open>Sweeps\<close>

record liquidity_sweep =
  lw_index :: nat
  lw_confirmed_index :: nat
  lw_timestamp :: micros
  lw_direction :: candle_direction
  lw_level :: liquidity_level
  lw_excursion :: real
  lw_rejection_ratio :: real
  lw_displaced :: bool
  lw_structure_shift :: bool
  lw_quality :: real

text \<open>The displacements of one direction in the reaction window.\<close>

definition reaction_moves ::
  "(nat \<Rightarrow> displacement option) \<Rightarrow> nat \<Rightarrow> nat \<Rightarrow> candle_direction \<Rightarrow> displacement list" where
  "reaction_moves by_index index window_end direction =
     filter (\<lambda>d. dp_direction d = direction) (List.map_filter by_index [index ..< window_end + 1])"

definition grade ::
  "candle list \<Rightarrow> nat \<Rightarrow> candle_direction \<Rightarrow> liquidity_level \<Rightarrow> real \<Rightarrow> real \<Rightarrow>
   (nat \<Rightarrow> displacement option) \<Rightarrow> structure_event list \<Rightarrow> nat \<Rightarrow> real \<Rightarrow> liquidity_sweep" where
  "grade candles index direction level excursion rejection by_index events reaction_candles current_atr =
     (let window_end = min (length candles - 1) (index + reaction_candles);
          moves = reaction_moves by_index index window_end direction;
          displaced = (moves \<noteq> []);
          displacement_quality = fold (\<lambda>d best. max best (dp_quality d)) moves 0;
          structure_shift = list_ex (\<lambda>e. index \<le> se_index e \<and> se_index e \<le> window_end
            \<and> se_direction e = direction) events;
          excursion_score = (if current_atr > 0 then min 1 (excursion / (current_atr * (6 / 10))) else 0);
          quality = 28 / 100 * lv_weight level + 22 / 100 * min 1 (rejection / (85 / 100))
            + 14 / 100 * excursion_score + 22 / 100 * (if displaced then displacement_quality else 0)
            + 14 / 100 * (if structure_shift then 1 else 0)
      in \<lparr> lw_index = index, lw_confirmed_index = window_end, lw_timestamp = c_timestamp (candles ! index),
           lw_direction = direction, lw_level = level, lw_excursion = excursion,
           lw_rejection_ratio = rejection, lw_displaced = displaced,
           lw_structure_shift = structure_shift, lw_quality = min 1 quality \<rparr>)"

record sweep_params =
  wp_atr_period :: nat
  wp_reaction_candles :: nat
  wp_min_rejection_ratio :: real
  wp_min_excursion_atr :: real

definition share_of_range :: "real \<Rightarrow> candle \<Rightarrow> real" where
  "share_of_range part c = (if candle_range c \<noteq> 0 then part / candle_range c else 0)"

text \<open>The level a candle swept on one side, with the excursion and the rejection.\<close>

definition swept_low :: "candle \<Rightarrow> liquidity_level list \<Rightarrow> (liquidity_level \<times> real \<times> real) option" where
  "swept_low c seen =
     map_option (\<lambda>l. (l, lv_price l - c_low c, share_of_range (c_close c - c_low c) c))
       (min_by lv_price (filter (\<lambda>l. lv_side l = Sell_Side \<and> c_low c < lv_price l \<and> lv_price l \<le> c_close c) seen))"

definition swept_high :: "candle \<Rightarrow> liquidity_level list \<Rightarrow> (liquidity_level \<times> real \<times> real) option" where
  "swept_high c seen =
     map_option (\<lambda>l. (l, c_high c - lv_price l, share_of_range (c_high c - c_close c) c))
       (max_by lv_price (filter (\<lambda>l. lv_side l = Buy_Side \<and> c_high c > lv_price l \<and> lv_price l \<ge> c_close c) seen))"

definition sweeps_at ::
  "sweep_params \<Rightarrow> candle list \<Rightarrow> liquidity_level list \<Rightarrow> displacement list \<Rightarrow> structure_event list \<Rightarrow>
   real list \<Rightarrow> nat \<Rightarrow> liquidity_sweep list" where
  "sweeps_at p candles levels displacements events atrs index =
     (let c = candles ! index; current_atr = atrs ! index; seen = visible levels (int index - 1);
          found = (\<lambda>direction swept. case swept of
              None \<Rightarrow> []
            | Some (level, excursion, rejection) \<Rightarrow>
                if excursion \<ge> current_atr * wp_min_excursion_atr p \<and> rejection \<ge> wp_min_rejection_ratio p
                then [grade candles index direction level excursion rejection
                        (displacement_by_index displacements) events (wp_reaction_candles p) current_atr]
                else [])
      in if current_atr \<le> 0 then []
         else if seen = [] then []
         else found Bullish (swept_low c seen) @ found Bearish (swept_high c seen))"

definition detect_sweeps ::
  "sweep_params \<Rightarrow> candle list \<Rightarrow> liquidity_level list \<Rightarrow> displacement list \<Rightarrow> structure_event list \<Rightarrow>
   liquidity_sweep list" where
  "detect_sweeps p candles levels displacements events =
     (if candles = [] then []
      else sort_key lw_index
        (concat (map (sweeps_at p candles levels displacements events (atr_series candles (wp_atr_period p)))
           [0 ..< length candles])))"

subsection \<open>Targets\<close>

lemma find_sorted:
  "sorted_wrt r xs \<Longrightarrow> List.find P xs = Some x \<Longrightarrow> y \<in> set xs \<Longrightarrow> P y \<Longrightarrow> x = y \<or> r x y"
  by (induction xs) (auto split: if_splits)

lemma buy_side_mem [simp]: "set (buy_side ls t) = {l \<in> set ls. lv_side l = Buy_Side \<and> int (lv_source_index l) \<le> t}"
  by (auto simp: buy_side_def visible_def)

lemma sell_side_mem [simp]: "set (sell_side ls t) = {l \<in> set ls. lv_side l = Sell_Side \<and> int (lv_source_index l) \<le> t}"
  by (auto simp: sell_side_def visible_def)

lemma sorted_sides:
  "sorted_wrt (\<lambda>l m. lv_price l \<le> lv_price m) (buy_side ls t)"
  "sorted_wrt (\<lambda>l m. lv_price m \<le> lv_price l) (sell_side ls t)"
proof -
  show "sorted_wrt (\<lambda>l m. lv_price l \<le> lv_price m) (buy_side ls t)"
    using sorted_sort_key [of lv_price] by (simp add: buy_side_def sorted_map)
  have "sorted_wrt (\<lambda>l m. lv_price l \<le> lv_price m)
      (sort_key lv_price (rev (filter (\<lambda>l. lv_side l = Sell_Side) (visible ls t))))"
    using sorted_sort_key [of lv_price] by (simp add: sorted_map)
  then show "sorted_wrt (\<lambda>l m. lv_price m \<le> lv_price l) (sell_side ls t)"
    by (simp add: sell_side_def sorted_wrt_rev)
qed

text \<open>The pools a trade may aim at: visible, on the far side of the price, and far enough.\<close>

definition target_pools ::
  "liquidity_level list \<Rightarrow> real \<Rightarrow> string \<Rightarrow> int \<Rightarrow> real \<Rightarrow> liquidity_level set" where
  "target_pools ls price direction t distance =
     {l \<in> set ls. int (lv_source_index l) \<le> t \<and> distance \<le> \<bar>lv_price l - price\<bar>
        \<and> (if direction = ''BUY'' then lv_side l = Buy_Side \<and> price < lv_price l
           else lv_side l = Sell_Side \<and> lv_price l < price)}"

lemma nearest_pool:
  "case nearest_target ls price direction t distance of
     None \<Rightarrow> target_pools ls price direction t distance = {}
   | Some l \<Rightarrow> l \<in> target_pools ls price direction t distance
       \<and> (\<forall>m \<in> target_pools ls price direction t distance. \<bar>lv_price l - price\<bar> \<le> \<bar>lv_price m - price\<bar>)"
proof (cases "direction = ''BUY''")
  case True
  let ?P = "\<lambda>l. lv_price l > price \<and> lv_price l - price \<ge> distance"
  have pools: "target_pools ls price direction t distance = {l \<in> set (buy_side ls t). ?P l}"
    using True by (auto simp: target_pools_def)
  have target: "nearest_target ls price direction t distance = List.find ?P (buy_side ls t)"
    using True by (simp add: nearest_target_def)
  show ?thesis
  proof (cases "List.find ?P (buy_side ls t)")
    case None
    then have "\<forall>l \<in> set (buy_side ls t). \<not> ?P l" by (auto simp: find_None_iff)
    then show ?thesis unfolding target pools None by auto
  next
    case (Some l)
    then have "l \<in> set (buy_side ls t)" "?P l" by (auto dest: find_Some_mem)
    moreover have "lv_price l \<le> lv_price m" if "m \<in> set (buy_side ls t)" "?P m" for m
      using find_sorted [OF sorted_sides(1) Some that] by auto
    ultimately show ?thesis unfolding target pools Some by (auto simp del: buy_side_mem)
  qed
next
  case False
  let ?P = "\<lambda>l. lv_price l < price \<and> price - lv_price l \<ge> distance"
  have pools: "target_pools ls price direction t distance = {l \<in> set (sell_side ls t). ?P l}"
    using False by (auto simp: target_pools_def)
  have target: "nearest_target ls price direction t distance = List.find ?P (sell_side ls t)"
    using False by (simp add: nearest_target_def)
  show ?thesis
  proof (cases "List.find ?P (sell_side ls t)")
    case None
    then have "\<forall>l \<in> set (sell_side ls t). \<not> ?P l" by (auto simp: find_None_iff)
    then show ?thesis unfolding target pools None by auto
  next
    case (Some l)
    then have "l \<in> set (sell_side ls t)" "?P l" by (auto dest: find_Some_mem)
    moreover have "lv_price m \<le> lv_price l" if "m \<in> set (sell_side ls t)" "?P m" for m
      using find_sorted [OF sorted_sides(2) Some that] by auto
    ultimately show ?thesis unfolding target pools Some by (auto simp del: sell_side_mem)
  qed
qed


definition sample_level :: "real \<Rightarrow> liquidity_level" where
  "sample_level price = \<lparr> lv_price = price, lv_side = Buy_Side, lv_kind = SWING, lv_label = SwingLabel High,
     lv_source_index = 2, lv_weight = 60 / 100, lv_touches = 1, lv_scope = Internal \<rparr>"


subsection \<open>Equal levels\<close>

lemma clusters_chain:
  assumes "successively (\<lambda>p q. \<bar>sw_price q - sw_price p\<bar> \<le> tol) current" and "current \<noteq> []"
    and "c \<in> set (clusters tol current ps)"
  shows "successively (\<lambda>p q. \<bar>sw_price q - sw_price p\<bar> \<le> tol) c \<and> c \<noteq> [] \<and> set c \<subseteq> set current \<union> set ps"
  using assms
proof (induction tol current ps rule: clusters.induct)
  case (2 tol current p ps)
  show ?case
  proof (cases "\<bar>sw_price p - sw_price (last current)\<bar> \<le> tol")
    case True
    then have "successively (\<lambda>p q. \<bar>sw_price q - sw_price p\<bar> \<le> tol) (current @ [p])"
      using 2(3,4) by (simp add: successively_append_iff)
    with True 2(1) [OF True] 2(5) show ?thesis by auto
  next
    case False
    with 2(2) [OF False] 2(3-5) show ?thesis by auto
  qed
qed simp

lemma concat_clusters: "concat (clusters tol current ps) = current @ ps"
  by (induction tol current ps rule: clusters.induct) simp_all

lemma average_between:
  assumes "xs \<noteq> []" and "\<And>x. x \<in> set xs \<Longrightarrow> a \<le> (f x :: real) \<and> f x \<le> b"
  shows "a \<le> sum_list (map f xs) / real (length xs) \<and> sum_list (map f xs) / real (length xs) \<le> b"
proof -
  have "real (length xs) * a \<le> sum_list (map f xs) \<and> sum_list (map f xs) \<le> real (length xs) * b"
    using assms(2)
  proof (induction xs)
    case (Cons x xs)
    then have "a \<le> f x \<and> f x \<le> b" "real (length xs) * a \<le> sum_list (map f xs)"
      "sum_list (map f xs) \<le> real (length xs) * b" by auto
    then show ?case by (simp add: algebra_simps)
  qed simp
  then show ?thesis using assms(1) by (simp add: field_simps)
qed

text \<open>A pool of equal levels rests on at least two distinct entries of the swing list chained
  within the tolerance, its price lies between theirs, it becomes visible only when the last of
  them is confirmed, and its weight is at most one.\<close>

theorem equal_levels_sound:
  assumes "l \<in> set (cluster_equal_levels points tol kind)"
  shows "\<exists>c. set c \<subseteq> set points \<and> 2 \<le> length c \<and> length c = lv_touches l
    \<and> successively (\<lambda>p q. \<bar>sw_price q - sw_price p\<bar> \<le> tol) c
    \<and> list_all (\<lambda>p. int (sw_confirmed_index p) \<le> int (lv_source_index l)) c
    \<and> list_ex (\<lambda>p. sw_confirmed_index p = lv_source_index l) c
    \<and> list_ex (\<lambda>p. sw_price p \<le> lv_price l) c \<and> list_ex (\<lambda>p. lv_price l \<le> sw_price p) c
    \<and> 0 < lv_weight l \<and> lv_weight l \<le> 1"
proof -
  from assms obtain p ps c where sorted: "sort_key sw_price points = p # ps"
    and c: "c \<in> set (clusters tol [p] ps)" "2 \<le> length c" and l: "l = cluster_level kind c"
    by (cases "sort_key sw_price points") (auto simp: cluster_equal_levels_def split: if_splits)
  have chain: "successively (\<lambda>p q. \<bar>sw_price q - sw_price p\<bar> \<le> tol) c" "c \<noteq> []"
    using clusters_chain [OF _ _ c(1)] by auto
  have "set (p # ps) = set points" by (metis sorted set_sort)
  then have sub: "set c \<subseteq> set points"
    using clusters_chain [OF _ _ c(1)] by auto
  let ?k = "sw_confirmed_index ` set c"
  have max: "Max ?k \<in> ?k" "\<And>q. q \<in> set c \<Longrightarrow> sw_confirmed_index q \<le> Max ?k"
    using chain(2) by (auto intro: Max_in)
  obtain lo where lo: "lo \<in> set c" "\<And>q. q \<in> set c \<Longrightarrow> sw_price lo \<le> sw_price q"
    using chain(2) min_by_Some [of sw_price c] by (cases "min_by sw_price c") auto
  obtain hi where hi: "hi \<in> set c" "\<And>q. q \<in> set c \<Longrightarrow> sw_price q \<le> sw_price hi"
    using chain(2) max_by_Some [of sw_price c] by (cases "max_by sw_price c") auto
  have between: "sw_price lo \<le> lv_price l" "lv_price l \<le> sw_price hi"
    using average_between [OF chain(2), of "sw_price lo" sw_price "sw_price hi"] lo(2) hi(2)
    by (simp_all add: l cluster_level_def)
  have weight: "0 < LEVEL_WEIGHTS kind" "LEVEL_WEIGHTS kind \<le> 1"
    by (cases kind; simp add: LEVEL_WEIGHTS_def)+
  have factor: "0 < min 1 (70 / 100 + 15 / 100 * real (length c))" "min 1 (70 / 100 + 15 / 100 * real (length c)) \<le> (1 :: real)"
    by simp_all
  have "0 < lv_weight l" "lv_weight l \<le> 1"
    using weight factor mult_mono [OF weight(2) factor(2)] by (simp_all add: l cluster_level_def)
  then show ?thesis
    using sub c(2) chain(1) max lo(1) hi(1) between
    by (intro exI [of _ c]) (auto simp: l cluster_level_def list_all_iff list_ex_iff)
qed

definition twin_highs :: "swing_point list" where
  "twin_highs = map (\<lambda>(i, p). \<lparr> sw_index = i, sw_confirmed_index = i + 2, sw_timestamp = 0, sw_price = p,
     sw_kind = High, sw_strength = 2 \<rparr>) [(4, 10), (9, 12), (14, 10 + 1 / 10)]"

lemma twin_found:
  "map lv_source_index (cluster_equal_levels twin_highs (2 / 10) EQUAL_HIGHS) = [16]"
  by (simp add: cluster_equal_levels_def twin_highs_def sort_key_def cluster_level_def)

theorem equal_levels_sound_witness:
  "\<exists>l \<in> set (cluster_equal_levels twin_highs (2 / 10) EQUAL_HIGHS).
     lv_source_index l = 16 \<and> 0 < lv_weight l \<and> lv_weight l \<le> 1"
proof -
  have "16 \<in> set (map lv_source_index (cluster_equal_levels twin_highs (2 / 10) EQUAL_HIGHS))"
    unfolding twin_found by simp
  then obtain l where l: "l \<in> set (cluster_equal_levels twin_highs (2 / 10) EQUAL_HIGHS)" "lv_source_index l = 16"
    by auto
  from equal_levels_sound [OF l(1)] l show ?thesis by blast
qed

subsection \<open>Session levels\<close>

lemma fold_min_source:
  "fold (\<lambda>i s. if P i then min s i else s) js (n :: nat) =
     (if filter P js = [] then n else min n (Min (set (filter P js))))"
proof (induction js arbitrary: n)
  case (Cons i js)
  show ?case
  proof (cases "filter P js = []")
    case True
    with Cons show ?thesis by auto
  next
    case False
    then have "Min (insert i (set (filter P js))) = min i (Min (set (filter P js)))"
      by (intro Min_insert) (auto simp: filter_empty_conv)
    with Cons False show ?thesis by (auto simp: min.assoc)
  qed
qed simp

lemma session_source_le:
  assumes "i < length cs" and "c_high (cs ! i) \<le> high" and "low \<le> c_low (cs ! i)"
  shows "session_source cs high low \<le> i"
proof -
  let ?P = "\<lambda>i. c_high (cs ! i) \<le> high \<and> c_low (cs ! i) \<ge> low"
  let ?hits = "filter ?P (rev [0 ..< length cs])"
  have "i \<in> set ?hits" using assms by simp
  then have "Min (set ?hits) \<le> i" and "?hits \<noteq> []" by (auto simp only: Min_le finite_set list.set empty_iff)
  then show ?thesis by (simp only: session_source_def fold_min_source) simp
qed

lemma session_source_bound: "cs \<noteq> [] \<Longrightarrow> session_source cs high low < length cs"
proof -
  assume "cs \<noteq> []"
  then have "length cs - 1 < length cs" by simp
  moreover have "session_source cs high low \<le> length cs - 1"
    by (simp only: session_source_def fold_min_source) simp
  ultimately show ?thesis by simp
qed

text \<open>A session level is visible too early: the map dates it by the first candle whose range
  lies inside the session's extremes, so any earlier candle inside them, also of a day before
  the session, sees the level before the session has printed, against the comment in the code.\<close>

theorem session_level_visible_early:
  assumes "(name, high, low) \<in> set (session_extremes cs moment config)" and "i < length cs"
    and "c_high (cs ! i) \<le> high" and "low \<le> c_low (cs ! i)"
  shows "\<exists>l \<in> set (visible (build_liquidity_map cs swings period tol (Some moment) config) (int i)).
     lv_label l = SessionLabel name High \<and> lv_price l = high"
proof -
  have "hd (session_levels cs (name, high, low)) \<in> set (build_liquidity_map cs swings period tol (Some moment) config)"
    using assms(1,2) by (auto simp: build_liquidity_map_def Let_def session_levels_def intro!: bexI)
  moreover have "lv_source_index (hd (session_levels cs (name, high, low))) \<le> i"
    using session_source_le [OF assms(2-4)] by (simp add: session_levels_def Let_def)
  ultimately show ?thesis
    by (intro bexI [of _ "hd (session_levels cs (name, high, low))"]) (auto simp: visible_def session_levels_def Let_def)
qed

text \<open>One candle per day: the first day, the day before, and the day of the scan.\<close>

definition three_days :: "candle list" where
  "three_days = [bar 0 2 3 2 3, bar 96 2 4 1 3, bar 192 3 3 3 3]"

theorem session_level_visible_early_witness:
  "(PreviousDay, 4, 1) \<in> set (session_extremes three_days (192 * 900000000) default_session_config)
   \<and> day_number (c_timestamp (three_days ! 0)) < day_number (192 * 900000000) - 1
   \<and> (\<exists>l \<in> set (visible (build_liquidity_map three_days \<lparr> ss_highs = [], ss_lows = [] \<rparr> 14 (12 / 100)
         (Some (192 * 900000000)) default_session_config) 0). lv_price l = 4)"
proof -
  have extremes: "(PreviousDay, 4, 1) \<in> set (session_extremes three_days (192 * 900000000) default_session_config)"
    by (simp add: session_extremes_def Let_def three_days_def day_number_def usec_per_day_def usec_per_hour_def
      usec_per_min_def extremes_def)
  moreover have "day_number (c_timestamp (three_days ! 0)) < day_number (192 * 900000000) - 1"
    by (simp add: three_days_def day_number_def usec_per_day_def)
  moreover have "\<exists>l \<in> set (visible (build_liquidity_map three_days \<lparr> ss_highs = [], ss_lows = [] \<rparr> 14 (12 / 100)
         (Some (192 * 900000000)) default_session_config) (int 0)). lv_label l = SessionLabel PreviousDay High \<and> lv_price l = 4"
    by (rule session_level_visible_early [OF extremes]) (simp_all add: three_days_def)
  ultimately show ?thesis by auto
qed

subsection \<open>Sweeps\<close>

text \<open>A sweep as it is documented: a level known before the candle, pierced by the wick and
  reclaimed by the close, the deepest of its side.\<close>

definition sound_sweep ::
  "sweep_params \<Rightarrow> candle list \<Rightarrow> liquidity_level list \<Rightarrow> real list \<Rightarrow> liquidity_sweep \<Rightarrow> bool" where
  "sound_sweep p cs levels atrs s =
     (let c = cs ! lw_index s; l = lw_level s in
      lw_index s < length cs \<and> l \<in> set levels \<and> lv_source_index l < lw_index s
      \<and> 0 < atrs ! lw_index s \<and> atrs ! lw_index s * wp_min_excursion_atr p \<le> lw_excursion s
      \<and> wp_min_rejection_ratio p \<le> lw_rejection_ratio s
      \<and> lw_confirmed_index s = min (length cs - 1) (lw_index s + wp_reaction_candles p)
      \<and> (if lw_direction s = Bullish
         then lv_side l = Sell_Side \<and> c_low c < lv_price l \<and> lv_price l \<le> c_close c
           \<and> lw_excursion s = lv_price l - c_low c
           \<and> (\<forall>m \<in> set levels. lv_side m = Sell_Side \<and> lv_source_index m < lw_index s
                \<and> c_low c < lv_price m \<longrightarrow> lv_price l \<le> lv_price m)
         else lw_direction s = Bearish \<and> lv_side l = Buy_Side \<and> lv_price l < c_high c \<and> c_close c \<le> lv_price l
           \<and> lw_excursion s = c_high c - lv_price l
           \<and> (\<forall>m \<in> set levels. lv_side m = Buy_Side \<and> lv_source_index m < lw_index s
                \<and> lv_price m < c_high c \<longrightarrow> lv_price m \<le> lv_price l)))"

lemma grade_fields [simp]:
  "lw_index (grade cs i d l ex rj by_index events k a) = i"
  "lw_direction (grade cs i d l ex rj by_index events k a) = d"
  "lw_level (grade cs i d l ex rj by_index events k a) = l"
  "lw_excursion (grade cs i d l ex rj by_index events k a) = ex"
  "lw_rejection_ratio (grade cs i d l ex rj by_index events k a) = rj"
  "lw_confirmed_index (grade cs i d l ex rj by_index events k a) = min (length cs - 1) (i + k)"
  by (simp_all add: grade_def Let_def)

lemma fold_quality_nonneg: "b \<le> fold (\<lambda>d best. max best (dp_quality d)) moves b"
  by (induction moves arbitrary: b) (auto intro: order_trans [OF max.cobounded1])

lemma grade_quality:
  assumes "0 \<le> lv_weight l" and "0 \<le> ex" and "0 \<le> rj"
  shows "0 \<le> lw_quality (grade cs i d l ex rj by_index events k a) \<and> lw_quality (grade cs i d l ex rj by_index events k a) \<le> 1"
proof -
  define ws where "ws = min (length cs - 1) (i + k)"
  define ms where "ms = reaction_moves by_index i ws d"
  have excursion: "0 \<le> (if a > 0 then min 1 (ex / (a * (6 / 10))) else 0)" using assms(2) by simp
  have reaction: "0 \<le> (if ms \<noteq> [] then fold (\<lambda>d best. max best (dp_quality d)) ms 0 else 0)"
    using fold_quality_nonneg [of 0 ms] by simp
  have rejection: "0 \<le> min 1 (rj / (85 / 100))" using assms(3) by simp
  show ?thesis
    using excursion reaction rejection assms(1)
    by (simp only: grade_def Let_def liquidity_sweep.select_convs flip: ws_def ms_def)
      (intro conjI min.boundedI add_nonneg_nonneg mult_nonneg_nonneg min.cobounded1; simp)
qed

lemma swept_low_Some:
  assumes "swept_low c seen = Some (l, ex, rj)"
  shows "l \<in> set seen" and "lv_side l = Sell_Side" and "c_low c < lv_price l" and "lv_price l \<le> c_close c"
    and "ex = lv_price l - c_low c" and "rj = share_of_range (c_close c - c_low c) c"
    and "\<And>m. m \<in> set seen \<Longrightarrow> lv_side m = Sell_Side \<Longrightarrow> c_low c < lv_price m \<Longrightarrow> lv_price l \<le> lv_price m"
proof -
  from assms obtain l' where min: "min_by lv_price (filter (\<lambda>l. lv_side l = Sell_Side \<and> c_low c < lv_price l \<and> lv_price l \<le> c_close c) seen) = Some l'"
    "l' = l" "ex = lv_price l - c_low c" "rj = share_of_range (c_close c - c_low c) c"
    by (auto simp: swept_low_def)
  from min_by_Some [OF min(1)] min(2-4)
  show "l \<in> set seen" "lv_side l = Sell_Side" "c_low c < lv_price l" and le: "lv_price l \<le> c_close c"
    and "ex = lv_price l - c_low c" "rj = share_of_range (c_close c - c_low c) c" by auto
  show "lv_price l \<le> lv_price m" if "m \<in> set seen" "lv_side m = Sell_Side" "c_low c < lv_price m" for m
    using min_by_Some [OF min(1)] min(2) that le by (cases "lv_price m \<le> c_close c") auto
qed

lemma swept_high_Some:
  assumes "swept_high c seen = Some (l, ex, rj)"
  shows "l \<in> set seen" and "lv_side l = Buy_Side" and "lv_price l < c_high c" and "c_close c \<le> lv_price l"
    and "ex = c_high c - lv_price l" and "rj = share_of_range (c_high c - c_close c) c"
    and "\<And>m. m \<in> set seen \<Longrightarrow> lv_side m = Buy_Side \<Longrightarrow> lv_price m < c_high c \<Longrightarrow> lv_price m \<le> lv_price l"
proof -
  from assms obtain l' where max: "max_by lv_price (filter (\<lambda>l. lv_side l = Buy_Side \<and> c_high c > lv_price l \<and> lv_price l \<ge> c_close c) seen) = Some l'"
    "l' = l" "ex = c_high c - lv_price l" "rj = share_of_range (c_high c - c_close c) c"
    by (auto simp: swept_high_def)
  from max_by_Some [OF max(1)] max(2-4)
  show "l \<in> set seen" "lv_side l = Buy_Side" "lv_price l < c_high c" and le: "c_close c \<le> lv_price l"
    and "ex = c_high c - lv_price l" "rj = share_of_range (c_high c - c_close c) c" by auto
  show "lv_price m \<le> lv_price l" if "m \<in> set seen" "lv_side m = Buy_Side" "lv_price m < c_high c" for m
    using max_by_Some [OF max(1)] max(2) that le by (cases "c_close c \<le> lv_price m") auto
qed

lemma visible_before [simp]: "set (visible ls (int i - 1)) = {l \<in> set ls. lv_source_index l < i}"
  by (auto simp: visible_def)

lemma sweeps_at_mem:
  assumes s: "s \<in> set (sweeps_at p cs ls ds events atrs i)" and i: "i < length cs" and ok: "candle_ok (cs ! i)"
    and weights: "\<And>l. l \<in> set ls \<Longrightarrow> 0 \<le> lv_weight l"
  shows "lw_index s = i \<and> sound_sweep p cs ls atrs s \<and> 0 \<le> lw_quality s \<and> lw_quality s \<le> 1"
proof -
  let ?c = "cs ! i" and ?seen = "visible ls (int i - 1)"
  let ?g = "\<lambda>d l ex rj. grade cs i d l ex rj (displacement_by_index ds) events (wp_reaction_candles p) (atrs ! i)"
  have share: "0 \<le> x \<Longrightarrow> 0 \<le> share_of_range x ?c" for x
    using ok by (auto simp: share_of_range_def candle_range_def candle_ok_def)
  from s obtain l ex rj d where atr: "0 < atrs ! i" "atrs ! i * wp_min_excursion_atr p \<le> ex" "wp_min_rejection_ratio p \<le> rj"
    and g: "s = ?g d l ex rj"
    and side: "d = Bullish \<and> swept_low ?c ?seen = Some (l, ex, rj) \<or> d = Bearish \<and> swept_high ?c ?seen = Some (l, ex, rj)"
    by (auto simp: sweeps_at_def Let_def split: if_splits option.splits)
  from side have sound: "sound_sweep p cs ls atrs s \<and> 0 \<le> ex \<and> 0 \<le> rj \<and> l \<in> set ls"
  proof (elim disjE conjE)
    assume d: "d = Bullish" and sw: "swept_low ?c ?seen = Some (l, ex, rj)"
    show ?thesis
      using swept_low_Some [OF sw] atr i share [of "c_close ?c - c_low ?c"] ok
      by (auto simp: g d sound_sweep_def Let_def candle_ok_def)
  next
    assume d: "d = Bearish" and sw: "swept_high ?c ?seen = Some (l, ex, rj)"
    show ?thesis
      using swept_high_Some [OF sw] atr i share [of "c_high ?c - c_close ?c"] ok
      by (auto simp: g d sound_sweep_def Let_def candle_ok_def)
  qed
  then show ?thesis using grade_quality [OF weights [of l], of ex rj] by (simp add: g)
qed

lemma detect_sweeps_mem:
  "s \<in> set (detect_sweeps p cs ls ds events) \<longleftrightarrow>
     (\<exists>i < length cs. s \<in> set (sweeps_at p cs ls ds events (atr_series cs (wp_atr_period p)) i))"
  by (auto simp: detect_sweeps_def)

text \<open>C34. Every sweep is one: its level was visible before the candle, the wick pierced it by the
  configured share of the ATR and the close reclaimed it, no level of that side lay deeper in the
  wick, the rejection is as large as configured, its quality is in [0, 1], and the sweeps are in
  candle order.\<close>

theorem sweeps_sound:
  assumes "list_all candle_ok cs" and "\<And>l. l \<in> set ls \<Longrightarrow> 0 \<le> lv_weight l"
  shows "list_all (\<lambda>s. sound_sweep p cs ls (atr_series cs (wp_atr_period p)) s \<and> 0 \<le> lw_quality s \<and> lw_quality s \<le> 1)
      (detect_sweeps p cs ls ds events)
    \<and> sorted (map lw_index (detect_sweeps p cs ls ds events))"
proof -
  have "sorted (map lw_index (detect_sweeps p cs ls ds events))" by (simp add: detect_sweeps_def)
  then show ?thesis
    using sweeps_at_mem [OF _ _ _ assms(2)] assms(1) by (auto simp: list_all_iff detect_sweeps_mem)
qed

text \<open>A candle that dips under a swing low known since the first candle and closes above it.\<close>

definition sweep_level :: liquidity_level where
  "sweep_level = \<lparr> lv_price = 2, lv_side = Sell_Side, lv_kind = SWING, lv_label = SwingLabel Low,
     lv_source_index = 0, lv_weight = 60 / 100, lv_touches = 1, lv_scope = Internal \<rparr>"

definition sweep_series :: "candle list" where
  "sweep_series = [bar 0 3 4 2 3, bar 1 3 4 1 4]"

definition default_sweep :: sweep_params where
  "default_sweep = \<lparr> wp_atr_period = 14, wp_reaction_candles = 4, wp_min_rejection_ratio = 45 / 100,
     wp_min_excursion_atr = 5 / 100 \<rparr>"

lemma sweep_found:
  "map (\<lambda>s. (lw_index s, lw_confirmed_index s, lw_direction s))
     (detect_sweeps default_sweep sweep_series [sweep_level] [] []) = [(1, 1, Bullish)]"
proof -
  have ranges: "true_ranges sweep_series = [2, 3]"
    by (simp add: sweep_series_def true_range_def candle_range_def)
  have atrs: "atr_series sweep_series 14 = [2, 5 / 2]"
    by (simp add: atr_series_def ranges)
  have bars: "sweep_series ! 0 = bar 0 3 4 2 3" "sweep_series ! Suc 0 = bar 1 3 4 1 4" "length sweep_series = 2"
    "sweep_series \<noteq> []" by (simp_all add: sweep_series_def)
  have upt: "[0 ..< 2] = [0, Suc 0]" by (simp add: upt_rec)
  have p: "wp_atr_period default_sweep = 14" "wp_reaction_candles default_sweep = 4"
    "wp_min_rejection_ratio default_sweep = 45 / 100" "wp_min_excursion_atr default_sweep = 5 / 100"
    by (simp_all add: default_sweep_def)
  have level: "lv_price sweep_level = 2" "lv_side sweep_level = Sell_Side" "lv_source_index sweep_level = 0"
    by (simp_all add: sweep_level_def)
  have none: "sweeps_at default_sweep sweep_series [sweep_level] [] [] [2, 5 / 2] 0 = []"
    by (simp add: sweeps_at_def visible_def level)
  have one: "map (\<lambda>s. (lw_index s, lw_confirmed_index s, lw_direction s))
      (sweeps_at default_sweep sweep_series [sweep_level] [] [] [2, 5 / 2] (Suc 0)) = [(1, 1, Bullish)]"
    by (simp add: sweeps_at_def visible_def level p bars swept_low_def swept_high_def share_of_range_def
      candle_range_def Let_def)
  then obtain s where "sweeps_at default_sweep sweep_series [sweep_level] [] [] [2, 5 / 2] (Suc 0) = [s]" by auto
  with none one show ?thesis by (simp add: detect_sweeps_def bars p atrs upt)
qed

theorem sweeps_sound_witness:
  "list_ex (\<lambda>s. lw_level s = sweep_level \<and> 0 \<le> lw_quality s \<and> lw_quality s \<le> 1)
     (detect_sweeps default_sweep sweep_series [sweep_level] [] [])"
proof -
  let ?sweeps = "detect_sweeps default_sweep sweep_series [sweep_level] [] []"
  have "list_all candle_ok sweep_series" by (simp add: sweep_series_def candle_ok_def TIMEFRAME_MINUTES_def)
  then have "list_all (\<lambda>s. sound_sweep default_sweep sweep_series [sweep_level] (atr_series sweep_series (wp_atr_period default_sweep)) s
      \<and> 0 \<le> lw_quality s \<and> lw_quality s \<le> 1) ?sweeps"
    by (rule sweeps_sound [THEN conjunct1]) (simp add: sweep_level_def)
  moreover have "?sweeps \<noteq> []" using sweep_found by auto
  ultimately show ?thesis by (cases ?sweeps) (auto simp: sound_sweep_def Let_def)
qed

text \<open>The confirmation of a sweep waits for nothing: its confirmed index is capped at the last
  candle, so asking for sweeps confirmed by the last candle refuses none, and a sweep on the last
  candle counts as confirmed on the candle itself, before any of its reaction has printed.\<close>

theorem sweep_confirmation_is_vacuous:
  "filter (\<lambda>s. int (lw_confirmed_index s) \<le> int (length cs) - 1) (detect_sweeps p cs ls ds events)
     = detect_sweeps p cs ls ds events
   \<and> filter (\<lambda>s. lw_index s = length cs - 1 \<and> lw_confirmed_index s \<noteq> lw_index s) (detect_sweeps p cs ls ds events) = []"
proof -
  have "lw_index s = i \<and> lw_confirmed_index s = min (length cs - 1) (i + wp_reaction_candles p)"
    if "s \<in> set (sweeps_at p cs ls ds events atrs i)" for s i atrs
    using that by (auto simp: sweeps_at_def Let_def split: if_splits option.splits)
  then have "int (lw_confirmed_index s) \<le> int (length cs) - 1
      \<and> (lw_index s = length cs - 1 \<longrightarrow> lw_confirmed_index s = lw_index s)"
    if "s \<in> set (detect_sweeps p cs ls ds events)" for s
    using that by (fastforce simp: detect_sweeps_mem min_def)
  then show ?thesis by (auto simp: filter_id_conv filter_empty_conv)
qed

end
