(* ===== verification/Regime.thy ===== *)
theory Regime
  imports Liquidity
begin

text \<open>
  The market regime (\<open>bot/smc/regime.py\<close>) and the dealing range (\<open>bot/smc/dealing_range.py\<close>). The
  note of a regime is printed from its trend and volatility and is a constructor of both.
\<close>

subsection \<open>Regime\<close>

datatype trend = Trending | Ranging | Transitional

datatype volatility = Compressed | Normal | Expanded | Extreme

datatype regime_note = InsufficientHistory | MarketNote trend volatility

definition EXTREME_ATR_MULTIPLE :: real where
  "EXTREME_ATR_MULTIPLE = 35 / 10"

record regime =
  rg_trend :: trend
  rg_volatility :: volatility
  rg_atr :: real
  rg_atr_percentile :: real
  rg_directional_strength :: real
  rg_tradeable :: bool
  rg_note :: regime_note

definition regime_quality :: "regime \<Rightarrow> real" where
  "regime_quality r =
     py_round 4 ((case rg_trend r of Trending \<Rightarrow> 1 | Transitional \<Rightarrow> 7 / 10 | Ranging \<Rightarrow> 45 / 100)
       * (case rg_volatility r of Compressed \<Rightarrow> 55 / 100 | Normal \<Rightarrow> 1 | Expanded \<Rightarrow> 85 / 100 | Extreme \<Rightarrow> 2 / 10))"

definition classify_volatility :: "real list \<Rightarrow> real \<Rightarrow> volatility \<times> real" where
  "classify_volatility history current_atr =
     (let low_band = value_at history (25 / 100); high_band = value_at history (75 / 100);
          extreme_band = value_at history (95 / 100) in
      if current_atr \<le> 0 then (Normal, 1 / 2)
      else
        (let position = real (length (filter (\<lambda>v. v \<le> current_atr) (sort history))) / real (length (sort history));
             median = value_at history (1 / 2);
             extreme_by_median = (median > 0 \<and> current_atr \<ge> median * EXTREME_ATR_MULTIPLE)
         in (if extreme_by_median \<or> current_atr \<ge> max (extreme_band * (16 / 10)) (high_band * (22 / 10)) then Extreme
             else if current_atr \<ge> high_band * (105 / 100) then Expanded
             else if current_atr \<le> low_band * (95 / 100) then Compressed
             else Normal, position)))"

definition directional_strength :: "candle list \<Rightarrow> real" where
  "directional_strength window =
     (let net = \<bar>c_close (last window) - c_open (hd window)\<bar>;
          path = sum_list (map candle_range window);
          path' = (if path \<noteq> 0 then path else 1)
      in max 0 (min 1 (net / path' * 6)))"

definition break_consistency :: "structure_event list \<Rightarrow> real" where
  "break_consistency recent =
     (if recent = [] then 0
      else real (length (filter (\<lambda>e. se_direction e = se_direction (last recent)) recent)) / real (length recent))"

definition classify_regime :: "candle list \<Rightarrow> structure_event list \<Rightarrow> nat \<Rightarrow> nat \<Rightarrow> regime" where
  "classify_regime candles events atr_period lookback =
     (if length candles < 10
      then \<lparr> rg_trend = Ranging, rg_volatility = Normal, rg_atr = 0, rg_atr_percentile = 1 / 2,
             rg_directional_strength = 0, rg_tradeable = False, rg_note = InsufficientHistory \<rparr>
      else
        (let atrs = atr_series candles atr_period; current_atr = last atrs;
             (volatility, atr_percentile) = classify_volatility (tail_slice lookback atrs) current_atr;
             strength = directional_strength (tail_slice lookback candles);
             consistency = break_consistency
               (filter (\<lambda>e. int (se_index e) \<ge> int (length candles) - int lookback) events);
             trend = (if strength \<ge> 45 / 100 \<and> consistency \<ge> 6 / 10 then Trending
                      else if strength \<le> 2 / 10 then Ranging else Transitional)
         in \<lparr> rg_trend = trend, rg_volatility = volatility, rg_atr = current_atr,
              rg_atr_percentile = atr_percentile, rg_directional_strength = strength,
              rg_tradeable = (volatility \<noteq> Extreme), rg_note = MarketNote trend volatility \<rparr>))"

subsection \<open>Dealing range\<close>

record dealing_range =
  dr_high :: real
  dr_low :: real
  dr_price :: real

definition dr_size :: "dealing_range \<Rightarrow> real" where
  "dr_size d = max 0 (dr_high d - dr_low d)"

definition dr_equilibrium :: "dealing_range \<Rightarrow> real" where
  "dr_equilibrium d = (dr_high d + dr_low d) / 2"

definition dr_position :: "dealing_range \<Rightarrow> real" where
  "dr_position d =
     (if dr_size d \<le> 0 then 1 / 2 else max 0 (min 1 ((dr_price d - dr_low d) / dr_size d)))"

datatype range_zone = Premium | Discount | Equilibrium

definition dr_zone :: "dealing_range \<Rightarrow> range_zone" where
  "dr_zone d =
     (let position = dr_position d in
      if position \<ge> 62 / 100 then Premium else if position \<le> 38 / 100 then Discount else Equilibrium)"

definition dr_alignment :: "dealing_range \<Rightarrow> string \<Rightarrow> real" where
  "dr_alignment d direction =
     (let position = dr_position d in
      if direction = ''BUY'' then max 0 (min 1 (1 - position / (85 / 100)))
      else max 0 (min 1 ((position - 15 / 100) / (85 / 100))))"

definition dealing_range_of :: "swing_set \<Rightarrow> int \<Rightarrow> real \<Rightarrow> dealing_range option" where
  "dealing_range_of swings at_index price =
     (case (max_by sw_price (tail_slice 5 (known_highs swings at_index)),
            min_by sw_price (tail_slice 5 (known_lows swings at_index))) of
        (Some h, Some l) \<Rightarrow>
          if sw_price h \<le> sw_price l then None
          else Some \<lparr> dr_high = sw_price h, dr_low = sw_price l, dr_price = price \<rparr>
      | _ \<Rightarrow> None)"

subsection \<open>Regimes are graded in bounds\<close>

lemma regime_quality_bounds: "0 < regime_quality r \<and> regime_quality r \<le> 1"
  by (cases "rg_trend r"; cases "rg_volatility r") (simp_all add: regime_quality_def py_num floor_eq_iff)

lemma clamp_mono: "a \<le> b \<Longrightarrow> max 0 (min 1 a) \<le> max 0 (min 1 (b :: real))"
  by (intro max.mono min.mono order_refl)

lemma alignment_mono:
  assumes "dr_position d \<le> dr_position d'"
  shows "dr_alignment d' ''BUY'' \<le> dr_alignment d ''BUY''" and "dr_alignment d ''SELL'' \<le> dr_alignment d' ''SELL''"
proof -
  have "1 - dr_position d' / (85 / 100) \<le> 1 - dr_position d / (85 / 100)"
    and "(dr_position d - 15 / 100) / (85 / 100) \<le> (dr_position d' - 15 / 100) / (85 / 100)"
    using assms by simp_all
  from clamp_mono [OF this(1)] clamp_mono [OF this(2)]
  show "dr_alignment d' ''BUY'' \<le> dr_alignment d ''BUY''" and "dr_alignment d ''SELL'' \<le> dr_alignment d' ''SELL''"
    by (simp_all only: dr_alignment_def Let_def) simp_all
qed

text \<open>A regime is graded in bounds and the extreme one is refused: strength and percentile are
  in [0, 1], the quality is positive and at most one, a regime is tradeable exactly when the
  history suffices and the volatility is not extreme, and an ATR of 3.5 times a positive median
  of the window is never tradeable.\<close>

theorem regime_refuses_extremes:
  "0 \<le> rg_directional_strength (classify_regime cs events period back)
   \<and> rg_directional_strength (classify_regime cs events period back) \<le> 1
   \<and> 0 \<le> rg_atr_percentile (classify_regime cs events period back)
   \<and> rg_atr_percentile (classify_regime cs events period back) \<le> 1
   \<and> 0 < regime_quality (classify_regime cs events period back)
   \<and> regime_quality (classify_regime cs events period back) \<le> 1
   \<and> rg_tradeable (classify_regime cs events period back)
      = (10 \<le> length cs \<and> rg_volatility (classify_regime cs events period back) \<noteq> Extreme)
   \<and> (if 0 < value_at (tail_slice back (atr_series cs period)) (1 / 2)
        \<and> 35 / 10 * value_at (tail_slice back (atr_series cs period)) (1 / 2) \<le> last (atr_series cs period)
      then \<not> rg_tradeable (classify_regime cs events period back) else True)"
proof -
  have strength: "0 \<le> directional_strength w \<and> directional_strength w \<le> 1" for w
    by (simp add: directional_strength_def Let_def)
  have share: "real (length (filter P xs)) / real (length xs) \<le> 1" for P and xs :: "real list"
    by (cases "xs = []") (simp_all add: divide_le_eq_1)
  have rank: "0 \<le> snd (classify_volatility h a) \<and> snd (classify_volatility h a) \<le> 1" for h a
    using share [of _ "sort h"] by (auto simp: classify_volatility_def Let_def)
  have extreme: "fst (classify_volatility h a) = Extreme" if "0 < value_at h (1 / 2)" "35 / 10 * value_at h (1 / 2) \<le> a" for h a
  proof -
    have "0 < a" using that by linarith
    then show ?thesis using that by (simp add: classify_volatility_def Let_def EXTREME_ATR_MULTIPLE_def mult.commute)
  qed
  show ?thesis
    using strength rank extreme regime_quality_bounds [of "classify_regime cs events period back"]
    by (auto simp: classify_regime_def Let_def split: prod.splits) (metis fst_conv snd_conv)+
qed

text \<open>A dealing range exists only with its high above its low; the position of the price and
  the alignment of a trade with it are in [0, 1], and a lower price is never worse for a buy nor
  better for a sell.\<close>

theorem dealing_range_is_ordered:
  assumes "dealing_range_of swings t p = Some d" and "dealing_range_of swings t p' = Some d'" and "p \<le> p'"
  shows "dr_low d < dr_high d \<and> 0 \<le> dr_position d \<and> dr_position d \<le> 1
    \<and> dr_position d \<le> dr_position d'
    \<and> dr_alignment d' ''BUY'' \<le> dr_alignment d ''BUY'' \<and> dr_alignment d ''SELL'' \<le> dr_alignment d' ''SELL''
    \<and> 0 \<le> dr_alignment d side \<and> dr_alignment d side \<le> 1"
proof -
  from assms obtain h l where d: "d = \<lparr> dr_high = h, dr_low = l, dr_price = p \<rparr>"
    "d' = \<lparr> dr_high = h, dr_low = l, dr_price = p' \<rparr>" and hl: "l < h"
    by (auto simp: dealing_range_of_def split: option.splits if_splits)
  have le: "dr_position d \<le> dr_position d'"
  proof -
    have "(p - l) / (h - l) \<le> (p' - l) / (h - l)" using assms(3) hl by (simp add: divide_right_mono)
    then show ?thesis using hl by (auto simp: d dr_position_def dr_size_def)
  qed
  have "0 \<le> dr_position d \<and> dr_position d \<le> 1" by (simp add: dr_position_def)
  moreover have "0 \<le> dr_alignment d side \<and> dr_alignment d side \<le> 1" by (simp add: dr_alignment_def Let_def)
  moreover have "dr_low d < dr_high d" using hl by (simp add: d)
  ultimately show ?thesis using le alignment_mono [OF le] by blast
qed

definition swing_pair :: swing_set where
  "swing_pair = \<lparr>
     ss_highs = [\<lparr> sw_index = 1, sw_confirmed_index = 3, sw_timestamp = 0, sw_price = 10, sw_kind = High, sw_strength = 2 \<rparr>],
     ss_lows = [\<lparr> sw_index = 4, sw_confirmed_index = 6, sw_timestamp = 0, sw_price = 6, sw_kind = Low, sw_strength = 2 \<rparr>] \<rparr>"

theorem dealing_range_is_ordered_witness:
  "\<exists>d d'. dealing_range_of swing_pair 6 7 = Some d \<and> dealing_range_of swing_pair 6 9 = Some d'
     \<and> dr_position d = 1 / 4 \<and> dr_zone d = Discount \<and> dr_alignment d' ''BUY'' \<le> dr_alignment d ''BUY''"
proof -
  let ?d = "\<lambda>p. \<lparr> dr_high = 10, dr_low = 6, dr_price = p \<rparr>"
  have range: "dealing_range_of swing_pair 6 p = Some (?d p)" for p
    by (simp add: dealing_range_of_def known_highs_def known_lows_def swing_pair_def tail_slice_def)
  show ?thesis
    using dealing_range_is_ordered [OF range range, of 7 9 "''BUY''"]
    by (intro exI [of _ "?d 7"] exI [of _ "?d 9"]) (simp add: range dr_position_def dr_size_def dr_zone_def)
qed

end
