(* ===== verification/Checklist.thy ===== *)
theory Checklist
  imports Regime
begin

text \<open>
  The transcript of the strategy chain (\<open>bot/smc/checks.py\<close>) and the identity of a setup
  (\<open>bot/smc/identity.py\<close>). The detail texts of a check are a type parameter; the absent detail
  stands for the text "not reached". The SHA-256 digest of the identity is a parameter on the
  list of its parts: the parts are joined by a separator none of them contains.
\<close>

subsection \<open>Checks\<close>

datatype check_status = PASS | FAIL | PENDING_CHECK

definition CHAIN :: "string list" where
  "CHAIN = [''liquidity_sweep'', ''displacement'', ''structure_break'', ''entry_zone'', ''zone_retest'',
     ''stop_loss'', ''take_profit'', ''risk_reward'']"

record 'd check =
  ck_name :: string
  ck_status :: check_status
  ck_detail :: "'d option"

datatype checklist_error = NotInChain | AlreadyRecorded

definition record_check ::
  "'d check list \<Rightarrow> string \<Rightarrow> check_status \<Rightarrow> 'd \<Rightarrow> checklist_error + 'd check list" where
  "record_check checks name status detail =
     (if name \<notin> set CHAIN then Inl NotInChain
      else if list_ex (\<lambda>c. ck_name c = name) checks then Inl AlreadyRecorded
      else Inr (checks @ [\<lparr> ck_name = name, ck_status = status, ck_detail = Some detail \<rparr>]))"

definition passed :: "'d check list \<Rightarrow> string \<Rightarrow> 'd \<Rightarrow> checklist_error + 'd check list" where
  "passed checks name detail = record_check checks name PASS detail"

definition failed_check :: "'d check list \<Rightarrow> string \<Rightarrow> 'd \<Rightarrow> checklist_error + 'd check list" where
  "failed_check checks name detail = record_check checks name FAIL detail"

text \<open>The dict keyed by name: of equal names the last one counts.\<close>

definition chain_entry :: "'d check list \<Rightarrow> string \<Rightarrow> 'd check" where
  "chain_entry checks name =
     (case last_of (filter (\<lambda>c. ck_name c = name) checks) of
        Some c \<Rightarrow> c
      | None \<Rightarrow> \<lparr> ck_name = name, ck_status = PENDING_CHECK, ck_detail = None \<rparr>)"

definition finish :: "'d check list \<Rightarrow> 'd check list" where
  "finish checks = map (chain_entry checks) CHAIN"

definition summarise :: "'d check list \<Rightarrow> (string \<times> check_status) list" where
  "summarise checks = map (\<lambda>c. (ck_name c, ck_status c)) checks"

text \<open>The lists the constructor and \<open>record\<close> can build.\<close>

inductive checklist :: "'d check list \<Rightarrow> bool" where
  empty: "checklist []"
| recorded: "checklist checks \<Longrightarrow> record_check checks name status detail = Inr checks' \<Longrightarrow> checklist checks'"

lemma record_check_Inr [simp]:
  "record_check checks name status detail = Inr checks' \<longleftrightarrow>
     name \<in> set CHAIN \<and> name \<notin> ck_name ` set checks
     \<and> checks' = checks @ [\<lparr> ck_name = name, ck_status = status, ck_detail = Some detail \<rparr>]"
  by (auto simp: record_check_def list_ex_iff)

lemma checklist_distinct: "checklist checks \<Longrightarrow> distinct (map ck_name checks) \<and> set (map ck_name checks) \<subseteq> set CHAIN"
  by (induction rule: checklist.induct) auto

lemma last_of_unique:
  assumes "distinct (map k xs)" and "x \<in> set xs"
  shows "last_of (filter (\<lambda>y. k y = k x) xs) = Some x"
  using assms
proof (induction xs)
  case (Cons a xs)
  have "filter (\<lambda>y. k y = k x) xs = []" if "k a = k x"
    using Cons.prems that by (auto simp: filter_empty_conv image_iff)
  then show ?case
  proof (cases "k a = k x")
    case True
    with Cons.prems have "a = x" by (auto simp: image_iff)
    with \<open>k a = k x \<Longrightarrow> filter (\<lambda>y. k y = k x) xs = []\<close> show ?thesis by (simp add: last_of_def)
  next
    case False
    with Cons show ?thesis by auto
  qed
qed simp

lemma chain_entry_name [simp]: "ck_name (chain_entry checks name) = name"
  by (cases "last_of (filter (\<lambda>c. ck_name c = name) checks)") (auto simp: chain_entry_def dest!: last_of_Some)

lemma chain_entry_append:
  "chain_entry (checks @ [c]) name = (if ck_name c = name then c else chain_entry checks name)"
  by (simp add: chain_entry_def last_of_def)

lemma chain_entry_cases:
  "chain_entry checks name \<in> set checks \<or>
     ck_status (chain_entry checks name) = PENDING_CHECK \<and> ck_detail (chain_entry checks name) = None"
  by (cases "last_of (filter (\<lambda>c. ck_name c = name) checks)") (auto simp: chain_entry_def dest!: last_of_Some)

lemma chain_entry_recorded:
  assumes "checklist checks" and "c \<in> set checks"
  shows "chain_entry checks (ck_name c) = c" and "ck_name c \<in> set CHAIN"
  using checklist_distinct [OF assms(1)] last_of_unique [of ck_name checks c] assms(2)
  by (auto simp: chain_entry_def)

text \<open>The transcript is append-only and complete: recording never changes an earlier verdict,
  a condition outside the chain or recorded twice is refused, and the finished chain lists every
  condition once in evaluation order, with the recorded verdict where there is one and PENDING
  where there is none.\<close>

theorem transcript_is_append_only:
  assumes "checklist checks"
  shows "map ck_name (finish checks) = CHAIN
    \<and> set checks \<subseteq> set (finish checks)
    \<and> list_all (\<lambda>c. if c \<in> set checks then True else ck_status c = PENDING_CHECK \<and> ck_detail c = None)
        (finish checks)
    \<and> (case record_check checks name status detail of
         Inl e \<Rightarrow> (e = NotInChain) = (name \<notin> set CHAIN)
       | Inr checks' \<Rightarrow> take (length checks) checks' = checks
           \<and> finish checks' = map (\<lambda>c. if ck_name c = name
               then \<lparr> ck_name = name, ck_status = status, ck_detail = Some detail \<rparr> else c) (finish checks))"
proof -
  have "map ck_name (finish checks) = CHAIN" by (simp add: finish_def comp_def)
  moreover have "set checks \<subseteq> set (finish checks)"
  proof
    fix c assume "c \<in> set checks"
    then show "c \<in> set (finish checks)"
      using chain_entry_recorded [OF assms, of c] unfolding finish_def by (metis imageI list.set_map)
  qed
  moreover have "list_all (\<lambda>c. if c \<in> set checks then True else ck_status c = PENDING_CHECK \<and> ck_detail c = None)
      (finish checks)"
    using chain_entry_cases [of checks] by (auto simp: finish_def list_all_iff)
  moreover have "case record_check checks name status detail of
         Inl e \<Rightarrow> (e = NotInChain) = (name \<notin> set CHAIN)
       | Inr checks' \<Rightarrow> take (length checks) checks' = checks
           \<and> finish checks' = map (\<lambda>c. if ck_name c = name
               then \<lparr> ck_name = name, ck_status = status, ck_detail = Some detail \<rparr> else c) (finish checks)"
  proof (cases "record_check checks name status detail")
    case (Inl e)
    then show ?thesis by (auto simp: record_check_def split: if_splits)
  next
    case (Inr checks')
    then have "checks' = checks @ [\<lparr> ck_name = name, ck_status = status, ck_detail = Some detail \<rparr>]" by simp
    then show ?thesis unfolding Inr by (auto simp: finish_def chain_entry_append)
  qed
  ultimately show ?thesis by blast
qed

theorem transcript_is_append_only_witness:
  "\<exists>checks. passed [] ''liquidity_sweep'' () = Inr checks
     \<and> map ck_name (finish checks) = CHAIN
     \<and> record_check checks ''liquidity_sweep'' FAIL () = Inl AlreadyRecorded
     \<and> record_check checks ''vibes'' PASS () = Inl NotInChain
     \<and> map ck_status (finish checks) = PASS # replicate 7 PENDING_CHECK"
proof -
  let ?checks = "[\<lparr> ck_name = ''liquidity_sweep'', ck_status = PASS, ck_detail = Some () \<rparr>]"
  have start: "passed [] ''liquidity_sweep'' () = Inr ?checks" by (simp add: passed_def CHAIN_def)
  then have "checklist ?checks"
    unfolding passed_def by (rule checklist.recorded [OF checklist.empty])
  from transcript_is_append_only [OF this]
  have "map ck_name (finish ?checks) = CHAIN" by blast
  then show ?thesis
    by (intro exI [of _ ?checks] conjI start)
      (simp_all add: record_check_def CHAIN_def finish_def chain_entry_def last_of_def eval_nat_numeral)
qed

subsection \<open>Identity of a setup\<close>

text \<open>\<open>f"{price:.5f}"\<close>, as the number of units of the fifth decimal it prints.\<close>

definition level_text :: "real \<Rightarrow> int" where
  "level_text price = round_half_even (price * 10 ^ 5)"

datatype id_part =
    IdText string | IdSwept level_label int | IdSweptAt micros | IdBreak break_type int micros

definition DIGEST_CHARS :: nat where "DIGEST_CHARS = 16"

definition identity_parts ::
  "string \<Rightarrow> string \<Rightarrow> string \<Rightarrow> liquidity_sweep option \<Rightarrow> structure_event option \<Rightarrow> id_part list" where
  "identity_parts symbol timeframe direction sweep event =
     [IdText (upper symbol), IdText (upper timeframe), IdText (upper direction)]
     @ (case sweep of None \<Rightarrow> []
        | Some s \<Rightarrow> [IdSwept (lv_label (lw_level s)) (level_text (lv_price (lw_level s))),
                     IdSweptAt (lw_timestamp s)])
     @ (case event of None \<Rightarrow> []
        | Some e \<Rightarrow> [IdBreak (se_event_type e) (level_text (se_level e)) (se_timestamp e)])"

definition setup_identity ::
  "(id_part list \<Rightarrow> string) \<Rightarrow> string \<Rightarrow> string \<Rightarrow> string \<Rightarrow> liquidity_sweep option \<Rightarrow> structure_event option \<Rightarrow> string" where
  "setup_identity digest symbol timeframe direction sweep event =
     (let parts = identity_parts symbol timeframe direction sweep event in
      if length parts = 3 then [] else take DIGEST_CHARS (digest parts))"

text \<open>What identifies the evidence: the swept level and its candle, the break and its candle.\<close>

definition evidence_key ::
  "liquidity_sweep option \<Rightarrow> structure_event option \<Rightarrow>
   (level_label \<times> int \<times> micros) option \<times> (break_type \<times> int \<times> micros) option" where
  "evidence_key sweep event =
     (map_option (\<lambda>s. (lv_label (lw_level s), level_text (lv_price (lw_level s)), lw_timestamp s)) sweep,
      map_option (\<lambda>e. (se_event_type e, level_text (se_level e), se_timestamp e)) event)"

lemma identity_parts_eq:
  "identity_parts symbol tf d s e = identity_parts symbol' tf' d' s' e' \<longleftrightarrow>
     upper symbol = upper symbol' \<and> upper tf = upper tf' \<and> upper d = upper d' \<and> evidence_key s e = evidence_key s' e'"
  by (cases s; cases s'; cases e; cases e') (auto simp: identity_parts_def evidence_key_def)

lemma identity_parts_length:
  "length (identity_parts symbol tf d s e) = 3 \<longleftrightarrow> s = None \<and> e = None"
  by (auto simp: identity_parts_def split: option.splits)

text \<open>A setup keeps its identity: when the digest, cut to sixteen characters, separates the
  evidence of two setups and is never empty, they share an identity exactly when symbol, timeframe
  and direction agree up to case and they rest on the same swept level, sweep candle and break; a
  setup without evidence has the empty identity and no setup with evidence has it.\<close>

theorem setup_identity_separates:
  assumes "take DIGEST_CHARS (digest (identity_parts symbol tf d s e))
        = take DIGEST_CHARS (digest (identity_parts symbol' tf' d' s' e'))
      \<Longrightarrow> identity_parts symbol tf d s e = identity_parts symbol' tf' d' s' e'"
    and "digest (identity_parts symbol tf d s e) \<noteq> []" and "digest (identity_parts symbol' tf' d' s' e') \<noteq> []"
  shows "(setup_identity digest symbol tf d s e = []) = (s = None \<and> e = None)
    \<and> (if s = None \<and> e = None then True
       else (setup_identity digest symbol tf d s e = setup_identity digest symbol' tf' d' s' e') =
         (upper symbol = upper symbol' \<and> upper tf = upper tf' \<and> upper d = upper d' \<and> evidence_key s e = evidence_key s' e'))"
proof -
  have one: "(setup_identity digest symbol tf d s e = []) = (s = None \<and> e = None)"
    if "digest (identity_parts symbol tf d s e) \<noteq> []" for symbol tf d s e
    using that identity_parts_length by (simp add: setup_identity_def Let_def DIGEST_CHARS_def)
  have two: "(setup_identity digest symbol tf d s e = setup_identity digest symbol' tf' d' s' e') =
      (identity_parts symbol tf d s e = identity_parts symbol' tf' d' s' e')" if "\<not> (s = None \<and> e = None)"
  proof (cases "s' = None \<and> e' = None")
    case True
    then have "setup_identity digest symbol' tf' d' s' e' = []" using one [OF assms(3)] by simp
    moreover have "setup_identity digest symbol tf d s e \<noteq> []" using that one [OF assms(2)] by simp
    moreover have "identity_parts symbol tf d s e \<noteq> identity_parts symbol' tf' d' s' e'"
      using that True identity_parts_length by metis
    ultimately show ?thesis by simp
  next
    case False
    then have "length (identity_parts symbol tf d s e) \<noteq> 3" "length (identity_parts symbol' tf' d' s' e') \<noteq> 3"
      using that identity_parts_length by metis+
    then show ?thesis using assms(1) by (auto simp: setup_identity_def Let_def)
  qed
  show ?thesis using one [OF assms(2)] two unfolding identity_parts_eq by simp
qed

definition sample_break :: "real \<Rightarrow> structure_event" where
  "sample_break level = \<lparr> se_index = 3, se_timestamp = 2700000000, se_direction = Bullish, se_event_type = BOS,
     se_level = level, se_level_index = 1, se_close = 5, se_displaced = True, se_displacement_quality = 0,
     se_clearance_atr = 1 \<rparr>"

text \<open>The same break described again, with another quality and clearance, is the same setup; a
  break of another level is not.\<close>

theorem setup_identity_separates_witness:
  "let digest = (\<lambda>parts. if parts = identity_parts ''EURUSD'' ''M15'' ''BUY'' None (Some (sample_break 3))
         then ''3f'' else ''a0'');
       seen = setup_identity digest ''EURUSD'' ''M15'' ''BUY'' None (Some (sample_break 3))
   in seen = setup_identity digest ''eurusd'' ''M15'' ''buy'' None
        (Some ((sample_break 3)\<lparr> se_displacement_quality := 1, se_clearance_atr := 2 \<rparr>))
      \<and> seen \<noteq> setup_identity digest ''EURUSD'' ''M15'' ''BUY'' None (Some (sample_break 4))"
proof -
  let ?p = "identity_parts ''EURUSD'' ''M15'' ''BUY'' None (Some (sample_break 3))"
  let ?digest = "\<lambda>parts. if parts = ?p then ''3f'' else ''a0''"
  let ?again = "(sample_break 3)\<lparr> se_displacement_quality := 1, se_clearance_atr := 2 \<rparr>"
  have texts: "upper ''EURUSD'' = ''EURUSD''" "upper ''eurusd'' = ''EURUSD''" "upper ''buy'' = ''BUY''" "upper ''BUY'' = ''BUY''"
    by code_simp+
  have same: "evidence_key None (Some (sample_break 3)) = evidence_key None (Some ?again)"
    by (simp add: evidence_key_def sample_break_def)
  have four: "level_text 3 \<noteq> level_text 4" by (simp add: level_text_def round_half_even_def)
  then have other: "evidence_key None (Some (sample_break 3)) \<noteq> evidence_key None (Some (sample_break 4))"
    by (simp add: evidence_key_def sample_break_def)
  have p: "identity_parts ''eurusd'' ''M15'' ''buy'' None (Some ?again) = ?p"
    unfolding identity_parts_eq using texts same by simp
  have q: "identity_parts ''EURUSD'' ''M15'' ''BUY'' None (Some (sample_break 4)) \<noteq> ?p"
    unfolding identity_parts_eq using other by simp
  have "setup_identity ?digest ''EURUSD'' ''M15'' ''BUY'' None (Some (sample_break 3))
      = setup_identity ?digest ''eurusd'' ''M15'' ''buy'' None (Some ?again)"
    using setup_identity_separates [of ?digest "''EURUSD''" "''M15''" "''BUY''" None "Some (sample_break 3)"
      "''eurusd''" "''M15''" "''buy''" None "Some ?again"] texts same p by simp
  moreover have "setup_identity ?digest ''EURUSD'' ''M15'' ''BUY'' None (Some (sample_break 3))
      \<noteq> setup_identity ?digest ''EURUSD'' ''M15'' ''BUY'' None (Some (sample_break 4))"
    using setup_identity_separates [of ?digest "''EURUSD''" "''M15''" "''BUY''" None "Some (sample_break 3)"
      "''EURUSD''" "''M15''" "''BUY''" None "Some (sample_break 4)"] other q
    by (simp add: DIGEST_CHARS_def)
  ultimately show ?thesis by (simp add: Let_def)
qed

end
