(* ===== verification/Mtf.thy ===== *)
theory Mtf
  imports Checklist Config
begin

text \<open>
  The analysis of one timeframe (\<open>analyze_timeframe\<close> of \<open>bot/smc/engine.py\<close>) and the decision
  between the two timeframes, \<open>bot/smc/mtf.py\<close>: the evidence in one direction, its
  classification against the H1 trend, and the choice between both directions. Rationales and
  evidence notes are constructors with the figures they print.
\<close>

subsection \<open>One timeframe\<close>

record timeframe_analysis =
  ta_timeframe :: string
  ta_candles :: "candle list"
  ta_swings :: swing_set
  ta_structure_events :: "structure_event list"
  ta_displacements :: "displacement list"
  ta_gaps :: "fair_value_gap list"
  ta_order_blocks :: "order_block list"
  ta_liquidity :: "liquidity_level list"
  ta_sweeps :: "liquidity_sweep list"
  ta_regime :: regime
  ta_dealing_range :: "dealing_range option"
  ta_bias :: bias
  ta_bias_rationale :: bias_reason
  ta_atr :: real

definition last_index :: "timeframe_analysis \<Rightarrow> int" where
  "last_index a = int (length (ta_candles a)) - 1"

definition ta_price :: "timeframe_analysis \<Rightarrow> real" where
  "ta_price a = c_close (last (ta_candles a))"

definition sweep_marks :: "liquidity_sweep list \<Rightarrow> sweep_mark list" where
  "sweep_marks sweeps = map (\<lambda>s. (lw_index s, lw_direction s)) sweeps"

text \<open>\<open>None\<close> is the \<open>ValueError\<close> of a swing window below one. The series is not empty; the code
  reads its last candle.\<close>

definition analyze_timeframe ::
  "smc_config \<Rightarrow> candle list \<Rightarrow> string \<Rightarrow> micros option \<Rightarrow> timeframe_analysis option" where
  "analyze_timeframe smc candles timeframe now =
     (case detect_swings candles (if timeframe = ''M15'' then mc_swing_window smc else mc_htf_swing_window smc) of
        None \<Rightarrow> None
      | Some swings \<Rightarrow>
          (let period = mc_atr_period smc;
               displacements = detect_displacement
                 \<lparr> dm_atr_period = period, dm_atr_multiple = mc_displacement_atr_multiple smc,
                   dm_body_ratio = mc_displacement_body_ratio smc, dm_impulse_window = 3 \<rparr> candles;
               events = detect_structure_events period (mc_bos_atr_buffer smc) candles swings displacements;
               gaps = detect_fair_value_gaps period (mc_fvg_min_atr_fraction smc) candles displacements;
               blocks = detect_order_blocks 6 period candles displacements events gaps;
               liquidity = build_liquidity_map candles swings period (mc_equal_level_atr_fraction smc) now
                 default_session_config;
               sweeps = detect_sweeps
                 \<lparr> wp_atr_period = period, wp_reaction_candles = mc_sweep_reaction_candles smc,
                   wp_min_rejection_ratio = 45 / 100, wp_min_excursion_atr = 5 / 100 \<rparr>
                 candles liquidity displacements events;
               final = int (length candles) - 1;
               (bias, rationale) = structural_bias events swings final (sweep_marks sweeps)
           in Some \<lparr> ta_timeframe = timeframe, ta_candles = candles, ta_swings = swings,
                ta_structure_events = events, ta_displacements = displacements, ta_gaps = gaps,
                ta_order_blocks = blocks, ta_liquidity = liquidity, ta_sweeps = sweeps,
                ta_regime = classify_regime candles events period 60,
                ta_dealing_range = dealing_range_of swings final (c_close (last candles)),
                ta_bias = bias, ta_bias_rationale = rationale, ta_atr = atr candles period \<rparr>))"

subsection \<open>Evidence in one direction\<close>

datatype setup_type = CONTINUATION | RANGE_ROTATION | REVERSAL | RETRACEMENT | NOISE

datatype signal_state = NO_TRADE | WATCH | VALID_SETUP | TRADE

definition DISPLACEMENT_PROXIMITY_CANDLES :: int where
  "DISPLACEMENT_PROXIMITY_CANDLES = 6"

text \<open>The directions wanted are \<open>Bullish\<close> and \<open>Bearish\<close>; \<open>opposite\<close> of a range is the empty text.\<close>

definition opposite :: "bias \<Rightarrow> bias option" where
  "opposite b = (case b of Bullish_Bias \<Rightarrow> Some Bearish_Bias | Bearish_Bias \<Rightarrow> Some Bullish_Bias
     | Range_Bias \<Rightarrow> None)"

record direction_evidence =
  ev_wanted :: candle_direction
  ev_sweep :: "liquidity_sweep option"
  ev_structure_event :: "structure_event option"
  ev_displacement :: "displacement option"
  ev_choch :: "structure_event option"
  ev_latest_trigger_index :: int

definition has_trigger :: "direction_evidence \<Rightarrow> bool" where
  "has_trigger e = (ev_sweep e \<noteq> None \<or> ev_structure_event e \<noteq> None)"

definition trigger_index :: "liquidity_sweep option \<Rightarrow> structure_event option \<Rightarrow> int" where
  "trigger_index sweep event =
     max (case sweep of None \<Rightarrow> - 1 | Some s \<Rightarrow> int (lw_index s))
         (case event of None \<Rightarrow> - 1 | Some e \<Rightarrow> int (se_index e))"

definition ev_reference_index :: "direction_evidence \<Rightarrow> int" where
  "ev_reference_index e = trigger_index (ev_sweep e) (ev_structure_event e)"

definition trigger_quality :: "direction_evidence \<Rightarrow> real" where
  "trigger_quality e =
     (let best = (case ev_sweep e of None \<Rightarrow> 0 | Some s \<Rightarrow> max 0 (lw_quality s));
          best' = (case ev_structure_event e of None \<Rightarrow> best
            | Some b \<Rightarrow> max best (45 / 100 + 35 / 100 * se_displacement_quality b))
      in min 1 best')"

text \<open>An absent regime reads as choppy; a timeframe analysis always has one.\<close>

definition is_choppy :: "regime \<Rightarrow> mtf_config \<Rightarrow> bool" where
  "is_choppy r config =
     (if rg_trend r = Trending then False
      else rg_directional_strength r < mf_choppy_directional_strength config \<and> rg_trend r \<noteq> Ranging)"

definition stronger_sweep :: "liquidity_sweep \<Rightarrow> liquidity_sweep \<Rightarrow> bool" where
  "stronger_sweep s best =
     (if lw_quality s \<noteq> lw_quality best then lw_quality s > lw_quality best
      else lw_index s > lw_index best)"

definition usable_sweeps :: "timeframe_analysis \<Rightarrow> candle_direction \<Rightarrow> int \<Rightarrow> smc_config \<Rightarrow> liquidity_sweep list" where
  "usable_sweeps m15 wanted index smc =
     filter (\<lambda>s. lw_direction s = wanted \<and> int (lw_confirmed_index s) \<le> index
       \<and> index - int (lw_index s) \<le> mc_sweep_max_age_candles smc) (ta_sweeps m15)"

definition usable_events ::
  "timeframe_analysis \<Rightarrow> candle_direction \<Rightarrow> int \<Rightarrow> smc_config \<Rightarrow> mtf_config \<Rightarrow> structure_event list" where
  "usable_events m15 wanted index smc mtf =
     filter (\<lambda>e. se_direction e = wanted \<and> int (se_index e) \<le> index
       \<and> index - int (se_index e) \<le> mc_sweep_max_age_candles smc \<and> se_displaced e
       \<and> se_clearance_atr e \<ge> mf_min_structure_clearance_atr mtf) (ta_structure_events m15)"

definition usable_moves :: "timeframe_analysis \<Rightarrow> candle_direction \<Rightarrow> int \<Rightarrow> int \<Rightarrow> displacement list" where
  "usable_moves m15 wanted index reference =
     filter (\<lambda>d. dp_direction d = wanted \<and> int (dp_index d) \<le> index
       \<and> \<bar>int (dp_index d) - reference\<bar> \<le> DISPLACEMENT_PROXIMITY_CANDLES) (ta_displacements m15)"

definition gather_direction_evidence ::
  "timeframe_analysis \<Rightarrow> candle_direction \<Rightarrow> int \<Rightarrow> smc_config \<Rightarrow> mtf_config \<Rightarrow> direction_evidence" where
  "gather_direction_evidence m15 wanted index smc mtf =
     (let sweeps = usable_sweeps m15 wanted index smc;
          sweep = preferred stronger_sweep sweeps;
          events = usable_events m15 wanted index smc mtf;
          event = max_by se_index events;
          choch = max_by se_index (filter (\<lambda>e. se_event_type e = CHoCH) events);
          reference = trigger_index sweep event;
          move = max_by dp_quality (usable_moves m15 wanted index reference)
      in \<lparr> ev_wanted = wanted, ev_sweep = sweep, ev_structure_event = event, ev_displacement = move,
           ev_choch = choch,
           ev_latest_trigger_index =
             (case map (int \<circ> lw_index) sweeps @ map (int \<circ> se_index) events of
                [] \<Rightarrow> - 1 | i # is' \<Rightarrow> fold max is' i) \<rparr>)"

subsection \<open>Classification\<close>

datatype shortfall =
    NoSweep | LevelTooLight real | SweepTooWeak real | NoDisplacement | DisplacementTooWeak real | NoCHoCH

definition reversal_shortfalls :: "direction_evidence \<Rightarrow> mtf_config \<Rightarrow> shortfall list" where
  "reversal_shortfalls e config =
     (case ev_sweep e of
        None \<Rightarrow> [NoSweep]
      | Some s \<Rightarrow>
          (if lv_weight (lw_level s) < mf_reversal_min_level_weight config
           then [LevelTooLight (lv_weight (lw_level s))] else [])
          @ (if lw_quality s < mf_reversal_min_sweep_quality config then [SweepTooWeak (lw_quality s)] else []))
     @ (case ev_displacement e of
          None \<Rightarrow> [NoDisplacement]
        | Some d \<Rightarrow> if dp_quality d < mf_reversal_min_displacement_quality config
            then [DisplacementTooWeak (dp_quality d)] else [])
     @ (if mf_reversal_requires_choch config \<and> ev_choch e = None then [NoCHoCH] else [])"

datatype mtf_rationale =
    NoTrigger candle_direction | WeakTrigger real | WithTrend | RotationRationale
  | Unanchored bias candle_direction | M15Only | Retracement candle_direction bias "shortfall list"
  | GenuineReversal

datatype mtf_note =
    ChoppyNote regime_note real | WithTrendNote bias | RotationNote real level_label | TrendlessNote
  | ReversalNote bias

record classification =
  cl_setup_type :: setup_type
  cl_score_floor :: real
  cl_rationale :: mtf_rationale
  cl_evidence :: "mtf_note list"
  cl_allowed :: bool

definition refused_as :: "setup_type \<Rightarrow> mtf_rationale \<Rightarrow> classification" where
  "refused_as setup_type rationale = \<lparr> cl_setup_type = setup_type, cl_score_floor = 0,
     cl_rationale = rationale, cl_evidence = [], cl_allowed = False \<rparr>"

record mtf_case =
  cs_h1 :: timeframe_analysis
  cs_m15 :: timeframe_analysis
  cs_wanted :: candle_direction
  cs_evidence :: direction_evidence
  cs_mtf :: mtf_config
  cs_tier_b :: real
  cs_premium :: real
  cs_notes :: "mtf_note list"

definition agrees_h1 :: "mtf_case \<Rightarrow> bool" where
  "agrees_h1 c = (ta_bias (cs_h1 c) = direction_bias (cs_wanted c))"

definition opposes_h1 :: "mtf_case \<Rightarrow> bool" where
  "opposes_h1 c = (Some (ta_bias (cs_h1 c)) = opposite (direction_bias (cs_wanted c)))"

definition take_case :: "mtf_case \<Rightarrow> setup_type \<Rightarrow> real \<Rightarrow> mtf_rationale \<Rightarrow> mtf_note \<Rightarrow> classification" where
  "take_case c setup_type floor' rationale note' =
     \<lparr> cl_setup_type = setup_type, cl_score_floor = max (cs_tier_b c) floor' + cs_premium c,
       cl_rationale = rationale, cl_evidence = cs_notes c @ [note'], cl_allowed = True \<rparr>"

definition with_primary_bias :: "mtf_case \<Rightarrow> classification" where
  "with_primary_bias c =
     take_case c CONTINUATION (mf_floor_continuation (cs_mtf c)) WithTrend (WithTrendNote (ta_bias (cs_h1 c)))"

definition at_extreme :: "mtf_config \<Rightarrow> candle_direction \<Rightarrow> real \<Rightarrow> bool" where
  "at_extreme mtf wanted position =
     (if wanted = Bullish then position \<le> 1 - mf_range_rotation_min_position mtf
      else position \<ge> mf_range_rotation_min_position mtf)"

definition without_primary_bias :: "mtf_case \<Rightarrow> classification" where
  "without_primary_bias c =
     (let mtf = cs_mtf c;
          dealing = coalesce (ta_dealing_range (cs_h1 c)) (ta_dealing_range (cs_m15 c));
          position = (case dealing of None \<Rightarrow> 1 / 2 | Some d \<Rightarrow> dr_position d);
          rest = (if ta_bias (cs_m15 c) \<noteq> direction_bias (cs_wanted c)
                  then refused_as NOISE (Unanchored (ta_bias (cs_m15 c)) (cs_wanted c))
                  else take_case c CONTINUATION (mf_floor_no_htf_context mtf) M15Only TrendlessNote)
      in (case ev_sweep (cs_evidence c) of
            Some s \<Rightarrow> if dealing \<noteq> None \<and> at_extreme mtf (cs_wanted c) position
              then take_case c RANGE_ROTATION (mf_floor_range_rotation mtf) RotationRationale
                     (RotationNote position (lv_label (lw_level s)))
              else rest
          | None \<Rightarrow> rest))"

definition against_primary_bias :: "mtf_case \<Rightarrow> classification" where
  "against_primary_bias c =
     (let missing = reversal_shortfalls (cs_evidence c) (cs_mtf c) in
      if missing \<noteq> [] then refused_as RETRACEMENT (Retracement (cs_wanted c) (ta_bias (cs_h1 c)) missing)
      else take_case c REVERSAL (mf_floor_reversal (cs_mtf c)) GenuineReversal (ReversalNote (ta_bias (cs_h1 c))))"

definition classify_setup ::
  "timeframe_analysis \<Rightarrow> timeframe_analysis \<Rightarrow> candle_direction \<Rightarrow> direction_evidence \<Rightarrow> mtf_config \<Rightarrow> real \<Rightarrow> classification" where
  "classify_setup h1 m15 wanted e mtf tier_b =
     (if trigger_quality e < mf_min_trigger_quality mtf then refused_as NOISE (WeakTrigger (trigger_quality e))
      else
        (let choppy = (is_choppy (ta_regime h1) mtf \<or> is_choppy (ta_regime m15) mtf);
             premium = (if choppy then mf_choppy_score_premium mtf else 0);
             c = \<lparr> cs_h1 = h1, cs_m15 = m15, cs_wanted = wanted, cs_evidence = e, cs_mtf = mtf,
                   cs_tier_b = tier_b, cs_premium = premium,
                   cs_notes = (if choppy then [ChoppyNote (rg_note (ta_regime h1)) premium] else []) \<rparr>
         in if agrees_h1 c then with_primary_bias c
            else if \<not> opposes_h1 c then without_primary_bias c
            else against_primary_bias c))"

subsection \<open>The decision\<close>

datatype alignment = Aligned | Partial | Counter

definition alignment_label :: "bias \<Rightarrow> candle_direction \<Rightarrow> alignment" where
  "alignment_label h1_bias wanted =
     (if Some h1_bias = opposite (direction_bias wanted) then Counter
      else if h1_bias = direction_bias wanted then Aligned else Partial)"

record mtf_decision =
  mt_direction :: "string option"
  mt_wanted :: candle_direction
  mt_setup_type :: setup_type
  mt_state :: signal_state
  mt_h1_bias :: bias
  mt_m15_bias :: bias
  mt_alignment :: alignment
  mt_score_floor :: real
  mt_regime_note :: regime_note
  mt_rationale :: mtf_rationale
  mt_evidence :: "mtf_note list"

definition mt_tradeable :: "mtf_decision \<Rightarrow> bool" where
  "mt_tradeable d = (mt_direction d \<noteq> None)"

definition preference_rank :: "setup_type \<Rightarrow> nat" where
  "preference_rank t = (case t of CONTINUATION \<Rightarrow> 0 | RANGE_ROTATION \<Rightarrow> 1 | REVERSAL \<Rightarrow> 2 | _ \<Rightarrow> 3)"

text \<open>One turn of the loop: an accepted decision with its evidence, or a refusal.\<close>

definition judge ::
  "timeframe_analysis \<Rightarrow> timeframe_analysis \<Rightarrow> int \<Rightarrow> smc_config \<Rightarrow> mtf_config \<Rightarrow> real \<Rightarrow> candle_direction \<Rightarrow>
   mtf_decision + (mtf_decision \<times> direction_evidence)" where
  "judge h1 m15 index smc mtf tier_b wanted =
     (let e = gather_direction_evidence m15 wanted index smc mtf;
          base = \<lparr> mt_direction = None, mt_wanted = wanted, mt_setup_type = NOISE,
            mt_state = (if ta_bias h1 = direction_bias wanted then WATCH else NO_TRADE),
            mt_h1_bias = ta_bias h1, mt_m15_bias = ta_bias m15,
            mt_alignment = alignment_label (ta_bias h1) wanted, mt_score_floor = 0,
            mt_regime_note = rg_note (ta_regime m15), mt_rationale = NoTrigger wanted, mt_evidence = [] \<rparr>
      in if \<not> has_trigger e then Inl base
         else
           (let result = classify_setup h1 m15 wanted e mtf tier_b;
                decision = base\<lparr> mt_setup_type := cl_setup_type result,
                  mt_direction := (if cl_allowed result then Some (if wanted = Bullish then ''BUY'' else ''SELL'') else None),
                  mt_state := (if cl_allowed result then VALID_SETUP else NO_TRADE),
                  mt_score_floor := cl_score_floor result, mt_rationale := cl_rationale result,
                  mt_evidence := cl_evidence result \<rparr>
            in if cl_allowed result then Inr (decision, e) else Inl decision))"

text \<open>The sort key of the accepted directions as an order: later trigger, then quality, then
  preference; \<open>sort\<close> is stable, so of equal rows the first stays first.\<close>

definition row_before :: "mtf_decision \<times> direction_evidence \<Rightarrow> mtf_decision \<times> direction_evidence \<Rightarrow> bool" where
  "row_before a b =
     (let (d, e) = a; (d', e') = b in
      if ev_latest_trigger_index e \<noteq> ev_latest_trigger_index e'
      then ev_latest_trigger_index e > ev_latest_trigger_index e'
      else if trigger_quality e \<noteq> trigger_quality e' then trigger_quality e > trigger_quality e'
      else preference_rank (mt_setup_type d) < preference_rank (mt_setup_type d'))"

definition refusal_rank :: "mtf_decision \<Rightarrow> nat" where
  "refusal_rank d = (if mt_setup_type d = RETRACEMENT then 0 else if mt_state d = WATCH then 1 else 2)"

definition decide ::
  "timeframe_analysis \<Rightarrow> timeframe_analysis \<Rightarrow> int \<Rightarrow> smc_config \<Rightarrow> mtf_config \<Rightarrow> real \<Rightarrow>
   mtf_decision \<times> direction_evidence option" where
  "decide h1 m15 index smc mtf tier_b =
     (let verdicts = map (judge h1 m15 index smc mtf tier_b) [Bullish, Bearish];
          results = List.map_filter (\<lambda>v. case v of Inl _ \<Rightarrow> None | Inr r \<Rightarrow> Some r) verdicts;
          rejected = List.map_filter (\<lambda>v. case v of Inl d \<Rightarrow> Some d | Inr _ \<Rightarrow> None) verdicts
      in case preferred row_before results of
           Some (decision, e) \<Rightarrow> (decision, Some e)
         | None \<Rightarrow> (the (min_by refusal_rank rejected), None))"

subsection \<open>Evidence looks back\<close>

interpretation sweep_order: preference stronger_sweep
  by unfold_locales (auto simp: stronger_sweep_def split: if_splits)

lemma gathered_sweep:
  "ev_sweep (gather_direction_evidence m15 w t smc mtf) = Some s \<Longrightarrow> s \<in> set (usable_sweeps m15 w t smc)"
  using sweep_order.preferred_Some by (auto simp: gather_direction_evidence_def Let_def)

lemma gathered_event:
  "ev_structure_event (gather_direction_evidence m15 w t smc mtf) = Some e \<Longrightarrow> e \<in> set (usable_events m15 w t smc mtf)"
  by (auto simp: gather_direction_evidence_def Let_def dest: max_by_Some)

lemma gathered_choch:
  "ev_choch (gather_direction_evidence m15 w t smc mtf) = Some e \<Longrightarrow>
     e \<in> set (usable_events m15 w t smc mtf) \<and> se_event_type e = CHoCH"
  by (auto simp: gather_direction_evidence_def Let_def dest: max_by_Some)

lemma gathered_move:
  "ev_displacement (gather_direction_evidence m15 w t smc mtf) = Some d \<Longrightarrow>
     \<exists>r. d \<in> set (usable_moves m15 w t r)"
  by (auto simp: gather_direction_evidence_def Let_def dest: max_by_Some)

lemma gathered_wanted [simp]: "ev_wanted (gather_direction_evidence m15 w t smc mtf) = w"
  by (simp add: gather_direction_evidence_def Let_def)

text \<open>All evidence of a direction points that way and was there by the candle asked about.\<close>

definition looks_back :: "direction_evidence \<Rightarrow> candle_direction \<Rightarrow> int \<Rightarrow> bool" where
  "looks_back e w t =
     (pred_option (\<lambda>s. lw_direction s = w \<and> int (lw_confirmed_index s) \<le> t) (ev_sweep e)
      \<and> pred_option (\<lambda>b. se_direction b = w \<and> int (se_index b) \<le> t \<and> se_displaced b) (ev_structure_event e)
      \<and> pred_option (\<lambda>d. dp_direction d = w \<and> int (dp_index d) \<le> t) (ev_displacement e)
      \<and> pred_option (\<lambda>b. se_direction b = w \<and> int (se_index b) \<le> t \<and> se_event_type b = CHoCH) (ev_choch e))"

lemma gathered_looks_back: "looks_back (gather_direction_evidence m15 w t smc mtf) w t"
proof -
  let ?e = "gather_direction_evidence m15 w t smc mtf"
  have "pred_option (\<lambda>s. lw_direction s = w \<and> int (lw_confirmed_index s) \<le> t) (ev_sweep ?e)"
    using gathered_sweep [of m15 w t smc mtf] by (cases "ev_sweep ?e") (auto simp: usable_sweeps_def)
  moreover have "pred_option (\<lambda>b. se_direction b = w \<and> int (se_index b) \<le> t \<and> se_displaced b) (ev_structure_event ?e)"
    using gathered_event [of m15 w t smc mtf] by (cases "ev_structure_event ?e") (auto simp: usable_events_def)
  moreover have "pred_option (\<lambda>d. dp_direction d = w \<and> int (dp_index d) \<le> t) (ev_displacement ?e)"
    using gathered_move [of m15 w t smc mtf] by (cases "ev_displacement ?e") (auto simp: usable_moves_def)
  moreover have "pred_option (\<lambda>b. se_direction b = w \<and> int (se_index b) \<le> t \<and> se_event_type b = CHoCH) (ev_choch ?e)"
    using gathered_choch [of m15 w t smc mtf] by (cases "ev_choch ?e") (auto simp: usable_events_def)
  ultimately show ?thesis by (simp add: looks_back_def)
qed

subsection \<open>Classification is a ratchet\<close>

lemma reversal_complete:
  "reversal_shortfalls e config = [] \<longleftrightarrow>
     (\<exists>s d. ev_sweep e = Some s \<and> ev_displacement e = Some d
        \<and> mf_reversal_min_level_weight config \<le> lv_weight (lw_level s)
        \<and> mf_reversal_min_sweep_quality config \<le> lw_quality s
        \<and> mf_reversal_min_displacement_quality config \<le> dp_quality d
        \<and> (mf_reversal_requires_choch config \<longrightarrow> ev_choch e \<noteq> None))"
  by (auto simp: reversal_shortfalls_def not_less split: option.splits)

lemmas case_defs = with_primary_bias_def without_primary_bias_def against_primary_bias_def
  take_case_def refused_as_def agrees_h1_def opposes_h1_def

lemma opposite_not_same [simp]: "opposite b \<noteq> Some b"
  by (cases b) (simp_all add: opposite_def)

lemma take_case_fields [simp]:
  "cl_allowed (take_case c k f r n)" "cl_setup_type (take_case c k f r n) = k"
  "cl_score_floor (take_case c k f r n) = max (cs_tier_b c) f + cs_premium c"
  by (simp_all add: take_case_def)

lemma refused_as_fields [simp]: "\<not> cl_allowed (refused_as k r)" "cl_setup_type (refused_as k r) = k"
  by (simp_all add: refused_as_def)

lemma without_primary_allowed:
  assumes "cl_allowed (without_primary_bias c)"
  obtains (continuation) r n where "without_primary_bias c = take_case c CONTINUATION (mf_floor_no_htf_context (cs_mtf c)) r n"
      and "ta_bias (cs_m15 c) = direction_bias (cs_wanted c)"
  | (rotation) r n d where "without_primary_bias c = take_case c RANGE_ROTATION (mf_floor_range_rotation (cs_mtf c)) r n"
      and "coalesce (ta_dealing_range (cs_h1 c)) (ta_dealing_range (cs_m15 c)) = Some d"
      and "at_extreme (cs_mtf c) (cs_wanted c) (dr_position d)"
proof (cases "ev_sweep (cs_evidence c)")
  case None
  then show thesis using assms continuation by (auto simp: without_primary_bias_def Let_def split: if_splits)
next
  case (Some s)
  let ?d = "coalesce (ta_dealing_range (cs_h1 c)) (ta_dealing_range (cs_m15 c))"
  show thesis
  proof (cases ?d)
    case None
    then show thesis
      using assms continuation Some by (auto simp: without_primary_bias_def Let_def split: if_splits)
  next
    case d: (Some d)
    then show thesis
      using assms continuation rotation Some
      by (cases "at_extreme (cs_mtf c) (cs_wanted c) (dr_position d)")
        (auto simp: without_primary_bias_def Let_def split: if_splits)
  qed
qed

lemma classify_shape:
  assumes "\<not> trigger_quality e < mf_min_trigger_quality mtf" and "0 \<le> mf_choppy_score_premium mtf"
  obtains c where "cs_h1 c = h1" "cs_m15 c = m15" "cs_wanted c = w" "cs_evidence c = e" "cs_mtf c = mtf"
    "cs_tier_b c = tier_b" "0 \<le> cs_premium c"
    "classify_setup h1 m15 w e mtf tier_b =
       (if agrees_h1 c then with_primary_bias c
        else if \<not> opposes_h1 c then without_primary_bias c else against_primary_bias c)"
  using assms that [of "\<lparr> cs_h1 = h1, cs_m15 = m15, cs_wanted = w, cs_evidence = e, cs_mtf = mtf,
       cs_tier_b = tier_b,
       cs_premium = (if is_choppy (ta_regime h1) mtf \<or> is_choppy (ta_regime m15) mtf
         then mf_choppy_score_premium mtf else 0),
       cs_notes = (if is_choppy (ta_regime h1) mtf \<or> is_choppy (ta_regime m15) mtf
         then [ChoppyNote (rg_note (ta_regime h1))
           (if is_choppy (ta_regime h1) mtf \<or> is_choppy (ta_regime m15) mtf
            then mf_choppy_score_premium mtf else 0)] else []) \<rparr>"]
  by (simp add: classify_setup_def Let_def)

text \<open>What an allowed classification has shown: with the trend, without one, or against it.\<close>

lemma classify_allowed:
  assumes "cl_allowed (classify_setup h1 m15 w e mtf tier_b)" and "0 \<le> mf_choppy_score_premium mtf"
  obtains (with_trend) p where "0 \<le> p" and "ta_bias h1 = direction_bias w"
      and "cl_setup_type (classify_setup h1 m15 w e mtf tier_b) = CONTINUATION"
      and "cl_score_floor (classify_setup h1 m15 w e mtf tier_b) = max tier_b (mf_floor_continuation mtf) + p"
      and "mf_min_trigger_quality mtf \<le> trigger_quality e"
  | (m15_only) p where "0 \<le> p" and "ta_bias h1 \<noteq> direction_bias w"
      and "Some (ta_bias h1) \<noteq> opposite (direction_bias w)" and "ta_bias m15 = direction_bias w"
      and "cl_setup_type (classify_setup h1 m15 w e mtf tier_b) = CONTINUATION"
      and "cl_score_floor (classify_setup h1 m15 w e mtf tier_b) = max tier_b (mf_floor_no_htf_context mtf) + p"
      and "mf_min_trigger_quality mtf \<le> trigger_quality e"
  | (rotation) p d where "0 \<le> p" and "ta_bias h1 \<noteq> direction_bias w"
      and "Some (ta_bias h1) \<noteq> opposite (direction_bias w)"
      and "coalesce (ta_dealing_range h1) (ta_dealing_range m15) = Some d"
      and "at_extreme mtf w (dr_position d)"
      and "cl_setup_type (classify_setup h1 m15 w e mtf tier_b) = RANGE_ROTATION"
      and "cl_score_floor (classify_setup h1 m15 w e mtf tier_b) = max tier_b (mf_floor_range_rotation mtf) + p"
      and "mf_min_trigger_quality mtf \<le> trigger_quality e"
  | (reversal) p where "0 \<le> p" and "Some (ta_bias h1) = opposite (direction_bias w)"
      and "ta_bias h1 \<noteq> direction_bias w"
      and "reversal_shortfalls e mtf = []"
      and "cl_setup_type (classify_setup h1 m15 w e mtf tier_b) = REVERSAL"
      and "cl_score_floor (classify_setup h1 m15 w e mtf tier_b) = max tier_b (mf_floor_reversal mtf) + p"
      and "mf_min_trigger_quality mtf \<le> trigger_quality e"
proof -
  have q: "\<not> trigger_quality e < mf_min_trigger_quality mtf"
    using assms(1) by (cases "trigger_quality e < mf_min_trigger_quality mtf") (simp_all add: classify_setup_def)
  obtain c where c: "cs_h1 c = h1" "cs_m15 c = m15" "cs_wanted c = w" "cs_evidence c = e" "cs_mtf c = mtf"
      "cs_tier_b c = tier_b" "0 \<le> cs_premium c"
    and shape: "classify_setup h1 m15 w e mtf tier_b =
       (if agrees_h1 c then with_primary_bias c
        else if \<not> opposes_h1 c then without_primary_bias c else against_primary_bias c)"
    using classify_shape [OF q assms(2), of h1 m15 w tier_b] .
  consider "agrees_h1 c" | "\<not> agrees_h1 c" "\<not> opposes_h1 c" | "\<not> agrees_h1 c" "opposes_h1 c" by blast
  then show thesis
  proof cases
    case 1
    then show thesis
      using with_trend [of "cs_premium c"] q c shape by (simp add: with_primary_bias_def agrees_h1_def)
  next
    case 2
    then have eq: "classify_setup h1 m15 w e mtf tier_b = without_primary_bias c" using shape by simp
    then have "cl_allowed (without_primary_bias c)" using assms(1) by simp
    then show thesis
    proof (cases rule: without_primary_allowed)
      case (continuation r n)
      then show thesis
        using m15_only [of "cs_premium c"] q c 2 eq by (simp add: agrees_h1_def opposes_h1_def)
    next
      case (rotation r n d)
      then show thesis
        using that(3) [of "cs_premium c" d] q c 2 eq by (simp add: agrees_h1_def opposes_h1_def)
    qed
  next
    case 3
    then have eq: "classify_setup h1 m15 w e mtf tier_b = against_primary_bias c" using shape by simp
    then have none: "reversal_shortfalls e mtf = []"
      using assms(1) c by (simp add: against_primary_bias_def Let_def split: if_splits)
    then show thesis
      using reversal [of "cs_premium c"] q c 3 eq
      by (simp add: agrees_h1_def opposes_h1_def against_primary_bias_def)
  qed
qed

lemma judge_Inr:
  assumes "judge h1 m15 t smc mtf tier_b w = Inr (d, e)"
  shows "e = gather_direction_evidence m15 w t smc mtf" and "has_trigger e"
    and "cl_allowed (classify_setup h1 m15 w e mtf tier_b)"
    and "mt_direction d = Some (if w = Bullish then ''BUY'' else ''SELL'')" and "mt_wanted d = w"
    and "mt_setup_type d = cl_setup_type (classify_setup h1 m15 w e mtf tier_b)"
    and "mt_score_floor d = cl_score_floor (classify_setup h1 m15 w e mtf tier_b)" and "mt_state d = VALID_SETUP"
    and "mt_h1_bias d = ta_bias h1"
proof -
  let ?g = "gather_direction_evidence m15 w t smc mtf"
  have trigger: "has_trigger ?g" using assms by (cases "has_trigger ?g") (simp_all add: judge_def Let_def)
  have allowed: "cl_allowed (classify_setup h1 m15 w ?g mtf tier_b)"
    using assms trigger
    by (cases "cl_allowed (classify_setup h1 m15 w ?g mtf tier_b)") (simp_all add: judge_def Let_def)
  have eq: "e = ?g" using assms trigger allowed by (simp add: judge_def Let_def)
  show "e = ?g" by (rule eq)
  show "has_trigger e" and "cl_allowed (classify_setup h1 m15 w e mtf tier_b)"
    using trigger allowed eq by simp_all
  show "mt_direction d = Some (if w = Bullish then ''BUY'' else ''SELL'')" and "mt_wanted d = w"
    and "mt_setup_type d = cl_setup_type (classify_setup h1 m15 w e mtf tier_b)"
    and "mt_score_floor d = cl_score_floor (classify_setup h1 m15 w e mtf tier_b)" and "mt_state d = VALID_SETUP"
    and "mt_h1_bias d = ta_bias h1"
    using assms trigger allowed by (auto simp: judge_def Let_def)
qed

lemma judge_Inl: "judge h1 m15 t smc mtf tier_b w = Inl d \<Longrightarrow> mt_direction d = None \<and> mt_state d \<noteq> VALID_SETUP"
  by (cases "has_trigger (gather_direction_evidence m15 w t smc mtf)";
      cases "cl_allowed (classify_setup h1 m15 w (gather_direction_evidence m15 w t smc mtf) mtf tier_b)")
    (auto simp: judge_def Let_def split: if_splits)

lemma row_before_keys:
  "row_before (d, e) (d', e') \<longleftrightarrow>
     ev_latest_trigger_index e' < ev_latest_trigger_index e
     \<or> ev_latest_trigger_index e = ev_latest_trigger_index e'
       \<and> (trigger_quality e' < trigger_quality e
          \<or> trigger_quality e = trigger_quality e'
            \<and> preference_rank (mt_setup_type d) < preference_rank (mt_setup_type d'))"
  by (auto simp: row_before_def)

interpretation row_order: preference row_before
proof unfold_locales
  fix x y z :: "mtf_decision \<times> direction_evidence"
  obtain d e d' e' d'' e'' where "x = (d, e)" "y = (d', e')" "z = (d'', e'')" by (metis surj_pair)
  then show "row_before x y \<Longrightarrow> \<not> row_before y x"
    and "\<not> row_before x y \<Longrightarrow> \<not> row_before y z \<Longrightarrow> \<not> row_before x z"
    by (auto simp: row_before_keys)
qed

lemma decide_cases:
  obtains (accepted) w d e where "w \<in> {Bullish, Bearish}" and "judge h1 m15 t smc mtf tier_b w = Inr (d, e)"
      and "decide h1 m15 t smc mtf tier_b = (d, Some e)"
  | (refused) d where "decide h1 m15 t smc mtf tier_b = (d, None)" and "mt_direction d = None"
      and "\<And>w. w \<in> {Bullish, Bearish} \<Longrightarrow> \<exists>d'. judge h1 m15 t smc mtf tier_b w = Inl d'"
proof -
  let ?j = "judge h1 m15 t smc mtf tier_b"
  let ?results = "List.map_filter (\<lambda>v. case v of Inl _ \<Rightarrow> None | Inr r \<Rightarrow> Some r) (map ?j [Bullish, Bearish])"
  let ?rejected = "List.map_filter (\<lambda>v. case v of Inl d \<Rightarrow> Some d | Inr _ \<Rightarrow> None) (map ?j [Bullish, Bearish])"
  show thesis
  proof (cases "preferred row_before ?results")
    case (Some r)
    then have "r \<in> set ?results" using row_order.preferred_Some by blast
    then obtain w where w: "w \<in> {Bullish, Bearish}" "?j w = Inr r"
      by (auto simp: set_map_filter split: sum.splits)
    have "decide h1 m15 t smc mtf tier_b = (fst r, Some (snd r))"
      unfolding decide_def Let_def Some option.case by (cases r) simp
    then show thesis using accepted [of w "fst r" "snd r"] w by simp
  next
    case None
    then have none: "?results = []" by simp
    then have inl: "\<exists>d'. ?j w = Inl d'" if "w \<in> {Bullish, Bearish}" for w
      using that by (auto split: sum.splits)
    then obtain a b where ab: "?j Bullish = Inl a" "?j Bearish = Inl b" by blast
    obtain d where d: "min_by refusal_rank ?rejected = Some d" "d \<in> {a, b}"
      using min_by_Some [of refusal_rank ?rejected] by (cases "min_by refusal_rank ?rejected") (auto simp: ab)
    have "decide h1 m15 t smc mtf tier_b = (d, None)"
      unfolding decide_def Let_def None option.case d(1) by simp
    moreover have "mt_direction d = None" using d(2) judge_Inl [OF ab(1)] judge_Inl [OF ab(2)] by auto
    ultimately show thesis using refused inl by blast
  qed
qed

text \<open>C20. The decision between the timeframes is a ratchet: it names a direction exactly when it
  returns evidence; then the evidence points that way and was confirmed by the candle asked about,
  the trigger reaches its minimum, the score floor is at least the B tier, and a direction against
  the H1 trend is taken exactly as a REVERSAL, with a sweep of a significant level, displacement
  and (where configured) a CHoCH, each above its threshold.\<close>

theorem mtf_decision_contract:
  assumes "0 \<le> mf_choppy_score_premium mtf"
  shows "case decide h1 m15 t smc mtf tier_b of
      (d, None) \<Rightarrow> mt_direction d = None
    | (d, Some e) \<Rightarrow>
        mt_direction d = Some (if mt_wanted d = Bullish then ''BUY'' else ''SELL'')
        \<and> looks_back e (mt_wanted d) t \<and> has_trigger e
        \<and> mf_min_trigger_quality mtf \<le> trigger_quality e \<and> tier_b \<le> mt_score_floor d
        \<and> mt_setup_type d \<in> {CONTINUATION, RANGE_ROTATION, REVERSAL}
        \<and> (mt_setup_type d = REVERSAL) = (Some (ta_bias h1) = opposite (direction_bias (mt_wanted d)))
        \<and> (if mt_setup_type d = REVERSAL
           then reversal_shortfalls e mtf = [] \<and> mf_floor_reversal mtf \<le> mt_score_floor d else True)"
proof (cases rule: decide_cases [of h1 m15 t smc mtf tier_b])
  case (accepted w d e)
  note j = judge_Inr [OF accepted(2)]
  have "tier_b \<le> mt_score_floor d \<and> mt_setup_type d \<in> {CONTINUATION, RANGE_ROTATION, REVERSAL}
      \<and> mf_min_trigger_quality mtf \<le> trigger_quality e
      \<and> (mt_setup_type d = REVERSAL) = (Some (ta_bias h1) = opposite (direction_bias w))
      \<and> (mt_setup_type d = REVERSAL \<longrightarrow>
           reversal_shortfalls e mtf = [] \<and> mf_floor_reversal mtf \<le> mt_score_floor d)"
    using j(3) assms
  proof (cases rule: classify_allowed)
    case (with_trend p)
    moreover have "Some (ta_bias h1) \<noteq> opposite (direction_bias w)"
      using with_trend(2) opposite_not_same [of "direction_bias w"] by (metis (no_types))
    ultimately show ?thesis using j(6,7) by simp
  qed (use j(6,7) in \<open>auto simp: le_max_iff_disj add_increasing2 max.coboundedI1 max.coboundedI2\<close>)
  moreover have "looks_back e w t" using gathered_looks_back [of m15 w t smc mtf] j(1) by simp
  ultimately show ?thesis
    unfolding accepted(3) prod.case option.case j(5) using j(2,4) by auto
next
  case (refused d)
  then show ?thesis by simp
qed

subsection \<open>Concrete analyses\<close>

definition bare_analysis ::
  "bias \<Rightarrow> liquidity_sweep list \<Rightarrow> structure_event list \<Rightarrow> displacement list \<Rightarrow> timeframe_analysis" where
  "bare_analysis b sweeps events moves =
     \<lparr> ta_timeframe = ''M15'', ta_candles = [bar 0 2 3 1 2], ta_swings = \<lparr> ss_highs = [], ss_lows = [] \<rparr>,
       ta_structure_events = events, ta_displacements = moves, ta_gaps = [], ta_order_blocks = [],
       ta_liquidity = [], ta_sweeps = sweeps,
       ta_regime = \<lparr> rg_trend = Trending, rg_volatility = Normal, rg_atr = 1, rg_atr_percentile = 1 / 2,
         rg_directional_strength = 1 / 2, rg_tradeable = True, rg_note = MarketNote Trending Normal \<rparr>,
       ta_dealing_range = None, ta_bias = b, ta_bias_rationale = NoStructure, ta_atr = 1 \<rparr>"

definition sample_sweep :: "candle_direction \<Rightarrow> liquidity_sweep" where
  "sample_sweep direction = \<lparr> lw_index = 5, lw_confirmed_index = 7, lw_timestamp = 0, lw_direction = direction,
     lw_level = sweep_level, lw_excursion = 1, lw_rejection_ratio = 1 / 2, lw_displaced = True,
     lw_structure_shift = True, lw_quality = 8 / 10 \<rparr>"

definition sample_move :: "candle_direction \<Rightarrow> displacement" where
  "sample_move direction = \<lparr> dp_index = 5, dp_timestamp = 0, dp_direction = direction, dp_body = 2, dp_atr = 1,
     dp_atr_multiple = 2, dp_body_ratio = 8 / 10, dp_leaves_gap = True, dp_quality = 1 / 2 \<rparr>"

definition sample_choch :: "candle_direction \<Rightarrow> structure_event" where
  "sample_choch direction = \<lparr> se_index = 4, se_timestamp = 0, se_direction = direction, se_event_type = CHoCH,
     se_level = 2, se_level_index = 1, se_close = 3, se_displaced = True, se_displacement_quality = 1 / 2,
     se_clearance_atr = 1 \<rparr>"

lemmas concrete_analysis = bare_analysis_def sample_sweep_def sample_move_def sample_choch_def sweep_level_def
  default_smc_config_def default_mtf_config_def

text \<open>A bullish H1, and on M15 a complete reversal in both directions on the same candle.\<close>

definition contested :: "timeframe_analysis" where
  "contested = bare_analysis Range_Bias (map sample_sweep [Bullish, Bearish]) (map sample_choch [Bullish, Bearish])
     (map sample_move [Bullish, Bearish])"

lemma contested_evidence:
  "w = Bullish \<or> w = Bearish \<Longrightarrow>
   gather_direction_evidence contested w 10 default_smc_config default_mtf_config =
     \<lparr> ev_wanted = w, ev_sweep = Some (sample_sweep w), ev_structure_event = Some (sample_choch w),
       ev_displacement = Some (sample_move w), ev_choch = Some (sample_choch w), ev_latest_trigger_index = 5 \<rparr>"
  by (auto simp: gather_direction_evidence_def Let_def contested_def usable_sweeps_def usable_events_def
    usable_moves_def concrete_analysis preferred_def trigger_index_def
    DISPLACEMENT_PROXIMITY_CANDLES_def)

lemma contested_parts [simp]:
  "ta_bias contested = Range_Bias" "rg_trend (ta_regime contested) = Trending"
  "rg_note (ta_regime contested) = MarketNote Trending Normal"
  "ta_bias (bare_analysis b sweeps events moves) = b"
  "rg_trend (ta_regime (bare_analysis b sweeps events moves)) = Trending"
  "lw_quality (sample_sweep w) = 8 / 10" "lv_weight (lw_level (sample_sweep w)) = 60 / 100"
  "dp_quality (sample_move w) = 1 / 2" "se_displacement_quality (sample_choch w) = 1 / 2"
  "lw_index (sample_sweep w) = 5" "se_index (sample_choch w) = 4"
  by (simp_all add: contested_def concrete_analysis)

lemma default_mtf_fields:
  "mf_min_trigger_quality default_mtf_config = 35 / 100" "mf_reversal_min_level_weight default_mtf_config = 6 / 10"
  "mf_reversal_min_sweep_quality default_mtf_config = 55 / 100"
  "mf_reversal_min_displacement_quality default_mtf_config = 45 / 100"
  "mf_floor_continuation default_mtf_config = 0" "mf_floor_reversal default_mtf_config = 70"
  by (simp_all add: default_mtf_config_def)

lemma contested_judged:
  "judge (bare_analysis Bullish_Bias [] [] []) contested 10 default_smc_config default_mtf_config 58 Bullish =
     Inr (\<lparr> mt_direction = Some ''BUY'', mt_wanted = Bullish, mt_setup_type = CONTINUATION, mt_state = VALID_SETUP,
       mt_h1_bias = Bullish_Bias, mt_m15_bias = Range_Bias, mt_alignment = Aligned, mt_score_floor = 58,
       mt_regime_note = MarketNote Trending Normal, mt_rationale = WithTrend,
       mt_evidence = [WithTrendNote Bullish_Bias] \<rparr>,
       gather_direction_evidence contested Bullish 10 default_smc_config default_mtf_config)"
  "judge (bare_analysis Bullish_Bias [] [] []) contested 10 default_smc_config default_mtf_config 58 Bearish =
     Inr (\<lparr> mt_direction = Some ''SELL'', mt_wanted = Bearish, mt_setup_type = REVERSAL, mt_state = VALID_SETUP,
       mt_h1_bias = Bullish_Bias, mt_m15_bias = Range_Bias, mt_alignment = Counter, mt_score_floor = 70,
       mt_regime_note = MarketNote Trending Normal, mt_rationale = GenuineReversal,
       mt_evidence = [ReversalNote Bullish_Bias] \<rparr>,
       gather_direction_evidence contested Bearish 10 default_smc_config default_mtf_config)"
  by (simp_all add: judge_def Let_def contested_evidence has_trigger_def classify_setup_def trigger_quality_def
    is_choppy_def agrees_h1_def opposes_h1_def opposite_def with_primary_bias_def against_primary_bias_def
    reversal_shortfalls_def alignment_label_def take_case_def direction_bias_def
    default_mtf_fields)

theorem mtf_decision_contract_witness:
  "let (d, e) = decide (bare_analysis Bullish_Bias [] [] []) contested 10 default_smc_config default_mtf_config 58
   in mt_direction d = Some ''BUY'' \<and> mt_setup_type d = CONTINUATION \<and> mt_score_floor d = 58
      \<and> (case e of None \<Rightarrow> False | Some e \<Rightarrow> looks_back e Bullish 10)"
proof -
  have floor: "0 \<le> mf_choppy_score_premium default_mtf_config" by (simp add: default_mtf_config_def)
  have row: "\<not> row_before (b, gather_direction_evidence contested Bearish 10 default_smc_config default_mtf_config)
      (a, gather_direction_evidence contested Bullish 10 default_smc_config default_mtf_config)"
    if "mt_setup_type a = CONTINUATION" "mt_setup_type b = REVERSAL" for a b
    using that by (simp add: row_before_keys contested_evidence trigger_quality_def preference_rank_def)
  have "decide (bare_analysis Bullish_Bias [] [] []) contested 10 default_smc_config default_mtf_config 58 =
    (\<lparr> mt_direction = Some ''BUY'', mt_wanted = Bullish, mt_setup_type = CONTINUATION, mt_state = VALID_SETUP,
       mt_h1_bias = Bullish_Bias, mt_m15_bias = Range_Bias, mt_alignment = Aligned, mt_score_floor = 58,
       mt_regime_note = MarketNote Trending Normal, mt_rationale = WithTrend,
       mt_evidence = [WithTrendNote Bullish_Bias] \<rparr>,
     Some (gather_direction_evidence contested Bullish 10 default_smc_config default_mtf_config))"
    by (simp add: decide_def Let_def contested_judged preferred_def row)
  with mtf_decision_contract [OF floor, where ?h1.0 = "bare_analysis Bullish_Bias [] [] []" and ?m15.0 = contested
      and t = 10 and smc = default_smc_config and tier_b = 58]
  show ?thesis by simp
qed

subsection \<open>Both directions\<close>

lemma accepted_types_differ:
  assumes "0 \<le> mf_choppy_score_premium mtf" and "1 / 2 < mf_range_rotation_min_position mtf"
    and "cl_allowed (classify_setup h1 m15 Bullish e mtf tier_b)"
    and "cl_allowed (classify_setup h1 m15 Bearish e' mtf tier_b)"
  shows "cl_setup_type (classify_setup h1 m15 Bullish e mtf tier_b)
    \<noteq> cl_setup_type (classify_setup h1 m15 Bearish e' mtf tier_b)"
  using assms(3,1)
proof (cases rule: classify_allowed)
  case (with_trend p)
  note b = this
  show ?thesis using assms(4,1)
    by (cases rule: classify_allowed) (use b in \<open>simp_all add: direction_bias_def opposite_def\<close>)
next
  case (m15_only p)
  note b = this
  show ?thesis using assms(4,1)
    by (cases rule: classify_allowed) (use b in \<open>simp_all add: direction_bias_def opposite_def\<close>)
next
  case (rotation p d)
  note b = this
  show ?thesis using assms(4,1)
    by (cases rule: classify_allowed)
      (use b assms(2) in \<open>auto simp: direction_bias_def opposite_def at_extreme_def\<close>)
next
  case (reversal p)
  note b = this
  show ?thesis using assms(4,1)
    by (cases rule: classify_allowed) (use b in \<open>simp_all add: direction_bias_def opposite_def\<close>)
qed

text \<open>When both directions are accepted, their classifications differ, so the choice between
  them does not depend on the order in which the loop visits them.\<close>

theorem direction_independent_of_loop_order:
  assumes "judge h1 m15 t smc mtf tier_b Bullish = Inr a" and "judge h1 m15 t smc mtf tier_b Bearish = Inr b"
    and "0 \<le> mf_choppy_score_premium mtf" and "1 / 2 < mf_range_rotation_min_position mtf"
  shows "mt_setup_type (fst a) \<noteq> mt_setup_type (fst b)
    \<and> preferred row_before [a, b] = preferred row_before [b, a]
    \<and> Some (decide h1 m15 t smc mtf tier_b) = map_option (\<lambda>(d, e). (d, Some e)) (preferred row_before [b, a])"
proof -
  obtain da ea db eb where ab: "a = (da, ea)" "b = (db, eb)" by (metis surj_pair)
  note ja = judge_Inr [OF assms(1) [unfolded ab]] and jb = judge_Inr [OF assms(2) [unfolded ab]]
  have differ: "mt_setup_type da \<noteq> mt_setup_type db"
    using accepted_types_differ [OF assms(3,4) ja(3) jb(3)] ja(6) jb(6) by simp
  have "mt_setup_type da \<in> {CONTINUATION, RANGE_ROTATION, REVERSAL}"
    using ja(3) assms(3) unfolding ja(6) by (cases rule: classify_allowed) simp_all
  moreover have "mt_setup_type db \<in> {CONTINUATION, RANGE_ROTATION, REVERSAL}"
    using jb(3) assms(3) unfolding jb(6) by (cases rule: classify_allowed) simp_all
  ultimately have "preference_rank (mt_setup_type da) \<noteq> preference_rank (mt_setup_type db)"
    using differ by (auto simp: preference_rank_def)
  then have total: "row_before a b \<or> row_before b a"
    unfolding ab row_before_keys by auto
  then have same: "preferred row_before [a, b] = preferred row_before [b, a]"
    using row_order.asymmetric by (auto simp: preferred_def)
  have "Some (decide h1 m15 t smc mtf tier_b) = map_option (\<lambda>(d, e). (d, Some e)) (preferred row_before [a, b])"
    by (simp add: decide_def Let_def assms(1,2) preferred_def)
  with differ same ab show ?thesis by simp
qed

theorem direction_independent_of_loop_order_witness:
  "\<exists>a b. mt_setup_type (fst a) = CONTINUATION \<and> mt_setup_type (fst b) = REVERSAL
     \<and> preferred row_before [a, b] = preferred row_before [b, a]"
proof -
  have params: "0 \<le> mf_choppy_score_premium default_mtf_config" "1 / 2 < mf_range_rotation_min_position default_mtf_config"
    by (simp_all add: default_mtf_config_def)
  note both = direction_independent_of_loop_order [OF contested_judged params]
  show ?thesis
    by (rule exI, rule exI, rule conjI [OF _ conjI [OF _ conjunct1 [OF conjunct2 [OF both]]]]) simp_all
qed
end
