(* ===== verification/Smc_Engine.thy ===== *)
theory Smc_Engine
  imports Mtf Risk_Engine
begin

text \<open>
  The setup engine, \<open>bot/smc/engine.py\<close>: from the analyses of H1 and M15 to a priced candidate or
  to the reason there is none, with the transcript of the chain. Reasons, check details and
  evidence items are constructors with the figures they print. The candidate extends the record
  the risk engine reads. The SHA-256 digest of the setup identity is a parameter.
\<close>

subsection \<open>Texts of the enumerations\<close>

definition bias_text :: "bias \<Rightarrow> string" where
  "bias_text b = (case b of Bullish_Bias \<Rightarrow> ''bullish'' | Bearish_Bias \<Rightarrow> ''bearish'' | Range_Bias \<Rightarrow> ''range'')"

definition setup_type_text :: "setup_type \<Rightarrow> string" where
  "setup_type_text t = (case t of CONTINUATION \<Rightarrow> ''CONTINUATION'' | RANGE_ROTATION \<Rightarrow> ''RANGE_ROTATION''
     | REVERSAL \<Rightarrow> ''REVERSAL'' | RETRACEMENT \<Rightarrow> ''RETRACEMENT'' | NOISE \<Rightarrow> ''NOISE'')"

definition alignment_text :: "alignment \<Rightarrow> string" where
  "alignment_text a = (case a of Aligned \<Rightarrow> ''aligned'' | Partial \<Rightarrow> ''partial'' | Counter \<Rightarrow> ''counter'')"

subsection \<open>Records\<close>

text \<open>The entry zone. Its dict in the candidate is \<open>as_dict\<close> of the object with its kind.\<close>

datatype poi = Gap_Zone fair_value_gap | Block_Zone order_block

datatype poi_kind = FVG | ORDER_BLOCK

definition poi_kind_of :: "poi \<Rightarrow> poi_kind" where
  "poi_kind_of p = (case p of Gap_Zone _ \<Rightarrow> FVG | Block_Zone _ \<Rightarrow> ORDER_BLOCK)"

definition poi_lower :: "poi \<Rightarrow> real" where
  "poi_lower p = (case p of Gap_Zone g \<Rightarrow> fg_lower g | Block_Zone b \<Rightarrow> ob_lower b)"

definition poi_upper :: "poi \<Rightarrow> real" where
  "poi_upper p = (case p of Gap_Zone g \<Rightarrow> fg_upper g | Block_Zone b \<Rightarrow> ob_upper b)"

definition poi_index :: "poi \<Rightarrow> nat" where
  "poi_index p = (case p of Gap_Zone g \<Rightarrow> fg_index g | Block_Zone b \<Rightarrow> ob_index b)"

text \<open>The target: a pool, a projection at the minimum R with its price, or the fixed multiple of the
  reversion strategy.\<close>

datatype target_level = Pool liquidity_level | Projection real real | Risk_Multiple real real

definition target_projected :: "target_level option \<Rightarrow> bool" where
  "target_projected t = (case t of Some (Projection _ _) \<Rightarrow> True | _ \<Rightarrow> False)"

datatype check_detail =
    SweepDetail level_label real real real | SweepSeen level_label real | NoSweepDetail | NotTriggered mtf_rationale
  | MoveDetail real nat | NoMoveDetail
  | BreakDetail break_type real real | SweepAloneDetail
  | ZoneDetail poi_kind real real | NoZoneDetail | AwaitZone real | AtZone real poi_kind
  | NoLevelsDetail | ZeroStopDetail | TightStop real | WideStop real | StopDetail real
  | TargetDetail real target_level | LowReward real real | RewardDetail real

datatype rejection =
    Incomplete | MarketClosed | RegimeRefused regime_note | ZeroAtr | MtfRefused mtf_rationale
  | NoZone | AwaitingRetrace real poi_kind real real | NoLevels | ZeroStop
  | StopTooTight real real | StopTooWide real real | RewardTooLow real real
  | NoSweepRecently nat real | FadesTrend string bias | RangeExtreme string real | WickWrongSide

datatype evidence_item =
    Classified string setup_type bias bias | BecauseOf mtf_rationale | MtfEvidence mtf_note
  | RequiresScore real | SweptLevel level_label real real | BreakItem break_type candle_direction real
  | MoveItem real real | ZoneItem poi_kind | LocationItem range_zone | RegimeItem regime_note
  | ReversionItem string level_label | RejectionItem real real | MultipleItem real | BiasItem bias bias

record smc_candidate = setup_candidate +
  cd_session :: session_state
  cd_regime :: regime
  cd_sweep :: "liquidity_sweep option"
  cd_structure_event :: "structure_event option"
  cd_displacement :: "displacement option"
  cd_point_of_interest :: "poi option"
  cd_dealing_range :: "dealing_range option"
  cd_liquidity_target :: "target_level option"
  cd_checks :: "check_detail check list"
  cd_evidence :: "evidence_item list"

record evaluation =
  el_candidate :: "smc_candidate option"
  el_rejection :: "rejection option"
  el_decision :: "mtf_decision option"
  el_checks :: "check_detail check list"

record smc_result =
  sr_symbol :: string
  sr_analyses :: "(string \<times> timeframe_analysis) list"
  sr_candidate :: "smc_candidate option"
  sr_rejection :: "rejection option"
  sr_state :: signal_state
  sr_mtf :: "mtf_decision option"
  sr_checks :: "check_detail check list"

definition signal_state_of :: "smc_candidate option \<Rightarrow> mtf_decision option \<Rightarrow> signal_state" where
  "signal_state_of candidate decision =
     (if candidate \<noteq> None then TRADE
      else (case decision of
              None \<Rightarrow> NO_TRADE
            | Some d \<Rightarrow> if mt_tradeable d then VALID_SETUP else mt_state d))"

subsection \<open>Entry zone and levels\<close>

definition choose_poi :: "fair_value_gap option \<Rightarrow> order_block option \<Rightarrow> poi option" where
  "choose_poi gap block =
     (case (gap, block) of
        (Some g, Some b) \<Rightarrow>
          (if fg_displaced g \<and> fg_size_atr g \<ge> 2 / 10 then Some (Gap_Zone g)
           else if ob_strength b \<ge> 6 / 10 then Some (Block_Zone b)
           else Some (Gap_Zone g))
      | (Some g, None) \<Rightarrow> Some (Gap_Zone g)
      | (None, Some b) \<Rightarrow> Some (Block_Zone b)
      | (None, None) \<Rightarrow> None)"

definition spread_pad :: "risk_config \<Rightarrow> real option \<Rightarrow> real" where
  "spread_pad risk live_spread =
     (case live_spread of None \<Rightarrow> 0 | Some s \<Rightarrow> if s > 0 then s * rc_stop_spread_multiple risk else 0)"

definition anchor_sweep :: "liquidity_sweep option \<Rightarrow> poi \<Rightarrow> liquidity_sweep option" where
  "anchor_sweep sweep poi =
     (case sweep of None \<Rightarrow> None | Some s \<Rightarrow> if lw_index s \<ge> poi_index poi then Some s else None)"

definition build_stop ::
  "string \<Rightarrow> real \<Rightarrow> liquidity_sweep option \<Rightarrow> poi \<Rightarrow> timeframe_analysis \<Rightarrow> real" where
  "build_stop direction buffer sweep poi analysis =
     (if direction = ''BUY'' then
        (case anchor_sweep sweep poi of None \<Rightarrow> poi_lower poi
         | Some s \<Rightarrow> min (poi_lower poi) (c_low (ta_candles analysis ! lw_index s))) - buffer
      else
        (case anchor_sweep sweep poi of None \<Rightarrow> poi_upper poi
         | Some s \<Rightarrow> max (poi_upper poi) (c_high (ta_candles analysis ! lw_index s))) + buffer)"

definition build_target ::
  "risk_config \<Rightarrow> string \<Rightarrow> real \<Rightarrow> real \<Rightarrow> real \<Rightarrow> timeframe_analysis \<Rightarrow> int \<Rightarrow> real \<times> target_level" where
  "build_target risk direction entry stop_distance atr_value analysis index =
     (let offset = atr_value * (1 / 10);
          minimum_reward = stop_distance * rc_min_risk_reward risk
      in case nearest_target (ta_liquidity analysis) entry direction index (minimum_reward + offset) of
           Some pool \<Rightarrow>
             (if direction = ''BUY'' then lv_price pool - offset else lv_price pool + offset, Pool pool)
         | None \<Rightarrow>
             (let take_profit = (if direction = ''BUY'' then entry + minimum_reward else entry - minimum_reward)
              in (take_profit, Projection take_profit (rc_min_risk_reward risk))))"

definition build_levels ::
  "risk_config \<Rightarrow> string \<Rightarrow> real \<Rightarrow> real \<Rightarrow> liquidity_sweep option \<Rightarrow> poi \<Rightarrow> timeframe_analysis \<Rightarrow> int
   \<Rightarrow> real option \<Rightarrow> (real \<times> real \<times> real \<times> target_level) option" where
  "build_levels risk direction price atr_value sweep poi analysis index live_spread =
     (let buffer = atr_value * (2 / 10) + spread_pad risk live_spread;
          entry = price;
          stop_loss = build_stop direction buffer sweep poi analysis;
          stop_distance = \<bar>entry - stop_loss\<bar>;
          (take_profit, target) = build_target risk direction entry stop_distance atr_value analysis index
      in if (if direction = ''BUY'' then stop_loss \<ge> entry else stop_loss \<le> entry) then None
         else if stop_distance \<le> 0 then None
         else if direction = ''BUY'' \<and> \<not> (stop_loss < entry \<and> entry < take_profit) then None
         else if direction = ''SELL'' \<and> \<not> (take_profit < entry \<and> entry < stop_loss) then None
         else Some (entry, stop_loss, take_profit, target))"

subsection \<open>The evidence list\<close>

definition evidence_items ::
  "string \<Rightarrow> mtf_decision \<Rightarrow> liquidity_sweep option \<Rightarrow> structure_event option \<Rightarrow> displacement option
   \<Rightarrow> poi_kind \<Rightarrow> timeframe_analysis \<Rightarrow> evidence_item list" where
  "evidence_items direction decision sweep event move kind analysis =
     [Classified direction (mt_setup_type decision) (mt_h1_bias decision) (mt_m15_bias decision),
      BecauseOf (mt_rationale decision)]
     @ map MtfEvidence (mt_evidence decision)
     @ (if mt_score_floor decision > 0 then [RequiresScore (mt_score_floor decision)] else [])
     @ (case sweep of None \<Rightarrow> []
        | Some s \<Rightarrow> [SweptLevel (lv_label (lw_level s)) (lw_quality s) (lw_rejection_ratio s)])
     @ (case event of None \<Rightarrow> []
        | Some b \<Rightarrow> [BreakItem (se_event_type b) (se_direction b) (se_clearance_atr b)])
     @ (case move of None \<Rightarrow> [] | Some d \<Rightarrow> [MoveItem (dp_atr_multiple d) (dp_quality d)])
     @ [ZoneItem kind]
     @ (case ta_dealing_range analysis of None \<Rightarrow> [] | Some d \<Rightarrow> [LocationItem (dr_zone d)])
     @ [RegimeItem (rg_note (ta_regime analysis))]"

subsection \<open>The evaluation\<close>

text \<open>\<open>refuse\<close>: stop with the reason and what was recorded up to here.\<close>

definition refuse ::
  "check_detail check list \<Rightarrow> rejection \<Rightarrow> mtf_decision option \<Rightarrow> checklist_error + evaluation" where
  "refuse chain reason decision =
     Inr \<lparr> el_candidate = None, el_rejection = Some reason, el_decision = decision, el_checks = finish chain \<rparr>"

text \<open>The trigger conditions of the chain: sweep, displacement, structure break. A missing sweep or
  break is pending, because the other one is a trigger of its own.\<close>

definition record_trigger ::
  "direction_evidence \<Rightarrow> check_detail check list \<Rightarrow> checklist_error + check_detail check list" where
  "record_trigger e chain =
     bind_err
       (case ev_sweep e of
          Some s \<Rightarrow> passed chain ''liquidity_sweep''
            (SweepDetail (lv_label (lw_level s)) (lv_price (lw_level s)) (lw_quality s) (lw_rejection_ratio s))
        | None \<Rightarrow> record_check chain ''liquidity_sweep'' PENDING_CHECK NoSweepDetail) (\<lambda>chain.
     bind_err
       (case ev_displacement e of
          Some d \<Rightarrow> passed chain ''displacement'' (MoveDetail (dp_quality d) (dp_index d))
        | None \<Rightarrow> failed_check chain ''displacement'' NoMoveDetail) (\<lambda>chain.
       (case ev_structure_event e of
          Some b \<Rightarrow> passed chain ''structure_break''
            (BreakDetail (se_event_type b) (se_level b) (se_clearance_atr b))
        | None \<Rightarrow> record_check chain ''structure_break'' PENDING_CHECK SweepAloneDetail)))"

text \<open>The entry zone: found, and the price at it.\<close>

definition at_zone :: "poi \<Rightarrow> real \<Rightarrow> real \<Rightarrow> bool" where
  "at_zone p atr_value price =
     (let proximity = atr_value * (35 / 100)
      in poi_lower p - proximity \<le> price \<and> price \<le> poi_upper p + proximity)"

definition entry_zone :: "timeframe_analysis \<Rightarrow> smc_config \<Rightarrow> string \<Rightarrow> int \<Rightarrow> nat option \<Rightarrow> poi option" where
  "entry_zone m15 smc direction index reference =
     choose_poi
       (best_entry_gap (ta_gaps m15) direction index (mc_fvg_max_age_candles smc) reference
          (mc_poi_reference_lookback_candles smc))
       (best_entry_block (ta_order_blocks m15) direction index (mc_ob_max_age_candles smc) reference
          (mc_poi_reference_lookback_candles smc))"

text \<open>What is fixed before the levels are built.\<close>

record setup_frame =
  sf_digest :: "id_part list \<Rightarrow> string"
  sf_config :: trading_config
  sf_symbol :: string
  sf_h1 :: timeframe_analysis
  sf_m15 :: timeframe_analysis
  sf_moment :: micros
  sf_session :: session_state
  sf_decision :: mtf_decision
  sf_evidence :: direction_evidence
  sf_direction :: string

definition price_candidate ::
  "setup_frame \<Rightarrow> poi \<Rightarrow> real \<times> real \<times> real \<times> target_level \<Rightarrow> check_detail check list \<Rightarrow> smc_candidate" where
  "price_candidate f p levels recorded =
     (let (entry, stop_loss, take_profit, target) = levels; m15 = sf_m15 f; e = sf_evidence f;
          stop_distance = \<bar>entry - stop_loss\<bar>
      in \<lparr> cd_symbol = sf_symbol f, cd_direction = sf_direction f, cd_entry = entry, cd_stop_loss = stop_loss,
           cd_take_profit = take_profit, cd_risk_reward = \<bar>take_profit - entry\<bar> / stop_distance,
           cd_stop_distance = stop_distance, cd_atr = ta_atr m15, cd_h1_bias = bias_text (ta_bias (sf_h1 f)),
           cd_m15_bias = bias_text (ta_bias m15), cd_alignment = alignment_text (mt_alignment (sf_decision f)),
           cd_setup_type = setup_type_text (mt_setup_type (sf_decision f)),
           cd_setup_id = setup_identity (sf_digest f) (sf_symbol f) ''M15'' (sf_direction f) (ev_sweep e)
             (ev_structure_event e),
           cd_score_floor = mt_score_floor (sf_decision f), cd_timestamp = Some (sf_moment f),
           cd_session = sf_session f, cd_regime = ta_regime m15, cd_sweep = ev_sweep e,
           cd_structure_event = ev_structure_event e, cd_displacement = ev_displacement e,
           cd_point_of_interest = Some p, cd_dealing_range = ta_dealing_range m15,
           cd_liquidity_target = Some target, cd_checks = recorded,
           cd_evidence = evidence_items (sf_direction f) (sf_decision f) (ev_sweep e) (ev_structure_event e)
             (ev_displacement e) (poi_kind_of p) m15 \<rparr>)"

definition finish_candidate ::
  "setup_frame \<Rightarrow> poi \<Rightarrow> real \<times> real \<times> real \<times> target_level \<Rightarrow> check_detail check list
   \<Rightarrow> checklist_error + evaluation" where
  "finish_candidate f p levels chain =
     (let (entry, stop_loss, take_profit, target) = levels; risk = tc_risk (sf_config f);
          stop_distance = \<bar>entry - stop_loss\<bar>;
          reward_distance = \<bar>take_profit - entry\<bar>;
          stop_atr = stop_distance / ta_atr (sf_m15 f);
          risk_reward = reward_distance / stop_distance;
          decision = Some (sf_decision f)
      in if stop_distance \<le> 0 then
           bind_err (failed_check chain ''stop_loss'' ZeroStopDetail) (\<lambda>chain. refuse chain ZeroStop decision)
         else if stop_atr < rc_min_stop_distance_atr risk then
           bind_err (failed_check chain ''stop_loss'' (TightStop stop_atr)) (\<lambda>chain.
             refuse chain (StopTooTight stop_atr (rc_min_stop_distance_atr risk)) decision)
         else if stop_atr > rc_max_stop_distance_atr risk then
           bind_err (failed_check chain ''stop_loss'' (WideStop stop_atr)) (\<lambda>chain.
             refuse chain (StopTooWide stop_atr (rc_max_stop_distance_atr risk)) decision)
         else
           bind_err (passed chain ''stop_loss'' (StopDetail stop_atr)) (\<lambda>chain.
           bind_err (passed chain ''take_profit'' (TargetDetail take_profit target)) (\<lambda>chain.
             if risk_reward < rc_min_risk_reward risk - R_EPSILON then
               bind_err (failed_check chain ''risk_reward'' (LowReward risk_reward (rc_min_risk_reward risk)))
                 (\<lambda>chain. refuse chain (RewardTooLow risk_reward (rc_min_risk_reward risk)) decision)
             else
               bind_err (passed chain ''risk_reward'' (RewardDetail risk_reward)) (\<lambda>chain.
                 (let recorded = finish chain
                  in Inr \<lparr> el_candidate = Some (price_candidate f p levels recorded), el_rejection = None,
                       el_decision = decision, el_checks = recorded \<rparr>)))))"

text \<open>From a direction with its evidence: trigger, zone, retest, levels, candidate.\<close>

definition build_setup :: "setup_frame \<Rightarrow> real option \<Rightarrow> checklist_error + evaluation" where
  "build_setup f live_spread =
     (let m15 = sf_m15 f; e = sf_evidence f; index = last_index m15; price = ta_price m15;
          decision = Some (sf_decision f); direction = sf_direction f
      in bind_err (record_trigger e []) (\<lambda>chain.
         (case entry_zone m15 (tc_smc (sf_config f)) direction index (Some (nat (ev_reference_index e))) of
            None \<Rightarrow> bind_err (failed_check chain ''entry_zone'' NoZoneDetail) (\<lambda>chain. refuse chain NoZone decision)
          | Some p \<Rightarrow>
              bind_err (passed chain ''entry_zone'' (ZoneDetail (poi_kind_of p) (poi_lower p) (poi_upper p)))
                (\<lambda>chain.
              if \<not> at_zone p (ta_atr m15) price then
                bind_err (failed_check chain ''zone_retest'' (AwaitZone price)) (\<lambda>chain.
                  refuse chain (AwaitingRetrace price (poi_kind_of p) (poi_lower p) (poi_upper p)) decision)
              else
                bind_err (passed chain ''zone_retest'' (AtZone price (poi_kind_of p))) (\<lambda>chain.
                (case build_levels (tc_risk (sf_config f)) direction price (ta_atr m15) (ev_sweep e) p m15 index
                        live_spread of
                   None \<Rightarrow> bind_err (failed_check chain ''stop_loss'' NoLevelsDetail) (\<lambda>chain.
                     refuse chain NoLevels decision)
                 | Some levels \<Rightarrow> finish_candidate f p levels chain))))))"

definition smc_evaluate ::
  "(id_part list \<Rightarrow> string) \<Rightarrow> trading_config \<Rightarrow> string \<Rightarrow> (string \<times> timeframe_analysis) list \<Rightarrow> micros option
   \<Rightarrow> real option \<Rightarrow> checklist_error + evaluation" where
  "smc_evaluate digest config symbol analyses now live_spread =
     (case (map_of analyses ''M15'', map_of analyses ''H1'') of
        (Some m15, Some h1) \<Rightarrow>
          (let moment = (case now of Some t \<Rightarrow> t | None \<Rightarrow> close_time (last (ta_candles m15)));
               session = classify_session moment (tc_sessions config)
           in if ss_weekend session then refuse [] MarketClosed None
              else if \<not> rg_tradeable (ta_regime m15) then refuse [] (RegimeRefused (rg_note (ta_regime m15))) None
              else if ta_atr m15 \<le> 0 then refuse [] ZeroAtr None
              else
                (let (decision, evidence) = decide h1 m15 (last_index m15) (tc_smc config) (tc_mtf config)
                       (tc_tier_b config)
                 in case (mt_direction decision, evidence) of
                      (Some direction, Some e) \<Rightarrow>
                        build_setup \<lparr> sf_digest = digest, sf_config = config, sf_symbol = symbol, sf_h1 = h1,
                          sf_m15 = m15, sf_moment = moment, sf_session = session, sf_decision = decision,
                          sf_evidence = e, sf_direction = direction \<rparr> live_spread
                    | _ \<Rightarrow>
                        bind_err
                          (case (case evidence of None \<Rightarrow> None | Some e \<Rightarrow> ev_sweep e) of
                             Some s \<Rightarrow> passed [] ''liquidity_sweep''
                               (SweepSeen (lv_label (lw_level s)) (lw_quality s))
                           | None \<Rightarrow> failed_check [] ''liquidity_sweep'' (NotTriggered (mt_rationale decision)))
                          (\<lambda>chain. refuse chain (MtfRefused (mt_rationale decision)) (Some decision))))
      | _ \<Rightarrow> refuse [] Incomplete None)"

text \<open>\<open>analyze\<close> over the series of each timeframe; \<open>None\<close> is a swing window below one. A failed
  transcript is the outer error.\<close>

fun analyze_all ::
  "smc_config \<Rightarrow> micros option \<Rightarrow> (string \<times> candle list) list \<Rightarrow> (string \<times> timeframe_analysis) list option" where
  "analyze_all smc now [] = Some []"
| "analyze_all smc now ((timeframe, candles) # rest) =
     (case analyze_timeframe smc candles timeframe now of
        None \<Rightarrow> None
      | Some a \<Rightarrow> map_option ((#) (timeframe, a)) (analyze_all smc now rest))"

definition smc_analyze ::
  "(id_part list \<Rightarrow> string) \<Rightarrow> trading_config \<Rightarrow> string \<Rightarrow> (string \<times> candle list) list \<Rightarrow> micros option
   \<Rightarrow> real option \<Rightarrow> (checklist_error + smc_result) option" where
  "smc_analyze digest config symbol series now live_spread =
     (case analyze_all (tc_smc config) now series of
        None \<Rightarrow> None
      | Some analyses \<Rightarrow>
          Some (bind_err (smc_evaluate digest config symbol analyses now live_spread) (\<lambda>r.
            Inr \<lparr> sr_symbol = symbol, sr_analyses = analyses, sr_candidate = el_candidate r,
              sr_rejection = el_rejection r,
              sr_state = signal_state_of (el_candidate r) (el_decision r), sr_mtf = el_decision r,
              sr_checks = el_checks r \<rparr>)))"

subsection \<open>The transcript never fails\<close>

definition trigger_checks :: "direction_evidence \<Rightarrow> check_detail check list" where
  "trigger_checks e =
     [(case ev_sweep e of
         Some s \<Rightarrow> \<lparr> ck_name = ''liquidity_sweep'', ck_status = PASS, ck_detail = Some
           (SweepDetail (lv_label (lw_level s)) (lv_price (lw_level s)) (lw_quality s) (lw_rejection_ratio s)) \<rparr>
       | None \<Rightarrow> \<lparr> ck_name = ''liquidity_sweep'', ck_status = PENDING_CHECK, ck_detail = Some NoSweepDetail \<rparr>),
      (case ev_displacement e of
         Some d \<Rightarrow> \<lparr> ck_name = ''displacement'', ck_status = PASS,
           ck_detail = Some (MoveDetail (dp_quality d) (dp_index d)) \<rparr>
       | None \<Rightarrow> \<lparr> ck_name = ''displacement'', ck_status = FAIL, ck_detail = Some NoMoveDetail \<rparr>),
      (case ev_structure_event e of
         Some b \<Rightarrow> \<lparr> ck_name = ''structure_break'', ck_status = PASS,
           ck_detail = Some (BreakDetail (se_event_type b) (se_level b) (se_clearance_atr b)) \<rparr>
       | None \<Rightarrow> \<lparr> ck_name = ''structure_break'', ck_status = PENDING_CHECK, ck_detail = Some SweepAloneDetail \<rparr>)]"

lemma record_check_fresh:
  "name \<in> set CHAIN \<Longrightarrow> name \<notin> ck_name ` set checks \<Longrightarrow>
   record_check checks name status detail =
     Inr (checks @ [\<lparr> ck_name = name, ck_status = status, ck_detail = Some detail \<rparr>])"
  by (auto simp: record_check_def list_ex_iff)

lemma bind_err_simps [simp]: "bind_err (Inr x) f = f x" "bind_err (Inl e) f = Inl e"
  by (simp_all add: bind_err_def)

lemmas chain_simps = passed_def failed_check_def record_check_fresh

lemma in_CHAIN [simp]:
  "''liquidity_sweep'' \<in> set CHAIN" "''displacement'' \<in> set CHAIN" "''structure_break'' \<in> set CHAIN"
  "''entry_zone'' \<in> set CHAIN" "''zone_retest'' \<in> set CHAIN" "''stop_loss'' \<in> set CHAIN"
  "''take_profit'' \<in> set CHAIN" "''risk_reward'' \<in> set CHAIN"
  by (simp_all add: CHAIN_def)

lemma record_trigger_eq: "record_trigger e [] = Inr (trigger_checks e)"
  by (simp add: record_trigger_def trigger_checks_def chain_simps split: option.split)

lemma trigger_names [simp]:
  "ck_name ` set (trigger_checks e) = {''liquidity_sweep'', ''displacement'', ''structure_break''}"
  by (simp add: trigger_checks_def split: option.split)

lemma finish_candidate_total:
  assumes "ck_name ` set chain \<inter> {''stop_loss'', ''take_profit'', ''risk_reward''} = {}"
  obtains r where "finish_candidate f p levels chain = Inr r"
proof -
  have "\<exists>r. finish_candidate f p levels chain = Inr r"
    using assms by (cases levels) (auto simp: finish_candidate_def Let_def chain_simps refuse_def)
  then show thesis using that by blast
qed

lemma build_setup_total: "\<exists>r. build_setup f live_spread = Inr r"
proof (cases "entry_zone (sf_m15 f) (tc_smc (sf_config f)) (sf_direction f) (last_index (sf_m15 f))
    (Some (nat (ev_reference_index (sf_evidence f))))")
  case None
  then show ?thesis by (simp add: build_setup_def Let_def record_trigger_eq chain_simps refuse_def)
next
  case (Some p)
  let ?levels = "build_levels (tc_risk (sf_config f)) (sf_direction f) (ta_price (sf_m15 f)) (ta_atr (sf_m15 f))
    (ev_sweep (sf_evidence f)) p (sf_m15 f) (last_index (sf_m15 f)) live_spread"
  show ?thesis
  proof (cases ?levels)
    case None
    with Some show ?thesis by (simp add: build_setup_def Let_def record_trigger_eq chain_simps refuse_def)
  next
    case l: (Some levels)
    let ?chain = "trigger_checks (sf_evidence f)
      @ [\<lparr> ck_name = ''entry_zone'', ck_status = PASS,
           ck_detail = Some (ZoneDetail (poi_kind_of p) (poi_lower p) (poi_upper p)) \<rparr>,
         \<lparr> ck_name = ''zone_retest'', ck_status = PASS,
           ck_detail = Some (AtZone (ta_price (sf_m15 f)) (poi_kind_of p)) \<rparr>]"
    obtain r where "finish_candidate f p levels ?chain = Inr r"
      by (rule finish_candidate_total [of ?chain]) auto
    with Some l show ?thesis
      by (simp add: build_setup_def Let_def record_trigger_eq chain_simps refuse_def)
  qed
qed

subsection \<open>What the levels promise\<close>

lemma build_target_pays:
  assumes "build_target risk direction entry d a analysis t = (tp, target)" and "0 \<le> a" and "0 < d"
    and "0 < rc_min_risk_reward risk" and "direction = ''BUY'' \<or> direction = ''SELL''"
  shows "(if direction = ''BUY'' then entry + d * rc_min_risk_reward risk \<le> tp
          else tp \<le> entry - d * rc_min_risk_reward risk)"
    and "case target of
        Pool l \<Rightarrow> l \<in> target_pools (ta_liquidity analysis) entry direction t (d * rc_min_risk_reward risk + a / 10)
      | Projection _ _ \<Rightarrow> target_pools (ta_liquidity analysis) entry direction t (d * rc_min_risk_reward risk + a / 10) = {}
      | Risk_Multiple _ _ \<Rightarrow> False"
proof -
  let ?m = "d * rc_min_risk_reward risk + a * (1 / 10)"
  have near: "case nearest_target (ta_liquidity analysis) entry direction t ?m of
      None \<Rightarrow> target_pools (ta_liquidity analysis) entry direction t ?m = {}
    | Some l \<Rightarrow> l \<in> target_pools (ta_liquidity analysis) entry direction t ?m"
    using nearest_pool [of "ta_liquidity analysis" entry direction t ?m] by (auto split: option.splits)
  show "if direction = ''BUY'' then entry + d * rc_min_risk_reward risk \<le> tp
          else tp \<le> entry - d * rc_min_risk_reward risk"
    using assms near
    by (cases "nearest_target (ta_liquidity analysis) entry direction t ?m")
      (auto simp: build_target_def Let_def target_pools_def split: if_splits)
  show "case target of
        Pool l \<Rightarrow> l \<in> target_pools (ta_liquidity analysis) entry direction t (d * rc_min_risk_reward risk + a / 10)
      | Projection _ _ \<Rightarrow> target_pools (ta_liquidity analysis) entry direction t (d * rc_min_risk_reward risk + a / 10) = {}
      | Risk_Multiple _ _ \<Rightarrow> False"
    using assms near
    by (cases "nearest_target (ta_liquidity analysis) entry direction t ?m") (auto simp: build_target_def Let_def)
qed

lemma build_levels_Some:
  assumes "build_levels risk direction price a sweep p analysis t live_spread = Some (entry, stop, tp, target)"
  shows "entry = price"
    and "if direction = ''BUY'' then stop < entry else entry < stop"
    and "direction = ''BUY'' \<Longrightarrow> entry < tp" and "direction = ''SELL'' \<Longrightarrow> tp < entry"
    and "build_target risk direction entry \<bar>entry - stop\<bar> a analysis t = (tp, target)"
    and "stop = build_stop direction (a * (2 / 10) + spread_pad risk live_spread) sweep p analysis"
  using assms
  by (auto simp: build_levels_def Let_def split: prod.splits if_splits)

lemma build_stop_side:
  assumes "0 \<le> rc_stop_spread_multiple risk" and "0 \<le> a"
  shows "if direction = ''BUY''
    then build_stop direction (a * (2 / 10) + spread_pad risk live_spread) sweep p analysis \<le> poi_lower p - a / 5
    else poi_upper p + a / 5 \<le> build_stop direction (a * (2 / 10) + spread_pad risk live_spread) sweep p analysis"
proof -
  have "0 \<le> spread_pad risk live_spread"
    using assms(1) by (auto simp: spread_pad_def split: option.split)
  then show ?thesis by (auto simp: build_stop_def split: option.split)
qed

subsection \<open>What a candidate promises\<close>

definition mark :: "string \<Rightarrow> check_status \<Rightarrow> check_detail \<Rightarrow> check_detail check" where
  "mark name status detail = \<lparr> ck_name = name, ck_status = status, ck_detail = Some detail \<rparr>"

lemma mark_fields [simp]: "ck_name (mark n s d) = n" "ck_status (mark n s d) = s"
  by (simp_all add: mark_def)

lemma record_mark:
  "name \<in> set CHAIN \<Longrightarrow> name \<notin> ck_name ` set checks \<Longrightarrow>
   record_check checks name status detail = Inr (checks @ [mark name status detail])"
  by (simp add: record_check_fresh mark_def)

lemma refuse_candidate: "refuse chain reason d = Inr r \<Longrightarrow> el_candidate r = None"
  by (auto simp: refuse_def)

lemma finish_candidate_eq:
  assumes "ck_name ` set chain = {''liquidity_sweep'', ''displacement'', ''structure_break'', ''entry_zone'', ''zone_retest''}"
  shows "finish_candidate f p (entry, stop, tp, target) chain =
    (let d = \<bar>entry - stop\<bar>; risk = tc_risk (sf_config f); a = d / ta_atr (sf_m15 f); r = \<bar>tp - entry\<bar> / d;
         priced = chain @ [mark ''stop_loss'' PASS (StopDetail a), mark ''take_profit'' PASS (TargetDetail tp target)];
         recorded = finish (priced @ [mark ''risk_reward'' PASS (RewardDetail r)])
     in if d \<le> 0 then refuse (chain @ [mark ''stop_loss'' FAIL ZeroStopDetail]) ZeroStop (Some (sf_decision f))
        else if a < rc_min_stop_distance_atr risk then
          refuse (chain @ [mark ''stop_loss'' FAIL (TightStop a)]) (StopTooTight a (rc_min_stop_distance_atr risk))
            (Some (sf_decision f))
        else if a > rc_max_stop_distance_atr risk then
          refuse (chain @ [mark ''stop_loss'' FAIL (WideStop a)]) (StopTooWide a (rc_max_stop_distance_atr risk))
            (Some (sf_decision f))
        else if r < rc_min_risk_reward risk - R_EPSILON then
          refuse (priced @ [mark ''risk_reward'' FAIL (LowReward r (rc_min_risk_reward risk))])
            (RewardTooLow r (rc_min_risk_reward risk)) (Some (sf_decision f))
        else Inr \<lparr> el_candidate = Some (price_candidate f p (entry, stop, tp, target) recorded),
          el_rejection = None, el_decision = Some (sf_decision f), el_checks = recorded \<rparr>)"
  by (simp add: finish_candidate_def Let_def passed_def failed_check_def record_mark assms)

lemma finish_candidate_Some:
  assumes "finish_candidate f p (entry, stop, tp, target) chain = Inr r" and "el_candidate r = Some c"
    and "ck_name ` set chain = {''liquidity_sweep'', ''displacement'', ''structure_break'', ''entry_zone'', ''zone_retest''}"
  obtains a b d where "0 < \<bar>entry - stop\<bar>"
    and "rc_min_stop_distance_atr (tc_risk (sf_config f)) \<le> \<bar>entry - stop\<bar> / ta_atr (sf_m15 f)"
    and "\<bar>entry - stop\<bar> / ta_atr (sf_m15 f) \<le> rc_max_stop_distance_atr (tc_risk (sf_config f))"
    and "rc_min_risk_reward (tc_risk (sf_config f)) - R_EPSILON \<le> \<bar>tp - entry\<bar> / \<bar>entry - stop\<bar>"
    and "r = \<lparr> el_candidate = Some (price_candidate f p (entry, stop, tp, target) (finish (chain
      @ [mark ''stop_loss'' PASS a, mark ''take_profit'' PASS b, mark ''risk_reward'' PASS d]))),
      el_rejection = None, el_decision = Some (sf_decision f), el_checks = finish (chain
      @ [mark ''stop_loss'' PASS a, mark ''take_profit'' PASS b, mark ''risk_reward'' PASS d]) \<rparr>"
  using assms(1,2) unfolding finish_candidate_eq [OF assms(3)] Let_def
  by (auto dest: refuse_candidate simp: not_le not_less split: if_splits)

lemma build_setup_Some:
  assumes "build_setup f live_spread = Inr r" and "el_candidate r = Some c"
  obtains p entry stop tp target rest where
    "entry_zone (sf_m15 f) (tc_smc (sf_config f)) (sf_direction f) (last_index (sf_m15 f))
       (Some (nat (ev_reference_index (sf_evidence f)))) = Some p"
    and "at_zone p (ta_atr (sf_m15 f)) (ta_price (sf_m15 f))"
    and "build_levels (tc_risk (sf_config f)) (sf_direction f) (ta_price (sf_m15 f)) (ta_atr (sf_m15 f))
       (ev_sweep (sf_evidence f)) p (sf_m15 f) (last_index (sf_m15 f)) live_spread = Some (entry, stop, tp, target)"
    and "rc_min_stop_distance_atr (tc_risk (sf_config f)) \<le> \<bar>entry - stop\<bar> / ta_atr (sf_m15 f)"
    and "\<bar>entry - stop\<bar> / ta_atr (sf_m15 f) \<le> rc_max_stop_distance_atr (tc_risk (sf_config f))"
    and "map ck_name rest = [''entry_zone'', ''zone_retest'', ''stop_loss'', ''take_profit'', ''risk_reward'']"
    and "list_all (\<lambda>k. ck_status k = PASS) rest"
    and "r = \<lparr> el_candidate = Some (price_candidate f p (entry, stop, tp, target)
        (finish (trigger_checks (sf_evidence f) @ rest))), el_rejection = None,
      el_decision = Some (sf_decision f), el_checks = finish (trigger_checks (sf_evidence f) @ rest) \<rparr>"
proof -
  let ?m = "sf_m15 f" and ?e = "sf_evidence f"
  let ?zone = "entry_zone ?m (tc_smc (sf_config f)) (sf_direction f) (last_index ?m) (Some (nat (ev_reference_index ?e)))"
  obtain p where p: "?zone = Some p"
    using assms
    by (cases ?zone) (auto simp: build_setup_def Let_def record_trigger_eq failed_check_def record_mark
        dest: refuse_candidate)
  have near: "at_zone p (ta_atr ?m) (ta_price ?m)"
    using assms p
    by (cases "at_zone p (ta_atr ?m) (ta_price ?m)")
      (auto simp: build_setup_def Let_def record_trigger_eq passed_def failed_check_def record_mark
        dest: refuse_candidate)
  let ?levels = "build_levels (tc_risk (sf_config f)) (sf_direction f) (ta_price ?m) (ta_atr ?m) (ev_sweep ?e) p ?m
    (last_index ?m) live_spread"
  obtain entry stop tp target where l: "?levels = Some (entry, stop, tp, target)"
    using assms p near
    by (cases ?levels) (auto simp: build_setup_def Let_def record_trigger_eq passed_def failed_check_def record_mark
        dest: refuse_candidate)
  let ?z = "[mark ''entry_zone'' PASS (ZoneDetail (poi_kind_of p) (poi_lower p) (poi_upper p)),
    mark ''zone_retest'' PASS (AtZone (ta_price ?m) (poi_kind_of p))]"
  have fin: "finish_candidate f p (entry, stop, tp, target) (trigger_checks ?e @ ?z) = Inr r"
    using assms(1) p near l
    by (simp add: build_setup_def Let_def record_trigger_eq passed_def record_mark)
  have names: "ck_name ` set (trigger_checks ?e @ ?z) =
      {''liquidity_sweep'', ''displacement'', ''structure_break'', ''entry_zone'', ''zone_retest''}" by auto
  from finish_candidate_Some [OF fin assms(2) names] obtain a b d where
    bounds: "rc_min_stop_distance_atr (tc_risk (sf_config f)) \<le> \<bar>entry - stop\<bar> / ta_atr (sf_m15 f)"
      "\<bar>entry - stop\<bar> / ta_atr (sf_m15 f) \<le> rc_max_stop_distance_atr (tc_risk (sf_config f))"
    and r: "r = \<lparr> el_candidate = Some (price_candidate f p (entry, stop, tp, target)
        (finish ((trigger_checks ?e @ ?z) @ [mark ''stop_loss'' PASS a, mark ''take_profit'' PASS b, mark ''risk_reward'' PASS d]))),
      el_rejection = None, el_decision = Some (sf_decision f), el_checks =
        finish ((trigger_checks ?e @ ?z) @ [mark ''stop_loss'' PASS a, mark ''take_profit'' PASS b, mark ''risk_reward'' PASS d]) \<rparr>"
    by blast
  show thesis
    by (rule that [OF p near l bounds, of "?z @ [mark ''stop_loss'' PASS a, mark ''take_profit'' PASS b, mark ''risk_reward'' PASS d]"])
      (simp_all add: r)
qed

lemma evaluate_cases:
  assumes "smc_evaluate digest config symbol analyses now live_spread = Inr r" and "el_candidate r = Some c"
  obtains m15 h1 decision e direction moment where "map_of analyses ''M15'' = Some m15"
    and "map_of analyses ''H1'' = Some h1" and "\<not> ss_weekend (classify_session moment (tc_sessions config))"
    and "rg_tradeable (ta_regime m15)" and "0 < ta_atr m15"
    and "decide h1 m15 (last_index m15) (tc_smc config) (tc_mtf config) (tc_tier_b config) = (decision, Some e)"
    and "mt_direction decision = Some direction"
    and "build_setup \<lparr> sf_digest = digest, sf_config = config, sf_symbol = symbol, sf_h1 = h1,
      sf_m15 = m15, sf_moment = moment, sf_session = classify_session moment (tc_sessions config),
      sf_decision = decision, sf_evidence = e, sf_direction = direction \<rparr> live_spread = Inr r"
proof -
  obtain m15 h1 where tf: "map_of analyses ''M15'' = Some m15" "map_of analyses ''H1'' = Some h1"
    using assms by (auto simp: smc_evaluate_def dest: refuse_candidate split: option.splits)
  let ?t = "case now of Some t \<Rightarrow> t | None \<Rightarrow> close_time (last (ta_candles m15))"
  note eq = assms(1) [unfolded smc_evaluate_def tf option.case prod.case Let_def]
  have open': "\<not> ss_weekend (classify_session ?t (tc_sessions config))"
    using eq assms(2) by (auto dest: refuse_candidate split: if_splits)
  have tradeable: "rg_tradeable (ta_regime m15)" and a: "0 < ta_atr m15"
    using eq assms(2) open' by (auto dest: refuse_candidate split: if_splits)
  obtain decision evidence where d:
    "decide h1 m15 (last_index m15) (tc_smc config) (tc_mtf config) (tc_tier_b config) = (decision, evidence)"
    by (cases "decide h1 m15 (last_index m15) (tc_smc config) (tc_mtf config) (tc_tier_b config)")
  obtain direction e where some: "mt_direction decision = Some direction" "evidence = Some e"
    using eq assms(2) open' tradeable a d
    by (cases "mt_direction decision"; cases evidence)
      (auto simp: bind_err_def dest: refuse_candidate split: sum.splits)
  have "build_setup \<lparr> sf_digest = digest, sf_config = config, sf_symbol = symbol, sf_h1 = h1,
      sf_m15 = m15, sf_moment = ?t, sf_session = classify_session ?t (tc_sessions config),
      sf_decision = decision, sf_evidence = e, sf_direction = direction \<rparr> live_spread = Inr r"
    using eq open' tradeable a d some by simp
  with tf open' tradeable a d some show thesis using that by blast
qed

lemma decided_direction:
  assumes "decide h1 m15 t smc mtf tier_b = (d, e)" and "mt_direction d = Some direction"
  shows "direction = ''BUY'' \<or> direction = ''SELL''"
proof (cases rule: decide_cases [of h1 m15 t smc mtf tier_b])
  case (accepted w d' e')
  then show ?thesis using assms judge_Inr(4) [OF accepted(2)] by (auto split: if_splits)
next
  case (refused d')
  then show ?thesis using assms by simp
qed

lemma candidate_fields [simp]:
  "cd_direction (price_candidate f p (entry, stop, tp, target) recorded) = sf_direction f"
  "cd_entry (price_candidate f p (entry, stop, tp, target) recorded) = entry"
  "cd_stop_loss (price_candidate f p (entry, stop, tp, target) recorded) = stop"
  "cd_take_profit (price_candidate f p (entry, stop, tp, target) recorded) = tp"
  "cd_risk_reward (price_candidate f p (entry, stop, tp, target) recorded) = \<bar>tp - entry\<bar> / \<bar>entry - stop\<bar>"
  "cd_stop_distance (price_candidate f p (entry, stop, tp, target) recorded) = \<bar>entry - stop\<bar>"
  "cd_atr (price_candidate f p (entry, stop, tp, target) recorded) = ta_atr (sf_m15 f)"
  "cd_regime (price_candidate f p (entry, stop, tp, target) recorded) = ta_regime (sf_m15 f)"
  "cd_session (price_candidate f p (entry, stop, tp, target) recorded) = sf_session f"
  "cd_point_of_interest (price_candidate f p (entry, stop, tp, target) recorded) = Some p"
  "cd_liquidity_target (price_candidate f p (entry, stop, tp, target) recorded) = Some target"
  "cd_checks (price_candidate f p (entry, stop, tp, target) recorded) = recorded"
  by (simp_all add: price_candidate_def Let_def)

lemma recorded_chain:
  assumes "map ck_name rest = [''entry_zone'', ''zone_retest'', ''stop_loss'', ''take_profit'', ''risk_reward'']"
    and "list_all (\<lambda>k. ck_status k = PASS) rest"
  shows "list_all (\<lambda>k. ck_status k = PASS \<or> ck_name k \<in> {''liquidity_sweep'', ''displacement'', ''structure_break''})
    (finish (trigger_checks e @ rest))"
proof -
  have late: "ck_status (chain_entry (trigger_checks e @ rest) name) = PASS"
    if n: "name \<in> set (map ck_name rest)" for name
  proof -
    have "distinct (map ck_name (trigger_checks e @ rest))"
      using assms(1) by (simp add: trigger_checks_def split: option.split)
    moreover obtain k where "k \<in> set rest" "ck_name k = name" using n by auto
    ultimately have "chain_entry (trigger_checks e @ rest) name = k"
      using last_of_unique [of ck_name "trigger_checks e @ rest" k] by (auto simp: chain_entry_def)
    then show ?thesis using assms(2) \<open>k \<in> set rest\<close> by (simp add: list_all_iff)
  qed
  show ?thesis
    using late by (simp add: finish_def CHAIN_def assms(1))
qed


lemma refuse_fields: "refuse chain reason d = Inr r \<Longrightarrow>
    el_candidate r = None \<and> el_rejection r = Some reason \<and> el_checks r = finish chain"
  by (auto simp: refuse_def)

definition settled :: "checklist_error + evaluation \<Rightarrow> bool" where
  "settled outcome = (case outcome of Inl _ \<Rightarrow> False
     | Inr r \<Rightarrow> map ck_name (el_checks r) = CHAIN \<and> (el_candidate r = None) = (el_rejection r \<noteq> None))"

lemma finish_names [simp]: "map ck_name (finish chain) = CHAIN"
  by (simp add: finish_def comp_def)

lemma settled_Inr:
  "settled (Inr r) \<longleftrightarrow> map ck_name (el_checks r) = CHAIN \<and> (el_candidate r = None) = (el_rejection r \<noteq> None)"
  by (simp add: settled_def)

lemma settled_refuse [simp]: "settled (refuse chain reason d)"
  by (simp add: settled_def refuse_def)

lemma settled_finish:
  assumes "ck_name ` set chain = {''liquidity_sweep'', ''displacement'', ''structure_break'', ''entry_zone'', ''zone_retest''}"
  shows "settled (finish_candidate f p (entry, stop, tp, target) chain)"
  unfolding finish_candidate_eq [OF assms] Let_def by (simp add: settled_Inr)

lemma settled_setup: "settled (build_setup f live_spread)"
proof -
  let ?m = "sf_m15 f" and ?e = "sf_evidence f"
  have names: "ck_name ` set (trigger_checks ?e @ [mark ''entry_zone'' PASS a, mark ''zone_retest'' PASS b]) =
      {''liquidity_sweep'', ''displacement'', ''structure_break'', ''entry_zone'', ''zone_retest''}" for a b
    by auto
  show ?thesis
    by (auto simp: build_setup_def Let_def record_trigger_eq passed_def failed_check_def record_mark
        settled_finish [OF names, simplified] split: option.split)
qed


text \<open>C19. A candidate is structurally complete: its levels are in order, the stop is behind the far
  edge of the entry zone by a fifth of an ATR and between the smallest and the largest distance,
  the price is at the zone, the target pays at least the minimum reward and is a projection only
  when no visible pool is far enough, and no check after the trigger failed.\<close>

theorem candidate_is_complete:
  assumes "smc_evaluate digest config symbol analyses now live_spread = Inr r" and "el_candidate r = Some c"
    and "map_of analyses ''M15'' = Some m15"
    and "0 < rc_min_risk_reward (tc_risk config)" and "0 \<le> rc_stop_spread_multiple (tc_risk config)"
  shows "rg_tradeable (cd_regime c) \<and> \<not> ss_weekend (cd_session c) \<and> 0 < cd_atr c
    \<and> (if cd_direction c = ''BUY'' then cd_stop_loss c < cd_entry c \<and> cd_entry c < cd_take_profit c
       else cd_direction c = ''SELL'' \<and> cd_take_profit c < cd_entry c \<and> cd_entry c < cd_stop_loss c)
    \<and> rc_min_stop_distance_atr (tc_risk config) \<le> cd_stop_distance c / cd_atr c
    \<and> cd_stop_distance c / cd_atr c \<le> rc_max_stop_distance_atr (tc_risk config)
    \<and> rc_min_risk_reward (tc_risk config) \<le> cd_risk_reward c
    \<and> (case cd_point_of_interest c of None \<Rightarrow> False
       | Some p \<Rightarrow> at_zone p (cd_atr c) (cd_entry c)
           \<and> (if cd_direction c = ''BUY'' then cd_stop_loss c \<le> poi_lower p - cd_atr c / 5
              else poi_upper p + cd_atr c / 5 \<le> cd_stop_loss c))
    \<and> target_projected (cd_liquidity_target c) =
        (target_pools (ta_liquidity m15) (cd_entry c) (cd_direction c) (last_index m15)
           (cd_stop_distance c * rc_min_risk_reward (tc_risk config) + cd_atr c / 10) = {})
    \<and> list_all (\<lambda>k. ck_status k = PASS \<or> ck_name k \<in> {''liquidity_sweep'', ''displacement'', ''structure_break''})
        (cd_checks c)"
  using assms(1,2)
proof (cases rule: evaluate_cases)
  case (1 m15' h1 decision e direction moment)
  let ?f = "\<lparr> sf_digest = digest, sf_config = config, sf_symbol = symbol, sf_h1 = h1,
      sf_m15 = m15, sf_moment = moment, sf_session = classify_session moment (tc_sessions config),
      sf_decision = decision, sf_evidence = e, sf_direction = direction \<rparr>"
  have m: "m15' = m15" using 1(1) assms(3) by simp
  have dir: "direction = ''BUY'' \<or> direction = ''SELL''" using decided_direction [OF 1(6,7)] .
  have a: "0 < ta_atr m15" using 1(5) m by simp
  show ?thesis using 1(8) [unfolded m] assms(2)
  proof (cases rule: build_setup_Some)
    case (1 p entry stop tp target rest)
    note levels = build_levels_Some [OF 1(3), simplified]
    have c: "c = price_candidate ?f p (entry, stop, tp, target) (finish (trigger_checks e @ rest))"
      using 1(8) assms(2) by simp
    have stop: "stop = build_stop direction (ta_atr m15 * (2 / 10) + spread_pad (tc_risk config) live_spread)
        (ev_sweep e) p m15"
      using build_levels_Some(6) [OF 1(3)] by simp
    let ?d = "\<bar>entry - stop\<bar>"
    have d: "0 < ?d" using levels(2) by (auto split: if_splits)
    note pays = build_target_pays [OF levels(5) _ d assms(4) dir]
    have "0 \<le> ta_atr m15" using a by simp
    note pays = pays [OF this]
    have "?d * rc_min_risk_reward (tc_risk config) \<le> \<bar>tp - entry\<bar>"
      using pays(1) by (auto split: if_splits)
    then have "rc_min_risk_reward (tc_risk config) \<le> \<bar>tp - entry\<bar> / ?d"
      using d by (simp add: pos_le_divide_eq mult.commute)
    moreover have "if direction = ''BUY'' then stop \<le> poi_lower p - ta_atr m15 / 5
        else poi_upper p + ta_atr m15 / 5 \<le> stop"
      unfolding stop by (rule build_stop_side) (use a assms(5) in simp_all)
    moreover have "target_projected (Some target) =
        (target_pools (ta_liquidity m15) entry direction (last_index m15)
           (?d * rc_min_risk_reward (tc_risk config) + ta_atr m15 / 10) = {})"
      using pays(2) by (cases target) (auto simp: target_projected_def)
    ultimately show ?thesis
      using \<open>rg_tradeable (ta_regime m15')\<close> \<open>\<not> ss_weekend (classify_session moment (tc_sessions config))\<close>
        recorded_chain [OF 1(6,7), of e] 1(2,4,5) levels dir a m
      by (auto simp: c)
  qed
qed

subsection \<open>A complete setup\<close>

definition entry_gap :: fair_value_gap where
  "entry_gap = \<lparr> fg_index = 6, fg_timestamp = 0, fg_direction = Bullish, fg_lower = 18 / 10, fg_upper = 21 / 10,
     fg_size = 3 / 10, fg_size_atr = 3 / 10, fg_displaced = True, fg_displacement_quality = 1 / 2,
     fg_mitigated_index = None, fg_invalidated_index = None, fg_fill_fraction = 0 \<rparr>"

definition complete_m15 :: timeframe_analysis where
  "complete_m15 = (bare_analysis Range_Bias [sample_sweep Bullish] [] [])\<lparr>
     ta_candles := replicate 10 (bar 0 2 3 1 2), ta_gaps := [entry_gap], ta_liquidity := [sample_level 10] \<rparr>"

definition bull_h1 :: timeframe_analysis where
  "bull_h1 = bare_analysis Bullish_Bias [] [] []"

lemma complete_parts [simp]:
  "last_index complete_m15 = 9" "ta_price complete_m15 = 2" "ta_bias complete_m15 = Range_Bias"
  "ta_atr complete_m15 = 1" "ta_gaps complete_m15 = [entry_gap]" "ta_order_blocks complete_m15 = []"
  "ta_liquidity complete_m15 = [sample_level 10]" "rg_tradeable (ta_regime complete_m15)"
  "rg_trend (ta_regime complete_m15) = Trending" "rg_note (ta_regime complete_m15) = MarketNote Trending Normal"
  "ta_bias bull_h1 = Bullish_Bias" "rg_trend (ta_regime bull_h1) = Trending"
  by (simp_all add: complete_m15_def bull_h1_def bare_analysis_def last_index_def ta_price_def)

lemma complete_evidence:
  "gather_direction_evidence complete_m15 Bullish 9 default_smc_config default_mtf_config =
     \<lparr> ev_wanted = Bullish, ev_sweep = Some (sample_sweep Bullish), ev_structure_event = None,
       ev_displacement = None, ev_choch = None, ev_latest_trigger_index = 5 \<rparr>"
  "gather_direction_evidence complete_m15 Bearish 9 default_smc_config default_mtf_config =
     \<lparr> ev_wanted = Bearish, ev_sweep = None, ev_structure_event = None,
       ev_displacement = None, ev_choch = None, ev_latest_trigger_index = - 1 \<rparr>"
  by (simp_all add: gather_direction_evidence_def Let_def complete_m15_def usable_sweeps_def usable_events_def
    usable_moves_def concrete_analysis preferred_def trigger_index_def)

lemma complete_decision:
  "decide bull_h1 complete_m15 9 default_smc_config default_mtf_config 60 =
     (\<lparr> mt_direction = Some ''BUY'', mt_wanted = Bullish, mt_setup_type = CONTINUATION, mt_state = VALID_SETUP,
       mt_h1_bias = Bullish_Bias, mt_m15_bias = Range_Bias, mt_alignment = Aligned, mt_score_floor = 60,
       mt_regime_note = MarketNote Trending Normal, mt_rationale = WithTrend,
       mt_evidence = [WithTrendNote Bullish_Bias] \<rparr>,
      Some \<lparr> ev_wanted = Bullish, ev_sweep = Some (sample_sweep Bullish), ev_structure_event = None,
       ev_displacement = None, ev_choch = None, ev_latest_trigger_index = 5 \<rparr>)"
  by (simp add: decide_def judge_def Let_def complete_evidence has_trigger_def classify_setup_def trigger_quality_def
    is_choppy_def agrees_h1_def opposite_def with_primary_bias_def alignment_label_def take_case_def
    direction_bias_def default_mtf_fields preferred_def)

lemma complete_levels:
  "build_levels default_risk_config ''BUY'' 2 1 (Some (sample_sweep Bullish)) (Gap_Zone entry_gap) complete_m15 9 None =
     Some (2, 16 / 10, 99 / 10, Pool (sample_level 10))"
  by (simp add: build_levels_def Let_def build_stop_def anchor_sweep_def spread_pad_def build_target_def
    nearest_target_def buy_side_def visible_def poi_lower_def poi_index_def sample_sweep_def sample_level_def
    entry_gap_def default_risk_config_def)

lemma complete_zone:
  "entry_zone complete_m15 default_smc_config ''BUY'' 9 (Some 5) = Some (Gap_Zone entry_gap)"
  "at_zone (Gap_Zone entry_gap) 1 2"
  by (simp_all add: entry_zone_def best_entry_gap_def best_entry_block_def preferred_def fg_is_live_def spent_by_def
    fg_age_def near_reference_def wanted_direction_def entry_gap_def default_smc_config_def choose_poi_def
    at_zone_def poi_lower_def poi_upper_def Let_def)

definition complete_frame :: setup_frame where
  "complete_frame = \<lparr> sf_digest = (\<lambda>_. ''d''), sf_config = sample_config, sf_symbol = ''EURUSD'', sf_h1 = bull_h1,
     sf_m15 = complete_m15, sf_moment = sample_moment,
     sf_session = classify_session sample_moment default_session_config,
     sf_decision = fst (decide bull_h1 complete_m15 9 default_smc_config default_mtf_config 60),
     sf_evidence = \<lparr> ev_wanted = Bullish, ev_sweep = Some (sample_sweep Bullish), ev_structure_event = None,
       ev_displacement = None, ev_choch = None, ev_latest_trigger_index = 5 \<rparr>, sf_direction = ''BUY'' \<rparr>"

lemma sample_sections [simp]:
  "tc_smc sample_config = default_smc_config" "tc_mtf sample_config = default_mtf_config"
  "tc_tier_b sample_config = 60" "tc_sessions sample_config = default_session_config"
  "tc_risk sample_config = default_risk_config"
  by (simp_all add: sample_config_def)

lemma complete_evaluated:
  "smc_evaluate (\<lambda>_. ''d'') sample_config ''EURUSD'' [(''M15'', complete_m15), (''H1'', bull_h1)]
     (Some sample_moment) None = build_setup complete_frame None"
  by (simp add: smc_evaluate_def Let_def sample_not_blocked complete_decision complete_frame_def)

lemma complete_frame_parts [simp]:
  "sf_m15 complete_frame = complete_m15" "sf_config complete_frame = sample_config"
  "sf_direction complete_frame = ''BUY''" "ev_sweep (sf_evidence complete_frame) = Some (sample_sweep Bullish)"
  "ev_reference_index (sf_evidence complete_frame) = 5"
  by (simp_all add: complete_frame_def ev_reference_index_def trigger_index_def)

lemma complete_built:
  "\<exists>c r. build_setup complete_frame None = Inr r \<and> el_candidate r = Some c \<and> cd_direction c = ''BUY''
     \<and> cd_entry c = 2 \<and> cd_stop_loss c = 16 / 10 \<and> cd_liquidity_target c = Some (Pool (sample_level 10))"
proof -
  let ?e = "sf_evidence complete_frame" and ?p = "Gap_Zone entry_gap"
  let ?chain = "trigger_checks ?e @ [mark ''entry_zone'' PASS (ZoneDetail (poi_kind_of ?p) (poi_lower ?p) (poi_upper ?p)),
    mark ''zone_retest'' PASS (AtZone 2 (poi_kind_of ?p))]"
  have names: "ck_name ` set ?chain =
      {''liquidity_sweep'', ''displacement'', ''structure_break'', ''entry_zone'', ''zone_retest''}" by auto
  have "build_setup complete_frame None =
      finish_candidate complete_frame ?p (2, 16 / 10, 99 / 10, Pool (sample_level 10)) ?chain"
    by (simp add: build_setup_def Let_def record_trigger_eq passed_def record_mark complete_zone complete_levels)
  then show ?thesis
    unfolding finish_candidate_eq [OF names] Let_def
    by (simp add: default_risk_config_def R_EPSILON_def)
qed

theorem candidate_is_complete_witness:
  "\<exists>c :: smc_candidate. cd_direction c = ''BUY'' \<and> cd_entry c = 2 \<and> cd_stop_loss c = 16 / 10
     \<and> 12 / 10 \<le> cd_risk_reward c \<and> \<not> target_projected (cd_liquidity_target c)"
proof -
  from complete_built obtain c r where built: "build_setup complete_frame None = Inr r" "el_candidate r = Some c"
    and c: "cd_direction c = ''BUY''" "cd_entry c = 2" "cd_stop_loss c = 16 / 10"
      "cd_liquidity_target c = Some (Pool (sample_level 10))" by blast
  have "smc_evaluate (\<lambda>_. ''d'') sample_config ''EURUSD'' [(''M15'', complete_m15), (''H1'', bull_h1)]
     (Some sample_moment) None = Inr r"
    using built(1) by (simp add: complete_evaluated)
  from candidate_is_complete [OF this built(2), of complete_m15]
  have "12 / 10 \<le> cd_risk_reward c" by (simp add: default_risk_config_def)
  moreover have "\<not> target_projected (cd_liquidity_target c)" using c by (simp add: target_projected_def)
  ultimately show ?thesis using c by blast
qed

end
