(* ===== verification/Scorer.thy ===== *)
theory Scorer
  imports Smc_Engine
begin

text \<open>
  The score and tier of a candidate, \<open>bot/scoring/scorer.py\<close>. Notes are constructors with the
  figures they print. The config section \<open>scoring\<close> is the tier fields of the configuration.
\<close>

subsection \<open>Weights\<close>

definition WEIGHTS :: "(string \<times> real) list" where
  "WEIGHTS = [(''trigger'', 25), (''context'', 18), (''displacement'', 14), (''entry_zone'', 12),
     (''risk_reward'', 12), (''regime'', 10), (''location'', 6), (''session'', 3)]"

definition CRITICAL_COMPONENTS :: "string list" where
  "CRITICAL_COMPONENTS = [''trigger'', ''entry_zone'', ''risk_reward'']"

definition CONTEXT_FRACTION :: "(string \<times> real) list" where
  "CONTEXT_FRACTION = [(''CONTINUATION'', 1), (''RANGE_ROTATION'', 60 / 100), (''REVERSAL'', 55 / 100)]"

definition PROJECTED_TARGET_FRACTION :: real where
  "PROJECTED_TARGET_FRACTION = 85 / 100"

subsection \<open>Components\<close>

datatype score_note =
    SweepQuality real bool | DisplacedBreak break_type | NoTriggerNote
  | UnknownSetup string | SetupContext string string string
  | NoMoveNote | MoveNote real | GapNote bool | BlockNote real | NoZoneNote
  | LowRatio real | RatioNote real "target_level option" | RegimeScore regime_note
  | NoDealingRange | LocationNote range_zone real | SessionNote string

definition trigger_component :: "smc_candidate \<Rightarrow> real \<times> score_note" where
  "trigger_component c =
     (case cd_sweep c of
        Some s \<Rightarrow>
          (let shifted = (case cd_structure_event c of None \<Rightarrow> False | Some e \<Rightarrow> se_index e \<ge> lw_index s)
           in (if shifted then min 1 (lw_quality s + 15 / 100) else lw_quality s, SweepQuality (lw_quality s) shifted))
      | None \<Rightarrow>
          (case cd_structure_event c of
             Some e \<Rightarrow> (min 1 (45 / 100 + 35 / 100 * se_displacement_quality e), DisplacedBreak (se_event_type e))
           | None \<Rightarrow> (0, NoTriggerNote)))"

definition context_component :: "smc_candidate \<Rightarrow> real \<times> score_note" where
  "context_component c =
     (case map_of CONTEXT_FRACTION (cd_setup_type c) of
        None \<Rightarrow> (0, UnknownSetup (cd_setup_type c))
      | Some fraction \<Rightarrow> (fraction, SetupContext (cd_setup_type c) (cd_h1_bias c) (cd_m15_bias c)))"

definition displacement_component :: "smc_candidate \<Rightarrow> real \<times> score_note" where
  "displacement_component c =
     (case cd_displacement c of
        None \<Rightarrow> (2 / 10, NoMoveNote)
      | Some d \<Rightarrow> (dp_quality d, MoveNote (dp_atr_multiple d)))"

text \<open>The size and the strength are the rounded figures of the dict. \<open>or 0.0\<close> changes nothing.\<close>

definition entry_zone_component :: "smc_candidate \<Rightarrow> real \<times> score_note" where
  "entry_zone_component c =
     (case cd_point_of_interest c of
        Some (Gap_Zone g) \<Rightarrow>
          (let base = 6 / 10 + (if fg_displaced g then 3 / 10 else 0);
               base = base + min (1 / 10) (py_round 3 (fg_size_atr g) * (1 / 10))
           in (min 1 base, GapNote (fg_displaced g)))
      | Some (Block_Zone b) \<Rightarrow>
          (let strength = py_round 3 (ob_strength b)
           in (min 1 (45 / 100 + strength * (55 / 100)), BlockNote strength))
      | None \<Rightarrow> (0, NoZoneNote))"

definition risk_reward_component :: "smc_candidate \<Rightarrow> real \<Rightarrow> real \<times> score_note" where
  "risk_reward_component c minimum =
     (let ratio = cd_risk_reward c in
      if ratio < minimum - R_EPSILON then (0, LowRatio ratio)
      else
        (let span = max (5 / 10) (4 - minimum);
             score = min 1 ((ratio - minimum) / span * (7 / 10) + 3 / 10)
         in (score, RatioNote ratio (cd_liquidity_target c))))"

definition regime_component :: "smc_candidate \<Rightarrow> real \<times> score_note" where
  "regime_component c = (regime_quality (cd_regime c), RegimeScore (rg_note (cd_regime c)))"

definition location_component :: "smc_candidate \<Rightarrow> real \<times> score_note" where
  "location_component c =
     (case cd_dealing_range c of
        None \<Rightarrow> (0, NoDealingRange)
      | Some d \<Rightarrow> (dr_alignment d (cd_direction c), LocationNote (dr_zone d) (dr_position d)))"

definition session_component :: "smc_candidate \<Rightarrow> real \<times> score_note" where
  "session_component c = (ss_quality (cd_session c), SessionNote (ss_name (cd_session c)))"

subsection \<open>The score\<close>

datatype tier = A_Plus | A_Tier | B_Tier | No_Trade_Tier

datatype score_gate =
    Absent string score_note | BelowCritical string real real | Unclassified string | SessionTooThin
  | BelowFloor string real real

record setup_score =
  sc_total :: real
  sc_tier :: tier
  sc_components :: "(string \<times> real) list"
  sc_notes :: "(string \<times> score_note) list"
  sc_projected_note :: bool
  sc_gate :: "score_gate option"

definition score_tradeable :: "setup_score \<Rightarrow> bool" where
  "score_tradeable s = (sc_tier s \<in> {A_Plus, A_Tier, B_Tier})"

definition score_parts :: "trading_config \<Rightarrow> smc_candidate \<Rightarrow> (string \<times> real \<times> score_note) list" where
  "score_parts config c =
     [(''trigger'', trigger_component c), (''context'', context_component c),
      (''displacement'', displacement_component c), (''entry_zone'', entry_zone_component c),
      (''risk_reward'', risk_reward_component c (rc_min_risk_reward (tc_risk config))),
      (''regime'', regime_component c), (''location'', location_component c), (''session'', session_component c)]"

definition weight :: "string \<Rightarrow> real" where
  "weight name = (case map_of WEIGHTS name of None \<Rightarrow> 0 | Some w \<Rightarrow> w)"

definition score_components :: "(string \<times> real \<times> score_note) list \<Rightarrow> (string \<times> real) list" where
  "score_components parts = map (\<lambda>(name, fraction, _). (name, max 0 (min 1 fraction) * weight name)) parts"

text \<open>The critical gates in their order; the first that fails refuses.\<close>

definition critical_gate ::
  "(string \<times> real \<times> score_note) list \<Rightarrow> real \<Rightarrow> string \<Rightarrow> score_gate option" where
  "critical_gate parts critical_floor name =
     (case map_of parts name of
        None \<Rightarrow> None
      | Some (fraction, note') \<Rightarrow>
          if fraction \<le> 0 then Some (Absent name note')
          else if fraction < critical_floor then Some (BelowCritical name fraction critical_floor)
          else None)"

definition score_floor :: "trading_config \<Rightarrow> smc_candidate \<Rightarrow> real" where
  "score_floor config c = max (max (tc_tier_b config) (tc_min_tradeable_score config)) (cd_score_floor c)"

text \<open>The sum of the components; a projected target keeps 85 percent of it.\<close>

definition score_total :: "trading_config \<Rightarrow> smc_candidate \<Rightarrow> real" where
  "score_total config c =
     sum_list (map snd (score_components (score_parts config c)))
     * (if target_projected (cd_liquidity_target c) then PROJECTED_TARGET_FRACTION else 1)"

definition score_setup :: "trading_config \<Rightarrow> smc_candidate \<Rightarrow> setup_score" where
  "score_setup config c =
     (let parts = score_parts config c;
          components = score_components parts;
          projected = target_projected (cd_liquidity_target c);
          total = score_total config c;
          scored = (\<lambda>tier gate. \<lparr> sc_total = total, sc_tier = tier, sc_components = components,
            sc_notes = map (\<lambda>(name, _, note'). (name, note')) parts, sc_projected_note = projected,
            sc_gate = gate \<rparr>);
          floor = score_floor config c
      in case List.map_filter (critical_gate parts (mf_min_critical_component_fraction (tc_mtf config)))
                CRITICAL_COMPONENTS of
           gate # _ \<Rightarrow> scored No_Trade_Tier (Some gate)
         | [] \<Rightarrow>
             if map_of CONTEXT_FRACTION (cd_setup_type c) = None
             then scored No_Trade_Tier (Some (Unclassified (cd_setup_type c)))
             else if \<not> ss_tradeable (cd_session c) then scored No_Trade_Tier (Some SessionTooThin)
             else if total < floor then scored No_Trade_Tier (Some (BelowFloor (cd_setup_type c) floor total))
             else if total \<ge> tc_tier_a_plus config then scored A_Plus None
             else if total \<ge> tc_tier_a config then scored A_Tier None
             else if total \<ge> tc_tier_b config then scored B_Tier None
             else scored No_Trade_Tier None)"

definition tier_rank :: "tier \<Rightarrow> nat" where
  "tier_rank t = (case t of A_Plus \<Rightarrow> 3 | A_Tier \<Rightarrow> 2 | B_Tier \<Rightarrow> 1 | No_Trade_Tier \<Rightarrow> 0)"

subsection \<open>What a score promises\<close>

lemma clamped_weight:
  assumes "0 \<le> w"
  shows "0 \<le> max 0 (min 1 f) * w" and "max 0 (min 1 f) * w \<le> (w :: real)"
  using assms mult_right_mono [of "max 0 (min 1 f)" 1 w] by simp_all

lemma component_values:
  "map snd (score_components (score_parts config c)) =
     [max 0 (min 1 (fst (trigger_component c))) * 25, max 0 (min 1 (fst (context_component c))) * 18,
      max 0 (min 1 (fst (displacement_component c))) * 14, max 0 (min 1 (fst (entry_zone_component c))) * 12,
      max 0 (min 1 (fst (risk_reward_component c (rc_min_risk_reward (tc_risk config))))) * 12,
      max 0 (min 1 (fst (regime_component c))) * 10, max 0 (min 1 (fst (location_component c))) * 6,
      max 0 (min 1 (fst (session_component c))) * 3]"
  by (simp add: score_components_def score_parts_def weight_def WEIGHTS_def split_beta)

lemma components_bounded:
  "0 \<le> sum_list (map snd (score_components (score_parts config c)))
   \<and> sum_list (map snd (score_components (score_parts config c))) \<le> 100"
proof -
  define f where "f x w = max 0 (min 1 (x :: real)) * w" for x w :: real
  have f: "0 \<le> f x w" "f x w \<le> w" if "0 \<le> w" for x w
    using clamped_weight [OF that, of x] by (simp_all add: f_def)
  have sum: "sum_list (map snd (score_components (score_parts config c))) =
      f (fst (trigger_component c)) 25 + f (fst (context_component c)) 18 + f (fst (displacement_component c)) 14
      + f (fst (entry_zone_component c)) 12
      + f (fst (risk_reward_component c (rc_min_risk_reward (tc_risk config)))) 12
      + f (fst (regime_component c)) 10 + f (fst (location_component c)) 6 + f (fst (session_component c)) 3"
    by (simp add: component_values f_def)
  note bounds = f [of 25 "fst (trigger_component c)"] f [of 18 "fst (context_component c)"]
      f [of 14 "fst (displacement_component c)"] f [of 12 "fst (entry_zone_component c)"]
      f [of 12 "fst (risk_reward_component c (rc_min_risk_reward (tc_risk config)))"]
      f [of 10 "fst (regime_component c)"] f [of 6 "fst (location_component c)"] f [of 3 "fst (session_component c)"]
  show ?thesis unfolding sum using bounds [simplified] by linarith
qed

lemma critical_fractions:
  "map_of (score_parts config c) ''trigger'' = Some (trigger_component c)"
  "map_of (score_parts config c) ''entry_zone'' = Some (entry_zone_component c)"
  "map_of (score_parts config c) ''risk_reward'' =
     Some (risk_reward_component c (rc_min_risk_reward (tc_risk config)))"
  by (simp_all add: score_parts_def)

lemma gates_open:
  assumes "List.map_filter (critical_gate (score_parts config c) m) CRITICAL_COMPONENTS = []"
  shows "0 < fst (trigger_component c) \<and> m \<le> fst (trigger_component c)"
    and "0 < fst (entry_zone_component c) \<and> m \<le> fst (entry_zone_component c)"
    and "0 < fst (risk_reward_component c (rc_min_risk_reward (tc_risk config)))
       \<and> m \<le> fst (risk_reward_component c (rc_min_risk_reward (tc_risk config)))"
proof -
  have "critical_gate (score_parts config c) m name = None" if "name \<in> set CRITICAL_COMPONENTS" for name
    using assms that set_map_filter [of _ "critical_gate (score_parts config c) m" CRITICAL_COMPONENTS]
    by (cases "critical_gate (score_parts config c) m name") auto
  then have "critical_gate (score_parts config c) m ''trigger'' = None"
    "critical_gate (score_parts config c) m ''entry_zone'' = None"
    "critical_gate (score_parts config c) m ''risk_reward'' = None"
    by (simp_all add: CRITICAL_COMPONENTS_def)
  then show "0 < fst (trigger_component c) \<and> m \<le> fst (trigger_component c)"
    and "0 < fst (entry_zone_component c) \<and> m \<le> fst (entry_zone_component c)"
    and "0 < fst (risk_reward_component c (rc_min_risk_reward (tc_risk config)))
       \<and> m \<le> fst (risk_reward_component c (rc_min_risk_reward (tc_risk config)))"
    by (auto simp: critical_gate_def critical_fractions split_beta split: if_splits)
qed

lemma score_cases:
  obtains (gated) gate where "sc_tier (score_setup config c) = No_Trade_Tier"
      and "sc_gate (score_setup config c) = Some gate"
  | (graded) "sc_gate (score_setup config c) = None"
      and "List.map_filter (critical_gate (score_parts config c) (mf_min_critical_component_fraction (tc_mtf config)))
        CRITICAL_COMPONENTS = []"
      and "map_of CONTEXT_FRACTION (cd_setup_type c) \<noteq> None" and "ss_tradeable (cd_session c)"
      and "score_floor config c \<le> sc_total (score_setup config c)"
      and "sc_tier (score_setup config c) =
        (if sc_total (score_setup config c) \<ge> tc_tier_a_plus config then A_Plus
         else if sc_total (score_setup config c) \<ge> tc_tier_a config then A_Tier
         else if sc_total (score_setup config c) \<ge> tc_tier_b config then B_Tier else No_Trade_Tier)"
proof (cases "List.map_filter (critical_gate (score_parts config c) (mf_min_critical_component_fraction (tc_mtf config)))
        CRITICAL_COMPONENTS")
  case (Cons g gs)
  then show thesis using gated by (simp add: score_setup_def Let_def)
next
  case Nil
  note open' = this
  note eq = score_setup_def [of config c, unfolded Let_def open' list.case]
  show thesis
  proof (cases "map_of CONTEXT_FRACTION (cd_setup_type c)")
    case None
    then show thesis using gated eq by simp
  next
    case (Some q)
    show thesis
    proof (cases "ss_tradeable (cd_session c) \<and> \<not> score_total config c < score_floor config c")
      case True
      then show thesis using graded Some open' eq by simp
    next
      case False
      then show thesis using gated Some eq by (cases "ss_tradeable (cd_session c)") simp_all
    qed
  qed
qed

lemma sc_total_eq: "sc_total (score_setup config c) = score_total config c"
proof (cases "List.map_filter (critical_gate (score_parts config c) (mf_min_critical_component_fraction (tc_mtf config)))
        CRITICAL_COMPONENTS")
  case (Cons g gs)
  then show ?thesis by (simp add: score_setup_def Let_def)
next
  case Nil
  show ?thesis unfolding score_setup_def Let_def Nil list.case by (simp add: if_distrib [of sc_total])
qed

lemma total_bounded: "0 \<le> sc_total (score_setup config c) \<and> sc_total (score_setup config c) \<le> 100"
proof -
  let ?s = "sum_list (map snd (score_components (score_parts config c)))"
  have "?s * (85 / 100) \<le> 100" using components_bounded [of config c] by linarith
  then show ?thesis
    using components_bounded [of config c] by (simp add: sc_total_eq score_total_def PROJECTED_TARGET_FRACTION_def)
qed

text \<open>C21. A score lies between 0 and 100. It is tradeable exactly when no gate refused it; then it
  reaches the floor of its classification and the B tier, the session is tradeable, the setup is
  classified, and each critical component reaches its own minimum.\<close>

theorem score_is_gated:
  "let s = score_setup config c; m = mf_min_critical_component_fraction (tc_mtf config) in
     0 \<le> sc_total s \<and> sc_total s \<le> 100
     \<and> score_tradeable s = (sc_gate s = None)
     \<and> (if score_tradeable s
        then tc_tier_b config \<le> sc_total s \<and> tc_min_tradeable_score config \<le> sc_total s
          \<and> cd_score_floor c \<le> sc_total s \<and> ss_tradeable (cd_session c)
          \<and> cd_setup_type c \<in> {''CONTINUATION'', ''RANGE_ROTATION'', ''REVERSAL''}
          \<and> max 0 m \<le> fst (trigger_component c) \<and> max 0 m \<le> fst (entry_zone_component c)
          \<and> max 0 m \<le> fst (risk_reward_component c (rc_min_risk_reward (tc_risk config)))
        else sc_tier s = No_Trade_Tier)"
proof (cases rule: score_cases [of config c])
  case (gated gate)
  then show ?thesis using total_bounded [of config c] by (simp add: Let_def score_tradeable_def)
next
  case graded
  have floors: "tc_tier_b config \<le> sc_total (score_setup config c)"
    "tc_min_tradeable_score config \<le> sc_total (score_setup config c)"
    "cd_score_floor c \<le> sc_total (score_setup config c)"
    using graded(5) by (simp_all add: score_floor_def)
  then have tradeable: "score_tradeable (score_setup config c)"
    using graded(6) by (auto simp: score_tradeable_def)
  have "cd_setup_type c \<in> {''CONTINUATION'', ''RANGE_ROTATION'', ''REVERSAL''}"
    using graded(3) by (auto simp: CONTEXT_FRACTION_def split: if_splits)
  then show ?thesis
    using total_bounded [of config c] floors tradeable gates_open [OF graded(2)] graded(1,4)
    by (simp add: Let_def)
qed

lemma unplaced_not_tradeable:
  assumes "cd_point_of_interest c = None"
  shows "\<not> score_tradeable (score_setup config c)"
proof (cases rule: score_cases [of config c])
  case (gated gate)
  then show ?thesis by (simp add: score_tradeable_def)
next
  case graded
  then show ?thesis using gates_open(2) [OF graded(2)] assms by (simp add: entry_zone_component_def)
qed

end
