(* ===== verification/Strategies.thy ===== *)
theory Strategies
  imports Scorer
begin

text \<open>
  The strategies: profiles (\<open>bot/strategy/base.py\<close>), the registry (\<open>bot/strategy/registry.py\<close>), the
  adapter of the setup engine (\<open>bot/strategy/smc_strategy.py\<close>) and sweep reversion
  (\<open>bot/strategy/reversion.py\<close>). The descriptive texts of a profile are left out.
\<close>

subsection \<open>Profiles\<close>

definition BUILD_MINIMUM_RISK_REWARD :: real where
  "BUILD_MINIMUM_RISK_REWARD = 12 / 10"

record strategy_profile =
  sp_key :: string
  sp_min_risk_reward :: real

definition make_profile :: "string \<Rightarrow> real \<Rightarrow> strategy_profile option" where
  "make_profile key minimum =
     (if minimum < BUILD_MINIMUM_RISK_REWARD then None
      else Some \<lparr> sp_key = key, sp_min_risk_reward = minimum \<rparr>)"

definition smc_profile :: strategy_profile where
  "smc_profile = \<lparr> sp_key = ''smc'', sp_min_risk_reward = 12 / 10 \<rparr>"

definition reversion_profile :: strategy_profile where
  "reversion_profile = \<lparr> sp_key = ''reversion'', sp_min_risk_reward = 15 / 10 \<rparr>"

subsection \<open>The registry\<close>

datatype strategy = Smc_Strategy | Reversion_Strategy

definition BUILDERS :: "(string \<times> strategy) list" where
  "BUILDERS = [(''smc'', Smc_Strategy), (''reversion'', Reversion_Strategy)]"

definition DEFAULT_STRATEGY :: string where
  "DEFAULT_STRATEGY = ''smc''"

text \<open>The name is read by ASCII case and white space; \<open>None\<close> as the result is the \<open>ConfigError\<close>.\<close>

definition normalise :: "string option \<Rightarrow> string option" where
  "normalise name =
     (case name of
        None \<Rightarrow> Some DEFAULT_STRATEGY
      | Some n \<Rightarrow>
          (let key = lower (strip n) in
           if strip n = [] then Some DEFAULT_STRATEGY
           else if map_of BUILDERS key = None then None
           else Some key))"

definition build_strategy :: "string option \<Rightarrow> strategy option" where
  "build_strategy name = (case normalise name of None \<Rightarrow> None | Some key \<Rightarrow> map_of BUILDERS key)"

subsection \<open>The setup engine as a strategy\<close>

definition smc_strategy_analyze ::
  "(id_part list \<Rightarrow> string) \<Rightarrow> trading_config \<Rightarrow> string \<Rightarrow> (string \<times> candle list) list \<Rightarrow> micros option
   \<Rightarrow> real option \<Rightarrow> (checklist_error + smc_result) option" where
  "smc_strategy_analyze digest config symbol series now live_spread =
     smc_analyze digest config symbol series now live_spread"

subsection \<open>Sweep reversion\<close>

record reversion_config =
  rv_min_rejection_ratio :: real
  rv_max_age_bars :: nat
  rv_stop_buffer_atr :: real
  rv_min_range_position :: real

definition default_reversion :: reversion_config where
  "default_reversion = \<lparr> rv_min_rejection_ratio = 1 / 2, rv_max_age_bars = 3, rv_stop_buffer_atr = 35 / 100,
     rv_min_range_position = 15 / 100 \<rparr>"

definition newer_sweep :: "liquidity_sweep \<Rightarrow> liquidity_sweep \<Rightarrow> bool" where
  "newer_sweep s best =
     (if lw_confirmed_index s \<noteq> lw_confirmed_index best then lw_confirmed_index s > lw_confirmed_index best
      else lw_quality s > lw_quality best)"

definition recent_sweep :: "reversion_config \<Rightarrow> timeframe_analysis \<Rightarrow> int \<Rightarrow> liquidity_sweep option" where
  "recent_sweep params m15 index =
     preferred newer_sweep
       (filter (\<lambda>s. int (lw_confirmed_index s) \<le> index
          \<and> index - int (lw_confirmed_index s) \<le> int (rv_max_age_bars params)
          \<and> lw_rejection_ratio s \<ge> rv_min_rejection_ratio params) (ta_sweeps m15))"

definition htf_permits :: "string \<Rightarrow> timeframe_analysis \<Rightarrow> bool" where
  "htf_permits direction h1 =
     (ta_bias h1 \<noteq> (if direction = ''BUY'' then Bearish_Bias else Bullish_Bias))"

definition price_levels ::
  "reversion_config \<Rightarrow> risk_config \<Rightarrow> string \<Rightarrow> liquidity_sweep \<Rightarrow> timeframe_analysis \<Rightarrow> real \<Rightarrow> real option
   \<Rightarrow> (real \<times> real \<times> real) option" where
  "price_levels params risk direction sweep m15 price live_spread =
     (let buffer = ta_atr m15 * rv_stop_buffer_atr params + spread_pad risk live_spread;
          swept = ta_candles m15 ! lw_index sweep;
          entry = price; reach = sp_min_risk_reward reversion_profile
      in if direction = ''BUY'' then
           (let stop_loss = c_low swept - buffer
            in if stop_loss \<ge> entry then None
               else Some (entry, stop_loss, entry + (entry - stop_loss) * reach))
         else
           (let stop_loss = c_high swept + buffer
            in if stop_loss \<le> entry then None
               else Some (entry, stop_loss, entry - (stop_loss - entry) * reach)))"

text \<open>The range filter: no buying at the top of the dealing range, no selling at its bottom.\<close>

definition range_extreme :: "reversion_config \<Rightarrow> string \<Rightarrow> dealing_range option \<Rightarrow> bool" where
  "range_extreme params direction drange =
     (case drange of None \<Rightarrow> False
      | Some d \<Rightarrow> dr_size d > 0
          \<and> (direction = ''BUY'' \<and> dr_position d > 1 - rv_min_range_position params
             \<or> direction = ''SELL'' \<and> dr_position d < rv_min_range_position params))"

definition reversion_candidate ::
  "string \<Rightarrow> timeframe_analysis \<Rightarrow> timeframe_analysis \<Rightarrow> session_state \<Rightarrow> string \<Rightarrow> liquidity_sweep
   \<Rightarrow> dealing_range option \<Rightarrow> real \<times> real \<times> real \<Rightarrow> smc_candidate" where
  "reversion_candidate symbol h1 m15 session direction sweep drange levels =
     (let (entry, stop_loss, take_profit) = levels; reach = sp_min_risk_reward reversion_profile;
          stop_distance = \<bar>entry - stop_loss\<bar>
      in \<lparr> cd_symbol = symbol, cd_direction = direction, cd_entry = entry, cd_stop_loss = stop_loss,
           cd_take_profit = take_profit, cd_risk_reward = \<bar>take_profit - entry\<bar> / stop_distance,
           cd_stop_distance = stop_distance, cd_atr = ta_atr m15, cd_h1_bias = bias_text (ta_bias h1),
           cd_m15_bias = bias_text (ta_bias m15), cd_alignment = ''counter'', cd_setup_type = ''RANGE_ROTATION'',
           cd_setup_id = [], cd_score_floor = 0, cd_timestamp = Some (close_time (last (ta_candles m15))),
           cd_session = session, cd_regime = ta_regime m15, cd_sweep = Some sweep, cd_structure_event = None,
           cd_displacement = None, cd_point_of_interest = None, cd_dealing_range = drange,
           cd_liquidity_target = Some (Risk_Multiple take_profit reach), cd_checks = [],
           cd_evidence = [ReversionItem direction (lv_label (lw_level sweep)),
             RejectionItem (lw_rejection_ratio sweep) (lw_quality sweep), MultipleItem reach,
             BiasItem (ta_bias h1) (ta_bias m15)] \<rparr>)"

definition reversion_build ::
  "reversion_config \<Rightarrow> trading_config \<Rightarrow> string \<Rightarrow> (string \<times> timeframe_analysis) list \<Rightarrow> micros option
   \<Rightarrow> real option \<Rightarrow> rejection + smc_candidate" where
  "reversion_build params config symbol analyses now live_spread =
     (case (map_of analyses ''M15'', map_of analyses ''H1'') of
        (Some m15, Some h1) \<Rightarrow>
          (let index = last_index m15; price = ta_price m15;
               moment = (case now of Some t \<Rightarrow> t | None \<Rightarrow> close_time (last (ta_candles m15)));
               session = classify_session moment (tc_sessions config)
           in if ss_weekend session then Inl MarketClosed
              else if \<not> rg_tradeable (ta_regime m15) then Inl (RegimeRefused (rg_note (ta_regime m15)))
              else if ta_atr m15 \<le> 0 then Inl ZeroAtr
              else
                (case recent_sweep params m15 index of
                   None \<Rightarrow> Inl (NoSweepRecently (rv_max_age_bars params) (rv_min_rejection_ratio params))
                 | Some sweep \<Rightarrow>
                     (let direction = (if lw_direction sweep = Bullish then ''BUY'' else ''SELL'');
                          drange = coalesce (ta_dealing_range m15) (dealing_range_of (ta_swings m15) index price)
                      in if \<not> htf_permits direction h1 then Inl (FadesTrend direction (ta_bias h1))
                         else if range_extreme params direction drange
                           then Inl (RangeExtreme direction (dr_position (the drange)))
                         else
                           (case price_levels params (tc_risk config) direction sweep m15 price live_spread of
                              None \<Rightarrow> Inl WickWrongSide
                            | Some (entry, stop_loss, take_profit) \<Rightarrow>
                                (let stop_distance = \<bar>entry - stop_loss\<bar>;
                                     risk_reward = \<bar>take_profit - entry\<bar> / stop_distance;
                                     minimum = sp_min_risk_reward reversion_profile
                                 in if stop_distance \<le> 0 then Inl ZeroStop
                                    else if risk_reward < minimum - R_EPSILON
                                      then Inl (RewardTooLow risk_reward minimum)
                                    else Inr (reversion_candidate symbol h1 m15 session direction sweep drange
                                      (entry, stop_loss, take_profit)))))))
      | _ \<Rightarrow> Inl Incomplete)"

definition reversion_analyze ::
  "reversion_config \<Rightarrow> trading_config \<Rightarrow> string \<Rightarrow> (string \<times> candle list) list \<Rightarrow> micros option
   \<Rightarrow> real option \<Rightarrow> smc_result option" where
  "reversion_analyze params config symbol series now live_spread =
     (case analyze_all (tc_smc config) now series of
        None \<Rightarrow> None
      | Some analyses \<Rightarrow>
          (let built = reversion_build params config symbol analyses now live_spread;
               candidate = (case built of Inr c \<Rightarrow> Some c | Inl _ \<Rightarrow> None)
           in Some \<lparr> sr_symbol = symbol, sr_analyses = analyses, sr_candidate = candidate,
             sr_rejection = (case built of Inr _ \<Rightarrow> None | Inl reason \<Rightarrow> Some reason),
             sr_state = (if candidate \<noteq> None then TRADE else NO_TRADE), sr_mtf = None, sr_checks = [] \<rparr>))"

subsection \<open>Reversion candidates\<close>

interpretation newest: preference newer_sweep
  by unfold_locales (auto simp: newer_sweep_def split: if_splits)

lemma reversion_built:
  assumes "reversion_build params config symbol analyses now live_spread = Inr c"
  obtains m15 h1 sweep direction drange entry stop_loss take_profit session where
    "map_of analyses ''M15'' = Some m15" and "map_of analyses ''H1'' = Some h1"
    and "recent_sweep params m15 (last_index m15) = Some sweep"
    and "direction = (if lw_direction sweep = Bullish then ''BUY'' else ''SELL'')"
    and "htf_permits direction h1" and "\<not> range_extreme params direction drange"
    and "price_levels params (tc_risk config) direction sweep m15 (ta_price m15) live_spread =
      Some (entry, stop_loss, take_profit)"
    and "c = reversion_candidate symbol h1 m15 session direction sweep drange (entry, stop_loss, take_profit)"
  using assms
  by (fastforce simp: reversion_build_def Let_def split: option.splits prod.splits if_splits)

text \<open>Sweep reversion never trades: its candidates carry no point of interest, the entry zone is
  a critical component, and so the scorer refuses every candidate of this strategy, whatever the
  configuration.\<close>

theorem reversion_never_tradeable:
  "case reversion_build params config symbol analyses now live_spread of
     Inl _ \<Rightarrow> True
   | Inr c \<Rightarrow> \<not> score_tradeable (score_setup config' c)"
proof (cases "reversion_build params config symbol analyses now live_spread")
  case (Inr c)
  then have "cd_point_of_interest c = None"
    by (rule reversion_built) (simp add: reversion_candidate_def Let_def)
  then show ?thesis by (simp add: Inr unplaced_not_tradeable)
qed simp

text \<open>A reversion candidate does not fade a decided H1 trend, stays out of the bad end of the
  dealing range, has its levels in order and pays exactly the multiple of its profile.\<close>

theorem reversion_candidate_sound:
  assumes "reversion_build params config symbol analyses now live_spread = Inr c"
  shows "cd_risk_reward c = sp_min_risk_reward reversion_profile
    \<and> (if cd_direction c = ''BUY''
       then cd_h1_bias c \<noteq> ''bearish'' \<and> cd_stop_loss c < cd_entry c \<and> cd_entry c < cd_take_profit c
       else cd_h1_bias c \<noteq> ''bullish'' \<and> cd_take_profit c < cd_entry c \<and> cd_entry c < cd_stop_loss c)
    \<and> \<not> range_extreme params (cd_direction c) (cd_dealing_range c)
    \<and> (case cd_sweep c of None \<Rightarrow> False
       | Some s \<Rightarrow> rv_min_rejection_ratio params \<le> lw_rejection_ratio s)"
  using assms
proof (cases rule: reversion_built)
  case (1 m15 h1 sweep direction drange entry stop_loss take_profit session)
  have order: "if direction = ''BUY'' then stop_loss < entry else entry < stop_loss"
    and reach: "take_profit = (if direction = ''BUY'' then entry + (entry - stop_loss) * (15 / 10)
      else entry - (stop_loss - entry) * (15 / 10))"
    using 1(7) by (auto simp: price_levels_def Let_def reversion_profile_def split: if_splits)
  have ratio: "\<bar>take_profit - entry\<bar> / \<bar>entry - stop_loss\<bar> = 15 / 10"
    using order reach by (auto simp: abs_mult field_simps split: if_splits)
  have rejection: "rv_min_rejection_ratio params \<le> lw_rejection_ratio sweep"
    using newest.preferred_Some [OF 1(3) [unfolded recent_sweep_def]] by simp
  have bias: "bias_text (ta_bias h1) \<noteq> (if direction = ''BUY'' then ''bearish'' else ''bullish'')"
    using 1(5) by (cases "ta_bias h1") (auto simp: htf_permits_def bias_text_def split: if_splits)
  show ?thesis
    using order reach ratio rejection bias 1(6)
    by (auto simp: 1(8) reversion_candidate_def Let_def reversion_profile_def)
qed

subsection \<open>A reversion setup\<close>

lemma reversion_found:
  "\<exists>c :: smc_candidate. reversion_build default_reversion sample_config ''EURUSD''
      [(''M15'', complete_m15), (''H1'', bull_h1)] (Some sample_moment) None = Inr c
     \<and> cd_direction c = ''BUY'' \<and> cd_stop_loss c = 65 / 100"
proof -
  have sweep: "recent_sweep default_reversion complete_m15 9 = Some (sample_sweep Bullish)"
    by (simp add: recent_sweep_def complete_m15_def bare_analysis_def default_reversion_def sample_sweep_def
        preferred_def)
  have parts: "ta_candles complete_m15 = replicate 10 (bar 0 2 3 1 2)" "ta_dealing_range complete_m15 = None"
    "ta_swings complete_m15 = \<lparr> ss_highs = [], ss_lows = [] \<rparr>"
    by (simp_all add: complete_m15_def bare_analysis_def)
  have drange: "dealing_range_of (ta_swings complete_m15) 9 2 = None"
    by (simp add: parts dealing_range_of_def known_highs_def known_lows_def tail_slice_def)
  have levels: "price_levels default_reversion default_risk_config ''BUY'' (sample_sweep Bullish) complete_m15 2 None =
      Some (2, 65 / 100, 2 + (2 - 65 / 100) * (15 / 10))"
    by (simp add: price_levels_def Let_def parts sample_sweep_def default_reversion_def spread_pad_def
        reversion_profile_def)
  have bullish: "lw_direction (sample_sweep Bullish) = Bullish" by (simp add: sample_sweep_def)
  show ?thesis
    by (simp add: reversion_build_def Let_def sample_not_blocked sweep drange parts(2) levels bullish htf_permits_def
        range_extreme_def reversion_profile_def R_EPSILON_def reversion_candidate_def)
qed

theorem reversion_candidate_sound_witness:
  "\<exists>c :: smc_candidate. cd_direction c = ''BUY'' \<and> cd_risk_reward c = 15 / 10 \<and> cd_stop_loss c < cd_entry c"
proof -
  from reversion_found obtain c :: smc_candidate where
    "reversion_build default_reversion sample_config ''EURUSD''
      [(''M15'', complete_m15), (''H1'', bull_h1)] (Some sample_moment) None = Inr c"
    and "cd_direction c = ''BUY''" by blast
  with reversion_candidate_sound [OF this(1)] show ?thesis
    by (intro exI [of _ c]) (simp add: reversion_profile_def)
qed

end
