(* ===== verification/Paper_Broker.thy ===== *)
theory Paper_Broker
  imports Config Errors Symbols "HOL-Library.Multiset"
begin

text \<open>
  The paper broker, \<open>bot/broker/paper.py\<close>, over the paper tables (\<open>PaperRepository\<close> of
  \<open>bot/storage/repositories.py\<close>): live prices, simulated fills. The live broker and the clocks are
  the record \<open>live_broker\<close> of the answers they give, every answer a value or an exception. An
  operation maps a state to a value or an exception and a state; the changes made before an
  exception stay. Instants are stored as such; the range of candles is \<open>None\<close> for the pair of
  infinities that disables the candle evidence.
\<close>

subsection \<open>State\<close>

datatype exit_reason = Exit_Stop | Exit_Stop_And_Target | Exit_Target | Exit_Manual | Exit_Partial

record paper_row =
  pp_position_id :: string
  pp_symbol :: string
  pp_direction :: string
  pp_quantity :: real
  pp_entry_price :: real
  pp_stop_loss :: "real option"
  pp_take_profit :: "real option"
  pp_contract_size :: real
  pp_conversion_rate :: real
  pp_commission :: real
  pp_open :: bool
  pp_exit_price :: "real option"
  pp_realized_pnl :: "real option"
  pp_exit_reason :: "exit_reason option"
  pp_mark_price :: "real option"
  pp_opened_at :: micros
  pp_closed_at :: "micros option"

record paper_account =
  pa_starting_balance :: real
  pa_realized_pnl :: real
  pa_commission_paid :: real
  pa_currency :: string

record range_candle =
  rn_timestamp :: "micros option"
  rn_high :: real
  rn_low :: real

datatype paper_write =
    Write_Order string string real real real
  | Write_Close string real exit_reason
  | Write_Modify string "real option" "real option"

record paper_state =
  ps_account :: "paper_account option"
  ps_positions :: "paper_row list"
  ps_cache :: "(string \<times> real \<times> nat \<times> range_candle list) list"
  ps_writes :: "paper_write list"

record live_broker =
  lb_now :: micros
  lb_monotonic :: real
  lb_instrument :: "string \<Rightarrow> exn + instrument_spec"
  lb_quote :: "instrument_spec \<Rightarrow> exn + quote"
  lb_candles :: "instrument_spec \<Rightarrow> nat \<Rightarrow> exn + range_candle list"
  lb_account :: "exn + account_state"
  lb_new_id :: string

type_synonym 'a paper = "paper_state \<Rightarrow> (exn + 'a) \<times> paper_state"

definition give :: "'a \<Rightarrow> 'a paper" where
  "give x s = (Inr x, s)"

definition raise_exn :: "exn \<Rightarrow> 'a paper" where
  "raise_exn e s = (Inl e, s)"

definition and_give :: "'a paper \<Rightarrow> ('a \<Rightarrow> 'b paper) \<Rightarrow> 'b paper" where
  "and_give m f s = (case m s of (Inl e, s') \<Rightarrow> (Inl e, s') | (Inr x, s') \<Rightarrow> f x s')"

definition rejected :: "string \<Rightarrow> 'a paper" where
  "rejected message = raise_exn \<lparr> exn_class = BrokerRejected, exn_message = message \<rparr>"

definition ask_live :: "exn + 'a \<Rightarrow> 'a paper" where
  "ask_live answer = (case answer of Inl e \<Rightarrow> raise_exn e | Inr x \<Rightarrow> give x)"

subsection \<open>The tables\<close>

definition paper_ensure_account :: "real \<Rightarrow> string \<Rightarrow> paper_account paper" where
  "paper_ensure_account balance currency s =
     (case ps_account s of
        Some a \<Rightarrow> (Inr a, s)
      | None \<Rightarrow>
          (let a = \<lparr> pa_starting_balance = balance, pa_realized_pnl = 0, pa_commission_paid = 0,
             pa_currency = currency \<rparr>
           in (Inr a, s\<lparr> ps_account := Some a \<rparr>)))"

definition apply_realized :: "real \<Rightarrow> real \<Rightarrow> paper_state \<Rightarrow> paper_state" where
  "apply_realized pnl commission s = s\<lparr> ps_account := map_option (\<lambda>a.
     a\<lparr> pa_realized_pnl := pa_realized_pnl a + pnl, pa_commission_paid := pa_commission_paid a + commission \<rparr>)
     (ps_account s) \<rparr>"

definition paper_reset :: "real \<Rightarrow> string \<Rightarrow> paper_state \<Rightarrow> paper_state" where
  "paper_reset balance currency s =
     snd (paper_ensure_account balance currency (s\<lparr> ps_account := None, ps_positions := [] \<rparr>))"

definition paper_by_id :: "paper_row list \<Rightarrow> string \<Rightarrow> paper_row option" where
  "paper_by_id rows position_id = List.find (\<lambda>r. pp_position_id r = position_id) rows"

definition paper_insert :: "paper_row \<Rightarrow> unit paper" where
  "paper_insert row s =
     (if paper_by_id (ps_positions s) (pp_position_id row) = None
      then (Inr (), s\<lparr> ps_positions := ps_positions s @ [row] \<rparr>)
      else raise_exn \<lparr> exn_class = OtherException, exn_message = ''UNIQUE constraint failed'' \<rparr> s)"

definition open_rows :: "paper_row list \<Rightarrow> paper_row list" where
  "open_rows rows = sort_key pp_opened_at (filter pp_open rows)"

text \<open>Of rows closed at the same instant SQL leaves the order open.\<close>

definition closed_rows :: "nat \<Rightarrow> paper_row list \<Rightarrow> paper_row list" where
  "closed_rows limit rows = take limit (rev (sort_key (\<lambda>r. case pp_closed_at r of None \<Rightarrow> 0 | Some t \<Rightarrow> t)
     (filter (\<lambda>r. \<not> pp_open r) rows)))"

definition update_row :: "string \<Rightarrow> (paper_row \<Rightarrow> paper_row) \<Rightarrow> paper_state \<Rightarrow> paper_state" where
  "update_row position_id f s =
     s\<lparr> ps_positions := update_where (\<lambda>r. pp_position_id r = position_id) f (ps_positions s) \<rparr>"

definition row_protection :: "string \<Rightarrow> real option \<Rightarrow> real option \<Rightarrow> paper_state \<Rightarrow> paper_state" where
  "row_protection position_id stop_loss take_profit =
     update_row position_id (\<lambda>r. r\<lparr> pp_stop_loss := coalesce stop_loss (pp_stop_loss r),
       pp_take_profit := coalesce take_profit (pp_take_profit r) \<rparr>)"

definition row_mark :: "string \<Rightarrow> real \<Rightarrow> paper_state \<Rightarrow> paper_state" where
  "row_mark position_id mark_price = update_row position_id (\<lambda>r. r\<lparr> pp_mark_price := Some mark_price \<rparr>)"

definition row_quantity :: "string \<Rightarrow> real \<Rightarrow> paper_state \<Rightarrow> paper_state" where
  "row_quantity position_id remaining = update_row position_id (\<lambda>r. r\<lparr> pp_quantity := remaining \<rparr>)"

definition row_close :: "micros \<Rightarrow> string \<Rightarrow> real \<Rightarrow> real \<Rightarrow> exit_reason \<Rightarrow> paper_state \<Rightarrow> paper_state" where
  "row_close now position_id exit_price realized reason =
     update_row position_id (\<lambda>r. r\<lparr> pp_open := False, pp_exit_price := Some exit_price,
       pp_realized_pnl := Some realized, pp_exit_reason := Some reason, pp_closed_at := Some now \<rparr>)"

subsection \<open>Account and positions\<close>

definition ensure_account :: "live_broker \<Rightarrow> paper_config \<Rightarrow> paper_account paper" where
  "ensure_account live config s =
     (case ps_account s of
        Some a \<Rightarrow> (Inr a, s)
      | None \<Rightarrow>
          (case pc_starting_balance config of
             Some balance \<Rightarrow> paper_ensure_account balance ''USD'' s
           | None \<Rightarrow>
               (case lb_account live of
                  Inr a \<Rightarrow> paper_ensure_account (as_balance a) (as_currency a) s
                | Inl e \<Rightarrow>
                    if isinstance e BrokerError
                    then (Inl \<lparr> exn_class = BrokerError, exn_message = ''paper mode could not read the real account'' \<rparr>, s)
                    else (Inl e, s))))"

definition paper_order_history :: "nat \<Rightarrow> paper_state \<Rightarrow> broker_order list" where
  "paper_order_history limit s =
     map (\<lambda>r. \<lparr> bo_order_id = ''paper-'' @ pp_position_id r, bo_position_id = Some (pp_position_id r),
       bo_symbol = pp_symbol r, bo_instrument_id = 0,
       bo_direction = (if pp_direction r = ''BUY'' then ''SELL'' else ''BUY''), bo_quantity = pp_quantity r,
       bo_status = ''FILLED'', bo_price = pp_exit_price r, bo_stop_price = None, bo_order_type = ''market'',
       bo_created_at = None,
       bo_raw_realizedPl = Some (case pp_realized_pnl r of None \<Rightarrow> Missing | Some v \<Rightarrow> Number v),
       bo_raw_realizedPnL = None \<rparr>)
     (closed_rows limit (ps_positions s))"

definition today_realized :: "micros \<Rightarrow> paper_row list \<Rightarrow> real" where
  "today_realized now rows =
     sum_list (map (\<lambda>r. case pp_realized_pnl r of None \<Rightarrow> 0 | Some v \<Rightarrow> v)
       (filter (\<lambda>r. case pp_closed_at r of None \<Rightarrow> False | Some t \<Rightarrow> trading_day t = trading_day now)
         (closed_rows 500 rows)))"

definition price_move :: "string \<Rightarrow> real \<Rightarrow> real \<Rightarrow> real" where
  "price_move direction entry price = (if direction = ''BUY'' then price - entry else entry - price)"

definition row_rate :: "paper_row \<Rightarrow> real" where
  "row_rate r = (if pp_conversion_rate r = 0 then 1 else pp_conversion_rate r)"

definition to_position :: "paper_row \<Rightarrow> real \<Rightarrow> broker_position" where
  "to_position r mark =
     \<lparr> bp_position_id = pp_position_id r, bp_symbol = pp_symbol r, bp_instrument_id = 0,
       bp_direction = pp_direction r, bp_quantity = pp_quantity r, bp_entry_price = pp_entry_price r,
       bp_stop_loss = pp_stop_loss r, bp_take_profit = pp_take_profit r,
       bp_unrealized_pnl = py_round 2 (price_move (pp_direction r) (pp_entry_price r) mark
         * pp_contract_size r * row_rate r * pp_quantity r),
       bp_opened_at = Some (pp_opened_at r) \<rparr>"

subsection \<open>Closing\<close>

text \<open>The whole position, or a part of it; the row is closed when nothing remains.\<close>

definition close_row :: "live_broker \<Rightarrow> paper_config \<Rightarrow> paper_row \<Rightarrow> real \<Rightarrow> exit_reason \<Rightarrow> real option \<Rightarrow> real paper" where
  "close_row live config r exit_price reason quantity s =
     (let size = (case quantity of None \<Rightarrow> pp_quantity r | Some q \<Rightarrow> q);
          gross = price_move (pp_direction r) (pp_entry_price r) exit_price * pp_contract_size r * row_rate r * size;
          commission = pc_commission_per_lot config * size * (1 / 2);
          net = gross - commission;
          remaining = pp_quantity r - size;
          position_id = pp_position_id r;
          s1 = (if remaining > 1 / 10 ^ 9 then row_quantity position_id (py_round 4 remaining) s
                else row_close (lb_now live) position_id exit_price (py_round 2 net) reason s);
          s2 = apply_realized (py_round 2 gross) (py_round 2 commission) s1
      in (Inr net, s2\<lparr> ps_writes := ps_writes s2 @ [Write_Close position_id exit_price reason] \<rparr>))"

subsection \<open>Settlement of stops and targets\<close>

definition MAX_RANGE_CANDLES :: nat where "MAX_RANGE_CANDLES = 200"

definition minute_gap :: "micros \<Rightarrow> micros \<Rightarrow> real" where
  "minute_gap later earlier = of_int (later - earlier) / of_int usec_per_min"

text \<open>When the cached candles expire: with the bar after the newest one, between 20 seconds and 15
  minutes from now.\<close>

definition cache_expiry :: "live_broker \<Rightarrow> range_candle list \<Rightarrow> real" where
  "cache_expiry live candles =
     (case (if candles = [] then None else rn_timestamp (last candles)) of
        None \<Rightarrow> lb_monotonic live + 60
      | Some newest \<Rightarrow> lb_monotonic live
          + max 20 (min (minute_gap (newest + 30 * usec_per_min) (lb_now live) * 60) 900))"

definition settlement_candles :: "live_broker \<Rightarrow> instrument_spec \<Rightarrow> nat \<Rightarrow> range_candle list option paper" where
  "settlement_candles live spec needed s =
     (let count = min MAX_RANGE_CANDLES (max needed 32);
          fetched = (case lb_candles live spec count of
              Inl e \<Rightarrow> if isinstance e BrokerError then (Inr None, s) else (Inl e, s)
            | Inr candles \<Rightarrow> (Inr (Some candles), s\<lparr> ps_cache :=
                (sp_symbol spec, cache_expiry live candles, count, candles)
                # filter (\<lambda>e. fst e \<noteq> sp_symbol spec) (ps_cache s) \<rparr>))
      in case map_of (ps_cache s) (sp_symbol spec) of
           Some (expires_at, cached_count, candles) \<Rightarrow>
             if lb_monotonic live < expires_at \<and> cached_count \<ge> needed then (Inr (Some candles), s) else fetched
         | None \<Rightarrow> fetched)"

definition range_of :: "micros \<Rightarrow> range_candle list \<Rightarrow> (real \<times> real) option" where
  "range_of opened candles =
     (case filter (\<lambda>c. case rn_timestamp c of None \<Rightarrow> False | Some t \<Rightarrow> t \<ge> opened) candles of
        [] \<Rightarrow> None
      | c # cs \<Rightarrow> Some (fold max (map rn_high cs) (rn_high c), fold min (map rn_low cs) (rn_low c)))"

definition range_since :: "live_broker \<Rightarrow> instrument_spec \<Rightarrow> paper_row \<Rightarrow> (real \<times> real) option paper" where
  "range_since live spec r =
     (let age_minutes = max 0 (minute_gap (lb_now live) (pp_opened_at r));
          needed = nat \<lceil>age_minutes / 15\<rceil> + 2
      in and_give (settlement_candles live spec needed) (\<lambda>candles.
           give (case candles of None \<Rightarrow> None | Some cs \<Rightarrow> range_of (pp_opened_at r) cs)))"

definition stop_hit :: "string \<Rightarrow> real \<Rightarrow> (real \<times> real) option \<Rightarrow> real option \<Rightarrow> bool" where
  "stop_hit direction mark extent stop =
     (case stop of
        None \<Rightarrow> False
      | Some level \<Rightarrow>
          if direction = ''BUY'' then mark \<le> level \<or> (case extent of None \<Rightarrow> False | Some (_, low) \<Rightarrow> low \<le> level)
          else mark \<ge> level \<or> (case extent of None \<Rightarrow> False | Some (high, _) \<Rightarrow> high \<ge> level))"

definition target_hit :: "string \<Rightarrow> real \<Rightarrow> (real \<times> real) option \<Rightarrow> real option \<Rightarrow> bool" where
  "target_hit direction mark extent target =
     (case target of
        None \<Rightarrow> False
      | Some level \<Rightarrow>
          if direction = ''BUY'' then mark \<ge> level \<or> (case extent of None \<Rightarrow> False | Some (high, _) \<Rightarrow> high \<ge> level)
          else mark \<le> level \<or> (case extent of None \<Rightarrow> False | Some (_, low) \<Rightarrow> low \<le> level))"

definition tick_of :: "instrument_spec \<Rightarrow> real" where
  "tick_of spec = (if sp_tick_size spec = 0 then 1 / 10 ^ 5 else sp_tick_size spec)"

text \<open>The exit of a position whose stop or target was reached.\<close>

definition protective_exit ::
  "paper_config \<Rightarrow> instrument_spec \<Rightarrow> paper_row \<Rightarrow> bool \<Rightarrow> bool \<Rightarrow> real \<times> exit_reason" where
  "protective_exit config spec r hit_stop hit_target =
     (if hit_stop \<and> (hit_target \<and> pc_pessimistic_intrabar config \<or> \<not> hit_target) then
        (let slip = pc_stop_slippage_ticks config * tick_of spec; stop = the (pp_stop_loss r)
         in (if pp_direction r = ''BUY'' then stop - slip else stop + slip,
             if hit_target then Exit_Stop_And_Target else Exit_Stop))
      else (the (pp_take_profit r), Exit_Target))"

definition market_price :: "string \<Rightarrow> quote \<Rightarrow> real" where
  "market_price direction q = (if direction = ''BUY'' then q_bid q else q_ask q)"

definition priced :: "live_broker \<Rightarrow> string \<Rightarrow> exn + (instrument_spec \<times> quote)" where
  "priced live symbol =
     (case lb_instrument live symbol of
        Inl e \<Rightarrow> Inl e
      | Inr spec \<Rightarrow> (case lb_quote live spec of Inl e \<Rightarrow> Inl e | Inr q \<Rightarrow> Inr (spec, q)))"

definition settle_protection :: "live_broker \<Rightarrow> paper_config \<Rightarrow> paper_row \<Rightarrow> bool paper" where
  "settle_protection live config r s =
     (case priced live (pp_symbol r) of
        Inl e \<Rightarrow> if isinstance e BrokerError then (Inr False, s) else (Inl e, s)
      | Inr (spec, q) \<Rightarrow>
          (let mark = market_price (pp_direction r) q
           in and_give (range_since live spec r) (\<lambda>extent.
                (let hit_stop = stop_hit (pp_direction r) mark extent (pp_stop_loss r);
                     hit_target = target_hit (pp_direction r) mark extent (pp_take_profit r)
                 in if \<not> hit_stop \<and> \<not> hit_target then give False
                    else
                      (let (exit_price, reason) = protective_exit config spec r hit_stop hit_target
                       in and_give (close_row live config r exit_price reason None) (\<lambda>_. give True))))
                (row_mark (pp_position_id r) mark s)))"

fun settle_each :: "live_broker \<Rightarrow> paper_config \<Rightarrow> paper_row list \<Rightarrow> broker_position list paper" where
  "settle_each live config [] = give []"
| "settle_each live config (r # rs) =
     and_give (settle_protection live config r) (\<lambda>closed s.
       if closed then settle_each live config rs s
       else
         (let refreshed = (case paper_by_id (ps_positions s) (pp_position_id r) of None \<Rightarrow> r | Some r' \<Rightarrow> r');
              mark = (if truthy (pp_mark_price refreshed) then the (pp_mark_price refreshed)
                      else pp_entry_price refreshed)
          in and_give (settle_each live config rs) (\<lambda>ps. give (to_position refreshed mark # ps)) s))"

definition positions :: "live_broker \<Rightarrow> paper_config \<Rightarrow> broker_position list paper" where
  "positions live config =
     and_give (ensure_account live config) (\<lambda>_ s. settle_each live config (open_rows (ps_positions s)) s)"

definition paper_account_state :: "live_broker \<Rightarrow> paper_config \<Rightarrow> account_state paper" where
  "paper_account_state live config =
     and_give (ensure_account live config) (\<lambda>record.
     and_give (positions live config) (\<lambda>ps s.
       (let balance = pa_starting_balance record + pa_realized_pnl record - pa_commission_paid record;
            open_pnl = sum_list (map bp_unrealized_pnl ps);
            margin_used = sum_list (map (\<lambda>p. \<bar>bp_quantity p\<bar> * bp_entry_price p * (1 / 100)) ps)
        in (Inr \<lparr> as_balance = py_round 2 balance, as_equity = py_round 2 (balance + open_pnl),
              as_margin_used = py_round 2 margin_used,
              as_margin_available = py_round 2 (max 0 (balance + open_pnl - margin_used)),
              as_open_pnl = py_round 2 open_pnl,
              as_today_pnl = py_round 2 (today_realized (lb_now live) (ps_positions s)),
              as_currency = pa_currency record \<rparr>, s))))"

subsection \<open>Simulated writes\<close>

definition bridge_quote :: "live_broker \<Rightarrow> string \<Rightarrow> string \<Rightarrow> exn + quote" where
  "bridge_quote live base quote =
     (case priced live (base @ quote) of Inl e \<Rightarrow> Inl e | Inr (_, q) \<Rightarrow> Inr q)"

definition bridge_lookup :: "live_broker \<Rightarrow> rate_lookup" where
  "bridge_lookup live base quote =
     (case bridge_quote live base quote of Inl _ \<Rightarrow> None | Inr q \<Rightarrow> Some (mid q))"

definition bridge_breaks :: "live_broker \<Rightarrow> string \<Rightarrow> string \<Rightarrow> bool" where
  "bridge_breaks live base quote =
     (case bridge_quote live base quote of Inl e \<Rightarrow> \<not> isinstance e BrokerError | Inr _ \<Rightarrow> False)"

text \<open>Any failure of the conversion, and an exception of the live broker that is no broker error,
  gives the rate one.\<close>

definition paper_conversion :: "live_broker \<Rightarrow> instrument_spec \<Rightarrow> real \<Rightarrow> real" where
  "paper_conversion live spec price =
     (let account = currency_text (Some (sp_account_currency spec)); quote = currency_text (sp_quote_currency spec)
      in if conversion_rate spec price None = Inl NoRateSource
            \<and> (bridge_breaks live quote account
               \<or> positive_rate (bridge_lookup live quote account) = None \<and> bridge_breaks live account quote)
         then 1
         else (case conversion_rate spec price (Some (bridge_lookup live)) of
                 Inl _ \<Rightarrow> 1 | Inr (rate, _) \<Rightarrow> rate))"

definition paper_fill :: "paper_config \<Rightarrow> instrument_spec \<Rightarrow> string \<Rightarrow> quote \<Rightarrow> real" where
  "paper_fill config spec direction q =
     (let slip = pc_entry_slippage_ticks config * tick_of spec
      in round_price spec (if direction = ''BUY'' then q_ask q + slip else q_bid q - slip))"

definition outside_plan :: "string \<Rightarrow> real \<Rightarrow> real \<Rightarrow> real \<Rightarrow> bool" where
  "outside_plan direction stop_loss fill take_profit =
     (direction = ''BUY'' \<and> \<not> (stop_loss < fill \<and> fill < take_profit)
      \<or> direction = ''SELL'' \<and> \<not> (take_profit < fill \<and> fill < stop_loss))"

definition opening_row ::
  "live_broker \<Rightarrow> paper_config \<Rightarrow> instrument_spec \<Rightarrow> string \<Rightarrow> real \<Rightarrow> real \<Rightarrow> real \<Rightarrow> real \<Rightarrow> paper_row" where
  "opening_row live config spec side quantity stop_loss take_profit fill =
     \<lparr> pp_position_id = ''paper-'' @ lb_new_id live, pp_symbol = sp_symbol spec, pp_direction = side,
       pp_quantity = quantity, pp_entry_price = fill, pp_stop_loss = Some (round_price spec stop_loss),
       pp_take_profit = Some (round_price spec take_profit), pp_contract_size = sp_contract_size spec,
       pp_conversion_rate = paper_conversion live spec fill,
       pp_commission = pc_commission_per_lot config * quantity * (1 / 2), pp_open = True, pp_exit_price = None,
       pp_realized_pnl = None, pp_exit_reason = None, pp_mark_price = Some fill, pp_opened_at = lb_now live,
       pp_closed_at = None \<rparr>"

definition fill_order ::
  "live_broker \<Rightarrow> paper_config \<Rightarrow> instrument_spec \<Rightarrow> string \<Rightarrow> real \<Rightarrow> real \<Rightarrow> real \<Rightarrow> quote \<Rightarrow> order_result paper" where
  "fill_order live config spec side quantity stop_loss take_profit q =
     (let fill = paper_fill config spec side q in
      if outside_plan side stop_loss fill take_profit then rejected ''the market moved away; not filling''
      else
        (let row = opening_row live config spec side quantity stop_loss take_profit fill
         in and_give (paper_insert row) (\<lambda>_ s.
              (let s1 = apply_realized 0 (py_round 2 (pp_commission row)) s
               in (Inr \<lparr> or_order_id = Some (''paper-order-'' @ pp_position_id row) \<rparr>,
                   s1\<lparr> ps_writes := ps_writes s1
                     @ [Write_Order (sp_symbol spec) side quantity fill (py_round 6 (spread q))] \<rparr>)))))"

definition place_market_order ::
  "live_broker \<Rightarrow> paper_config \<Rightarrow> instrument_spec \<Rightarrow> string \<Rightarrow> real \<Rightarrow> real \<Rightarrow> real \<Rightarrow> order_result paper" where
  "place_market_order live config spec direction quantity stop_loss take_profit =
     (if quantity \<le> 0 then rejected ''non-positive quantity''
      else if stop_loss \<le> 0 \<or> take_profit \<le> 0 then rejected ''an order needs a positive stop and target''
      else if upper direction \<noteq> ''BUY'' \<and> upper direction \<noteq> ''SELL'' then rejected ''unknown order direction''
      else
        and_give (ensure_account live config) (\<lambda>_.
        and_give (ask_live (lb_quote live spec))
          (fill_order live config spec (upper direction) quantity stop_loss take_profit)))"

definition through_market :: "string \<Rightarrow> real \<Rightarrow> real option \<Rightarrow> real option \<Rightarrow> bool" where
  "through_market direction market stop_loss take_profit =
     ((case stop_loss of None \<Rightarrow> False
       | Some level \<Rightarrow> if direction = ''BUY'' then level \<ge> market else level \<le> market)
      \<or> (case take_profit of None \<Rightarrow> False
         | Some level \<Rightarrow> if direction = ''BUY'' then level \<le> market else level \<ge> market))"

definition modify_position :: "live_broker \<Rightarrow> string \<Rightarrow> real option \<Rightarrow> real option \<Rightarrow> unit paper" where
  "modify_position live position_id stop_loss take_profit s =
     (case paper_by_id (ps_positions s) position_id of
        None \<Rightarrow> rejected ''no open simulated position'' s
      | Some r \<Rightarrow>
          if \<not> pp_open r then rejected ''no open simulated position'' s
          else
            (case priced live (pp_symbol r) of
               Inl e \<Rightarrow> if isinstance e BrokerError then rejected ''cannot validate protection without a price'' s
                 else (Inl e, s)
             | Inr (spec, q) \<Rightarrow>
                 if through_market (pp_direction r) (market_price (pp_direction r) q) stop_loss take_profit
                 then rejected ''already through the market'' s
                 else
                   (let s1 = row_protection position_id stop_loss take_profit s
                    in (Inr (), s1\<lparr> ps_writes := ps_writes s1 @ [Write_Modify position_id stop_loss take_profit] \<rparr>))))"

definition paper_close :: "live_broker \<Rightarrow> paper_config \<Rightarrow> string \<Rightarrow> real option \<Rightarrow> real paper" where
  "paper_close live config position_id quantity s =
     (case paper_by_id (ps_positions s) position_id of
        None \<Rightarrow> rejected ''no open simulated position'' s
      | Some r \<Rightarrow>
          if \<not> pp_open r then rejected ''no open simulated position'' s
          else
            (case priced live (pp_symbol r) of
               Inl e \<Rightarrow> (Inl e, s)
             | Inr (spec, q) \<Rightarrow>
                 (let size = (case quantity of None \<Rightarrow> None
                       | Some x \<Rightarrow> if 0 < x \<and> x < pp_quantity r then Some x else None)
                  in and_give (close_row live config r (round_price spec (market_price (pp_direction r) q))
                       (if size = None then Exit_Manual else Exit_Partial) size) (\<lambda>net. give (py_round 2 net)) s)))"

subsection \<open>The book of simulated positions\<close>

abbreviation table :: "paper_state \<Rightarrow> string \<Rightarrow> paper_row option" where
  "table s \<equiv> paper_by_id (ps_positions s)"

definition paper_row_ok :: "paper_row \<Rightarrow> bool" where
  "paper_row_ok r =
     (pp_direction r \<in> {''BUY'', ''SELL''}
      \<and> (if pp_open r
         then pp_exit_price r = None \<and> pp_realized_pnl r = None \<and> pp_exit_reason r = None \<and> pp_closed_at r = None
         else pp_exit_price r \<noteq> None \<and> pp_realized_pnl r \<noteq> None \<and> pp_exit_reason r \<noteq> None
           \<and> pp_closed_at r \<noteq> None))"

definition paper_ok :: "paper_state \<Rightarrow> bool" where
  "paper_ok s = (distinct (map pp_position_id (ps_positions s)) \<and> list_all paper_row_ok (ps_positions s))"

text \<open>A step keeps the book in order and every closed position as it is.\<close>

definition evolves :: "paper_state \<Rightarrow> paper_state \<Rightarrow> bool" where
  "evolves s s' =
     (paper_ok s \<longrightarrow> paper_ok s' \<and> (\<forall>i r. table s i = Some r \<longrightarrow> \<not> pp_open r \<longrightarrow> table s' i = Some r))"

lemma evolves_refl [simp]: "evolves s s"
  by (simp add: evolves_def)

lemma evolves_trans: "evolves s s' \<Longrightarrow> evolves s' s'' \<Longrightarrow> evolves s s''"
  by (simp add: evolves_def)

lemma evolves_same: "ps_positions s' = ps_positions s \<Longrightarrow> evolves s s'"
  by (simp add: evolves_def paper_ok_def)

lemma by_id_Some: "paper_by_id rows i = Some r \<Longrightarrow> pp_position_id r = i \<and> r \<in> set rows"
  by (auto simp: paper_by_id_def find_Some_iff)

lemma table_update_row:
  assumes "\<And>r. pp_position_id (f r) = pp_position_id r"
  shows "table (update_row k f s) i = (if i = k then map_option f (table s i) else table s i)"
proof -
  have "table (update_row k f s) i = map_option (\<lambda>r. if pp_position_id r = k then f r else r) (table s i)"
    by (simp add: update_row_def paper_by_id_def find_update_where assms)
  then show ?thesis by (cases "table s i") (auto dest: by_id_Some)
qed

lemma evolves_update_row:
  assumes "\<And>r. table s k = Some r \<Longrightarrow> pp_open r"
    and "\<And>r. pp_position_id (f r) = pp_position_id r"
    and "\<And>r. paper_row_ok r \<Longrightarrow> pp_open r \<Longrightarrow> paper_row_ok (f r)"
  shows "evolves s (update_row k f s)"
proof -
  have "paper_ok (update_row k f s)" if ok: "paper_ok s"
  proof -
    have "pp_open r" if "r \<in> set (ps_positions s)" "pp_position_id r = k" for r
      using assms(1) ok that distinct_find_unique [of pp_position_id "ps_positions s" r]
      by (auto simp: paper_ok_def paper_by_id_def)
    then have "list_all paper_row_ok (ps_positions (update_row k f s))"
      using ok assms(3) by (auto simp: paper_ok_def update_row_def list_all_iff update_where_def)
    moreover have "map pp_position_id (ps_positions (update_row k f s)) = map pp_position_id (ps_positions s)"
      by (simp add: update_row_def map_key_update_where assms(2))
    ultimately show ?thesis using ok by (simp add: paper_ok_def)
  qed
  then show ?thesis using assms(1) by (auto simp: evolves_def table_update_row assms(2))
qed

lemma positions_apply_realized [simp]: "ps_positions (apply_realized a b s) = ps_positions s"
  by (simp add: apply_realized_def)

lemma ensure_account_positions [simp]: "ps_positions (snd (ensure_account live config s)) = ps_positions s"
  by (simp add: ensure_account_def paper_ensure_account_def Let_def split: option.split sum.split)

lemma settlement_candles_positions [simp]: "ps_positions (snd (settlement_candles live spec n s)) = ps_positions s"
  by (simp add: settlement_candles_def Let_def split: option.split sum.split)

lemma and_give_snd: "snd (and_give m f s) = (case fst (m s) of Inl e \<Rightarrow> snd (m s) | Inr x \<Rightarrow> snd (f x (snd (m s))))"
  by (simp add: and_give_def split: prod.split sum.split)

lemma range_since_positions [simp]: "ps_positions (snd (range_since live spec r s)) = ps_positions s"
  by (simp add: range_since_def Let_def and_give_snd give_def split: sum.split)

lemma close_row_state:
  "ps_positions (snd (close_row live config r x reason q s)) =
     ps_positions (if pp_quantity r - (case q of None \<Rightarrow> pp_quantity r | Some q \<Rightarrow> q) > 1 / 10 ^ 9
       then row_quantity (pp_position_id r)
         (py_round 4 (pp_quantity r - (case q of None \<Rightarrow> pp_quantity r | Some q \<Rightarrow> q))) s
       else row_close (lb_now live) (pp_position_id r) x
         (py_round 2 (price_move (pp_direction r) (pp_entry_price r) x * pp_contract_size r * row_rate r
            * (case q of None \<Rightarrow> pp_quantity r | Some q \<Rightarrow> q)
          - pc_commission_per_lot config * (case q of None \<Rightarrow> pp_quantity r | Some q \<Rightarrow> q) * (1 / 2))) reason s)"
  by (simp add: close_row_def Let_def)

lemma evolves_close_row:
  assumes "\<And>r'. table s (pp_position_id r) = Some r' \<Longrightarrow> pp_open r'"
  shows "evolves s (snd (close_row live config r x reason q s))"
proof -
  have "evolves s (row_quantity (pp_position_id r) m s)" for m
    unfolding row_quantity_def by (rule evolves_update_row) (use assms in \<open>auto simp: paper_row_ok_def\<close>)
  moreover have "evolves s (row_close t (pp_position_id r) x n reason s)" for t n
    unfolding row_close_def by (rule evolves_update_row) (use assms in \<open>auto simp: paper_row_ok_def\<close>)
  ultimately show ?thesis
    using evolves_trans [OF _ evolves_same [OF close_row_state]] by (auto split: if_splits)
qed

lemma table_close_row:
  "i \<noteq> pp_position_id r \<Longrightarrow> table (snd (close_row live config r x reason q s)) i = table s i"
  by (simp add: close_row_state row_quantity_def row_close_def table_update_row)

lemma table_row_mark: "table (row_mark k m s) i =
    (if i = k then map_option (\<lambda>r. r\<lparr> pp_mark_price := Some m \<rparr>) (table s i) else table s i)"
  by (simp add: row_mark_def table_update_row)

lemma settle_protection_cases:
  obtains (quiet) "ps_positions (snd (settle_protection live config r s)) = ps_positions s"
      and "fst (settle_protection live config r s) \<noteq> Inr True"
  | (marked) spec q s1 where "priced live (pp_symbol r) = Inr (spec, q)"
      and "ps_positions s1 = ps_positions (row_mark (pp_position_id r) (market_price (pp_direction r) q) s)"
      and "snd (settle_protection live config r s) = s1" and "fst (settle_protection live config r s) \<noteq> Inr True"
  | (closed) spec q s1 extent where "priced live (pp_symbol r) = Inr (spec, q)"
      and "range_since live spec r (row_mark (pp_position_id r) (market_price (pp_direction r) q) s) = (Inr extent, s1)"
      and "stop_hit (pp_direction r) (market_price (pp_direction r) q) extent (pp_stop_loss r)
        \<or> target_hit (pp_direction r) (market_price (pp_direction r) q) extent (pp_take_profit r)"
      and "settle_protection live config r s = (Inr True, snd (close_row live config r
        (fst (protective_exit config spec r
          (stop_hit (pp_direction r) (market_price (pp_direction r) q) extent (pp_stop_loss r))
          (target_hit (pp_direction r) (market_price (pp_direction r) q) extent (pp_take_profit r))))
        (snd (protective_exit config spec r
          (stop_hit (pp_direction r) (market_price (pp_direction r) q) extent (pp_stop_loss r))
          (target_hit (pp_direction r) (market_price (pp_direction r) q) extent (pp_take_profit r)))) None s1))"
proof (cases "priced live (pp_symbol r)")
  case (Inl e)
  then show thesis using quiet by (simp add: settle_protection_def)
next
  case (Inr sq)
  obtain spec q where sq: "sq = (spec, q)" by (cases sq)
  let ?mark = "market_price (pp_direction r) q"
  obtain x s1 where read: "range_since live spec r (row_mark (pp_position_id r) ?mark s) = (x, s1)"
    by (cases "range_since live spec r (row_mark (pp_position_id r) ?mark s)")
  have s1: "ps_positions s1 = ps_positions (row_mark (pp_position_id r) ?mark s)"
    using range_since_positions [of live spec r "row_mark (pp_position_id r) ?mark s"] read by simp
  have p: "priced live (pp_symbol r) = Inr (spec, q)" using Inr sq by simp
  note eq = settle_protection_def [of live config r s, unfolded p Let_def and_give_def sum.case prod.case read]
  show thesis
  proof (cases x)
    case (Inl e)
    then show thesis using marked [OF p s1] eq by simp
  next
    case x: (Inr extent)
    let ?s = "stop_hit (pp_direction r) ?mark extent (pp_stop_loss r)"
    let ?t = "target_hit (pp_direction r) ?mark extent (pp_take_profit r)"
    show thesis
    proof (cases "?s \<or> ?t")
      case False
      then show thesis using marked [OF p s1] eq x by (simp add: give_def)
    next
      case True
      obtain price why where exit: "protective_exit config spec r ?s ?t = (price, why)"
        by (cases "protective_exit config spec r ?s ?t")
      obtain y s2 where close: "close_row live config r price why None s1 = (Inr y, s2)"
        by (simp add: close_row_def Let_def)
      have cond: "\<not> (\<not> ?s \<and> \<not> ?t)" using True by blast
      have "settle_protection live config r s = (Inr True, s2)"
        unfolding eq x sum.case if_not_P [OF cond] exit prod.case close give_def by simp
      then show thesis using closed [OF p _ True, of s1] read x exit close by simp
    qed
  qed
qed

lemma settle_protection_evolves:
  assumes "\<And>r'. table s (pp_position_id r) = Some r' \<Longrightarrow> pp_open r'"
  shows "evolves s (snd (settle_protection live config r s))"
    and "i \<noteq> pp_position_id r \<Longrightarrow> table (snd (settle_protection live config r s)) i = table s i"
proof -
  have mark: "evolves s (row_mark (pp_position_id r) m s)" for m
    unfolding row_mark_def by (rule evolves_update_row) (use assms in \<open>auto simp: paper_row_ok_def\<close>)
  have still: "pp_open r'" if "table (row_mark (pp_position_id r) m s) (pp_position_id r) = Some r'" for m r'
    using that assms by (auto simp: table_row_mark)
  have "evolves s (snd (settle_protection live config r s))
    \<and> (i \<noteq> pp_position_id r \<longrightarrow> table (snd (settle_protection live config r s)) i = table s i)"
  proof (cases rule: settle_protection_cases [of live config r s])
    case quiet
    then show ?thesis by (simp add: evolves_same)
  next
    case (marked spec q s1)
    then show ?thesis using evolves_trans [OF mark evolves_same] by (auto simp: table_row_mark)
  next
    case (closed spec q s1 extent)
    have s1: "ps_positions s1 = ps_positions (row_mark (pp_position_id r) (market_price (pp_direction r) q) s)"
      using range_since_positions [of live spec r "row_mark (pp_position_id r) (market_price (pp_direction r) q) s"]
        closed(2) by simp
    then have "evolves s s1" using evolves_trans [OF mark evolves_same] by blast
    moreover have "evolves s1 (snd (close_row live config r x why None s1))" for x why
      by (rule evolves_close_row) (use still s1 in auto)
    ultimately show ?thesis
      using evolves_trans closed(4) s1 by (auto simp: table_close_row table_row_mark)
  qed
  then show "evolves s (snd (settle_protection live config r s))"
    and "i \<noteq> pp_position_id r \<Longrightarrow> table (snd (settle_protection live config r s)) i = table s i"
    by blast+
qed

lemma settle_each_evolves:
  assumes "distinct (map pp_position_id rows)"
    and "\<And>r r'. r \<in> set rows \<Longrightarrow> table s (pp_position_id r) = Some r' \<Longrightarrow> pp_open r'"
  shows "evolves s (snd (settle_each live config rows s))"
  using assms
proof (induction rows arbitrary: s)
  case (Cons r rs)
  let ?s = "snd (settle_protection live config r s)"
  have open': "pp_open r'" if "table s (pp_position_id r) = Some r'" for r'
    using Cons.prems(2) [of r] that by simp
  have first: "evolves s ?s" by (rule settle_protection_evolves(1)) (rule open')
  have frame: "table ?s i = table s i" if "i \<noteq> pp_position_id r" for i
    by (rule settle_protection_evolves(2)) (use open' that in blast)+
  have "pp_position_id r' \<noteq> pp_position_id r" if "r' \<in> set rs" for r'
    using Cons.prems(1) that by (auto simp: image_iff)
  note apart = this
  have "evolves ?s (snd (settle_each live config rs ?s))"
  proof (rule Cons.IH)
    show "distinct (map pp_position_id rs)" using Cons.prems(1) by simp
    fix r1 r' assume "r1 \<in> set rs" and "table ?s (pp_position_id r1) = Some r'"
    then show "pp_open r'" using Cons.prems(2) [of r1 r'] frame [OF apart] by simp
  qed
  with first have "evolves s (snd (settle_each live config rs ?s))" by (rule evolves_trans)
  then show ?case
    using first by (simp add: and_give_snd give_def Let_def split: sum.split)
qed (simp add: give_def)

lemma positions_evolves: "evolves s (snd (positions live config s))"
proof (cases "paper_ok s")
  case True
  let ?s = "snd (ensure_account live config s)"
  have "distinct (map pp_position_id (open_rows (ps_positions s)))"
  proof -
    have "mset (map pp_position_id (open_rows (ps_positions s))) = mset (map pp_position_id (filter pp_open (ps_positions s)))"
      by (simp add: open_rows_def)
    moreover have "distinct (map pp_position_id (filter pp_open (ps_positions s)))"
      using True by (simp add: paper_ok_def distinct_map_filter)
    ultimately show ?thesis by (metis mset_eq_imp_distinct_iff)
  qed
  moreover have "pp_open r'" if "r \<in> set (open_rows (ps_positions s))" "table s (pp_position_id r) = Some r'" for r r'
  proof -
    have r: "r \<in> set (ps_positions s)" "pp_open r" using that(1) by (auto simp: open_rows_def)
    have "table s (pp_position_id r) = Some r"
      using True r(1) distinct_find_unique by (auto simp: paper_ok_def paper_by_id_def)
    then show ?thesis using that(2) r(2) by simp
  qed
  ultimately have "evolves ?s (snd (settle_each live config (open_rows (ps_positions ?s)) ?s))"
    by (intro settle_each_evolves) auto
  then have "evolves s (snd (settle_each live config (open_rows (ps_positions ?s)) ?s))"
    using evolves_trans [OF evolves_same] by (metis ensure_account_positions)
  then show ?thesis
    using evolves_same [OF ensure_account_positions] by (simp add: positions_def and_give_snd split: sum.split)
qed (simp add: evolves_def)

lemma account_state_evolves: "evolves s (snd (paper_account_state live config s))"
proof -
  let ?s = "snd (ensure_account live config s)"
  have "evolves s (snd (positions live config ?s))"
    by (rule evolves_trans [OF evolves_same positions_evolves]) simp
  then show ?thesis
    using evolves_same [OF ensure_account_positions]
    by (simp add: paper_account_state_def and_give_snd Let_def split: sum.split)
qed

lemma modify_evolves: "evolves s (snd (modify_position live k sl tp s))"
proof -
  have "evolves s (row_protection k sl tp s)" if "table s k = Some r" "pp_open r" for r
    unfolding row_protection_def
    by (rule evolves_update_row) (use that in \<open>auto simp: paper_row_ok_def\<close>)
  then have "evolves s ((row_protection k sl tp s)\<lparr> ps_writes := w \<rparr>)" if "table s k = Some r" "pp_open r" for r w
    using evolves_trans [OF _ evolves_same] that by simp
  then show ?thesis
    by (simp add: modify_position_def rejected_def raise_exn_def Let_def split: option.split sum.split prod.split)
qed

lemma paper_close_evolves: "evolves s (snd (paper_close live config k q s))"
proof -
  have "evolves s (snd (close_row live config r x why size s))" if "table s k = Some r" "pp_open r" for r x why size
    by (rule evolves_close_row) (use that by_id_Some in auto)
  then show ?thesis
    by (auto simp: paper_close_def rejected_def raise_exn_def and_give_snd give_def Let_def
        split: option.split sum.split prod.split)
qed

lemma evolves_insert:
  assumes "paper_row_ok row"
  shows "evolves s (snd (paper_insert row s))"
proof (cases "table s (pp_position_id row)")
  case None
  then have "pp_position_id row \<notin> pp_position_id ` set (ps_positions s)"
    by (simp add: paper_by_id_def find_None_notin)
  then show ?thesis
    using None assms
    by (auto simp: evolves_def paper_insert_def paper_ok_def paper_by_id_def find_append split: option.split)
qed (simp add: paper_insert_def raise_exn_def)

lemma fill_order_cases:
  obtains (refused) e where "fill_order live config spec side qty sl tp q s = (Inl e, s)"
  | (filled) res s' where "fill_order live config spec side qty sl tp q s = (Inr res, s')"
      and "ps_positions s' = ps_positions s @ [opening_row live config spec side qty sl tp (paper_fill config spec side q)]"
      and "\<not> outside_plan side sl (paper_fill config spec side q) tp"
      and "table s (''paper-'' @ lb_new_id live) = None"
proof -
  let ?row = "opening_row live config spec side qty sl tp (paper_fill config spec side q)"
  have id: "pp_position_id ?row = ''paper-'' @ lb_new_id live" by (simp add: opening_row_def)
  show thesis
  proof (cases "outside_plan side sl (paper_fill config spec side q) tp \<or> table s (pp_position_id ?row) \<noteq> None")
    case True
    then have "\<exists>e. fill_order live config spec side qty sl tp q s = (Inl e, s)"
      by (cases "outside_plan side sl (paper_fill config spec side q) tp")
        (auto simp: fill_order_def Let_def and_give_def rejected_def raise_exn_def paper_insert_def)
    then show thesis using refused by blast
  next
    case False
    then have "\<exists>res s'. fill_order live config spec side qty sl tp q s = (Inr res, s')
        \<and> ps_positions s' = ps_positions s @ [?row]"
      by (simp add: fill_order_def Let_def and_give_def paper_insert_def)
    then show thesis using filled id False by auto
  qed
qed

lemma place_order_cases:
  obtains (refused) e s' where "place_market_order live config spec direction qty sl tp s = (Inl e, s')"
      and "ps_positions s' = ps_positions s"
  | (filled) res s' q where "place_market_order live config spec direction qty sl tp s = (Inr res, s')"
      and "ps_positions s' = ps_positions s
        @ [opening_row live config spec (upper direction) qty sl tp (paper_fill config spec (upper direction) q)]"
      and "lb_quote live spec = Inr q"
      and "upper direction = ''BUY'' \<or> upper direction = ''SELL''" and "0 < qty" and "0 < sl" and "0 < tp"
      and "\<not> outside_plan (upper direction) sl (paper_fill config spec (upper direction) q) tp"
      and "table s (''paper-'' @ lb_new_id live) = None"
proof (cases "qty \<le> 0 \<or> sl \<le> 0 \<or> tp \<le> 0 \<or> upper direction \<noteq> ''BUY'' \<and> upper direction \<noteq> ''SELL''")
  case True
  then have "\<exists>e. place_market_order live config spec direction qty sl tp s = (Inl e, s)"
    by (cases "qty \<le> 0"; cases "sl \<le> 0 \<or> tp \<le> 0")
      (auto simp: place_market_order_def rejected_def raise_exn_def)
  then show thesis using refused by blast
next
  case ok: False
  obtain x s0 where acc: "ensure_account live config s = (x, s0)" by (cases "ensure_account live config s")
  have s0: "ps_positions s0 = ps_positions s" using ensure_account_positions [of live config s] acc by simp
  have eq: "place_market_order live config spec direction qty sl tp s =
      and_give (ensure_account live config) (\<lambda>_. and_give (ask_live (lb_quote live spec))
        (fill_order live config spec (upper direction) qty sl tp)) s"
    using ok by (auto simp: place_market_order_def)
  show thesis
  proof (cases x)
    case (Inl e)
    then show thesis using refused s0 acc by (simp add: eq and_give_def)
  next
    case (Inr a)
    show thesis
    proof (cases "lb_quote live spec")
      case Inl': (Inl e)
      then show thesis using refused s0 acc Inr by (simp add: eq and_give_def ask_live_def raise_exn_def)
    next
      case q: (Inr q)
      have step: "place_market_order live config spec direction qty sl tp s =
          fill_order live config spec (upper direction) qty sl tp q s0"
        using acc Inr q by (simp add: eq and_give_def ask_live_def give_def)
      show thesis
      proof (cases rule: fill_order_cases [of live config spec "upper direction" qty sl tp q s0])
        case (refused e)
        then show thesis using that(1) step s0 by simp
      next
        case (filled res s')
        then show thesis using that(2) [OF _ _ q] step s0 ok by auto
      qed
    qed
  qed
qed

lemma order_evolves: "evolves s (snd (place_market_order live config spec direction qty sl tp s))"
proof (cases rule: place_order_cases [of live config spec direction qty sl tp s])
  case (refused e s')
  then show ?thesis by (simp add: evolves_same)
next
  case (filled res s' q)
  let ?row = "opening_row live config spec (upper direction) qty sl tp (paper_fill config spec (upper direction) q)"
  have "paper_row_ok ?row" using filled(4) by (auto simp: opening_row_def paper_row_ok_def)
  moreover have "pp_position_id ?row = ''paper-'' @ lb_new_id live" by (simp add: opening_row_def)
  ultimately have "evolves s (s\<lparr> ps_positions := ps_positions s @ [?row] \<rparr>)"
    using evolves_insert [of ?row s] filled(9) by (simp add: paper_insert_def)
  then show ?thesis using evolves_trans [OF _ evolves_same] filled(1,2) by simp
qed

definition price_slack :: "instrument_spec \<Rightarrow> real" where
  "price_slack s = (if 0 < sp_tick_size s then sp_tick_size s / 2 + 1 / 2 / 10 ^ (sp_digits s + 2)
     else 1 / 2 / 10 ^ sp_digits s)"

subsection \<open>Runs\<close>

datatype paper_op =
    Do_Order instrument_spec string real real real
  | Do_Modify string "real option" "real option"
  | Do_Close string "real option"
  | Do_Positions | Do_Account

fun paper_step :: "paper_config \<Rightarrow> live_broker \<times> paper_op \<Rightarrow> paper_state \<Rightarrow> paper_state" where
  "paper_step config (live, Do_Order spec direction qty sl tp) s =
     snd (place_market_order live config spec direction qty sl tp s)"
| "paper_step config (live, Do_Modify k sl tp) s = snd (modify_position live k sl tp s)"
| "paper_step config (live, Do_Close k qty) s = snd (paper_close live config k qty s)"
| "paper_step config (live, Do_Positions) s = snd (positions live config s)"
| "paper_step config (live, Do_Account) s = snd (paper_account_state live config s)"

lemma paper_step_evolves: "evolves s (paper_step config step' s)"
proof -
  obtain live op where "step' = (live, op)" by (cases step')
  then show ?thesis
    by (cases op) (simp_all add: order_evolves modify_evolves paper_close_evolves positions_evolves account_state_evolves)
qed

lemma paper_run_evolves: "evolves s (fold (paper_step config) steps s)"
  by (induction steps arbitrary: s) (auto intro: evolves_trans paper_step_evolves)

text \<open>C28. Over any sequence of operations, with whatever answers of the live broker, position ids stay
  unique, every row stays open or completely closed, and a closed position never changes again.\<close>

theorem paper_history_is_final:
  assumes "paper_ok s"
  shows "paper_ok (fold (paper_step config) steps s)
    \<and> list_all (\<lambda>r. pp_open r \<or> r \<in> set (ps_positions (fold (paper_step config) steps s))) (ps_positions s)"
proof -
  have "table s (pp_position_id r) = Some r" if "r \<in> set (ps_positions s)" for r
    using assms that distinct_find_unique by (auto simp: paper_ok_def paper_by_id_def)
  then show ?thesis
    using paper_run_evolves [of s config steps] assms by_id_Some by (fastforce simp: evolves_def list_all_iff)
qed

text \<open>C29. A simulated order fills at the quote of the far side plus the adverse slippage, up to the
  rounding of prices, strictly between stop and target, and adds one open row with those levels; a
  refused order adds none.\<close>

theorem paper_order_crosses_spread:
  "case place_market_order live config spec direction qty sl tp s of
     (Inl e, s') \<Rightarrow> ps_positions s' = ps_positions s
   | (Inr res, s') \<Rightarrow> (\<exists>q row. lb_quote live spec = Inr q \<and> ps_positions s' = ps_positions s @ [row]
       \<and> pp_open row \<and> pp_quantity row = qty \<and> 0 < qty
       \<and> pp_stop_loss row = Some (round_price spec sl) \<and> pp_take_profit row = Some (round_price spec tp)
       \<and> (if pp_direction row = ''BUY''
          then sl < pp_entry_price row \<and> pp_entry_price row < tp
            \<and> \<bar>pp_entry_price row - (q_ask q + pc_entry_slippage_ticks config * tick_of spec)\<bar> \<le> price_slack spec
          else pp_direction row = ''SELL'' \<and> tp < pp_entry_price row \<and> pp_entry_price row < sl
            \<and> \<bar>pp_entry_price row - (q_bid q - pc_entry_slippage_ticks config * tick_of spec)\<bar> \<le> price_slack spec))"
proof (cases rule: place_order_cases [of live config spec direction qty sl tp s])
  case (refused e s')
  then show ?thesis by simp
next
  case (filled res s' q)
  have near: "\<bar>round_price spec p - p\<bar> \<le> price_slack spec" for p
    using round_price_error [of spec p] by (simp add: price_slack_def)
  from filled show ?thesis
    by (auto simp: opening_row_def outside_plan_def paper_fill_def Let_def near)
qed

subsection \<open>Settlement\<close>

lemma close_row_closes:
  assumes "table s (pp_position_id r) = Some r'"
  shows "\<exists>r''. table (snd (close_row live config r x why None s)) (pp_position_id r) = Some r''
    \<and> \<not> pp_open r'' \<and> pp_exit_price r'' = Some x \<and> pp_exit_reason r'' = Some why"
  using assms by (simp add: close_row_state row_close_def table_update_row)

lemma range_since_cache: "ps_cache s = ps_cache s' \<Longrightarrow> fst (range_since live spec r s) = fst (range_since live spec r s')"
  by (simp add: range_since_def Let_def and_give_def give_def settlement_candles_def
      split: prod.split sum.split option.split) (auto split: sum.splits prod.splits)

lemma update_row_cache [simp]: "ps_cache (update_row k f s) = ps_cache s"
  by (simp add: update_row_def)

lemma settle_closes:
  assumes "settle_protection live config r s = (Inr True, s')" and "table s (pp_position_id r) = Some r1"
  obtains spec q extent r' where "priced live (pp_symbol r) = Inr (spec, q)"
    and "fst (range_since live spec r s) = Inr extent"
    and "stop_hit (pp_direction r) (market_price (pp_direction r) q) extent (pp_stop_loss r)
        \<or> target_hit (pp_direction r) (market_price (pp_direction r) q) extent (pp_take_profit r)"
    and "table s' (pp_position_id r) = Some r'" and "\<not> pp_open r'"
    and "(pp_exit_price r', pp_exit_reason r') = map_prod Some Some (protective_exit config spec r
          (stop_hit (pp_direction r) (market_price (pp_direction r) q) extent (pp_stop_loss r))
          (target_hit (pp_direction r) (market_price (pp_direction r) q) extent (pp_take_profit r)))"
proof (cases rule: settle_protection_cases [of live config r s])
  case quiet
  then show thesis using assms(1) by simp
next
  case (marked spec q s1)
  then show thesis using assms(1) by simp
next
  case (closed spec q s1 extent)
  have "ps_positions s1 = ps_positions (row_mark (pp_position_id r) (market_price (pp_direction r) q) s)"
    using range_since_positions [of live spec r "row_mark (pp_position_id r) (market_price (pp_direction r) q) s"]
      closed(2) by simp
  then have there: "table s1 (pp_position_id r) = Some (r1\<lparr> pp_mark_price := Some (market_price (pp_direction r) q) \<rparr>)"
    using assms(2) by (simp add: table_row_mark)
  let ?e = "protective_exit config spec r
          (stop_hit (pp_direction r) (market_price (pp_direction r) q) extent (pp_stop_loss r))
          (target_hit (pp_direction r) (market_price (pp_direction r) q) extent (pp_take_profit r))"
  have s': "s' = snd (close_row live config r (fst ?e) (snd ?e) None s1)" using closed(4) assms(1) by simp
  obtain r' where "table s' (pp_position_id r) = Some r'" "\<not> pp_open r'"
      "pp_exit_price r' = Some (fst ?e)" "pp_exit_reason r' = Some (snd ?e)"
    using close_row_closes [OF there] s' by blast
  moreover have "fst (range_since live spec r s) = Inr extent"
    using range_since_cache [of "row_mark (pp_position_id r) (market_price (pp_direction r) q) s" s live spec r] closed(2)
    by (simp add: row_mark_def)
  ultimately show thesis using that [OF closed(1) _ closed(3)] by (simp add: map_prod_def split_beta)
qed

text \<open>C30. A settled position exits at its stop worsened by the slippage, or exactly at its target, and
  never at the market price; with pessimistic intrabar fills the target is taken only when the stop
  was not touched by the market price or by the candles since the position was opened.\<close>

theorem settlement_exit:
  assumes "settle_protection live config r s = (Inr True, s')" and "table s (pp_position_id r) = Some r"
    and "pc_pessimistic_intrabar config"
  shows "\<exists>r' x spec q extent. table s' (pp_position_id r) = Some r' \<and> \<not> pp_open r' \<and> pp_exit_price r' = Some x
    \<and> priced live (pp_symbol r) = Inr (spec, q) \<and> fst (range_since live spec r s) = Inr extent
    \<and> (if stop_hit (pp_direction r) (market_price (pp_direction r) q) extent (pp_stop_loss r)
       then pp_exit_reason r' \<in> {Some Exit_Stop, Some Exit_Stop_And_Target}
         \<and> (\<exists>level. pp_stop_loss r = Some level
            \<and> x = (if pp_direction r = ''BUY'' then level - pc_stop_slippage_ticks config * tick_of spec
                   else level + pc_stop_slippage_ticks config * tick_of spec))
       else pp_exit_reason r' = Some Exit_Target \<and> pp_take_profit r = Some x)"
proof -
  obtain spec q extent r' where p: "priced live (pp_symbol r) = Inr (spec, q)"
      "fst (range_since live spec r s) = Inr extent"
    and hit: "stop_hit (pp_direction r) (market_price (pp_direction r) q) extent (pp_stop_loss r)
        \<or> target_hit (pp_direction r) (market_price (pp_direction r) q) extent (pp_take_profit r)"
    and r': "table s' (pp_position_id r) = Some r'" "\<not> pp_open r'"
      "(pp_exit_price r', pp_exit_reason r') = map_prod Some Some (protective_exit config spec r
          (stop_hit (pp_direction r) (market_price (pp_direction r) q) extent (pp_stop_loss r))
          (target_hit (pp_direction r) (market_price (pp_direction r) q) extent (pp_take_profit r)))"
    using settle_closes [OF assms(1,2)] .
  show ?thesis
  proof (cases "stop_hit (pp_direction r) (market_price (pp_direction r) q) extent (pp_stop_loss r)")
    case True
    then obtain level where "pp_stop_loss r = Some level" by (auto simp: stop_hit_def split: option.splits)
    then show ?thesis
      using True p r' assms(3)
      by (intro exI [of _ r'] exI [of _ "the (pp_exit_price r')"] exI [of _ spec] exI [of _ q] exI [of _ extent])
        (auto simp: protective_exit_def Let_def)
  next
    case False
    then obtain level where "pp_take_profit r = Some level"
      using hit by (auto simp: target_hit_def split: option.splits)
    then show ?thesis
      using False p r'
      by (intro exI [of _ r'] exI [of _ level] exI [of _ spec] exI [of _ q] exI [of _ extent])
        (auto simp: protective_exit_def)
  qed
qed

subsection \<open>A moved stop\<close>

lemma settle_stop_hit:
  assumes "priced live (pp_symbol r) = Inr (spec, q)"
    and "fst (range_since live spec r s) = Inr extent"
    and "stop_hit (pp_direction r) (market_price (pp_direction r) q) extent (pp_stop_loss r)"
  shows "fst (settle_protection live config r s) = Inr True"
proof -
  have read: "fst (range_since live spec r (row_mark (pp_position_id r) (market_price (pp_direction r) q) s)) = Inr extent"
    using range_since_cache [of "row_mark (pp_position_id r) (market_price (pp_direction r) q) s" s] assms(2)
    by (simp add: row_mark_def)
  show ?thesis
  proof (cases rule: settle_protection_cases [of live config r s])
    case quiet
    then show ?thesis
      using assms(1,3) read
      by (auto simp: settle_protection_def and_give_def close_row_def give_def Let_def split: prod.splits sum.splits)
  next
    case (marked spec' q' s1)
    then show ?thesis
      using assms(1,3) read
      by (auto simp: settle_protection_def and_give_def close_row_def give_def Let_def split: prod.splits sum.splits)
  next
    case (closed spec' q' s1 extent')
    then show ?thesis by simp
  qed
qed

text \<open>A stop that is moved up is tested against the past: when a long position traded at the new
  level at any time since it was opened, the move is accepted, because the market is above the
  level now, and the next settlement closes the position, although the market has not been at the
  stop since it was placed. Break-even moves are of this kind.\<close>

theorem moved_stop_is_hit_by_the_past:
  assumes "table s k = Some r" and "pp_direction r = ''BUY''"
    and "modify_position live k (Some level) None s = (Inr (), s1)"
    and "priced live (pp_symbol r) = Inr (spec, q)"
    and "fst (range_since live spec r s) = Inr (Some (high, low))" and "low \<le> level"
  shows "level < q_bid q \<and> (\<exists>r1. table s1 k = Some r1 \<and> pp_stop_loss r1 = Some level
    \<and> fst (settle_protection live config r1 s1) = Inr True)"
proof -
  let ?r1 = "r\<lparr> pp_stop_loss := Some level \<rparr>"
  have ok: "pp_open r" "\<not> through_market ''BUY'' (q_bid q) (Some level) None"
    using assms(1-4) by (auto simp: modify_position_def rejected_def raise_exn_def market_price_def Let_def split: if_splits)
  have s1: "s1 = (row_protection k (Some level) None s)\<lparr> ps_writes := ps_writes s @ [Write_Modify k (Some level) None] \<rparr>"
    using assms(1-4) ok
    by (simp add: modify_position_def market_price_def Let_def row_protection_def update_row_def)
  have r1: "table s1 k = Some ?r1"
    using assms(1) by (simp add: s1 row_protection_def table_update_row)
  have cache: "ps_cache s1 = ps_cache s" by (simp add: s1 row_protection_def)
  have "fst (range_since live spec ?r1 s1) = fst (range_since live spec r s)"
    using range_since_cache [OF cache, of live spec ?r1] by (simp add: range_since_def cong: option.case_cong)
  then have "fst (settle_protection live config ?r1 s1) = Inr True"
    using assms(2,4,5,6) by (intro settle_stop_hit [of _ _ spec q _ "Some (high, low)"]) (simp_all add: stop_hit_def)
  then show ?thesis using r1 ok(2) by (auto simp: through_market_def)
qed

subsection \<open>What the account does not see\<close>

lemma paper_close_part:
  assumes "table s k = Some r" and "pp_open r" and "priced live (pp_symbol r) = Inr (spec, q)"
    and "0 < x" and "x < pp_quantity r"
  shows "snd (paper_close live config k (Some x) s) =
    snd (close_row live config r (round_price spec (market_price (pp_direction r) q)) Exit_Partial (Some x) s)"
  using assms by (simp add: paper_close_def and_give_snd give_def split: sum.split)

lemma filter_update_where:
  "(\<And>r. r \<in> set rows \<Longrightarrow> P r \<Longrightarrow> \<not> Q r \<and> \<not> Q (f r)) \<Longrightarrow> filter Q (update_where P f rows) = filter Q rows"
  by (induction rows) auto

text \<open>A partial close books its profit on the account only: the row keeps its identity, its
  protection and no result, and the order history, which reconciliation reads, and the result of
  the day show nothing of it then and only the rest later.\<close>

theorem partial_profit_leaves_no_record:
  assumes "paper_ok s" and "paper_close live config k (Some x) s = (Inr net, s')" and "table s k = Some r"
    and "0 < x" and "x < pp_quantity r - 1 / 10 ^ 9"
  shows "table s' k = Some (r\<lparr> pp_quantity := py_round 4 (pp_quantity r - x) \<rparr>)
    \<and> paper_order_history limit s' = paper_order_history limit s
    \<and> today_realized now (ps_positions s') = today_realized now (ps_positions s)"
proof -
  have open': "pp_open r"
    using assms(2,3) by (auto simp: paper_close_def rejected_def raise_exn_def split: if_splits)
  have id: "pp_position_id r = k" using assms(3) by_id_Some by blast
  obtain spec q where priced: "priced live (pp_symbol r) = Inr (spec, q)"
    using assms(2,3) open' by (cases "priced live (pp_symbol r)") (auto simp: paper_close_def)
  have "x < pp_quantity r" using assms(5) by simp
  from paper_close_part [OF assms(3) open' priced assms(4) this, of config]
  have s': "ps_positions s' = ps_positions (row_quantity k (py_round 4 (pp_quantity r - x)) s)"
    using assms(2,5) by (simp add: close_row_state id)
  have "r' = r" if "r' \<in> set (ps_positions s)" "pp_position_id r' = k" for r'
    using assms(1,3) that distinct_find_unique [of pp_position_id "ps_positions s" r']
    by (auto simp: paper_ok_def paper_by_id_def)
  then have "filter (\<lambda>r. \<not> pp_open r) (ps_positions s') = filter (\<lambda>r. \<not> pp_open r) (ps_positions s)"
    unfolding s' row_quantity_def update_row_def using open'
    by (simp) (rule filter_update_where, auto)
  moreover have "table s' k = Some (r\<lparr> pp_quantity := py_round 4 (pp_quantity r - x) \<rparr>)"
    unfolding s' row_quantity_def using assms(3) by (simp add: table_update_row)
  ultimately show ?thesis by (simp add: paper_order_history_def today_realized_def closed_rows_def)
qed

text \<open>The account state reads the balance before it settles stops and targets: a result booked by
  that settlement is in neither the balance nor the open profit it returns.\<close>

theorem account_state_is_stale:
  assumes "paper_account_state live config s = (Inr st, s')" and "ps_account s = Some a"
  shows "as_balance st = py_round 2 (pa_starting_balance a + pa_realized_pnl a - pa_commission_paid a)
    \<and> (\<exists>ps. fst (positions live config s) = Inr ps \<and> as_open_pnl st = py_round 2 (sum_list (map bp_unrealized_pnl ps)))"
proof -
  have "ensure_account live config s = (Inr a, s)" using assms(2) by (simp add: ensure_account_def)
  then show ?thesis
    using assms(1)
    by (cases "positions live config s")
      (auto simp: paper_account_state_def and_give_def Let_def split: sum.splits)
qed

subsection \<open>A sample account\<close>

definition sample_row :: paper_row where
  "sample_row = \<lparr> pp_position_id = ''p1'', pp_symbol = ''EURUSD'', pp_direction = ''BUY'', pp_quantity = 1,
     pp_entry_price = 100, pp_stop_loss = Some 95, pp_take_profit = Some 200, pp_contract_size = 1,
     pp_conversion_rate = 1, pp_commission = 0, pp_open = True, pp_exit_price = None, pp_realized_pnl = None,
     pp_exit_reason = None, pp_mark_price = Some 100, pp_opened_at = 0, pp_closed_at = None \<rparr>"

definition sample_paper :: paper_state where
  "sample_paper = \<lparr> ps_account = Some \<lparr> pa_starting_balance = 1000, pa_realized_pnl = 0, pa_commission_paid = 0,
       pa_currency = ''USD'' \<rparr>,
     ps_positions = [sample_row], ps_cache = [], ps_writes = [] \<rparr>"

definition sample_live :: "real \<Rightarrow> real \<Rightarrow> live_broker" where
  "sample_live bid low = \<lparr> lb_now = 0, lb_monotonic = 0, lb_instrument = (\<lambda>_. Inr sample_spec),
     lb_quote = (\<lambda>_. Inr \<lparr> q_symbol = ''EURUSD'', q_bid = bid, q_ask = bid + 1, q_timestamp = 0 \<rparr>),
     lb_candles = (\<lambda>_ _. Inr [\<lparr> rn_timestamp = Some 0, rn_high = 112, rn_low = low \<rparr>]),
     lb_account = Inl \<lparr> exn_class = BrokerError, exn_message = [] \<rparr>, lb_new_id = ''x'' \<rparr>"

lemma sample_priced [simp]:
  "priced (sample_live bid low) symbol =
     Inr (sample_spec, \<lparr> q_symbol = ''EURUSD'', q_bid = bid, q_ask = bid + 1, q_timestamp = 0 \<rparr>)"
  by (simp add: priced_def sample_live_def)

lemma sample_paper_ok: "paper_ok sample_paper" "table sample_paper ''p1'' = Some sample_row"
  by (simp_all add: paper_ok_def sample_paper_def sample_row_def paper_row_ok_def paper_by_id_def)

lemma sample_extent: "fst (range_since (sample_live bid low) sample_spec sample_row sample_paper) = Inr (Some (112, low))"
  by (simp add: range_since_def and_give_def settlement_candles_def Let_def sample_live_def sample_paper_def
      range_of_def sample_row_def minute_gap_def give_def)

theorem moved_stop_is_hit_by_the_past_witness:
  "\<exists>s1 r1. modify_position (sample_live 110 99) ''p1'' (Some 101) None sample_paper = (Inr (), s1)
     \<and> table s1 ''p1'' = Some r1
     \<and> fst (settle_protection (sample_live 110 99) default_paper_config r1 s1) = Inr True"
proof -
  obtain s1 where moved: "modify_position (sample_live 110 99) ''p1'' (Some 101) None sample_paper = (Inr (), s1)"
    using sample_paper_ok(2)
    by (simp add: modify_position_def sample_row_def market_price_def through_market_def Let_def)
  have "pp_direction sample_row = ''BUY''" by (simp add: sample_row_def)
  from moved_stop_is_hit_by_the_past [OF sample_paper_ok(2) this moved sample_priced sample_extent, of default_paper_config]
  show ?thesis using moved by auto
qed

theorem paper_history_is_final_witness:
  "paper_ok (fold (paper_step default_paper_config) [(sample_live 90 99, Do_Account)] sample_paper)"
  using paper_history_is_final [OF sample_paper_ok(1), of default_paper_config "[(sample_live 90 99, Do_Account)]"]
  by simp

lemma sample_settled: "\<exists>s'. settle_protection (sample_live 90 99) default_paper_config sample_row sample_paper = (Inr True, s')"
proof -
  have "fst (settle_protection (sample_live 90 99) default_paper_config sample_row sample_paper) = Inr True"
    by (rule settle_stop_hit [OF sample_priced sample_extent])
      (simp add: stop_hit_def sample_row_def market_price_def)
  then show ?thesis by (metis prod.collapse)
qed

theorem settlement_exit_witness:
  "\<exists>s' r'. table s' ''p1'' = Some r' \<and> \<not> pp_open r'
     \<and> settle_protection (sample_live 90 99) default_paper_config sample_row sample_paper = (Inr True, s')"
proof -
  obtain s' where settled: "settle_protection (sample_live 90 99) default_paper_config sample_row sample_paper = (Inr True, s')"
    using sample_settled by blast
  have id: "pp_position_id sample_row = ''p1''" by (simp add: sample_row_def)
  from settlement_exit [OF settled] sample_paper_ok(2) settled show ?thesis
    by (auto simp: id default_paper_config_def)
qed

theorem account_state_is_stale_witness:
  "\<exists>st s'. paper_account_state (sample_live 90 99) default_paper_config sample_paper = (Inr st, s')
     \<and> as_balance st = 1000 \<and> as_open_pnl st = 0"
proof -
  obtain s1 where settled: "settle_protection (sample_live 90 99) default_paper_config sample_row sample_paper = (Inr True, s1)"
    using sample_settled by blast
  have open': "open_rows (ps_positions sample_paper) = [sample_row]"
    by (simp add: open_rows_def sample_paper_def sample_row_def)
  have account: "ensure_account (sample_live 90 99) default_paper_config sample_paper =
      (Inr (the (ps_account sample_paper)), sample_paper)"
    by (simp add: ensure_account_def sample_paper_def)
  have positions: "positions (sample_live 90 99) default_paper_config sample_paper = (Inr [], s1)"
    by (simp add: positions_def and_give_def account open' settled give_def)
  obtain st where st: "paper_account_state (sample_live 90 99) default_paper_config sample_paper = (Inr st, s1)"
    by (simp add: paper_account_state_def and_give_def account positions Let_def)
  have acc: "ps_account sample_paper = Some (the (ps_account sample_paper))" by (simp add: sample_paper_def)
  have "py_round 2 0 = 0" "py_round 2 1000 = 1000"
    by (simp_all add: py_round_def round_half_even_def)
  with account_state_is_stale [OF st acc] st positions show ?thesis
    by (auto simp: sample_paper_def)
qed

theorem partial_profit_leaves_no_record_witness:
  "\<exists>net s'. paper_close (sample_live 110 99) default_paper_config ''p1'' (Some (1 / 2)) sample_paper = (Inr net, s')
     \<and> paper_order_history 200 s' = []"
proof -
  have "pp_open sample_row" by (simp add: sample_row_def)
  then obtain net s' where closed: "paper_close (sample_live 110 99) default_paper_config ''p1'' (Some (1 / 2)) sample_paper = (Inr net, s')"
    using sample_paper_ok(2)
    by (simp add: paper_close_def and_give_def close_row_def Let_def give_def)
  have "paper_order_history 200 sample_paper = []"
    by (simp add: paper_order_history_def closed_rows_def sample_paper_def sample_row_def)
  with partial_profit_leaves_no_record [OF sample_paper_ok(1) closed sample_paper_ok(2), of 200] closed
  show ?thesis by (auto simp: sample_row_def)
qed

end
