(* ===== verification/Scheduler.thy ===== *)
theory Scheduler
  imports Clock
begin

text \<open>
  The timers, \<open>bot/scheduler.py\<close>: the alignment to candle closes and the loop of a periodic job. A
  pass of the loop whose wait was not interrupted is a tick: the clock when the delay was computed,
  the clock when the wait ended and what the job did. Threads, joining and logging are left out.
\<close>

definition next_candle_close :: "int \<Rightarrow> int \<Rightarrow> micros \<Rightarrow> micros" where
  "next_candle_close interval_minutes offset_seconds moment =
     (let minutes = (minute_of moment div interval_minutes + 1) * interval_minutes;
          base = at_hour moment (hour_of moment) + minutes * usec_per_min
      in base + offset_seconds * usec_per_sec)"

record job_state =
  jb_name :: string
  jb_running :: bool
  jb_last_run_at :: "micros option"
  jb_last_status :: string
  jb_last_error :: "string option"
  jb_next_run_at :: "micros option"
  jb_runs :: nat
  jb_failures :: nat

definition new_job_state :: "string \<Rightarrow> job_state" where
  "new_job_state name = \<lparr> jb_name = name, jb_running = False, jb_last_run_at = None,
     jb_last_status = ''idle'', jb_last_error = None, jb_next_run_at = None, jb_runs = 0, jb_failures = 0 \<rparr>"

record periodic_job =
  pj_interval_seconds :: real
  pj_aligned_to :: "int option"
  pj_offset_seconds :: int

definition next_delay :: "periodic_job \<Rightarrow> micros \<Rightarrow> job_state \<Rightarrow> real \<times> job_state" where
  "next_delay job now state =
     (case pj_aligned_to job of
        Some m \<Rightarrow>
          if m \<noteq> 0 then
            (let target = next_candle_close m (pj_offset_seconds job) now
             in (max 1 (total_seconds (target - now)), state\<lparr> jb_next_run_at := Some target \<rparr>))
          else (pj_interval_seconds job, state\<lparr> jb_next_run_at :=
            Some (now + round_half_even (pj_interval_seconds job * 1000000)) \<rparr>)
      | None \<Rightarrow> (pj_interval_seconds job, state\<lparr> jb_next_run_at :=
            Some (now + round_half_even (pj_interval_seconds job * 1000000)) \<rparr>))"

datatype run_outcome = Completed | Raised string

record tick =
  tk_planned :: micros
  tk_woken :: micros
  tk_outcome :: run_outcome

definition run_once :: "micros \<Rightarrow> run_outcome \<Rightarrow> job_state \<Rightarrow> job_state" where
  "run_once now outcome state =
     (let started = state\<lparr> jb_running := True, jb_last_run_at := Some now, jb_last_status := ''running'' \<rparr>;
          finished = (case outcome of
            Completed \<Rightarrow> started\<lparr> jb_last_status := ''completed'', jb_last_error := None,
              jb_runs := jb_runs started + 1 \<rparr>
          | Raised message \<Rightarrow> started\<lparr> jb_last_status := ''failed'',
              jb_last_error := Some (take 500 message), jb_failures := jb_failures started + 1 \<rparr>)
      in finished\<lparr> jb_running := False \<rparr>)"

definition job_tick :: "periodic_job \<Rightarrow> tick \<Rightarrow> job_state \<Rightarrow> job_state" where
  "job_tick job t state =
     (let planned = snd (next_delay job (tk_planned t) state)
      in if jb_running planned then planned else run_once (tk_woken t) (tk_outcome t) planned)"

fun job_loop :: "periodic_job \<Rightarrow> tick list \<Rightarrow> job_state \<Rightarrow> job_state" where
  "job_loop job [] state = state"
| "job_loop job (t # ts) state = job_loop job ts (job_tick job t state)"

subsection \<open>The grid of closes\<close>

lemma next_close_grid:
  assumes "0 < m" and "m dvd 60"
  shows "next_candle_close m offset now =
    (now div (m * usec_per_min) + 1) * (m * usec_per_min) + offset * usec_per_sec"
proof -
  obtain k where k: "60 = m * k" using assms(2) by (elim dvdE)
  have kp: "0 < k" using assms(1) k by (metis zero_less_mult_pos zero_less_numeral)
  define minute where "minute = now div usec_per_min"
  have hour: "at_hour now (hour_of now) = now div usec_per_hour * usec_per_hour"
  proof -
    define h where "h = now div usec_per_hour"
    have day: "usec_per_day = usec_per_hour * 24" by (simp add: usec_defs)
    have "now mod usec_per_day = usec_per_hour * (h mod 24) + now mod usec_per_hour"
      unfolding day h_def by (rule zmod_zmult2_eq) simp
    moreover have "(usec_per_hour * (h mod 24) + now mod usec_per_hour) div usec_per_hour = h mod 24"
      by (simp add: usec_defs)
    moreover have "now div usec_per_day = h div 24"
      unfolding day h_def by (rule zdiv_zmult2_eq) simp
    moreover obtain d r where d: "h div 24 = d" and r: "h mod 24 = r" by blast
    ultimately have "at_hour now (hour_of now) = (d * 24 + r) * usec_per_hour"
      by (simp add: at_hour_def hour_of_def day_number_def time_of_day_def day algebra_simps)
    then show ?thesis unfolding d [symmetric] r [symmetric] by (simp only: div_mult_mod_eq h_def)
  qed
  have minutes: "minute_of now = minute mod 60"
  proof -
    have day: "usec_per_day = usec_per_min * 1440" by (simp add: usec_defs)
    have "now mod usec_per_day = usec_per_min * (minute mod 1440) + now mod usec_per_min"
      unfolding day minute_def by (rule zmod_zmult2_eq) simp
    moreover have "(usec_per_min * (minute mod 1440) + now mod usec_per_min) div usec_per_min = minute mod 1440"
      by (simp add: usec_defs)
    ultimately show ?thesis by (simp add: minute_of_def time_of_day_def mod_mod_cancel)
  qed
  have split: "now div usec_per_hour = minute div 60"
    by (simp add: minute_def usec_defs zdiv_zmult2_eq [symmetric])
  have grid: "now div (m * usec_per_min) = minute div m"
    using assms(1) by (simp add: minute_def usec_defs zdiv_zmult2_eq [symmetric] mult.commute)
  have block: "minute div m = minute div 60 * k + minute mod 60 div m"
  proof -
    have "minute div m = (minute mod 60 + (minute div 60 * k) * m) div m"
    proof -
      have "minute = minute mod 60 + minute div 60 * 60" by (simp only: mod_div_mult_eq)
      then show ?thesis by (simp only: k mult.assoc mult.commute [of k m])
    qed
    then show ?thesis using assms(1) by (simp add: add.commute)
  qed
  have "usec_per_hour = m * k * usec_per_min" using k by (simp add: usec_defs)
  then show ?thesis
    unfolding next_candle_close_def Let_def hour minutes split grid block
    by (simp add: algebra_simps)
qed

subsection \<open>Properties\<close>



text \<open>A plan made between a close and its offset skips that close: its scan is still ahead, yet the
  next run is planned one interval later.\<close>

theorem scan_inside_offset_is_skipped:
  assumes "0 < m" and "m dvd 60" and "close mod (m * usec_per_min) = 0"
    and "close \<le> now" and "now < close + offset * usec_per_sec"
    and "offset * usec_per_sec \<le> m * usec_per_min"
  shows "next_candle_close m offset now = close + offset * usec_per_sec + m * usec_per_min"
proof -
  let ?i = "m * usec_per_min"
  have i: "0 < ?i" using assms(1) by (simp add: usec_defs)
  obtain q where q: "close = ?i * q" using assms(3) by (metis dvdE dvd_eq_mod_eq_0)
  have "now div ?i = q"
    using assms(4-6) i by (intro int_div_pos_eq [of _ _ _ "now - close"]) (auto simp: q)
  then show ?thesis by (simp add: next_close_grid [OF assms(1,2)] q algebra_simps)
qed

theorem scan_inside_offset_is_skipped_witness:
  "next_candle_close 15 20 (15 * usec_per_min + 5 * usec_per_sec) = 30 * usec_per_min + 20 * usec_per_sec"
  using scan_inside_offset_is_skipped [of 15 "15 * usec_per_min" "15 * usec_per_min + 5 * usec_per_sec" 20]
  by (simp add: usec_defs)

lemma next_delay_keeps:
  "jb_running (snd (next_delay job now state)) = jb_running state"
  "jb_runs (snd (next_delay job now state)) = jb_runs state"
  "jb_failures (snd (next_delay job now state)) = jb_failures state"
  by (auto simp: next_delay_def Let_def split: option.splits)

lemma job_tick_counts:
  assumes "\<not> jb_running state"
  shows "\<not> jb_running (job_tick job t state)"
    and "jb_runs (job_tick job t state) + jb_failures (job_tick job t state) = Suc (jb_runs state + jb_failures state)"
    and "jb_last_error (job_tick job t state) =
      (case tk_outcome t of Completed \<Rightarrow> None | Raised message \<Rightarrow> Some (take 500 message))"
  using assms
  by (simp_all add: job_tick_def run_once_def Let_def next_delay_keeps split: run_outcome.split)

text \<open>A job goes on: whatever its runs raise, every tick runs it once more, the runs and the
  failures add up to the ticks, and the guard against an overlapping run is never met.\<close>

theorem job_survives_failures:
  "jb_runs (job_loop job ts (new_job_state name)) + jb_failures (job_loop job ts (new_job_state name)) = length ts
   \<and> \<not> jb_running (job_loop job ts (new_job_state name))"
proof -
  have "jb_runs (job_loop job ts state) + jb_failures (job_loop job ts state) =
      jb_runs state + jb_failures state + length ts \<and> \<not> jb_running (job_loop job ts state)"
    if "\<not> jb_running state" for state
    using that by (induction ts arbitrary: state) (simp_all add: job_tick_counts)
  from this [of "new_job_state name"] show ?thesis by (simp add: new_job_state_def)
qed

end
