(* ===== verification/News.thy ===== *)
theory News
  imports Symbols Clock
begin

text \<open>
  The economic-event filter, \<open>bot/news.py\<close>. An event keeps the fields the filter reads: title,
  country and impact as \<open>str\<close> prints them, and the moment \<open>_parse\<close> reads from its date
  (\<open>None\<close> when the date is missing or no ISO text). A fetch is \<open>None\<close> when it raises one of the
  exceptions \<open>refresh\<close> catches. The wall clock of \<open>time.time()\<close> and the moment of the check are
  separate arguments; the cache file is a field of the state.
\<close>

subsection \<open>Currencies\<close>

definition SYMBOL_CURRENCIES :: "(string \<times> string list) list" where
  "SYMBOL_CURRENCIES =
    [(''EURUSD'', [''EUR'', ''USD'']), (''GBPUSD'', [''GBP'', ''USD'']), (''USDJPY'', [''USD'', ''JPY'']),
     (''USDCHF'', [''USD'', ''CHF'']), (''USDCAD'', [''USD'', ''CAD'']), (''AUDUSD'', [''AUD'', ''USD'']),
     (''NZDUSD'', [''NZD'', ''USD'']), (''EURJPY'', [''EUR'', ''JPY'']), (''EURGBP'', [''EUR'', ''GBP'']),
     (''GBPJPY'', [''GBP'', ''JPY'']), (''AUDJPY'', [''AUD'', ''JPY'']), (''AUDCHF'', [''AUD'', ''CHF'']),
     (''CADJPY'', [''CAD'', ''JPY'']), (''XAUUSD'', [''USD'']), (''XAGUSD'', [''USD''])]"

definition currencies_for :: "string \<Rightarrow> string list" where
  "currencies_for symbol =
     (case canonical_symbol symbol of
        Some c \<Rightarrow> (case map_of SYMBOL_CURRENCIES c of
                     Some cs \<Rightarrow> cs | None \<Rightarrow> [take 3 c, drop 3 c])
      | None \<Rightarrow> (case map_of SYMBOL_CURRENCIES (alphanumeric symbol) of Some cs \<Rightarrow> cs | None \<Rightarrow> []))"

subsection \<open>The feed and its cache\<close>

record news_config =
  nc_enabled :: bool
  nc_blackout_before_minutes :: int
  nc_blackout_after_minutes :: int
  nc_impact_levels :: "string list"
  nc_cache_ttl_seconds :: real
  nc_fail_closed_without_feed :: bool

definition default_news_config :: news_config where
  "default_news_config = \<lparr> nc_enabled = True, nc_blackout_before_minutes = 30,
     nc_blackout_after_minutes = 20, nc_impact_levels = [''High''], nc_cache_ttl_seconds = 900,
     nc_fail_closed_without_feed = True \<rparr>"

record news_event =
  ne_title :: string
  ne_country :: string
  ne_impact :: string
  ne_date :: "micros option"

record news_state =
  nw_events :: "news_event list"
  nw_fetched_at :: micros
  nw_feed_available :: bool
  nw_file :: "(news_event list \<times> micros) option"

definition new_filter :: "(news_event list \<times> micros) option \<Rightarrow> news_state" where
  "new_filter file = \<lparr> nw_events = [], nw_fetched_at = 0, nw_feed_available = False, nw_file = file \<rparr>"

definition write_cache :: "bool \<Rightarrow> news_event list \<Rightarrow> micros \<Rightarrow> news_state \<Rightarrow> news_state" where
  "write_cache disk_ok events clock st = (if disk_ok then st\<lparr> nw_file := Some (events, clock) \<rparr> else st)"

definition load_cache :: "news_config \<Rightarrow> micros \<Rightarrow> news_state \<Rightarrow> news_state" where
  "load_cache config clock st =
     (if nw_events st \<noteq> [] then st
      else case nw_file st of
        None \<Rightarrow> st
      | Some (events, fetched_at) \<Rightarrow> st\<lparr> nw_events := events, nw_fetched_at := fetched_at,
          nw_feed_available := total_seconds (clock - fetched_at) < nc_cache_ttl_seconds config * 4 \<rparr>)"

definition refresh ::
  "news_config \<Rightarrow> bool \<Rightarrow> news_event list option \<Rightarrow> bool \<Rightarrow> micros \<Rightarrow> news_state \<Rightarrow> bool \<times> news_state" where
  "refresh config force fetch disk_ok clock st =
     (let fresh = (total_seconds (clock - nw_fetched_at st) < nc_cache_ttl_seconds config)
      in if nw_events st \<noteq> [] \<and> fresh \<and> \<not> force then (True, st)
         else
           (let st1 = load_cache config clock st
            in case fetch of
                 None \<Rightarrow> (nw_events st1 \<noteq> [], st1)
               | Some events \<Rightarrow> (True, write_cache disk_ok events clock
                   (st1\<lparr> nw_events := events, nw_fetched_at := clock, nw_feed_available := True \<rparr>))))"

subsection \<open>The check\<close>

datatype news_reason =
    NoCurrencies | CalendarUnavailable | FilterDisabled | Blackout string "(string \<times> string) list"

record news_verdict =
  nv_blocked :: bool
  nv_reason :: "news_reason option"
  nv_events :: "news_event list"
  nv_feed_available :: bool

text \<open>The filter of \<open>check\<close>: impact, currency and a parsed date inside the window, both ends included.\<close>

definition in_window :: "news_config \<Rightarrow> string list \<Rightarrow> micros \<Rightarrow> micros \<Rightarrow> news_event \<Rightarrow> bool" where
  "in_window config currencies start stop event =
     (ne_impact event \<in> set (nc_impact_levels config) \<and> ne_country event \<in> set currencies
      \<and> (case ne_date event of None \<Rightarrow> False | Some t \<Rightarrow> start \<le> t \<and> t \<le> stop))"

definition matching_events :: "news_config \<Rightarrow> string list \<Rightarrow> micros \<Rightarrow> news_event list \<Rightarrow> news_event list" where
  "matching_events config currencies now events =
     filter (in_window config currencies (now - nc_blackout_after_minutes config * usec_per_min)
       (now + nc_blackout_before_minutes config * usec_per_min)) events"

definition check_news ::
  "news_config \<Rightarrow> news_event list option \<Rightarrow> bool \<Rightarrow> micros \<Rightarrow> string \<Rightarrow> micros \<Rightarrow> news_state
     \<Rightarrow> news_verdict \<times> news_state" where
  "check_news config fetch disk_ok clock symbol now st =
     (let verdict = \<lambda>blocked reason events available. \<lparr> nv_blocked = blocked, nv_reason = reason,
            nv_events = events, nv_feed_available = available \<rparr>;
          currencies = currencies_for symbol
      in if \<not> nc_enabled config then (verdict False None [] True, st)
         else if currencies = [] then (verdict False (Some NoCurrencies) [] (nw_feed_available st), st)
         else
           (let (has_data, st1) = refresh config False fetch disk_ok clock st
            in if \<not> has_data then
                 (if nc_fail_closed_without_feed config
                  then (verdict True (Some CalendarUnavailable) [] False, st1)
                  else (verdict False (Some FilterDisabled) [] False, st1))
               else
                 (let matches = matching_events config currencies now (nw_events st1)
                  in if matches \<noteq> [] then
                       (verdict True (Some (Blackout symbol (map (\<lambda>e. (ne_country e, ne_title e)) (take 3 matches))))
                          matches (nw_feed_available st1), st1)
                     else (verdict False None [] (nw_feed_available st1), st1))))"

text \<open>The dashboard's list; \<open>minutesAway\<close> is derived from the moment kept here.\<close>

definition upcoming ::
  "news_config \<Rightarrow> news_event list option \<Rightarrow> bool \<Rightarrow> micros \<Rightarrow> string list \<Rightarrow> int \<Rightarrow> micros \<Rightarrow> bool
     \<Rightarrow> news_state \<Rightarrow> (micros \<times> news_event) list \<times> news_state" where
  "upcoming config fetch disk_ok clock symbols hours now do_refresh st =
     (let wanted = concat (map currencies_for symbols);
          st1 = (if do_refresh then snd (refresh config False fetch disk_ok clock st) else st);
          shown = List.map_filter (\<lambda>e.
            if in_window config wanted now (now + hours * usec_per_hour) e
            then map_option (\<lambda>t. (t, e)) (ne_date e) else None) (nw_events st1)
      in (take 20 (sort_key fst shown), st1))"

subsection \<open>What a refresh holds\<close>

lemma refresh_cases:
  obtains (fresh) "refresh config force fetch disk_ok clock st = (True, st)"
      "nw_events st \<noteq> []" "total_seconds (clock - nw_fetched_at st) < nc_cache_ttl_seconds config" "\<not> force"
  | (fetched) events st' where "refresh config force fetch disk_ok clock st = (True, st')"
      "fetch = Some events" "nw_events st' = events" "nw_fetched_at st' = clock" "nw_feed_available st'"
  | (down) st' where "refresh config force fetch disk_ok clock st = (nw_events st' \<noteq> [], st')"
      "fetch = None" "st' = load_cache config clock st"
proof (cases "nw_events st \<noteq> [] \<and> total_seconds (clock - nw_fetched_at st) < nc_cache_ttl_seconds config \<and> \<not> force")
  case True
  then show ?thesis by (intro fresh) (simp_all add: refresh_def)
next
  case False
  show ?thesis
  proof (cases fetch)
    case None
    with False show ?thesis by (intro down) (auto simp: refresh_def Let_def)
  next
    case (Some events)
    with False show ?thesis
      by (intro fetched [of "snd (refresh config force fetch disk_ok clock st)" events])
        (auto simp: refresh_def Let_def write_cache_def)
  qed
qed

lemma currencies_known: "canonical_symbol symbol \<noteq> None \<Longrightarrow> currencies_for symbol \<noteq> []"
  by (auto simp: currencies_for_def SYMBOL_CURRENCIES_def split: option.splits if_splits)

lemma matching_mem:
  "e \<in> set (matching_events config currencies now events) \<longleftrightarrow>
     e \<in> set events \<and> ne_impact e \<in> set (nc_impact_levels config) \<and> ne_country e \<in> set currencies
     \<and> (\<exists>t. ne_date e = Some t \<and> t - now \<le> nc_blackout_before_minutes config * usec_per_min
        \<and> now - t \<le> nc_blackout_after_minutes config * usec_per_min)"
  by (auto simp: matching_events_def in_window_def split: option.splits)

subsection \<open>Properties\<close>

text \<open>C36. With the filter on, a symbol that resolves to a currency pair is blocked exactly when the
  calendar holds a high-impact event of one of its currencies from the configured minutes before
  the check to the configured minutes after it, or when no calendar is held and the filter fails
  closed.\<close>

theorem news_gate_exact:
  assumes "nc_enabled config" and "canonical_symbol symbol \<noteq> None"
  shows "nv_blocked (fst (check_news config fetch disk_ok clock symbol now st)) \<longleftrightarrow>
    (let (held, st') = refresh config False fetch disk_ok clock st in
     if held then
       (\<exists>e t. e \<in> set (nw_events st') \<and> ne_impact e \<in> set (nc_impact_levels config)
          \<and> ne_country e \<in> set (currencies_for symbol) \<and> ne_date e = Some t
          \<and> t - now \<le> nc_blackout_before_minutes config * usec_per_min
          \<and> now - t \<le> nc_blackout_after_minutes config * usec_per_min)
     else nc_fail_closed_without_feed config)"
proof (cases "refresh config False fetch disk_ok clock st")
  case (Pair held st')
  have "matching_events config (currencies_for symbol) now (nw_events st') \<noteq> [] \<longleftrightarrow>
      (\<exists>e. e \<in> set (matching_events config (currencies_for symbol) now (nw_events st')))"
    by (cases "matching_events config (currencies_for symbol) now (nw_events st')") auto
  with Pair assms currencies_known [OF assms(2)] show ?thesis
    by (auto simp: check_news_def Let_def matching_mem)
qed

definition payrolls :: news_event where
  "payrolls = \<lparr> ne_title = ''NFP'', ne_country = ''USD'', ne_impact = ''High'',
     ne_date = Some (20000 * usec_per_day) \<rparr>"

theorem news_gate_exact_witness:
  "nv_blocked (fst (check_news default_news_config (Some [payrolls]) True 0 ''EURUSD.R''
     (20000 * usec_per_day - 1800000000) (new_filter None)))
   \<and> \<not> nv_blocked (fst (check_news default_news_config (Some [payrolls]) True 0 ''EURUSD.R''
     (20000 * usec_per_day - 1800000001) (new_filter None)))"
proof -
  have on: "nc_enabled default_news_config" by (simp add: default_news_config_def)
  have pair: "canonical_symbol ''EURUSD.R'' \<noteq> None" by code_simp
  have usd: "currencies_for ''EURUSD.R'' = [''EUR'', ''USD'']" by code_simp
  have r: "refresh default_news_config False (Some [payrolls]) True 0 (new_filter None) =
      (True, \<lparr> nw_events = [payrolls], nw_fetched_at = 0, nw_feed_available = True,
        nw_file = Some ([payrolls], 0) \<rparr>)"
    by (simp add: refresh_def Let_def new_filter_def load_cache_def write_cache_def)
  show ?thesis
    unfolding news_gate_exact [OF on pair] usd r
    by (simp add: payrolls_def default_news_config_def usec_defs)
qed

text \<open>An old calendar counts as a calendar: while the feed is down, events loaded from the cache
  file hold the gate open at any age, so long as none of them is in the window, although the filter
  is set to fail closed without a feed.\<close>

theorem stale_calendar_opens_gate:
  assumes "nc_enabled config" and "canonical_symbol symbol \<noteq> None"
    and "events \<noteq> []" and "matching_events config (currencies_for symbol) now events = []"
  shows "\<not> nv_blocked (fst (check_news config None disk_ok clock symbol now
    (new_filter (Some (events, fetched_at)))))"
  using assms currencies_known [OF assms(2)]
  by (simp add: check_news_def Let_def refresh_def new_filter_def load_cache_def)

theorem stale_calendar_opens_gate_witness:
  "nc_fail_closed_without_feed default_news_config
   \<and> \<not> nv_blocked (fst (check_news default_news_config None True (20365 * usec_per_day) ''EURUSD''
        (20365 * usec_per_day) (new_filter (Some ([payrolls], 20000 * usec_per_day)))))"
proof -
  have usd: "currencies_for ''EURUSD'' = [''EUR'', ''USD'']" by code_simp
  have quiet: "matching_events default_news_config (currencies_for ''EURUSD'') (20365 * usec_per_day) [payrolls] = []"
    unfolding usd
    by (simp add: matching_events_def in_window_def payrolls_def default_news_config_def usec_defs)
  have "nc_enabled default_news_config" by (simp add: default_news_config_def)
  moreover have "canonical_symbol ''EURUSD'' \<noteq> None" by code_simp
  ultimately show ?thesis
    using stale_calendar_opens_gate [OF _ _ _ quiet] by (simp add: default_news_config_def)
qed

end
