(* ===== verification/Provider.thy ===== *)
theory Provider
  imports Market_Data Sizing Errors Config "HOL-Library.AList"
begin

text \<open>
  The candle provider, \<open>bot/marketdata/provider.py\<close>: validated series per symbol and timeframe with
  an expiry on the monotonic clock, and the all-or-nothing read of several timeframes. The broker's
  answer to a request of candles is a value or an exception; the wall clock (microseconds) and the
  monotonic clock (seconds) are arguments. \<open>health\<close> is a report and left out.
\<close>

definition MIN_CACHE_SECONDS :: real where "MIN_CACHE_SECONDS = 20"
definition PUBLISH_GRACE_SECONDS :: real where "PUBLISH_GRACE_SECONDS = 5"

definition LIVE_LOOKBACK :: "(string \<times> nat) list" where
  "LIVE_LOOKBACK = [(''M15'', 400), (''H1'', 300)]"

definition DEFAULT_LOOKBACK :: nat where "DEFAULT_LOOKBACK = 300"

definition live_lookback :: "string \<Rightarrow> nat" where
  "live_lookback timeframe =
     (case map_of LIVE_LOOKBACK (upper timeframe) of None \<Rightarrow> DEFAULT_LOOKBACK | Some n \<Rightarrow> n)"

record series =
  pv_symbol :: string
  pv_timeframe :: string
  pv_candles :: "candle list"
  pv_report :: validation_report

type_synonym series_cache = "((string \<times> string) \<times> (real \<times> series)) list"

type_synonym candle_source = "instrument_spec \<Rightarrow> string \<Rightarrow> nat \<Rightarrow> exn + candle_row list"

text \<open>\<open>None\<close> is the \<open>KeyError\<close> of an unknown timeframe, which a validated series never has.\<close>

definition seconds_until_stale :: "candle list \<Rightarrow> string \<Rightarrow> micros \<Rightarrow> real option" where
  "seconds_until_stale candles timeframe now =
     (case map_of TIMEFRAME_MINUTES (upper timeframe) of
        None \<Rightarrow> None
      | Some m \<Rightarrow>
          (let bar_seconds = m * 60
           in Some (if candles = [] then MIN_CACHE_SECONDS
             else
               (let next_close = close_time (last candles) + bar_seconds * usec_per_sec;
                    remaining = total_seconds (next_close - now) + PUBLISH_GRACE_SECONDS
                in max MIN_CACHE_SECONDS (min (of_int bar_seconds) remaining)))))"

definition series_exn :: "series_error \<Rightarrow> exn" where
  "series_exn e = \<lparr> exn_class = (case e of StaleSeries \<Rightarrow> StaleDataError | _ \<Rightarrow> MarketDataError),
     exn_message = ''series refused'' \<rparr>"

definition data_error :: "string \<Rightarrow> exn" where
  "data_error message = \<lparr> exn_class = MarketDataError, exn_message = message \<rparr>"

definition DEFAULT_MAX_AGE_MULTIPLE :: real where "DEFAULT_MAX_AGE_MULTIPLE = 3"
definition DEFAULT_MAX_GAP_RATIO :: real where "DEFAULT_MAX_GAP_RATIO = 5 / 100"

definition fetch_series ::
  "smc_config \<Rightarrow> candle_source \<Rightarrow> instrument_spec \<Rightarrow> string \<Rightarrow> nat \<Rightarrow> micros \<Rightarrow> exn + series" where
  "fetch_series smc source spec timeframe count now =
     (case source spec timeframe count of
        Inl e \<Rightarrow> Inl e
      | Inr raw \<Rightarrow>
          if raw = [] then Inl (data_error ''broker returned no candles'')
          else
            (case to_candles raw of
               Inl _ \<Rightarrow> Inl (data_error ''malformed candle data'')
             | Inr parsed \<Rightarrow>
                 (case validate_series parsed timeframe (mc_min_candles smc) now DEFAULT_MAX_AGE_MULTIPLE
                         DEFAULT_MAX_GAP_RATIO of
                    Inl e \<Rightarrow> Inl (series_exn e)
                  | Inr (candles, report) \<Rightarrow> Inr \<lparr> pv_symbol = sp_symbol spec, pv_timeframe = timeframe,
                      pv_candles = candles, pv_report = report \<rparr>)))"

definition provider_series ::
  "smc_config \<Rightarrow> candle_source \<Rightarrow> instrument_spec \<Rightarrow> string \<Rightarrow> nat \<Rightarrow> micros \<Rightarrow> bool \<Rightarrow> real
     \<Rightarrow> series_cache \<Rightarrow> (exn + series) \<times> series_cache" where
  "provider_series smc source spec timeframe count now force ticks cache =
     (let tf = upper timeframe; key = (sp_symbol spec, tf);
          fetched =
            (case fetch_series smc source spec tf count now of
               Inl e \<Rightarrow> (Inl e, cache)
             | Inr s \<Rightarrow>
                 (case seconds_until_stale (pv_candles s) tf now of
                    None \<Rightarrow> (Inl \<lparr> exn_class = OtherException, exn_message = ''KeyError'' \<rparr>, cache)
                  | Some ttl \<Rightarrow> (Inr s, AList.update key (ticks + ttl, s) cache)))
      in case map_of cache key of
           Some (expires_at, s) \<Rightarrow> if \<not> force \<and> ticks < expires_at then (Inr s, cache) else fetched
         | None \<Rightarrow> fetched)"

fun multi_timeframe ::
  "smc_config \<Rightarrow> candle_source \<Rightarrow> instrument_spec \<Rightarrow> string list \<Rightarrow> micros \<Rightarrow> real
     \<Rightarrow> series_cache \<Rightarrow> (exn + (string \<times> series) list) \<times> series_cache" where
  "multi_timeframe smc source spec [] now ticks cache = (Inr [], cache)"
| "multi_timeframe smc source spec (tf # tfs) now ticks cache =
     (case provider_series smc source spec tf (live_lookback tf) now False ticks cache of
        (Inl e, cache1) \<Rightarrow> (Inl e, cache1)
      | (Inr s, cache1) \<Rightarrow>
          (case multi_timeframe smc source spec tfs now ticks cache1 of
             (Inl e, cache2) \<Rightarrow> (Inl e, cache2)
           | (Inr rest, cache2) \<Rightarrow> (Inr ((tf, s) # rest), cache2)))"

definition invalidate :: "string option \<Rightarrow> series_cache \<Rightarrow> series_cache" where
  "invalidate symbol cache =
     (case symbol of None \<Rightarrow> [] | Some s \<Rightarrow> filter (\<lambda>((sym, _), _). sym \<noteq> s) cache)"

subsection \<open>What the cache holds\<close>

text \<open>An entry was validated at some moment of the past, under the configuration in force, and its
  expiry was computed then.\<close>

definition entry_ok :: "smc_config \<Rightarrow> real \<Rightarrow> (string \<times> string) \<times> (real \<times> series) \<Rightarrow> bool" where
  "entry_ok smc ticks entry =
     (let ((symbol, tf), expires_at, s) = entry in
      pv_symbol s = symbol \<and> pv_timeframe s = tf
      \<and> (\<exists>parsed then_ticks then_now ttl.
           validate_series parsed tf (mc_min_candles smc) then_now DEFAULT_MAX_AGE_MULTIPLE DEFAULT_MAX_GAP_RATIO
             = Inr (pv_candles s, pv_report s)
           \<and> seconds_until_stale (pv_candles s) tf then_now = Some ttl
           \<and> expires_at = then_ticks + ttl \<and> then_ticks \<le> ticks))"

definition cache_ok :: "smc_config \<Rightarrow> real \<Rightarrow> series_cache \<Rightarrow> bool" where
  "cache_ok smc ticks cache = (\<forall>entry \<in> set cache. entry_ok smc ticks entry)"

lemma cache_ok_Nil: "cache_ok smc ticks []"
  by (simp add: cache_ok_def)

lemma cache_ok_later: "cache_ok smc ticks cache \<Longrightarrow> ticks \<le> ticks' \<Longrightarrow> cache_ok smc ticks' cache"
  by (fastforce simp: cache_ok_def entry_ok_def)

lemma cache_ok_invalidate: "cache_ok smc ticks cache \<Longrightarrow> cache_ok smc ticks (invalidate symbol cache)"
  by (auto simp: cache_ok_def invalidate_def split: option.split)

lemma set_update_subset: "set (AList.update k v xs) \<subseteq> insert (k, v) (set xs)"
  by (induction xs) auto

lemma fetch_series_Inr:
  assumes "fetch_series smc source spec tf count now = Inr s"
  obtains parsed where
    "validate_series parsed tf (mc_min_candles smc) now DEFAULT_MAX_AGE_MULTIPLE DEFAULT_MAX_GAP_RATIO
       = Inr (pv_candles s, pv_report s)"
    and "pv_symbol s = sp_symbol spec" and "pv_timeframe s = tf"
  using assms by (auto simp: fetch_series_def split: sum.splits if_splits)

lemma provider_series_cases:
  assumes "provider_series smc source spec timeframe count now force ticks cache = (Inr s, cache')"
  obtains (cached) expires_at where "cache' = cache"
      "map_of cache (sp_symbol spec, upper timeframe) = Some (expires_at, s)" "ticks < expires_at"
  | (fetched) ttl where "fetch_series smc source spec (upper timeframe) count now = Inr s"
      "seconds_until_stale (pv_candles s) (upper timeframe) now = Some ttl"
      "cache' = AList.update (sp_symbol spec, upper timeframe) (ticks + ttl, s) cache"
  using assms by (auto simp: provider_series_def Let_def split: sum.splits option.splits if_splits)

lemma provider_series_failed:
  "provider_series smc source spec timeframe count now force ticks cache = (Inl e, cache') \<Longrightarrow> cache' = cache"
  by (auto simp: provider_series_def Let_def split: sum.splits option.splits if_splits)

lemma provider_series_ok:
  assumes "cache_ok smc ticks cache"
    and "provider_series smc source spec timeframe count now force ticks cache = (r, cache')"
  shows "cache_ok smc ticks cache'"
    and "case r of Inl _ \<Rightarrow> True | Inr s \<Rightarrow> \<exists>expires_at.
      entry_ok smc ticks ((sp_symbol spec, upper timeframe), (expires_at, s)) \<and> ticks < expires_at"
proof -
  have positive: "0 < ttl" if "seconds_until_stale cs tf t = Some ttl" for cs tf t ttl
    using that by (auto simp: seconds_until_stale_def MIN_CACHE_SECONDS_def Let_def split: option.splits if_splits)
  have "cache_ok smc ticks cache' \<and> (case r of Inl _ \<Rightarrow> True | Inr s \<Rightarrow> \<exists>expires_at.
      entry_ok smc ticks ((sp_symbol spec, upper timeframe), (expires_at, s)) \<and> ticks < expires_at)"
  proof (cases r)
    case (Inl e)
    with assms provider_series_failed show ?thesis by fastforce
  next
    case (Inr s)
    from assms(2) [unfolded Inr] show ?thesis
    proof (cases rule: provider_series_cases)
      case (cached expires_at)
      with assms(1) Inr show ?thesis by (auto simp: cache_ok_def dest: map_of_SomeD)
    next
      case (fetched ttl)
      from fetched(1) obtain parsed where
        "validate_series parsed (upper timeframe) (mc_min_candles smc) now DEFAULT_MAX_AGE_MULTIPLE
           DEFAULT_MAX_GAP_RATIO = Inr (pv_candles s, pv_report s)"
        "pv_symbol s = sp_symbol spec" "pv_timeframe s = upper timeframe"
        by (rule fetch_series_Inr)
      with fetched(2) have "entry_ok smc ticks ((sp_symbol spec, upper timeframe), (ticks + ttl, s))"
        by (auto simp: entry_ok_def)
      with assms(1) fetched(3) positive [OF fetched(2)] Inr show ?thesis
        using set_update_subset [of "(sp_symbol spec, upper timeframe)" "(ticks + ttl, s)" cache]
        by (auto simp: cache_ok_def)
    qed
  qed
  then show "cache_ok smc ticks cache'"
    and "case r of Inl _ \<Rightarrow> True | Inr s \<Rightarrow> \<exists>expires_at.
      entry_ok smc ticks ((sp_symbol spec, upper timeframe), (expires_at, s)) \<and> ticks < expires_at"
    by simp_all
qed

subsection \<open>Properties\<close>

text \<open>Several timeframes are read as a unit: an answer has one series for every timeframe asked
  for, in that order, each validated under the configuration and not expired; the cache stays
  sound whatever the broker answers.\<close>

theorem timeframes_all_or_nothing:
  assumes "cache_ok smc ticks cache"
    and "multi_timeframe smc source spec tfs now ticks cache = (Inr result, cache')"
  shows "map fst result = tfs \<and> cache_ok smc ticks cache'
    \<and> list_all (\<lambda>(tf, s). \<exists>expires_at. ticks < expires_at
        \<and> entry_ok smc ticks ((sp_symbol spec, upper tf), (expires_at, s))) result"
  using assms
proof (induction smc source spec tfs now ticks cache arbitrary: result cache' rule: multi_timeframe.induct)
  case (2 smc source spec tf tfs now ticks cache)
  obtain s cache1 rest where
    step: "provider_series smc source spec tf (live_lookback tf) now False ticks cache = (Inr s, cache1)"
    and tail: "multi_timeframe smc source spec tfs now ticks cache1 = (Inr rest, cache')"
    and result: "result = (tf, s) # rest"
    using "2.prems"(2) by (auto split: prod.splits sum.splits)
  note ok = provider_series_ok [OF "2.prems"(1) step]
  show ?case
    using "2.IH" [OF step [symmetric] refl ok(1) tail] ok(2) by (auto simp: result)
qed simp


subsection \<open>One closed bar\<close>

definition one_bar :: candle_row where
  "one_bar = \<lparr> row_timestamp = TsDatetime 0, row_open = Finite 2, row_high = Finite 3, row_low = Finite 1,
     row_close = Finite 2, row_volume = None, row_timeframe = Some ''M15'' \<rparr>"

definition one_bar_config :: smc_config where
  "one_bar_config = default_smc_config\<lparr> mc_min_candles := 1 \<rparr>"

definition one_bar_series :: series where
  "one_bar_series = \<lparr> pv_symbol = ''EURUSD'', pv_timeframe = ''M15'',
     pv_candles = [\<lparr> c_timestamp = 0, c_open = 2, c_high = 3, c_low = 1, c_close = 2, c_volume = 0,
       c_timeframe = ''M15'' \<rparr>],
     pv_report = \<lparr> vr_timeframe = ''M15'', vr_accepted = 1, vr_dropped_forming = 0, vr_dropped_duplicate = 0,
       vr_dropped_invalid = 0, vr_gaps = 0, vr_newest_close = 900000000, vr_age_minutes = 0 \<rparr> \<rparr>"

lemma upper_m15: "upper ''M15'' = ''M15''"
  by code_simp

lemma one_bar_fetched:
  "provider_series one_bar_config (\<lambda>_ _ _. Inr [one_bar]) sample_spec ''M15'' n (15 * usec_per_min) False 100 [] =
     (Inr one_bar_series, [((''EURUSD'', ''M15''), (1000, one_bar_series))])"
proof -
  let ?c = "\<lparr> c_timestamp = 0, c_open = 2, c_high = 3, c_low = 1, c_close = 2, c_volume = 0,
       c_timeframe = ''M15'' \<rparr> :: candle"
  have bar: "to_candles [one_bar] = Inr [?c]"
    by (simp add: one_bar_def from_mapping_def read_timestamp_def read_number_def read_volume_def
        bind_err_def upper_m15 Let_def TIMEFRAME_MINUTES_def)
  have closed: "close_time ?c = 900000000"
    by (simp add: close_time_def candle_minutes_def TIMEFRAME_MINUTES_def usec_defs)
  have valid: "validate_series [?c] ''M15'' 1 900000000 DEFAULT_MAX_AGE_MULTIPLE DEFAULT_MAX_GAP_RATIO =
      Inr ([?c], pv_report one_bar_series)"
    by (simp add: validate_series_def upper_m15 closed one_bar_series_def TIMEFRAME_MINUTES_def total_seconds_def
        candle_range_def DEFAULT_MAX_AGE_MULTIPLE_def DEFAULT_MAX_GAP_RATIO_def Let_def)
  have fetched: "fetch_series one_bar_config (\<lambda>_ _ _. Inr [one_bar]) sample_spec ''M15'' n 900000000 = Inr one_bar_series"
    by (simp add: fetch_series_def bar [unfolded to_candles.simps] one_bar_config_def
        valid [unfolded One_nat_def]) (simp add: one_bar_series_def sample_spec_def)
  have ttl: "seconds_until_stale (pv_candles one_bar_series) ''M15'' 900000000 = Some 900"
    by (simp add: seconds_until_stale_def upper_m15 TIMEFRAME_MINUTES_def one_bar_series_def closed usec_defs
        total_seconds_def MIN_CACHE_SECONDS_def PUBLISH_GRACE_SECONDS_def Let_def)
  show ?thesis
    by (simp add: provider_series_def upper_m15 fetched ttl usec_defs) (simp add: sample_spec_def)
qed

theorem timeframes_all_or_nothing_witness:
  "\<exists>result cache'. multi_timeframe one_bar_config (\<lambda>_ _ _. Inr [one_bar]) sample_spec [''M15'']
       (15 * usec_per_min) 100 [] = (Inr result, cache')
     \<and> map fst result = [''M15''] \<and> cache_ok one_bar_config 100 cache'"
proof -
  have r: "multi_timeframe one_bar_config (\<lambda>_ _ _. Inr [one_bar]) sample_spec [''M15'']
       (15 * usec_per_min) 100 [] = (Inr [(''M15'', one_bar_series)], [((''EURUSD'', ''M15''), (1000, one_bar_series))])"
    by (simp add: one_bar_fetched)
  from timeframes_all_or_nothing [OF cache_ok_Nil r] r show ?thesis by (intro exI conjI) (assumption, simp_all)
qed


end
