(* ===== verification/Journal.thy ===== *)
theory Journal
  imports Store_Stats
begin

text \<open>
  The decision journal, \<open>DecisionJournal\<close> of \<open>bot/storage/repositories.py\<close>, and its reports. Rows
  are in insertion order; the payload and the version stamp of a row are left out. A report over a
  number of days gets the cutoff moment as its argument. Groups come in the order of their first
  row, which the SQL leaves open.
\<close>

record decision_row =
  de_scan_id :: string
  de_symbol :: string
  de_stage :: string
  de_outcome :: string
  de_reason :: "string option"
  de_created_at :: micros

type_synonym journal = "decision_row list"

definition journal_record ::
  "journal \<Rightarrow> string \<Rightarrow> string \<Rightarrow> string \<Rightarrow> string \<Rightarrow> string option \<Rightarrow> micros \<Rightarrow> journal" where
  "journal_record rows scan_id symbol stage outcome reason now =
     rows @ [\<lparr> de_scan_id = scan_id, de_symbol = symbol, de_stage = stage, de_outcome = outcome,
       de_reason = reason, de_created_at = now \<rparr>]"

definition newest_first :: "journal \<Rightarrow> journal" where
  "newest_first rows = sort_key (\<lambda>r. - de_created_at r) rows"

definition journal_recent :: "journal \<Rightarrow> nat \<Rightarrow> string option \<Rightarrow> journal" where
  "journal_recent rows limit symbol =
     take limit (newest_first
       (if truthy_str symbol then filter (\<lambda>r. Some (de_symbol r) = symbol) rows else rows))"

definition latest_scan :: "journal \<Rightarrow> journal" where
  "latest_scan rows =
     (case newest_first rows of
        [] \<Rightarrow> []
      | r # _ \<Rightarrow> sort_key de_created_at (filter (\<lambda>d. de_scan_id d = de_scan_id r) rows))"

subsection \<open>Counting by group\<close>

text \<open>\<open>d[key] = d.get(key, 0) + n\<close>\<close>

fun bump :: "'k \<Rightarrow> nat \<Rightarrow> ('k \<times> nat) list \<Rightarrow> ('k \<times> nat) list" where
  "bump k n [] = [(k, n)]"
| "bump k n ((k', m) # kvs) = (if k' = k then (k, m + n) # kvs else (k', m) # bump k n kvs)"

definition tally :: "('k \<times> nat) list \<Rightarrow> ('k \<times> nat) list" where
  "tally kns = fold (\<lambda>(k, n). bump k n) kns []"

definition group_count :: "('r \<Rightarrow> 'k) \<Rightarrow> 'r list \<Rightarrow> ('k \<times> nat) list" where
  "group_count key rows = tally (map (\<lambda>r. (key r, 1)) rows)"

definition count_of :: "('k \<times> nat) list \<Rightarrow> 'k \<Rightarrow> nat" where
  "count_of kns k = (case map_of kns k of None \<Rightarrow> 0 | Some n \<Rightarrow> n)"

definition total_count :: "('k \<times> nat) list \<Rightarrow> nat" where
  "total_count kns = sum_list (map snd kns)"

definition rejection_histogram :: "journal \<Rightarrow> micros \<Rightarrow> ((string \<times> string) \<times> nat) list" where
  "rejection_histogram rows cutoff =
     sort_key (\<lambda>(_, n). - int n) (group_count (\<lambda>r. (de_stage r, de_outcome r))
       (filter (\<lambda>r. de_created_at r \<ge> cutoff) rows))"

subsection \<open>The stem of a reason\<close>

definition is_digit :: "char \<Rightarrow> bool" where
  "is_digit c = (48 \<le> char_code c \<and> char_code c \<le> 57)"

text \<open>The length of the match of \<open>\d+(?:[.,]\d+)?%?\<close> at a digit.\<close>

definition number_length :: "string \<Rightarrow> nat" where
  "number_length cs =
     (let whole = length (takeWhile is_digit cs);
          rest = drop whole cs;
          fraction = (case rest of [] \<Rightarrow> 0
            | c # ds \<Rightarrow> if (c = CHR ''.'' \<or> c = CHR '','') \<and> takeWhile is_digit ds \<noteq> []
                then Suc (length (takeWhile is_digit ds)) else 0);
          percent = (case drop fraction rest of [] \<Rightarrow> 0 | c # _ \<Rightarrow> if c = CHR ''%'' then 1 else 0)
      in whole + fraction + percent)"

text \<open>\<open>_NUMBER.sub("#", s)\<close>: \<open>skip\<close> counts the characters of a match still to drop, \<open>after\<close> says
  whether the character before is a letter or a digit.\<close>

fun fold_numbers :: "nat \<Rightarrow> bool \<Rightarrow> string \<Rightarrow> string" where
  "fold_numbers skip after [] = []"
| "fold_numbers (Suc k) after (c # cs) = fold_numbers k (is_alnum c) cs"
| "fold_numbers 0 after (c # cs) =
     (if is_digit c \<and> \<not> after
      then CHR ''#'' # fold_numbers (number_length (c # cs) - 1) (is_alnum c) cs
      else c # fold_numbers 0 (is_alnum c) cs)"

definition reason_stem :: "string \<Rightarrow> string" where
  "reason_stem reason = take 160 (fold_numbers 0 False (strip reason))"

text \<open>Rows without a reason are left out by the query; an empty stage prints as a question mark.\<close>

definition folded_reasons :: "journal \<Rightarrow> micros \<Rightarrow> ((string \<times> string) \<times> nat) list" where
  "folded_reasons rows cutoff =
     tally (map (\<lambda>((stage, reason), n). ((if stage = [] then ''?'' else stage, reason_stem reason), n))
       (group_count (\<lambda>r. (de_stage r, the (de_reason r)))
         (filter (\<lambda>r. de_created_at r \<ge> cutoff \<and> de_outcome r \<noteq> ''CANDIDATE'' \<and> de_reason r \<noteq> None) rows)))"

definition blocker_histogram :: "journal \<Rightarrow> micros \<Rightarrow> nat \<Rightarrow> (string \<times> string \<times> nat \<times> real) list" where
  "blocker_histogram rows cutoff limit =
     (let folded = folded_reasons rows cutoff;
          ranked = take limit (sort_key (\<lambda>(_, n). - int n) folded);
          total = total_count folded
      in map (\<lambda>((stage, reason), n). (stage, reason, n,
           if total \<noteq> 0 then py_round 4 (real n / real total) else 0)) ranked)"

subsection \<open>The funnel\<close>

definition STAGES :: "string list" where
  "STAGES = [''CONFIG'', ''NEWS'', ''DATA'', ''SMC'', ''SCORE'', ''RISK'', ''AI'', ''CANDIDATE'']"

record funnel_stage =
  fs_stage :: string
  fs_reached :: int
  fs_lost :: nat
  fs_share :: real

record funnel_report =
  fu_evaluations :: nat
  fu_candidates :: nat
  fu_stages :: "funnel_stage list"
  fu_narrowest :: "string option"
  fu_unknown_stages :: "(string \<times> nat) list"
  fu_top_reasons :: "(string \<times> string \<times> nat \<times> real) list"

definition funnel_rows :: "journal \<Rightarrow> micros \<Rightarrow> journal" where
  "funnel_rows rows cutoff = filter (\<lambda>r. de_created_at r \<ge> cutoff \<and> de_symbol r \<noteq> ''*'') rows"

definition stage_label :: "decision_row \<Rightarrow> string" where
  "stage_label r = (if de_stage r = [] then ''?'' else de_stage r)"

fun walk_stages :: "(string \<times> nat) list \<Rightarrow> nat \<Rightarrow> int \<Rightarrow> string list \<Rightarrow> funnel_stage list" where
  "walk_stages died evaluations remaining [] =
     [\<lparr> fs_stage = ''CANDIDATE'', fs_reached = remaining, fs_lost = 0, fs_share = 0 \<rparr>]"
| "walk_stages died evaluations remaining (stage # stages) =
     (if stage = ''CANDIDATE'' then walk_stages died evaluations remaining stages
      else
        (let lost = count_of died stage
         in \<lparr> fs_stage = stage, fs_reached = remaining, fs_lost = lost,
              fs_share = (if evaluations \<noteq> 0 then py_round 4 (real lost / real evaluations) else 0) \<rparr>
            # walk_stages died evaluations (remaining - int lost) stages))"

fun narrowest_stage :: "funnel_stage option \<Rightarrow> funnel_stage list \<Rightarrow> funnel_stage option" where
  "narrowest_stage best [] = best"
| "narrowest_stage best (s # ss) =
     narrowest_stage (case best of None \<Rightarrow> Some s
       | Some b \<Rightarrow> if fs_lost s > fs_lost b then Some s else Some b) ss"

definition funnel :: "journal \<Rightarrow> micros \<Rightarrow> funnel_report" where
  "funnel rows cutoff =
     (let counted = group_count stage_label (funnel_rows rows cutoff);
          survived_all = count_of counted ''CANDIDATE'';
          died = filter (\<lambda>(stage, _). stage \<noteq> ''CANDIDATE'') counted;
          total = total_count died + survived_all;
          stages = walk_stages died total (int total) STAGES
      in \<lparr> fu_evaluations = total, fu_candidates = survived_all, fu_stages = stages,
           fu_narrowest = (case narrowest_stage None (filter (\<lambda>s. fs_stage s \<noteq> ''CANDIDATE'') stages) of
              None \<Rightarrow> None | Some s \<Rightarrow> if fs_lost s \<noteq> 0 then Some (fs_stage s) else None),
           fu_unknown_stages = filter (\<lambda>(stage, _). stage \<notin> set STAGES) died,
           fu_top_reasons = blocker_histogram rows cutoff 5 \<rparr>)"

subsection \<open>Sums of groups\<close>

lemma bump_keys: "fst ` set (bump k n kns) = insert k (fst ` set kns)"
  by (induction k n kns rule: bump.induct) auto

lemma bump_distinct: "distinct (map fst kns) \<Longrightarrow> distinct (map fst (bump k n kns))"
proof (induction k n kns rule: bump.induct)
  case (2 k n k' m kvs)
  then show ?case using bump_keys [of k n kvs] by auto
qed simp

lemma bump_total: "total_count (bump k n kns) = total_count kns + n"
  by (induction k n kns rule: bump.induct) (simp_all add: total_count_def)

lemma tally_keeps:
  "total_count (fold (\<lambda>(k, n). bump k n) kns acc) = total_count acc + total_count kns"
  "distinct (map fst acc) \<Longrightarrow> distinct (map fst (fold (\<lambda>(k, n). bump k n) kns acc))"
  by (induction kns arbitrary: acc)
    (auto simp: bump_total bump_distinct, simp add: total_count_def, simp add: total_count_def)

lemma group_count_total: "total_count (group_count key rows) = length rows"
  by (simp add: group_count_def tally_def tally_keeps(1))
    (induction rows; simp add: total_count_def)

lemma group_count_distinct: "distinct (map fst (group_count key rows))"
  by (simp add: group_count_def tally_def tally_keeps(2))

text \<open>With distinct keys the count of a key is the sum over its entries, so the counts of a list of
  distinct keys and of the entries outside it add up to the total.\<close>

lemma count_of_filter:
  "distinct (map fst kns) \<Longrightarrow> total_count (filter (\<lambda>(j, _). j = k) kns) = count_of kns k"
proof (induction kns)
  case (Cons a kns)
  obtain j n where a: "a = (j, n)" by (cases a)
  have "filter (\<lambda>(i, _). i = j) kns = []" using Cons.prems by (auto simp: a filter_empty_conv image_iff)
  then show ?case using Cons by (auto simp: a total_count_def count_of_def)
qed (simp add: total_count_def count_of_def)

lemma total_split:
  "total_count kns = total_count (filter P kns) + total_count (filter (\<lambda>x. \<not> P x) kns)"
  by (induction kns) (auto simp: total_count_def)

lemma total_outside:
  assumes "distinct (map fst kns)"
  shows "distinct ks \<Longrightarrow> total_count kns =
    sum_list (map (count_of kns) ks) + total_count (filter (\<lambda>(k, _). k \<notin> set ks) kns)"
proof (induction ks)
  case (Cons k ks)
  let ?out = "filter (\<lambda>(j, _). j \<notin> set ks) kns"
  have d: "distinct (map fst ?out)"
    using assms by (induction kns) (auto simp: image_iff)
  have same: "count_of ?out k = count_of kns k"
  proof -
    have "map_of ?out k = map_of kns k" using Cons.prems by (induction kns) auto
    then show ?thesis by (simp add: count_of_def)
  qed
  have "total_count ?out = count_of kns k + total_count (filter (\<lambda>(j, _). j \<notin> set (k # ks)) kns)"
    using total_split [of ?out "\<lambda>(j, _). j = k"] count_of_filter [OF d, of k] same
    by (simp add: conj_commute case_prod_unfold)
  with Cons show ?case by simp
qed simp

lemma walk_stages_last:
  "fs_reached (last (walk_stages died evaluations remaining stages)) =
     remaining - int (sum_list (map (count_of died) (filter (\<lambda>s. s \<noteq> ''CANDIDATE'') stages)))"
proof (induction died evaluations remaining stages rule: walk_stages.induct)
  case (2 died evaluations remaining stage stages)
  have "walk_stages died evaluations r stages \<noteq> []" for r
    by (induction died evaluations r stages rule: walk_stages.induct) (simp_all add: Let_def)
  with 2 show ?case by (auto simp: Let_def)
qed simp

subsection \<open>Properties\<close>

text \<open>The funnel counts every journalled evaluation of the period once, and what it reports as
  having reached the last stage exceeds the candidates by exactly the rows whose stage is not in its
  list of stages.\<close>

theorem funnel_accounts:
  "fu_evaluations (funnel rows cutoff) = length (funnel_rows rows cutoff)
   \<and> fs_reached (last (fu_stages (funnel rows cutoff))) =
       int (fu_candidates (funnel rows cutoff)) + int (total_count (fu_unknown_stages (funnel rows cutoff)))"
proof -
  define counted where "counted = group_count stage_label (funnel_rows rows cutoff)"
  define died where "died = filter (\<lambda>(stage, _ :: nat). stage \<noteq> ''CANDIDATE'') counted"
  have d: "distinct (map fst counted)" by (simp add: counted_def group_count_distinct)
  have total: "total_count died + count_of counted ''CANDIDATE'' = length (funnel_rows rows cutoff)"
    using total_split [of counted "\<lambda>(stage, _). stage = ''CANDIDATE''"] count_of_filter [OF d, of "''CANDIDATE''"]
      group_count_total [of stage_label "funnel_rows rows cutoff"]
    by (simp add: died_def counted_def case_prod_unfold)
  have dd: "distinct (map fst died)" using d unfolding died_def by (induction counted) (auto simp: image_iff)
  define ks where "ks = filter (\<lambda>s. s \<noteq> ''CANDIDATE'') STAGES"
  have ks: "distinct ks" by (simp add: ks_def STAGES_def)
  have outside: "filter (\<lambda>(k, _). k \<notin> set ks) died = filter (\<lambda>(k, _). k \<notin> set STAGES) died"
    by (rule filter_cong) (auto simp: died_def ks_def)
  show ?thesis
    using total total_outside [OF dd ks] outside
    by (simp add: funnel_def Let_def walk_stages_last counted_def [symmetric] died_def [symmetric] ks_def [symmetric]
        del: filter_filter)
qed

text \<open>A journalled order shows up as one more survivor than there were candidates.\<close>

lemma funnel_counts_an_execution_twice:
  "let f = funnel [\<lparr> de_scan_id = ''s'', de_symbol = ''EURUSD'', de_stage = ''CANDIDATE'',
        de_outcome = ''CANDIDATE'', de_reason = None, de_created_at = 1 \<rparr>,
      \<lparr> de_scan_id = ''s'', de_symbol = ''EURUSD'', de_stage = ''EXECUTION'',
        de_outcome = ''FILLED'', de_reason = None, de_created_at = 2 \<rparr>] 0
   in fu_candidates f = 1 \<and> fu_evaluations f = 2 \<and> fs_reached (last (fu_stages f)) = 2"
  by (simp add: funnel_def Let_def funnel_rows_def stage_label_def group_count_def tally_def
      total_count_def count_of_def STAGES_def)

end
