(* ===== verification/AI_Client.thy ===== *)
theory AI_Client
  imports AI_Gate
begin

text \<open>
  The client of the model providers, \<open>bot/ai/client.py\<close>: the chain of providers, the classification
  of a request's outcome, the texts taken out of the two answer shapes and the attempts on record.
  The network is a function from provider, model and prompt to an outcome; the prompt itself is an
  argument. Latencies and logging are left out. An exception other than \<open>AIError\<close> is one of
  Python's own, raised by an answer that is JSON of an unexpected shape.
\<close>

record ai_config =
  ac_enabled :: bool
  ac_gemini_key :: "string option"
  ac_groq_key :: "string option"
  ac_gemini_model :: string
  ac_groq_primary_model :: string
  ac_groq_fallback_model :: string
  ac_min_confidence :: int
  ac_min_tier_for_ai :: string
  ac_allow_trade_without_ai :: bool

definition default_ai_config :: ai_config where
  "default_ai_config = \<lparr> ac_enabled = True, ac_gemini_key = None, ac_groq_key = None,
     ac_gemini_model = ''gemini-3.6-flash'', ac_groq_primary_model = ''openai/gpt-oss-120b'',
     ac_groq_fallback_model = ''qwen/qwen3.8-27b'', ac_min_confidence = 70, ac_min_tier_for_ai = ''B'',
     ac_allow_trade_without_ai = False \<rparr>"

definition ai_available :: "ai_config \<Rightarrow> bool" where
  "ai_available config = (ac_enabled config \<and> (truthy_str (ac_gemini_key config) \<or> truthy_str (ac_groq_key config)))"

subsection \<open>One request\<close>

datatype post_outcome = HttpStatus nat | TransportFailure | MalformedBody | Body json

type_synonym network = "string \<Rightarrow> string \<Rightarrow> string \<Rightarrow> post_outcome"

definition ai_error :: "string \<Rightarrow> exn" where
  "ai_error message = \<lparr> exn_class = AIError, exn_message = message \<rparr>"

definition python_error :: "string \<Rightarrow> exn" where
  "python_error name = \<lparr> exn_class = OtherException, exn_message = name \<rparr>"

definition post :: "post_outcome \<Rightarrow> exn + json" where
  "post outcome = (case outcome of
       HttpStatus _ \<Rightarrow> Inl (ai_error ''HTTP error'')
     | TransportFailure \<Rightarrow> Inl (ai_error ''transport failure'')
     | MalformedBody \<Rightarrow> Inl (ai_error ''provider returned malformed JSON'')
     | Body v \<Rightarrow> Inr v)"

text \<open>Truth of a value; \<open>v.get(key, default)\<close>; \<open>(v.get(key) or [{}])[0]\<close>.\<close>

fun json_truthy :: "json \<Rightarrow> bool" where
  "json_truthy JNull = False"
| "json_truthy (JBool b) = b"
| "json_truthy (JNumber x) = (x \<noteq> Real 0)"
| "json_truthy (JText s) = (s \<noteq> [])"
| "json_truthy (JArray xs) = (xs \<noteq> [])"
| "json_truthy (JObject fs) = (fs \<noteq> [])"

fun json_get :: "json \<Rightarrow> string \<Rightarrow> json \<Rightarrow> exn + json" where
  "json_get (JObject fs) key d = Inr (payload_get fs key d)"
| "json_get _ key d = Inl (python_error ''AttributeError'')"

definition first_entry :: "json \<Rightarrow> string \<Rightarrow> exn + json" where
  "first_entry v key =
     bind_err (json_get v key JNull) (\<lambda>xs.
       if \<not> json_truthy xs then Inr (JObject [])
       else (case xs of
           JArray (x # _) \<Rightarrow> Inr x
         | JText (c # _) \<Rightarrow> Inr (JText [c])
         | JObject _ \<Rightarrow> Inl (python_error ''KeyError'')
         | _ \<Rightarrow> Inl (python_error ''TypeError'')))"

fun join_parts :: "json list \<Rightarrow> exn + string" where
  "join_parts [] = Inr []"
| "join_parts (p # ps) =
     bind_err (json_get p ''text'' (JText [])) (\<lambda>t.
       (case t of
          JText s \<Rightarrow> bind_err (join_parts ps) (\<lambda>rest. Inr (s @ rest))
        | _ \<Rightarrow> Inl (python_error ''TypeError'')))"

definition gemini_text :: "json \<Rightarrow> exn + string" where
  "gemini_text result =
     bind_err (first_entry result ''candidates'') (\<lambda>candidate.
     bind_err (json_get candidate ''content'' (JObject [])) (\<lambda>content.
     bind_err (json_get content ''parts'' (JArray [])) (\<lambda>parts.
       (case parts of
          JArray ps \<Rightarrow> join_parts ps
        | JText cs \<Rightarrow> join_parts (map (\<lambda>c. JText [c]) cs)
        | JObject fs \<Rightarrow> join_parts (map (\<lambda>(k, _). JText k) fs)
        | _ \<Rightarrow> Inl (python_error ''TypeError'')))))"

text \<open>A content that is no text reads as an empty response.\<close>

definition groq_text :: "json \<Rightarrow> exn + string" where
  "groq_text result =
     bind_err (first_entry result ''choices'') (\<lambda>choice.
     bind_err (json_get choice ''message'' JNull) (\<lambda>message.
     bind_err (json_get (if json_truthy message then message else JObject []) ''content'' (JText [])) (\<lambda>content.
       Inr (case content of JText s \<Rightarrow> s | _ \<Rightarrow> []))))"

definition ask_gemini :: "python \<Rightarrow> ai_config \<Rightarrow> network \<Rightarrow> string \<Rightarrow> exn + ai_decision" where
  "ask_gemini py config net prompt =
     (if \<not> truthy_str (ac_gemini_key config) then Inl (ai_error ''GEMINI_API_KEY is not configured'')
      else
        bind_err (post (net ''Gemini'' (ac_gemini_model config) prompt)) (\<lambda>result.
        bind_err (gemini_text result) (\<lambda>body.
        bind_err (extract_json_object py body) (\<lambda>payload.
          parse_decision py payload ''Gemini'' (ac_gemini_model config)))))"

definition ask_groq :: "python \<Rightarrow> ai_config \<Rightarrow> network \<Rightarrow> string \<Rightarrow> string \<Rightarrow> exn + ai_decision" where
  "ask_groq py config net prompt model =
     (if \<not> truthy_str (ac_groq_key config) then Inl (ai_error ''GROQ_API_KEY is not configured'')
      else
        bind_err (post (net ''Groq'' model prompt)) (\<lambda>result.
        bind_err (groq_text result) (\<lambda>body.
        bind_err (extract_json_object py body) (\<lambda>payload.
          parse_decision py payload ''Groq'' model))))"

subsection \<open>The chain\<close>

record ai_attempt =
  at_provider :: string
  at_model :: string
  at_ok :: bool
  at_error :: "string option"

record ai_client =
  cl_attempts :: "ai_attempt list"
  cl_calls :: nat

type_synonym ai_stage = "string \<times> string \<times> (exn + ai_decision)"

definition review_stages :: "python \<Rightarrow> ai_config \<Rightarrow> network \<Rightarrow> string \<Rightarrow> ai_stage list" where
  "review_stages py config net prompt =
     (if truthy_str (ac_gemini_key config)
      then [(''Gemini'', ac_gemini_model config, ask_gemini py config net prompt)] else [])
     @ (if truthy_str (ac_groq_key config)
        then [(''Groq'', ac_groq_primary_model config, ask_groq py config net prompt (ac_groq_primary_model config)),
              (''Groq'', ac_groq_fallback_model config, ask_groq py config net prompt (ac_groq_fallback_model config))]
        else [])"

fun walk_chain :: "ai_stage list \<Rightarrow> exn option \<Rightarrow> ai_client \<Rightarrow> (exn + ai_decision) \<times> ai_client" where
  "walk_chain [] last_error client =
     (Inl (ai_error (''every AI provider failed; last error: ''
        @ (case last_error of None \<Rightarrow> ''None'' | Some e \<Rightarrow> exn_message e))), client)"
| "walk_chain ((provider, model, answer) # stages) last_error client =
     (case answer of
        Inr decision \<Rightarrow> (Inr decision, client\<lparr> cl_calls := cl_calls client + 1,
          cl_attempts := cl_attempts client @ [\<lparr> at_provider = provider, at_model = model, at_ok = True,
            at_error = None \<rparr>] \<rparr>)
      | Inl e \<Rightarrow>
          if isinstance e AIError
          then walk_chain stages (Some e) (client\<lparr> cl_attempts := cl_attempts client
            @ [\<lparr> at_provider = provider, at_model = model, at_ok = False,
                 at_error = Some (take 200 (exn_message e)) \<rparr>] \<rparr>)
          else (Inl e, client))"

definition review ::
  "python \<Rightarrow> ai_config \<Rightarrow> network \<Rightarrow> string \<Rightarrow> ai_client \<Rightarrow> (exn + ai_decision) \<times> ai_client" where
  "review py config net prompt client =
     (let stages = review_stages py config net prompt; client1 = client\<lparr> cl_attempts := [] \<rparr>
      in if stages = [] then (Inl (ai_error ''no AI provider is configured''), client1)
         else walk_chain stages None client1)"

subsection \<open>The chain as a search\<close>

lemma ai_error_is: "isinstance (ai_error m) AIError"
  by (simp add: ai_error_def isinstance_def catches_def mro_eq)

text \<open>The first stage whose outcome settles the review: an answer, or an exception the chain does not
  catch.\<close>

definition settles :: "ai_stage \<Rightarrow> bool" where
  "settles s = (case snd (snd s) of Inr _ \<Rightarrow> True | Inl e \<Rightarrow> \<not> isinstance e AIError)"

lemma settles_cases:
  "settles (provider, model, Inr d)" "settles (provider, model, Inl e) \<longleftrightarrow> \<not> isinstance e AIError"
  by (simp_all add: settles_def)

lemma walk_chain_found:
  "List.find settles stages = Some s \<Longrightarrow> fst (walk_chain stages last_error client) = snd (snd s)"
proof (induction stages last_error client rule: walk_chain.induct)
  case (2 provider model answer stages last_error client)
  then show ?case by (cases answer) (auto simp: settles_cases split: if_splits)
qed simp

lemma walk_chain_exhausted:
  "List.find settles stages = None \<Longrightarrow> \<exists>e. fst (walk_chain stages last_error client) = Inl e \<and> isinstance e AIError"
proof (induction stages last_error client rule: walk_chain.induct)
  case (2 provider model answer stages last_error client)
  then show ?case by (cases answer) (auto simp: settles_cases split: if_splits)
qed (simp add: ai_error_is)

lemma stage_decision:
  assumes "(provider, model, Inr d) \<in> set (review_stages py config net prompt)"
  shows "\<exists>payload. parse_decision py payload provider model = Inr d"
proof -
  have gemini: "\<exists>payload. parse_decision py payload ''Gemini'' (ac_gemini_model config) = Inr d"
    if "Inr d = ask_gemini py config net prompt"
    using that [symmetric] by (auto simp: ask_gemini_def split: if_splits)
  have groq: "\<exists>payload. parse_decision py payload ''Groq'' m = Inr d" if "ask_groq py config net prompt m = Inr d" for m d
    using that by (auto simp: ask_groq_def split: if_splits)
  show ?thesis using assms gemini groq [OF sym] by (auto simp: review_stages_def split: if_splits)
qed

subsection \<open>Properties\<close>


text \<open>A null content in Gemini's answer escapes the chain: no Groq model is asked and what the caller
  sees is no \<open>AIError\<close>.\<close>

theorem null_content_skips_fallbacks:
  assumes "truthy_str (ac_gemini_key config)"
    and "net ''Gemini'' (ac_gemini_model config) prompt =
      Body (JObject [(''candidates'', JArray [JObject [(''content'', JNull)]])])"
  shows "fst (review py config net prompt client) = Inl (python_error ''AttributeError'')
    \<and> cl_attempts (snd (review py config net prompt client)) = []"
proof -
  have "ask_gemini py config net prompt = Inl (python_error ''AttributeError'')"
    using assms by (simp add: ask_gemini_def post_def gemini_text_def first_entry_def payload_get_def bind_err_def)
  then show ?thesis
    using assms(1) by (simp add: review_def review_stages_def python_error_def isinstance_def catches_def mro_eq)
qed

theorem null_content_skips_fallbacks_witness:
  "\<exists>net config. truthy_str (ac_groq_key config)
     \<and> fst (review plain_python config net [] \<lparr> cl_attempts = [], cl_calls = 0 \<rparr>) = Inl (python_error ''AttributeError'')"
proof -
  let ?config = "default_ai_config\<lparr> ac_gemini_key := Some ''k'', ac_groq_key := Some ''q'' \<rparr>"
  let ?net = "\<lambda>_ _ _. Body (JObject [(''candidates'', JArray [JObject [(''content'', JNull)]])])"
  have "truthy_str (ac_gemini_key ?config)" by simp
  from null_content_skips_fallbacks [OF this, of ?net "[]" plain_python] show ?thesis
    by (intro exI [of _ ?net] exI [of _ ?config]) simp
qed

end
