(* ===== verification/Plans.thy ===== *)
theory Plans
  imports Strategies "HOL-Library.Countable"
begin

text \<open>
  From an approved setup to the immutable plan, \<open>build_plan\<close> of \<open>bot/execution/plan.py\<close>. The
  record and the execution id are in \<open>Intents\<close>. The JSON context of a plan is a parameter, the
  function \<open>render\<close> of what it prints. \<open>None\<close> is the \<open>AttributeError\<close> of a decision without a size.
\<close>

definition tier_text :: "tier \<Rightarrow> string" where
  "tier_text t = (case t of A_Plus \<Rightarrow> ''A+'' | A_Tier \<Rightarrow> ''A'' | B_Tier \<Rightarrow> ''B'' | No_Trade_Tier \<Rightarrow> ''NO_TRADE'')"

definition trigger_moment :: "micros option \<Rightarrow> smc_candidate \<Rightarrow> micros \<Rightarrow> micros" where
  "trigger_moment trigger_time c now =
     (case trigger_time of Some t \<Rightarrow> t
      | None \<Rightarrow> (case cd_timestamp c of Some t \<Rightarrow> t | None \<Rightarrow> now))"

definition build_plan ::
  "(id_material \<Rightarrow> string) \<Rightarrow> (smc_candidate \<Rightarrow> setup_score \<Rightarrow> position_size \<Rightarrow> string) \<Rightarrow> smc_candidate
     \<Rightarrow> instrument_spec \<Rightarrow> risk_decision \<Rightarrow> setup_score \<Rightarrow> real option \<Rightarrow> micros option \<Rightarrow> string \<Rightarrow> micros
     \<Rightarrow> trade_plan option" where
  "build_plan digest render c spec decision score ai_confidence trigger_time strategy now =
     (case rd_size decision of
        None \<Rightarrow> None
      | Some sized \<Rightarrow> Some
         \<lparr> tp_execution_id = build_execution_id digest (cd_symbol c) (cd_direction c)
             (trigger_moment trigger_time c now) (cd_entry c) (cd_stop_loss c) (cd_take_profit c) (sp_digits spec),
           tp_symbol = cd_symbol c, tp_broker_symbol = sp_broker_name spec, tp_direction = cd_direction c,
           tp_entry = round_price spec (cd_entry c), tp_stop_loss = round_price spec (cd_stop_loss c),
           tp_take_profit = round_price spec (cd_take_profit c), tp_quantity = ps_lots sized,
           tp_risk_amount = py_round 2 (ps_actual_risk sized),
           tp_risk_pct = (case rd_risk_pct decision of None \<Rightarrow> 0 | Some x \<Rightarrow> x),
           tp_expected_profit = py_round 2 (case rd_expected_profit decision of None \<Rightarrow> 0 | Some x \<Rightarrow> x),
           tp_risk_reward = py_round 3 (cd_risk_reward c), tp_setup_grade = tier_text (sc_tier score),
           tp_setup_score = py_round 2 (sc_total score), tp_ai_confidence = ai_confidence,
           tp_alignment = cd_alignment c, tp_setup_id = cd_setup_id c,
           tp_instrument_id = sp_tradable_instrument_id spec, tp_route_id = sp_route_id spec,
           tp_created_at = now, tp_context = render c score sized, tp_strategy = strategy,
           tp_setup_type = cd_setup_type c \<rparr>)"

subsection \<open>Rounded levels\<close>

lemma round_price_mono: "x \<le> y \<Longrightarrow> round_price spec x \<le> round_price spec y"
  by (auto simp: round_price_def intro!: py_round_mono mult_right_mono round_half_even_mono divide_right_mono)

definition level_slack :: "instrument_spec \<Rightarrow> real" where
  "level_slack spec = point spec / 2 + 1 / 2 / 10 ^ (sp_digits spec + 2)"

lemma plan_round_price_error: "\<bar>round_price spec x - x\<bar> \<le> level_slack spec"
proof (cases "sp_tick_size spec > 0")
  case True
  define t k where "t = sp_tick_size spec" and "k = real_of_int (round_half_even (x / sp_tick_size spec))"
  have "\<bar>k - x / t\<bar> \<le> 1 / 2"
    using round_half_even_bounds [of "x / t"] unfolding k_def t_def by linarith
  moreover have "0 < t" using True by (simp add: t_def)
  ultimately have "\<bar>k * t - x\<bar> \<le> t / 2"
    by (simp add: abs_le_iff field_simps)
  moreover have "\<bar>py_round (sp_digits spec + 2) (k * t) - k * t\<bar> \<le> 1 / 2 / 10 ^ (sp_digits spec + 2)"
    by (rule py_round_error)
  moreover have "round_price spec x = py_round (sp_digits spec + 2) (k * t)"
    using True by (simp add: round_price_def k_def t_def)
  moreover have "level_slack spec = t / 2 + 1 / 2 / 10 ^ (sp_digits spec + 2)"
    using True by (simp only: level_slack_def point_def t_def if_True)
  ultimately show ?thesis by linarith
next
  case False
  have "\<bar>round_price spec x - x\<bar> \<le> 1 / 2 / 10 ^ sp_digits spec"
    using False py_round_error [of "sp_digits spec" x] by (simp add: round_price_def)
  moreover have "(0 :: real) \<le> 1 / 2 / 10 ^ (sp_digits spec + 2)" by simp
  moreover have "level_slack spec = 1 / 2 / 10 ^ sp_digits spec + 1 / 2 / 10 ^ (sp_digits spec + 2)"
    using False by (simp only: level_slack_def point_def if_False) simp
  ultimately show ?thesis by linarith
qed

lemma approved_parts:
  assumes "rd_approved (evaluate_risk config kill candidate tier account spec lookup lev now)"
  obtains sized where
    "rd_size (evaluate_risk config kill candidate tier account spec lookup lev now) = Some sized"
    and "cd_direction candidate = ''BUY'' \<Longrightarrow>
       cd_stop_loss candidate < cd_entry candidate \<and> cd_entry candidate < cd_take_profit candidate"
    and "cd_direction candidate = ''SELL'' \<Longrightarrow>
       cd_take_profit candidate < cd_entry candidate \<and> cd_entry candidate < cd_stop_loss candidate"
  using assms by (rule evaluate_risk_approved) blast

subsection \<open>Properties\<close>

text \<open>An approved setup always has a plan. The plan keeps the symbol, direction, size and setup of
  the decision; its levels are within half a tick and half of the second digit after the last of the
  levels that were judged, and stay on their sides of the entry.\<close>

theorem approved_setup_has_plan:
  assumes "rd_approved (evaluate_risk config kill (setup_candidate.truncate c) tier account spec lookup lev now)"
    and "cd_direction c = ''BUY'' \<or> cd_direction c = ''SELL''"
  shows "\<exists>p sized. build_plan digest render c spec
       (evaluate_risk config kill (setup_candidate.truncate c) tier account spec lookup lev now)
       score confidence trigger strategy moment = Some p
     \<and> rd_size (evaluate_risk config kill (setup_candidate.truncate c) tier account spec lookup lev now) = Some sized
     \<and> tp_symbol p = cd_symbol c \<and> tp_direction p = cd_direction c \<and> tp_quantity p = ps_lots sized
     \<and> tp_setup_id p = cd_setup_id c
     \<and> (if tp_direction p = ''BUY'' then tp_stop_loss p \<le> tp_entry p \<and> tp_entry p \<le> tp_take_profit p
        else tp_take_profit p \<le> tp_entry p \<and> tp_entry p \<le> tp_stop_loss p)
     \<and> \<bar>tp_stop_loss p - cd_stop_loss c\<bar> \<le> level_slack spec
     \<and> \<bar>tp_take_profit p - cd_take_profit c\<bar> \<le> level_slack spec"
proof -
  have trunc: "cd_direction (setup_candidate.truncate c) = cd_direction c"
    "cd_entry (setup_candidate.truncate c) = cd_entry c"
    "cd_stop_loss (setup_candidate.truncate c) = cd_stop_loss c"
    "cd_take_profit (setup_candidate.truncate c) = cd_take_profit c"
    by (simp_all add: setup_candidate.truncate_def)
  from assms(1) obtain sized where sized:
    "rd_size (evaluate_risk config kill (setup_candidate.truncate c) tier account spec lookup lev now) = Some sized"
    "cd_direction c = ''BUY'' \<Longrightarrow> cd_stop_loss c < cd_entry c \<and> cd_entry c < cd_take_profit c"
    "cd_direction c = ''SELL'' \<Longrightarrow> cd_take_profit c < cd_entry c \<and> cd_entry c < cd_stop_loss c"
    by (rule approved_parts) (simp add: trunc)
  show ?thesis
    using sized assms(2) by (auto simp: build_plan_def round_price_mono plan_round_price_error)
qed

definition sample_setup :: smc_candidate where
  "sample_setup = \<lparr> cd_symbol = ''EURUSD'', cd_direction = ''BUY'', cd_entry = 11 / 10,
     cd_stop_loss = 109 / 100, cd_take_profit = 112 / 100, cd_risk_reward = 2, cd_stop_distance = 1 / 100,
     cd_atr = 1 / 100, cd_h1_bias = ''BULLISH'', cd_m15_bias = ''BULLISH'', cd_alignment = ''BULLISH'',
     cd_setup_type = [], cd_setup_id = ''s1'', cd_score_floor = 0, cd_timestamp = None,
     cd_session = classify_session sample_moment default_session_config, cd_regime = ta_regime complete_m15,
     cd_sweep = None, cd_structure_event = None, cd_displacement = None, cd_point_of_interest = None,
     cd_dealing_range = None, cd_liquidity_target = None, cd_checks = [], cd_evidence = [] \<rparr>"

definition sample_score :: setup_score where
  "sample_score = \<lparr> sc_total = 70, sc_tier = A_Tier, sc_components = [], sc_notes = [],
     sc_projected_note = False, sc_gate = None \<rparr>"

lemma sample_setup_core: "setup_candidate.truncate sample_setup = sample_candidate"
  by (simp add: setup_candidate.truncate_def sample_setup_def sample_candidate_def)

lemma sample_setup_approved:
  "rd_approved (evaluate_risk sample_config None (setup_candidate.truncate sample_setup) ''A'' sample_account
     sample_spec None (Some 30) sample_moment)"
  by (simp add: sample_setup_core sample_approved)

theorem approved_setup_has_plan_witness:
  "\<exists>p. build_plan (\<lambda>_. ''id'') (\<lambda>_ _ _. []) sample_setup sample_spec
       (evaluate_risk sample_config None sample_candidate ''A'' sample_account sample_spec None (Some 30) sample_moment)
       sample_score None None ''smc'' sample_moment = Some p
     \<and> tp_direction p = ''BUY'' \<and> tp_stop_loss p \<le> tp_entry p"
proof -
  have "cd_direction sample_setup = ''BUY'' \<or> cd_direction sample_setup = ''SELL''"
    and d: "cd_direction sample_setup = ''BUY''" by (simp_all add: sample_setup_def)
  from approved_setup_has_plan [OF sample_setup_approved this(1), of "\<lambda>_. ''id''" "\<lambda>_ _ _. []" sample_score None None
      "''smc''" sample_moment]
  show ?thesis by (auto simp: sample_setup_core d)
qed



end
