(* ===== verification/Pipeline.thy ===== *)
theory Pipeline
  imports Plans AI_Client News Provider Journal Executor
begin

text \<open>
  One symbol through the pipeline, and the choice of the order of a scan: \<open>_evaluate_symbol\<close>,
  \<open>_ai_review\<close>, \<open>_observe_spread\<close>, \<open>_rate_lookup\<close>, \<open>_rank\<close>, \<open>_execute_best\<close>, \<open>_execute\<close> and the
  strategy selection of \<open>bot/orchestrator.py\<close>. What the outside answers during a scan is the record
  \<open>market\<close>, one reading of the clocks per scan; what the components remember is the record
  \<open>memory\<close>. A result \<open>Inl e\<close> is an exception that leaves the function. Reasons are constructors
  with the values they print. The rate lookup catches only \<open>BotError\<close>; another exception of a quote
  read for it is taken as no rate.
\<close>

subsection \<open>Configuration, outside and memory\<close>

record bot_config =
  oc_trading :: trading_config
  oc_ai :: ai_config
  oc_news :: news_config
  oc_strategy :: string
  oc_trading_enabled_default :: bool

record market =
  mk_instrument :: "string \<Rightarrow> exn + instrument_spec"
  mk_quote :: "instrument_spec \<Rightarrow> exn + quote"
  mk_candles :: candle_source
  mk_calendar :: "news_event list option"
  mk_disk_ok :: bool
  mk_spread_write :: "exn option"
  mk_clock :: micros
  mk_ticks :: real
  mk_network :: network
  mk_python :: python
  mk_prompt :: "smc_candidate \<Rightarrow> setup_score \<Rightarrow> string"
  mk_setup_digest :: "id_part list \<Rightarrow> string"
  mk_plan_digest :: "id_material \<Rightarrow> string"
  mk_context :: "smc_candidate \<Rightarrow> setup_score \<Rightarrow> position_size \<Rightarrow> string"

record memory =
  me_news :: news_state
  me_series :: series_cache
  me_spreads :: spread_table
  me_ai :: ai_client

subsection \<open>The strategy in force\<close>

definition resolve_strategy :: "string option \<Rightarrow> string \<Rightarrow> string" where
  "resolve_strategy stored configured =
     (case normalise (Some (if truthy_str stored then the stored else configured)) of
        Some key \<Rightarrow> key | None \<Rightarrow> DEFAULT_STRATEGY)"

definition strategy_of :: "string \<Rightarrow> strategy" where
  "strategy_of key = (case build_strategy (Some key) of Some s \<Rightarrow> s | None \<Rightarrow> Smc_Strategy)"

definition profile_of :: "strategy \<Rightarrow> strategy_profile" where
  "profile_of s = (case s of Smc_Strategy \<Rightarrow> smc_profile | Reversion_Strategy \<Rightarrow> reversion_profile)"

text \<open>The risk engine runs with the reward floor of the strategy's profile.\<close>

definition risk_view :: "strategy \<Rightarrow> trading_config \<Rightarrow> trading_config" where
  "risk_view s config = config\<lparr> tc_risk :=
     (tc_risk config)\<lparr> rc_min_risk_reward := sp_min_risk_reward (profile_of s) \<rparr> \<rparr>"

text \<open>\<open>None\<close> is an exception inside the analysis.\<close>

definition strategy_analyze ::
  "strategy \<Rightarrow> (id_part list \<Rightarrow> string) \<Rightarrow> trading_config \<Rightarrow> string \<Rightarrow> (string \<times> candle list) list
     \<Rightarrow> micros \<Rightarrow> real option \<Rightarrow> smc_result option" where
  "strategy_analyze s digest config symbol frames now live_spread =
     (case s of
        Smc_Strategy \<Rightarrow> (case smc_strategy_analyze digest config symbol frames (Some now) live_spread of
            Some (Inr r) \<Rightarrow> Some r | _ \<Rightarrow> None)
      | Reversion_Strategy \<Rightarrow> reversion_analyze default_reversion config symbol frames (Some now) live_spread)"

subsection \<open>Outcomes\<close>

datatype ai_note = Validated validation_reason | NoProviderConfigured | ReviewUnavailable string

record ai_verdict =
  vd_approved :: bool
  vd_reasons :: "ai_note list"
  vd_decision :: "ai_decision option"

datatype outcome_reason =
    NewsRefused "news_reason option" | DataRefused string | NoSetup "rejection option"
  | GateRefused real score_gate | GradedLow real tier | RiskRefused "decision_reason list"
  | AiRefused "ai_note list" | ErrorReason string

record symbol_outcome =
  so_symbol :: string
  so_stage :: string
  so_outcome :: string
  so_reason :: "outcome_reason option"
  so_candidate :: "smc_candidate option"
  so_score :: "setup_score option"
  so_risk :: "risk_decision option"
  so_ai :: "ai_verdict option"
  so_spec :: "instrument_spec option"
  so_atr :: real
  so_smc :: "smc_result option"

definition bare_outcome :: "string \<Rightarrow> string \<Rightarrow> string \<Rightarrow> outcome_reason option \<Rightarrow> symbol_outcome" where
  "bare_outcome symbol stage outcome reason = \<lparr> so_symbol = symbol, so_stage = stage, so_outcome = outcome,
     so_reason = reason, so_candidate = None, so_score = None, so_risk = None, so_ai = None, so_spec = None,
     so_atr = 0, so_smc = None \<rparr>"

lemma bare_outcome_parts [simp]:
  "so_outcome (bare_outcome symbol stage result reason) = result"
  "so_candidate (bare_outcome symbol stage result reason) = None"
  "so_symbol (bare_outcome symbol stage result reason) = symbol"
  by (simp_all add: bare_outcome_def)

definition executable :: "symbol_outcome \<Rightarrow> bool" where
  "executable o' = (so_outcome o' = ''CANDIDATE'' \<and> so_candidate o' \<noteq> None \<and> so_risk o' \<noteq> None)"

subsection \<open>Broker reads\<close>

definition observe_spread ::
  "market \<Rightarrow> session_config \<Rightarrow> instrument_spec \<Rightarrow> micros \<Rightarrow> memory \<Rightarrow> (exn + real option) \<times> memory" where
  "observe_spread m sessions spec now mem =
     (case mk_quote m spec of
        Inl e \<Rightarrow> (if isinstance e BotError then (Inr None, mem) else (Inl e, mem))
      | Inr q \<Rightarrow>
          if spread q < 0 then (Inr None, mem)
          else
            (case mk_spread_write m of
               None \<Rightarrow> (Inr (Some (spread q)), mem\<lparr> me_spreads := spread_record (me_spreads mem) (sp_symbol spec) now
                 (Some (q_bid q)) (Some (q_ask q)) (spread q) (Some (ss_name (classify_session now sessions))) \<rparr>)
             | Some e \<Rightarrow> if isinstance e BotError then (Inr (Some (spread q)), mem) else (Inl e, mem)))"

definition market_rate :: "market \<Rightarrow> rate_lookup" where
  "market_rate m base counter =
     (case mk_instrument m (base @ counter) of
        Inl _ \<Rightarrow> None
      | Inr spec \<Rightarrow> (case mk_quote m spec of Inl _ \<Rightarrow> None | Inr q \<Rightarrow> Some (mid q)))"

subsection \<open>The AI stage\<close>

definition tier_rank_of :: "string \<Rightarrow> nat" where
  "tier_rank_of t = (case map_of [(''A+'', 3), (''A'', 2), (''B'', 1), (''NO_TRADE'', 0)] t of
     Some n \<Rightarrow> n | None \<Rightarrow> 0)"

definition refused_review :: "ai_note \<Rightarrow> ai_verdict" where
  "refused_review note' = \<lparr> vd_approved = False, vd_reasons = [note'], vd_decision = None \<rparr>"

definition ai_review ::
  "ai_config \<Rightarrow> market \<Rightarrow> smc_candidate \<Rightarrow> setup_score \<Rightarrow> ai_client
     \<Rightarrow> (exn + ai_verdict option) \<times> ai_client" where
  "ai_review config m c score client =
     (if \<not> ac_enabled config then (Inr None, client)
      else if tier_rank (sc_tier score) < tier_rank_of (ac_min_tier_for_ai config) then (Inr None, client)
      else if \<not> ai_available config then
        (Inr (if ac_allow_trade_without_ai config then None else Some (refused_review NoProviderConfigured)), client)
      else
        (case review (mk_python m) config (mk_network m) (mk_prompt m c score) client of
           (Inl e, client1) \<Rightarrow>
             if isinstance e AIError then
               (Inr (if ac_allow_trade_without_ai config then None
                     else Some (refused_review (ReviewUnavailable (exn_message e)))), client1)
             else (Inl e, client1)
         | (Inr d, client1) \<Rightarrow>
             (let v = validate_ai_decision d (setup_candidate.truncate c) (ac_min_confidence config)
              in (Inr (Some \<lparr> vd_approved = av_approved v, vd_reasons = map Validated (av_reasons v),
                   vd_decision = Some d \<rparr>), client1))))"

subsection \<open>One symbol\<close>

text \<open>Score, risk and AI on a candidate; the AI comes last.\<close>

definition judge_candidate ::
  "bot_config \<Rightarrow> strategy \<Rightarrow> market \<Rightarrow> kill_store \<Rightarrow> account_risk_state \<Rightarrow> instrument_spec \<Rightarrow> micros
     \<Rightarrow> string \<Rightarrow> smc_result \<Rightarrow> smc_candidate \<Rightarrow> ai_client \<Rightarrow> (exn + symbol_outcome) \<times> ai_client" where
  "judge_candidate config s m kill account spec now symbol r c client =
     (let score = score_setup (oc_trading config) c;
          outcome = \<lambda>stage result reason. (bare_outcome symbol stage result reason)
            \<lparr> so_candidate := Some c, so_score := Some score, so_smc := Some r \<rparr>
      in if \<not> score_tradeable score then
           (Inr (outcome ''SCORE'' ''BELOW_TIER'' (Some (case sc_gate score of
              Some g \<Rightarrow> GateRefused (sc_total score) g | None \<Rightarrow> GradedLow (sc_total score) (sc_tier score)))), client)
         else
           (let decision = evaluate_risk (risk_view s (oc_trading config)) (Some kill) (setup_candidate.truncate c)
                  (tier_text (sc_tier score)) account spec (Some (market_rate m)) None now
            in if \<not> rd_approved decision then
                 (Inr ((outcome ''RISK'' ''REJECTED'' (Some (RiskRefused (rd_reasons decision))))
                    \<lparr> so_risk := Some decision \<rparr>), client)
               else
                 (case ai_review (oc_ai config) m c score client of
                    (Inl e, client1) \<Rightarrow> (Inl e, client1)
                  | (Inr verdict, client1) \<Rightarrow>
                      (case verdict of
                         Some v \<Rightarrow>
                           if \<not> vd_approved v then
                             (Inr ((outcome ''AI'' ''REJECTED'' (Some (AiRefused (vd_reasons v))))
                                \<lparr> so_risk := Some decision, so_ai := Some v \<rparr>), client1)
                           else
                             (Inr ((outcome ''CANDIDATE'' ''CANDIDATE'' None)\<lparr> so_risk := Some decision,
                                so_ai := Some v, so_spec := Some spec, so_atr := cd_atr c \<rparr>), client1)
                       | None \<Rightarrow>
                           (Inr ((outcome ''CANDIDATE'' ''CANDIDATE'' None)\<lparr> so_risk := Some decision,
                              so_spec := Some spec, so_atr := cd_atr c \<rparr>), client1)))))"

definition TIMEFRAMES :: "string list" where
  "TIMEFRAMES = [''H1'', ''M15'']"

definition evaluate_symbol ::
  "bot_config \<Rightarrow> strategy \<Rightarrow> market \<Rightarrow> kill_store \<Rightarrow> account_risk_state \<Rightarrow> micros \<Rightarrow> string \<Rightarrow> memory
     \<Rightarrow> (exn + symbol_outcome) \<times> memory" where
  "evaluate_symbol config s m kill account now symbol mem =
     (case mk_instrument m symbol of
        Inl e \<Rightarrow> (Inl e, mem)
      | Inr spec \<Rightarrow>
          (case observe_spread m (tc_sessions (oc_trading config)) spec now mem of
             (Inl e, mem1) \<Rightarrow> (Inl e, mem1)
           | (Inr live_spread, mem1) \<Rightarrow>
               (let (verdict, news) = check_news (oc_news config) (mk_calendar m) (mk_disk_ok m) (mk_clock m)
                      symbol now (me_news mem1);
                    mem2 = mem1\<lparr> me_news := news \<rparr>
                in if nv_blocked verdict
                   then (Inr (bare_outcome symbol ''NEWS'' ''REJECTED'' (Some (NewsRefused (nv_reason verdict)))), mem2)
                   else
                     (case multi_timeframe (tc_smc (oc_trading config)) (mk_candles m) spec TIMEFRAMES now
                             (mk_ticks m) (me_series mem2) of
                        (Inl e, cache) \<Rightarrow>
                          (if isinstance e MarketDataError
                           then Inr (bare_outcome symbol ''DATA'' ''REJECTED'' (Some (DataRefused (exn_message e))))
                           else Inl e, mem2\<lparr> me_series := cache \<rparr>)
                      | (Inr frames, cache) \<Rightarrow>
                          (let mem3 = mem2\<lparr> me_series := cache \<rparr>
                           in case strategy_analyze s (mk_setup_digest m) (oc_trading config) symbol
                                  (map (\<lambda>(tf, f). (tf, pv_candles f)) frames) now live_spread of
                                None \<Rightarrow> (Inl (python_error ''analysis failed''), mem3)
                              | Some r \<Rightarrow>
                                  (case sr_candidate r of
                                     None \<Rightarrow> (Inr ((bare_outcome symbol ''SMC'' ''NO_SETUP''
                                       (Some (NoSetup (sr_rejection r))))\<lparr> so_smc := Some r \<rparr>), mem3)
                                   | Some c \<Rightarrow>
                                       (let (out, client) = judge_candidate config s m kill account spec now
                                              symbol r c (me_ai mem3)
                                        in (out, mem3\<lparr> me_ai := client \<rparr>))))))))"

subsection \<open>Ranking and execution\<close>

definition rank_key :: "symbol_outcome \<Rightarrow> int \<times> real \<times> real \<times> real" where
  "rank_key o' =
     (case so_score o' of None \<Rightarrow> 0 | Some s \<Rightarrow> int (tier_rank (sc_tier s)),
      case so_score o' of None \<Rightarrow> 0 | Some s \<Rightarrow> sc_total s,
      case so_candidate o' of None \<Rightarrow> 0 | Some c \<Rightarrow> cd_risk_reward c,
      case so_risk o' of None \<Rightarrow> 0 | Some d \<Rightarrow> (case rd_expected_profit d of None \<Rightarrow> 0 | Some x \<Rightarrow> x))"

definition flip_key :: "int \<times> real \<times> real \<times> real \<Rightarrow> int \<times> real \<times> real \<times> real" where
  "flip_key k = (case k of (a, b, c, d) \<Rightarrow> (- a, - b, - c, - d))"

text \<open>\<open>sorted(..., reverse=True)\<close> keeps the order of equal elements.\<close>

definition rank_outcomes :: "symbol_outcome list \<Rightarrow> symbol_outcome list" where
  "rank_outcomes outcomes = sort_key (\<lambda>o'. flip_key (rank_key o')) outcomes"

definition status_text :: "execution_status \<Rightarrow> string" where
  "status_text s = (case s of Aborted \<Rightarrow> ''ABORTED'' | Duplicate \<Rightarrow> ''DUPLICATE'' | Rejected \<Rightarrow> ''REJECTED''
     | Ambiguous \<Rightarrow> ''AMBIGUOUS'' | Unverified \<Rightarrow> ''UNVERIFIED'' | Filled \<Rightarrow> ''FILLED'')"

definition outcome_plan :: "market \<Rightarrow> string \<Rightarrow> micros \<Rightarrow> symbol_outcome \<Rightarrow> (exn + trade_plan) option" where
  "outcome_plan m key now o' =
     (case (so_candidate o', so_risk o', so_score o', so_spec o') of
        (Some c, Some decision, Some score, Some spec) \<Rightarrow>
          (case build_plan (mk_plan_digest m) (mk_context m) c spec decision score
                  (case so_ai o' of None \<Rightarrow> None
                   | Some v \<Rightarrow> map_option (\<lambda>d. of_int (ai_confidence d)) (vd_decision v)) None key now of
             None \<Rightarrow> Some (Inl (python_error ''AttributeError''))
           | Some p \<Rightarrow> Some (Inr p))
      | _ \<Rightarrow> None)"

definition execute_outcome ::
  "bot_config \<Rightarrow> market \<Rightarrow> (trade_plan \<Rightarrow> venue) \<Rightarrow> string \<Rightarrow> string \<Rightarrow> micros \<Rightarrow> symbol_outcome
     \<Rightarrow> world \<times> journal \<Rightarrow> (exn + execution_result option) \<times> world \<times> journal" where
  "execute_outcome config m venue_for key scan_id now o' st =
     (let (w, rows) = st
      in case outcome_plan m key now o' of
           None \<Rightarrow> (Inr None, w, rows)
         | Some (Inl e) \<Rightarrow> (Inl e, w, rows)
         | Some (Inr p) \<Rightarrow>
             (case execute (oc_trading config) (venue_for p) p (so_atr o') w of
                (Inl e, w1) \<Rightarrow> (Inl e, w1, rows)
              | (Inr x, w1) \<Rightarrow> (Inr (Some x), w1, journal_record rows scan_id (tp_symbol p) ''EXECUTION''
                  (status_text (xr_status x)) (xr_reason x) now)))"

fun execute_ranked ::
  "bot_config \<Rightarrow> market \<Rightarrow> (trade_plan \<Rightarrow> venue) \<Rightarrow> string \<Rightarrow> string \<Rightarrow> micros \<Rightarrow> symbol_outcome list
     \<Rightarrow> execution_result option \<Rightarrow> world \<times> journal \<Rightarrow> (exn + execution_result option) \<times> world \<times> journal" where
  "execute_ranked config m venue_for key scan_id now [] last_result st = (Inr last_result, st)"
| "execute_ranked config m venue_for key scan_id now (o' # os) last_result st =
     (case execute_outcome config m venue_for key scan_id now o' st of
        (Inl e, st1) \<Rightarrow> (Inl e, st1)
      | (Inr None, st1) \<Rightarrow> (Inr None, st1)
      | (Inr (Some x), st1) \<Rightarrow>
          if xr_ok x \<or> \<not> xr_symbol_specific x then (Inr (Some x), st1)
          else execute_ranked config m venue_for key scan_id now os (Some x) st1)"

definition execute_best ::
  "bot_config \<Rightarrow> market \<Rightarrow> (trade_plan \<Rightarrow> venue) \<Rightarrow> string \<Rightarrow> string \<Rightarrow> micros \<Rightarrow> symbol_outcome list
     \<Rightarrow> world \<times> journal \<Rightarrow> (exn + execution_result option) \<times> world \<times> journal" where
  "execute_best config m venue_for key scan_id now outcomes st =
     execute_ranked config m venue_for key scan_id now (rank_outcomes outcomes) None st"

subsection \<open>Executions that send nothing\<close>

lemma settle_general:
  assumes "settle ve config plan reference order w = (Inr x, w')"
  shows "\<not> xr_symbol_specific x"
  using assms
  by (auto simp: settle_def Let_def failed_def split: prod.splits sum.splits option.splits)

lemma submit_general:
  assumes "submit ve config plan reference w = (Inr x, w')"
  shows "\<not> xr_symbol_specific x"
proof (cases "ve_order ve")
  case (Inl e)
  with assms show ?thesis by (auto simp: submit_def Let_def failed_def split: if_splits)
next
  case (Inr order)
  with assms show ?thesis by (auto simp: submit_def Let_def dest: settle_general)
qed

lemma settle_plan:
  assumes "settle ve config plan reference order w = (Inr x, w')"
  shows "xr_plan x = plan"
  using assms
  by (auto simp: settle_def Let_def failed_def split: prod.splits sum.splits option.splits)

lemma submit_plan:
  assumes "submit ve config plan reference w = (Inr x, w')"
  shows "xr_plan x = plan"
proof (cases "ve_order ve")
  case (Inl e)
  with assms show ?thesis by (auto simp: submit_def Let_def failed_def split: if_splits)
next
  case (Inr order)
  with assms show ?thesis by (auto simp: submit_def Let_def dest: settle_plan)
qed

lemma check_plan:
  assumes "check_and_submit config ve plan volatility w = (Inr x, w')"
  shows "xr_plan x = plan"
  using assms
  by (auto simp: check_and_submit_def Let_def failed_def dest: submit_plan
      split: sum.splits option.splits)

lemma execute_plan:
  assumes "execute config ve plan volatility w = (Inr x, w')"
  shows "xr_plan x = plan"
  using assms
  by (auto simp: execute_def Let_def failed_def dest: check_plan
      split: if_splits sum.splits option.splits prod.splits)

lemma persist_intent_orders:
  assumes "persist_intent now plan w = (q, w')"
  shows "orders w' = orders w"
  using assms by (cases rule: persist_intent_cases) simp_all

lemma execute_specific_sends_nothing:
  assumes "execute config ve plan volatility w = (Inr x, w')" and "xr_symbol_specific x"
  shows "orders w' = orders w"
  using assms(1)
proof (cases rule: execute_cases)
  case (early res)
  then show ?thesis by (simp add: same_state_def)
next
  case (checked w1 w2)
  let ?w3 = "note_event (ve_now ve) (tp_execution_id plan) ''INTENT_CREATED'' []
    (w2\<lparr> w_trades := create_pending (w_trades w2) (tp_execution_id plan) plan (ve_now ve) \<rparr>)"
  have o3: "orders ?w3 = orders w"
    using checked(3) persist_intent_orders [OF checked(4)] by (simp add: same_state_def world_simps)
  from checked(5) show ?thesis
  proof (cases rule: check_and_submit_cases)
    case (sent reference w4)
    then show ?thesis using submit_general [OF sent(3)] assms(2) by blast
  qed (use o3 in \<open>simp_all add: same_state_def\<close>)
qed

subsection \<open>One symbol at a time\<close>

definition ai_gate_passed :: "ai_config \<Rightarrow> smc_candidate \<Rightarrow> setup_score \<Rightarrow> ai_verdict option \<Rightarrow> bool" where
  "ai_gate_passed config c score verdict =
     (case verdict of
        Some v \<Rightarrow> (case vd_decision v of None \<Rightarrow> False
          | Some d \<Rightarrow> av_approved (validate_ai_decision d (setup_candidate.truncate c) (ac_min_confidence config)))
      | None \<Rightarrow> \<not> ac_enabled config \<or> ac_allow_trade_without_ai config
          \<or> tier_rank (sc_tier score) < tier_rank_of (ac_min_tier_for_ai config))"

lemma ai_review_passed:
  assumes "ai_review config m c score client = (Inr verdict, client1)"
    and "case verdict of None \<Rightarrow> True | Some v \<Rightarrow> vd_approved v"
  shows "ai_gate_passed config c score verdict"
  using assms
  by (auto simp: ai_review_def ai_gate_passed_def refused_review_def Let_def split: if_splits prod.splits sum.splits)

lemma judged_executable:
  assumes "judge_candidate config s m kill account spec now symbol r c client = (Inr out, client1)"
    and "executable out"
  obtains decision verdict where
    "score_tradeable (score_setup (oc_trading config) c)"
    and "decision = evaluate_risk (risk_view s (oc_trading config)) (Some kill) (setup_candidate.truncate c)
      (tier_text (sc_tier (score_setup (oc_trading config) c))) account spec (Some (market_rate m)) None now"
    and "rd_approved decision" and "ai_gate_passed (oc_ai config) c (score_setup (oc_trading config) c) verdict"
    and "so_candidate out = Some c" and "so_score out = Some (score_setup (oc_trading config) c)"
    and "so_risk out = Some decision" and "so_ai out = verdict" and "so_spec out = Some spec"
    and "so_symbol out = symbol"
proof -
  let ?score = "score_setup (oc_trading config) c"
  let ?decision = "evaluate_risk (risk_view s (oc_trading config)) (Some kill) (setup_candidate.truncate c)
      (tier_text (sc_tier ?score)) account spec (Some (market_rate m)) None now"
  have t: "score_tradeable ?score" and a: "rd_approved ?decision"
    using assms by (auto simp: judge_candidate_def Let_def executable_def bare_outcome_def split: if_splits)
  obtain rev client2 where rev: "ai_review (oc_ai config) m c ?score client = (rev, client2)" by force
  obtain verdict where verdict: "rev = Inr verdict"
    using assms t a rev by (cases rev) (auto simp: judge_candidate_def Let_def)
  have ok: "case verdict of None \<Rightarrow> True | Some v \<Rightarrow> vd_approved v"
    using assms t a rev verdict
    by (auto simp: judge_candidate_def Let_def executable_def split: option.splits if_splits)
  have parts: "so_candidate out = Some c" "so_score out = Some ?score" "so_risk out = Some ?decision"
    "so_ai out = verdict" "so_spec out = Some spec" "so_symbol out = symbol"
    using assms t a rev verdict ok
    by (auto simp: judge_candidate_def Let_def bare_outcome_def split: option.splits)
  show thesis
    using that [OF t refl a ai_review_passed [OF rev [unfolded verdict] ok] parts] .
qed

lemma evaluated_executable:
  assumes "evaluate_symbol config s m kill account now symbol mem = (Inr out, mem')" and "executable out"
  obtains spec frames r c client client1 live_spread where
    "mk_instrument m symbol = Inr spec"
    and "fst (observe_spread m (tc_sessions (oc_trading config)) spec now mem) = Inr live_spread"
    and "\<not> nv_blocked (fst (check_news (oc_news config) (mk_calendar m) (mk_disk_ok m) (mk_clock m) symbol now
      (me_news mem)))"
    and "fst (multi_timeframe (tc_smc (oc_trading config)) (mk_candles m) spec TIMEFRAMES now (mk_ticks m)
      (me_series mem)) = Inr frames"
    and "strategy_analyze s (mk_setup_digest m) (oc_trading config) symbol
      (map (\<lambda>(tf, f). (tf, pv_candles f)) frames) now live_spread = Some r"
    and "sr_candidate r = Some c"
    and "judge_candidate config s m kill account spec now symbol r c client = (Inr out, client1)"
proof -
  obtain spec where spec: "mk_instrument m symbol = Inr spec"
    using assms(1) by (cases "mk_instrument m symbol") (simp_all add: evaluate_symbol_def)
  obtain os mem1 where os: "observe_spread m (tc_sessions (oc_trading config)) spec now mem = (os, mem1)" by force
  obtain live_spread where live: "os = Inr live_spread"
    using assms(1) spec os by (cases os) (simp_all add: evaluate_symbol_def)
  have kept: "me_news mem1 = me_news mem" "me_series mem1 = me_series mem"
    using os by (auto simp: observe_spread_def split: sum.splits option.splits if_splits)
  obtain verdict news where news: "check_news (oc_news config) (mk_calendar m) (mk_disk_ok m) (mk_clock m)
      symbol now (me_news mem1) = (verdict, news)" by force
  have open': "\<not> nv_blocked verdict"
    using assms spec os live news
    by (auto simp: evaluate_symbol_def executable_def bare_outcome_def)
  obtain fr cache where fr: "multi_timeframe (tc_smc (oc_trading config)) (mk_candles m) spec TIMEFRAMES now
      (mk_ticks m) (me_series mem) = (fr, cache)" by force
  obtain frames where frames: "fr = Inr frames"
    using assms spec os live news open' fr kept
    by (cases fr) (auto simp: evaluate_symbol_def executable_def bare_outcome_def split: if_splits)
  let ?an = "strategy_analyze s (mk_setup_digest m) (oc_trading config) symbol
      (map (\<lambda>(tf, f). (tf, pv_candles f)) frames) now live_spread"
  obtain r where r: "?an = Some r"
    using assms spec os live news open' fr frames kept by (cases ?an) (auto simp: evaluate_symbol_def)
  obtain c where c: "sr_candidate r = Some c"
    using assms spec os live news open' fr frames kept r
    by (cases "sr_candidate r") (auto simp: evaluate_symbol_def executable_def bare_outcome_def)
  obtain client1 where "judge_candidate config s m kill account spec now symbol r c (me_ai mem1) = (Inr out, client1)"
    using assms(1) spec os live news open' fr frames kept r c
    by (auto simp: evaluate_symbol_def split: prod.splits)
  with that spec os live news open' fr frames kept r c show thesis by simp
qed

subsection \<open>Ranking\<close>

lemma rank_outcomes_mset: "mset (rank_outcomes os) = mset os"
  by (simp add: rank_outcomes_def)

lemma rank_outcomes_sorted: "sorted_wrt (\<lambda>a b. rank_key b \<le> rank_key a) (rank_outcomes os)"
proof -
  have flip: "flip_key k \<le> flip_key l \<longleftrightarrow> l \<le> k" for k l
    by (cases k; cases l) (auto simp: flip_key_def less_eq_prod_def)
  have "sorted (map (\<lambda>o'. flip_key (rank_key o')) (rank_outcomes os))"
    by (simp add: rank_outcomes_def)
  then show ?thesis by (simp add: sorted_map flip)
qed

text \<open>The walk down the ranking: the attempts before the last one were refused for their symbol alone.\<close>

lemma execute_outcome_orders:
  assumes "execute_outcome config m venue_for key scan_id now o' (w, rows) = (r, w', rows')"
  shows "orders w' = orders w \<or> (\<exists>entry. orders w' = orders w @ [entry])"
    and "r = Inr None \<Longrightarrow> orders w' = orders w"
    and "r = Inr (Some x) \<Longrightarrow> xr_symbol_specific x \<Longrightarrow> orders w' = orders w"
proof -
  consider "w' = w" "r = Inr None \<or> (\<exists>e. r = Inl e)"
    | p y where "execute (oc_trading config) (venue_for p) p (so_atr o') w = (y, w')"
        "case y of Inl e \<Rightarrow> r = Inl e | Inr x \<Rightarrow> r = Inr (Some x)"
    using assms by (auto simp: execute_outcome_def split: option.splits sum.splits prod.splits)
  then have "(orders w' = orders w \<or> (\<exists>entry. orders w' = orders w @ [entry]))
    \<and> (r = Inr None \<longrightarrow> orders w' = orders w)
    \<and> (r = Inr (Some x) \<longrightarrow> xr_symbol_specific x \<longrightarrow> orders w' = orders w)"
  proof cases
    case (2 p y)
    have "orders w' = orders w \<or> (\<exists>entry. orders w' = orders w @ [entry])"
      using execute_orders(1) [OF 2(1)] by blast
    moreover have "orders w' = orders w" if "r = Inr (Some x)" "xr_symbol_specific x"
    proof -
      have "y = Inr x" using 2(2) that(1) by (cases y) simp_all
      with 2(1) have "execute (oc_trading config) (venue_for p) p (so_atr o') w = (Inr x, w')" by simp
      then show ?thesis using that(2) by (rule execute_specific_sends_nothing)
    qed
    ultimately show ?thesis using 2(2) by (cases y) auto
  qed auto
  then show "orders w' = orders w \<or> (\<exists>entry. orders w' = orders w @ [entry])"
    and "r = Inr None \<Longrightarrow> orders w' = orders w"
    and "r = Inr (Some x) \<Longrightarrow> xr_symbol_specific x \<Longrightarrow> orders w' = orders w" by simp_all
qed

lemma execute_ranked_orders:
  assumes "execute_ranked config m venue_for key scan_id now os x (w, rows) = (r, w', rows')"
  shows "orders w' = orders w \<or> (\<exists>entry. orders w' = orders w @ [entry])"
  using assms
proof (induction os arbitrary: x w rows)
  case (Cons o' os)
  obtain y w1 rows1 where step: "execute_outcome config m venue_for key scan_id now o' (w, rows) = (y, w1, rows1)"
    by (cases "execute_outcome config m venue_for key scan_id now o' (w, rows)")
  consider (stop) "w' = w1" | (again) z where "y = Inr (Some z)" "xr_symbol_specific z"
      "execute_ranked config m venue_for key scan_id now os (Some z) (w1, rows1) = (r, w', rows')"
    using Cons.prems step by (auto split: sum.splits option.splits if_splits)
  then show ?case
  proof cases
    case stop
    then show ?thesis using execute_outcome_orders(1) [OF step] by simp
  next
    case again
    then show ?thesis using Cons.IH [OF again(3)] execute_outcome_orders(3) [OF step again(1,2)] by simp
  qed
qed simp

lemma execute_ranked_result:
  assumes "fst (execute_ranked config m venue_for key scan_id now os x st) = Inr (Some y)"
  shows "x = Some y \<or> (\<exists>o' \<in> set os. outcome_plan m key now o' = Some (Inr (xr_plan y)))"
  using assms
proof (induction os arbitrary: x st)
  case (Cons o' os)
  obtain z st1 where step: "execute_outcome config m venue_for key scan_id now o' st = (z, st1)"
    by (cases "execute_outcome config m venue_for key scan_id now o' st")
  have plan: "outcome_plan m key now o' = Some (Inr (xr_plan v))" if "z = Inr (Some v)" for v
    using step that by (auto simp: execute_outcome_def dest: execute_plan split: prod.splits option.splits sum.splits)
  show ?case
  proof (cases z)
    case (Inl e)
    with Cons.prems step show ?thesis by simp
  next
    case (Inr q)
    show ?thesis
    proof (cases q)
      case None
      with Cons.prems step Inr show ?thesis by simp
    next
      case (Some v)
      with Cons.prems Cons.IH [of "Some v" st1] step Inr plan [of v] show ?thesis
        by (auto split: if_splits)
    qed
  qed
qed simp

subsection \<open>Properties\<close>

lemma executable_gates:
  assumes "fst (evaluate_symbol config s m kill account now symbol mem) = Inr out" and "executable out"
  shows "\<exists>c decision spec frames live_spread r.
    so_candidate out = Some c \<and> so_risk out = Some decision \<and> so_spec out = Some spec
    \<and> mk_instrument m symbol = Inr spec
    \<and> \<not> nv_blocked (fst (check_news (oc_news config) (mk_calendar m) (mk_disk_ok m) (mk_clock m) symbol now (me_news mem)))
    \<and> fst (multi_timeframe (tc_smc (oc_trading config)) (mk_candles m) spec TIMEFRAMES now (mk_ticks m) (me_series mem))
        = Inr frames
    \<and> strategy_analyze s (mk_setup_digest m) (oc_trading config) symbol (map (\<lambda>(tf, f). (tf, pv_candles f)) frames)
        now live_spread = Some r \<and> sr_candidate r = Some c
    \<and> score_tradeable (score_setup (oc_trading config) c)
    \<and> decision = evaluate_risk (risk_view s (oc_trading config)) (Some kill) (setup_candidate.truncate c)
        (tier_text (sc_tier (score_setup (oc_trading config) c))) account spec (Some (market_rate m)) None now
    \<and> rd_approved decision
    \<and> ai_gate_passed (oc_ai config) c (score_setup (oc_trading config) c) (so_ai out)"
proof -
  obtain mem' where run: "evaluate_symbol config s m kill account now symbol mem = (Inr out, mem')"
    using assms(1) by (metis fst_conv surj_pair)
  from run assms(2) show ?thesis
  proof (cases rule: evaluated_executable)
    case (1 spec frames r c client client1 live_spread)
    from 1(7) assms(2) show ?thesis
      by (rule judged_executable) (use 1 in blast)
  qed
qed

text \<open>C6. A symbol becomes executable only behind every gate, in their order: the instrument is known, no
  news blackout holds, the series of every timeframe are there, the strategy in force built the
  candidate, the scorer grades it tradeable, the risk engine approves it with the reward floor of the
  strategy, and the AI confirmed it or was not required to be asked.\<close>

theorem executable_passed_every_gate:
  "case fst (evaluate_symbol config s m kill account now symbol mem) of
     Inl _ \<Rightarrow> True
   | Inr out \<Rightarrow>
      if executable out then
       (\<exists>c decision spec frames live_spread r.
         so_candidate out = Some c \<and> so_risk out = Some decision \<and> so_spec out = Some spec
         \<and> mk_instrument m symbol = Inr spec
         \<and> \<not> nv_blocked (fst (check_news (oc_news config) (mk_calendar m) (mk_disk_ok m) (mk_clock m) symbol now
              (me_news mem)))
         \<and> fst (multi_timeframe (tc_smc (oc_trading config)) (mk_candles m) spec TIMEFRAMES now (mk_ticks m)
              (me_series mem)) = Inr frames
         \<and> strategy_analyze s (mk_setup_digest m) (oc_trading config) symbol
             (map (\<lambda>(tf, f). (tf, pv_candles f)) frames) now live_spread = Some r \<and> sr_candidate r = Some c
         \<and> score_tradeable (score_setup (oc_trading config) c)
         \<and> decision = evaluate_risk (risk_view s (oc_trading config)) (Some kill) (setup_candidate.truncate c)
             (tier_text (sc_tier (score_setup (oc_trading config) c))) account spec (Some (market_rate m)) None now
         \<and> rd_approved decision
         \<and> ai_gate_passed (oc_ai config) c (score_setup (oc_trading config) c) (so_ai out))
      else True"
proof (cases "fst (evaluate_symbol config s m kill account now symbol mem)")
  case (Inr out)
  show ?thesis
  proof (cases "executable out")
    case True
    from executable_gates [OF Inr True] show ?thesis unfolding Inr sum.case if_P [OF True] .
  qed (simp add: Inr)
qed simp

text \<open>C39. In the reversion mode the pipeline never produces an executable outcome, whatever the market, the
  account and the configuration: the candidates of that strategy carry no entry zone, and the scorer
  demands one.\<close>

theorem reversion_mode_never_executes:
  "case fst (evaluate_symbol config Reversion_Strategy m kill account now symbol mem) of
     Inl _ \<Rightarrow> True | Inr out \<Rightarrow> \<not> executable out"
proof (cases "fst (evaluate_symbol config Reversion_Strategy m kill account now symbol mem)")
  case (Inr out)
  have False if ex: "executable out"
  proof -
    obtain mem' where run: "evaluate_symbol config Reversion_Strategy m kill account now symbol mem = (Inr out, mem')"
      using Inr by (metis fst_conv surj_pair)
    from run ex show False
    proof (cases rule: evaluated_executable)
      case (1 spec frames r c client client1 live_spread)
      have "cd_point_of_interest c = None"
        using 1(5,6)
        by (auto simp: strategy_analyze_def reversion_analyze_def Let_def reversion_candidate_def
            elim!: reversion_built split: option.splits sum.splits)
      moreover have "score_tradeable (score_setup (oc_trading config) c)"
        using 1(7) ex by (rule judged_executable)
      ultimately show False using unplaced_not_tradeable by blast
    qed
  qed
  with Inr show ?thesis by auto
qed simp

text \<open>A scan sends at most one order: whatever the candidates and the broker's answers, working down
  the ranking appends at most one order to the broker's trace.\<close>

theorem one_order_per_scan:
  "let w' = fst (snd (execute_best config m venue_for key scan_id now outcomes (w, rows)))
   in orders w' = orders w \<or> (\<exists>entry. orders w' = orders w @ [entry])"
  using execute_ranked_orders [of config m venue_for key scan_id now "rank_outcomes outcomes" None w rows]
  by (metis execute_best_def prod.collapse)

text \<open>The ranking is a rearrangement of the candidates in descending order of tier, score, reward and
  expected profit, in that priority, and leaves equals in their order.\<close>

theorem ranking_is_by_quality:
  "mset (rank_outcomes os) = mset os
   \<and> sorted_wrt (\<lambda>a b. rank_key b \<le> rank_key a) (rank_outcomes os)
   \<and> filter (\<lambda>o'. rank_key o' = k) (rank_outcomes os) = filter (\<lambda>o'. rank_key o' = k) os"
proof -
  have inj: "flip_key a = flip_key b \<longleftrightarrow> a = b" for a b
    by (cases a; cases b) (auto simp: flip_key_def)
  have "filter (\<lambda>o'. rank_key o' = k) (rank_outcomes os) = filter (\<lambda>o'. rank_key o' = k) os"
    using sort_key_stable [of "\<lambda>o'. flip_key (rank_key o')" "flip_key k" os]
    by (simp add: rank_outcomes_def inj)
  then show ?thesis using rank_outcomes_mset rank_outcomes_sorted by blast
qed

text \<open>What was executed is the plan of one of the scan's candidates, untouched: the result of a scan
  carries the plan built from one of the outcomes it was given.\<close>

theorem executed_plan_is_a_candidates:
  assumes "fst (execute_best config m venue_for key scan_id now outcomes st) = Inr (Some x)"
  shows "\<exists>o' \<in> set outcomes. outcome_plan m key now o' = Some (Inr (xr_plan x))"
  using execute_ranked_result [of config m venue_for key scan_id now "rank_outcomes outcomes" None st x] assms
  by (simp add: execute_best_def rank_outcomes_def)

definition sample_outcome :: symbol_outcome where
  "sample_outcome = (bare_outcome ''EURUSD'' ''CANDIDATE'' ''CANDIDATE'' None)
     \<lparr> so_candidate := Some sample_setup, so_score := Some sample_score,
       so_risk := Some (evaluate_risk sample_config None sample_candidate ''A'' sample_account sample_spec None (Some 30)
         sample_moment), so_spec := Some sample_spec, so_atr := 1 / 100 \<rparr>"

definition sample_market :: market where
  "sample_market = \<lparr> mk_instrument = (\<lambda>_. Inr sample_spec),
     mk_quote = (\<lambda>_. Inr \<lparr> q_symbol = ''EURUSD'', q_bid = 109 / 100, q_ask = 11 / 10, q_timestamp = 0 \<rparr>),
     mk_candles = (\<lambda>_ _ _. Inr [one_bar]), mk_calendar = Some [], mk_disk_ok = True, mk_spread_write = None,
     mk_clock = 0, mk_ticks = 0, mk_network = (\<lambda>_ _ _. TransportFailure), mk_python = plain_python,
     mk_prompt = (\<lambda>_ _. []), mk_setup_digest = (\<lambda>_. ''s1''), mk_plan_digest = (\<lambda>_. ''x1''),
     mk_context = (\<lambda>_ _ _. []) \<rparr>"

definition sample_bot_config :: bot_config where
  "sample_bot_config = \<lparr> oc_trading = sample_config, oc_ai = default_ai_config\<lparr> ac_enabled := False \<rparr>,
     oc_news = default_news_config, oc_strategy = ''smc'', oc_trading_enabled_default = True \<rparr>"

theorem executed_plan_is_a_candidates_witness:
  "\<exists>x. fst (execute_best sample_bot_config sample_market (\<lambda>_. demo_venue\<lparr> ve_ping := False \<rparr>) ''smc'' ''s'' 0
       [sample_outcome] (empty_world, [])) = Inr (Some x)
     \<and> outcome_plan sample_market ''smc'' 0 sample_outcome = Some (Inr (xr_plan x))"
proof -
  obtain sized where sized: "rd_size (evaluate_risk sample_config None sample_candidate ''A'' sample_account
      sample_spec None (Some 30) sample_moment) = Some sized"
    using sample_approved by (rule approved_parts)
  have "\<exists>x. fst (execute_best sample_bot_config sample_market (\<lambda>_. demo_venue\<lparr> ve_ping := False \<rparr>) ''smc'' ''s'' 0
       [sample_outcome] (empty_world, [])) = Inr (Some x)"
    by (simp add: execute_best_def rank_outcomes_def execute_outcome_def outcome_plan_def sample_outcome_def
        bare_outcome_def build_plan_def sized execute_def failed_def demo_venue_def)
  then obtain x where x: "fst (execute_best sample_bot_config sample_market (\<lambda>_. demo_venue\<lparr> ve_ping := False \<rparr>)
       ''smc'' ''s'' 0 [sample_outcome] (empty_world, [])) = Inr (Some x)" by blast
  from executed_plan_is_a_candidates [OF this] x show ?thesis by auto
qed

end
