(* ===== verification/Scan.thy ===== *)
theory Scan
  imports Pipeline Reconciler Manager
begin

text \<open>
  The cycles of the bot, \<open>bot/orchestrator.py\<close>: start-up, the account state the risk engine judges,
  the scan with its gates, the bookkeeping after an execution, position management and the periodic
  reconciliation. The whole persistent state is the record \<open>bot\<close>; the kill switch keeps its key in
  a store of its own. What the outside answers extends the record \<open>market\<close>. The read model of the
  dashboard (\<open>LiveCache\<close>, \<open>health\<close>, \<open>strategy_status\<close>), the lock against overlapping scans, threads
  and logging are left out; of the tables only the key/value state can fail, the failures of the
  others are those of the components.
\<close>

subsection \<open>State\<close>

text \<open>Values of the key/value state by the key they are stored under: the pause flag, the counts of
  trades per session of a day, moments (\<open>None\<close> when the text is no ISO moment), names, the last scan.\<close>

type_synonym session_key = "int \<times> string"

datatype state_value =
    Flag_Value bool | Counts_Value "(session_key \<times> nat) list" | Moment_Value "micros option"
  | Text_Value string | Scan_Value string micros bool

definition STATE_TRADING_ENABLED :: string where "STATE_TRADING_ENABLED = ''trading_enabled''"
definition STATE_LAST_SCAN :: string where "STATE_LAST_SCAN = ''last_scan''"
definition STATE_SESSION_COUNTS :: string where "STATE_SESSION_COUNTS = ''session_trade_counts''"
definition STATE_STRATEGY :: string where "STATE_STRATEGY = ''active_strategy''"
definition STATE_ACCOUNT_ID :: string where "STATE_ACCOUNT_ID = ''broker_account_id''"

lemmas state_keys = STATE_TRADING_ENABLED_def STATE_LAST_SCAN_def STATE_SESSION_COUNTS_def
  STATE_STRATEGY_def STATE_ACCOUNT_ID_def

record bot =
  bt_memory :: memory
  bt_world :: world
  bt_journal :: journal
  bt_equity :: equity_table
  bt_kill :: kill_store
  bt_values :: "state_value kv_state"
  bt_startup_complete :: bool

record outside = market +
  os_session :: "exn + unit"
  os_metadata :: "broker_record option"
  os_claims :: "broker_record option"
  os_ping :: bool
  os_account :: "exn + account_state"
  os_positions :: "exn + broker_position list"
  os_quotes :: "string \<Rightarrow> exn + quote"
  os_venue :: "trade_plan \<Rightarrow> venue"
  os_recon :: recon_venue
  os_manage :: manage_venue
  os_scan_id :: string
  os_reason_text :: "outcome_reason \<Rightarrow> string"

subsection \<open>Reads of the state\<close>

definition value_truthy :: "state_value \<Rightarrow> bool" where
  "value_truthy v = (case v of Flag_Value b \<Rightarrow> b | Counts_Value cs \<Rightarrow> cs \<noteq> [] | Text_Value s \<Rightarrow> s \<noteq> [] | _ \<Rightarrow> True)"

definition trading_enabled :: "bot_config \<Rightarrow> state_value kv_state \<Rightarrow> exn + bool" where
  "trading_enabled config values =
     bind_err (state_get values STATE_TRADING_ENABLED) (\<lambda>v.
       Inr (case v of None \<Rightarrow> oc_trading_enabled_default config | Some x \<Rightarrow> value_truthy x))"

definition set_trading_enabled :: "bool \<Rightarrow> state_value kv_state \<Rightarrow> exn + state_value kv_state" where
  "set_trading_enabled enabled values = state_set values STATE_TRADING_ENABLED (Flag_Value enabled)"

text \<open>A failed read counts as nothing stored.\<close>

definition strategy_key :: "bot_config \<Rightarrow> state_value kv_state \<Rightarrow> string" where
  "strategy_key config values =
     resolve_strategy (case state_get values STATE_STRATEGY of Inr (Some (Text_Value s)) \<Rightarrow> Some s | _ \<Rightarrow> None)
       (oc_strategy config)"

text \<open>\<open>set_strategy\<close>: an unknown name is refused before anything is stored.\<close>

definition set_strategy :: "string \<Rightarrow> state_value kv_state \<Rightarrow> exn + state_value kv_state" where
  "set_strategy name values =
     (case normalise (Some name) of
        None \<Rightarrow> Inl \<lparr> exn_class = ConfigError, exn_message = ''unknown strategy'' \<rparr>
      | Some key \<Rightarrow> state_set values STATE_STRATEGY (Text_Value key))"

definition event_key :: "string \<Rightarrow> string" where
  "event_key kind = ''last_'' @ kind @ ''_at''"

definition last_event_time :: "state_value kv_state \<Rightarrow> string \<Rightarrow> exn + micros option" where
  "last_event_time values kind =
     bind_err (state_get values (event_key kind)) (\<lambda>v.
       Inr (case v of Some (Moment_Value t) \<Rightarrow> t | _ \<Rightarrow> None))"

definition record_event_time :: "string \<Rightarrow> micros \<Rightarrow> state_value kv_state \<Rightarrow> exn + state_value kv_state" where
  "record_event_time kind moment values = state_set values (event_key kind) (Moment_Value (Some moment))"

definition session_key_of :: "session_config \<Rightarrow> micros \<Rightarrow> session_key" where
  "session_key_of sessions moment = (trading_day moment, ss_name (classify_session moment sessions))"

definition session_counts :: "state_value kv_state \<Rightarrow> exn + (session_key \<times> nat) list" where
  "session_counts values =
     bind_err (state_get values STATE_SESSION_COUNTS) (\<lambda>v.
       Inr (case v of Some (Counts_Value cs) \<Rightarrow> cs | _ \<Rightarrow> []))"

definition bump_session_count ::
  "session_config \<Rightarrow> micros \<Rightarrow> state_value kv_state \<Rightarrow> exn + state_value kv_state" where
  "bump_session_count sessions moment values =
     bind_err (session_counts values) (\<lambda>counts.
       state_set values STATE_SESSION_COUNTS (Counts_Value
         (filter (\<lambda>((day, _), _). day = trading_day moment) (bump (session_key_of sessions moment) 1 counts))))"

subsection \<open>The account state\<close>

definition implied_risk :: "(string \<Rightarrow> exn + instrument_spec) \<Rightarrow> broker_position \<Rightarrow> exn + real option" where
  "implied_risk instrument p =
     (if \<not> truthy (bp_stop_loss p) \<or> bp_entry_price p = 0 then Inr None
      else
        (case instrument (bp_symbol p) of
           Inl e \<Rightarrow> (if isinstance e BotError then Inr None else Inl e)
         | Inr spec \<Rightarrow> Inr (Some (\<bar>bp_entry_price p - the (bp_stop_loss p)\<bar> * sp_contract_size spec * bp_quantity p))))"

fun open_rows ::
  "(string \<Rightarrow> exn + instrument_spec) \<Rightarrow> trade_table \<Rightarrow> broker_position list \<Rightarrow> exn + open_position list" where
  "open_rows instrument trades [] = Inr []"
| "open_rows instrument trades (p # ps) =
     bind_err (case Option.bind (by_position_id trades (bp_position_id p)) td_risk_amount of
        Some x \<Rightarrow> Inr (Some x) | None \<Rightarrow> implied_risk instrument p) (\<lambda>risk.
     bind_err (open_rows instrument trades ps) (\<lambda>rest.
       Inr (\<lparr> op_position_id = Some (bp_position_id p), op_symbol = bp_symbol p, op_direction = bp_direction p,
              op_risk_amount = risk, op_riskAmount = None \<rparr> # rest)))"

definition recent_by_symbol :: "bot_config \<Rightarrow> trade_table \<Rightarrow> micros \<Rightarrow> (string \<times> symbol_summary) list" where
  "recent_by_symbol config trades moment =
     (if rc_symbol_lock_losses (tc_risk (oc_trading config)) \<le> 0 then []
      else losses_by_symbol_since trades (moment - hours_micros (rc_symbol_lock_lookback_hours (tc_risk (oc_trading config)))))"

text \<open>The result and the day table, in which the row of the day now exists.\<close>

definition compose_account_state ::
  "bot_config \<Rightarrow> (string \<Rightarrow> exn + instrument_spec) \<Rightarrow> bot \<Rightarrow> account_state \<Rightarrow> broker_position list \<Rightarrow> micros
     \<Rightarrow> (exn + account_risk_state) \<times> bot" where
  "compose_account_state config instrument b account positions moment =
     (let account_id = bc_account_id (tc_broker (oc_trading config));
          trades = w_trades (bt_world b);
          recorded = peak_equity (bt_equity b) account_id;
          peak = (case recorded of None \<Rightarrow> as_equity account
            | Some x \<Rightarrow> if x = 0 then as_equity account else x);
          (row, days) = today (w_days (bt_world b)) moment (Some (as_balance account));
          b1 = b\<lparr> bt_world := (bt_world b)\<lparr> w_days := days \<rparr> \<rparr>
      in (bind_err (open_rows instrument trades positions) (\<lambda>rows.
          bind_err (session_counts (bt_values b)) (\<lambda>counts.
          bind_err (last_event_time (bt_values b) ''loss'') (\<lambda>last_loss.
          bind_err (last_event_time (bt_values b) ''execution_failure'') (\<lambda>last_failure.
            Inr \<lparr> ar_balance = as_balance account, ar_equity = as_equity account,
              ar_available_margin = as_margin_available account, ar_peak_equity = max peak (as_equity account),
              ar_daily_realized_pnl = (case row of None \<Rightarrow> 0 | Some r \<Rightarrow> dy_realized_pnl r),
              ar_open_pnl = as_open_pnl account,
              ar_trades_today = (case row of None \<Rightarrow> 0 | Some r \<Rightarrow> dy_trades_opened r),
              ar_trades_this_session = count_of counts (session_key_of (tc_sessions (oc_trading config)) moment),
              ar_consecutive_losses = consecutive_losses days, ar_open_positions = rows,
              ar_last_loss_at = last_loss, ar_last_execution_failure_at = last_failure,
              ar_traded_setup_ids = traded_setup_ids trades (rc_setup_reentry_block_hours (tc_risk (oc_trading config))) moment,
              ar_recent_by_symbol = recent_by_symbol config trades moment \<rparr>)))), b1))"

definition build_account_state :: "bot_config \<Rightarrow> outside \<Rightarrow> micros \<Rightarrow> bot \<Rightarrow> (exn + account_risk_state) \<times> bot" where
  "build_account_state config out moment b =
     (case os_account out of
        Inl e \<Rightarrow> (Inl e, b)
      | Inr account \<Rightarrow>
          (case os_positions out of
             Inl e \<Rightarrow> (Inl e, b)
           | Inr positions \<Rightarrow>
               compose_account_state config (mk_instrument out)
                 (b\<lparr> bt_equity := equity_snapshot (bt_equity b) (as_balance account) (as_equity account)
                    (bc_account_id (tc_broker (oc_trading config))) moment \<rparr>)
                 account positions moment))"

subsection \<open>The gates of a scan\<close>

datatype skip_reason =
    StartupIncomplete | Paused | WeekendClosed | DemoFailed "evidence list option" | AccountUnavailable
  | KillActive "string option" | NoCandidate

record scan_result =
  sn_demo :: "demo_verification option"
  sn_account :: "account_risk_state option"
  sn_outcomes :: "symbol_outcome list"
  sn_executed :: "execution_result option"
  sn_skipped :: "skip_reason option"
  sn_errors :: "string list"
  sn_unavailable :: "string list"

definition empty_scan :: scan_result where
  "empty_scan = \<lparr> sn_demo = None, sn_account = None, sn_outcomes = [], sn_executed = None, sn_skipped = None,
     sn_errors = [], sn_unavailable = [] \<rparr>"

definition trip_for_failed_verification ::
  "demo_verification \<Rightarrow> micros \<Rightarrow> kill_store \<Rightarrow> exn option \<times> kill_store" where
  "trip_for_failed_verification v now kill =
     (if dv_contradicted v then
        (case kill_trip kill ''ENVIRONMENT_MISMATCH'' ''DEMO verification failed'' now of
           (Inl e, kill') \<Rightarrow> (Some e, kill') | (Inr _, kill') \<Rightarrow> (None, kill'))
      else (None, kill))"

text \<open>One symbol of the loop: every exception becomes an outcome, and every outcome is journalled.\<close>

definition guarded_outcome :: "string \<Rightarrow> exn + symbol_outcome \<Rightarrow> symbol_outcome" where
  "guarded_outcome symbol r =
     (case r of
        Inr out \<Rightarrow> out
      | Inl e \<Rightarrow>
          if isinstance e SymbolUnavailable
          then bare_outcome symbol ''CONFIG'' ''UNAVAILABLE'' (Some (ErrorReason (exn_message e)))
          else bare_outcome symbol ''ERROR'' ''ERROR'' (Some (ErrorReason (exn_message e))))"

definition journal_outcome ::
  "(outcome_reason \<Rightarrow> string) \<Rightarrow> string \<Rightarrow> micros \<Rightarrow> symbol_outcome \<Rightarrow> journal \<Rightarrow> journal" where
  "journal_outcome render scan_id now o' rows =
     journal_record rows scan_id (so_symbol o') (so_stage o') (so_outcome o') (map_option render (so_reason o')) now"

fun evaluate_all ::
  "bot_config \<Rightarrow> strategy \<Rightarrow> outside \<Rightarrow> kill_store \<Rightarrow> account_risk_state \<Rightarrow> micros \<Rightarrow> string list
     \<Rightarrow> memory \<Rightarrow> journal \<Rightarrow> symbol_outcome list \<times> memory \<times> journal" where
  "evaluate_all config s out kill account now [] mem rows = ([], mem, rows)"
| "evaluate_all config s out kill account now (symbol # symbols) mem rows =
     (let (r, mem1) = evaluate_symbol config s (market.truncate out) kill account now symbol mem;
          o' = guarded_outcome symbol r;
          (os, mem2, rows2) = evaluate_all config s out kill account now symbols mem1
            (journal_outcome (os_reason_text out) (os_scan_id out) now o' rows)
      in (o' # os, mem2, rows2))"

subsection \<open>After an execution\<close>

definition execution_failure_status :: "execution_status \<Rightarrow> bool" where
  "execution_failure_status s = (s = Ambiguous \<or> s = Rejected)"

definition record_execution_outcome ::
  "execution_result \<Rightarrow> micros \<Rightarrow> state_value kv_state \<Rightarrow> exn + state_value kv_state" where
  "record_execution_outcome x moment values =
     (if xr_ok x \<or> \<not> execution_failure_status (xr_status x) then Inr values
      else record_event_time ''execution_failure'' moment values)"

text \<open>The state after the execution of a scan; the positions read after a success are tracked, and a
  \<open>BotError\<close> on the way is only logged.\<close>

definition aftermath ::
  "session_config \<Rightarrow> micros \<Rightarrow> execution_result option \<Rightarrow> state_value kv_state \<Rightarrow> exn + state_value kv_state" where
  "aftermath sessions moment executed values =
     (case executed of
        None \<Rightarrow> Inr values
      | Some x \<Rightarrow>
          if xr_ok x then bump_session_count sessions moment values
          else record_execution_outcome x moment values)"

definition refresh_live_positions :: "outside \<Rightarrow> micros \<Rightarrow> world \<Rightarrow> (exn + broker_position list \<times> track_row list) \<times> world" where
  "refresh_live_positions out now w =
     (case os_positions out of
        Inl e \<Rightarrow> (Inl e, w)
      | Inr positions \<Rightarrow>
          (case track (os_quotes out) now positions (w_trades w) of
             (Inl e, trades) \<Rightarrow> (Inl e, w\<lparr> w_trades := trades \<rparr>)
           | (Inr rows, trades) \<Rightarrow> (Inr (positions, rows), w\<lparr> w_trades := trades \<rparr>)))"

definition refresh_after_success :: "outside \<Rightarrow> micros \<Rightarrow> execution_result option \<Rightarrow> world \<Rightarrow> exn option \<times> world" where
  "refresh_after_success out now executed w =
     (case executed of
        None \<Rightarrow> (None, w)
      | Some x \<Rightarrow>
          if \<not> xr_ok x then (None, w)
          else
            (case refresh_live_positions out now w of
               (Inr _, w1) \<Rightarrow> (None, w1)
             | (Inl e, w1) \<Rightarrow> (if isinstance e BotError then None else Some e, w1)))"

definition decision_made :: "scan_result \<Rightarrow> bool" where
  "decision_made r = (case sn_executed r of None \<Rightarrow> False | Some x \<Rightarrow> xr_ok x)"

subsection \<open>The scan\<close>

text \<open>From the evaluation of the symbols to the stored summary.\<close>

definition scan_symbols ::
  "bot_config \<Rightarrow> outside \<Rightarrow> micros \<Rightarrow> account_risk_state \<Rightarrow> scan_result \<Rightarrow> bot \<Rightarrow> (exn + scan_result) \<times> bot" where
  "scan_symbols config out now account result b =
     (let key = strategy_key config (bt_values b);
          (outcomes, mem, rows) = evaluate_all config (strategy_of key) out (bt_kill b) account now
            (tc_symbols (oc_trading config)) (bt_memory b) (bt_journal b);
          result1 = result\<lparr> sn_outcomes := outcomes,
            sn_errors := map so_symbol (filter (\<lambda>o'. so_stage o' = ''ERROR'') outcomes),
            sn_unavailable := map so_symbol (filter (\<lambda>o'. so_outcome o' = ''UNAVAILABLE'') outcomes) \<rparr>;
          b1 = b\<lparr> bt_memory := mem, bt_journal := rows \<rparr>;
          candidates = filter executable outcomes;
          finish = (\<lambda>result2 b2. case state_set (bt_values b2) STATE_LAST_SCAN
                (Scan_Value (os_scan_id out) now (decision_made result2)) of
              Inl e \<Rightarrow> (Inl e, b2)
            | Inr values \<Rightarrow> (Inr result2, b2\<lparr> bt_values := values \<rparr>))
      in if candidates = [] then finish (result1\<lparr> sn_skipped := Some NoCandidate \<rparr>) b1
         else
           (case execute_best config (market.truncate out) (os_venue out) key (os_scan_id out) now candidates
                   (bt_world b1, bt_journal b1) of
              (Inl e, w, rows1) \<Rightarrow> (Inl e, b1\<lparr> bt_world := w, bt_journal := rows1 \<rparr>)
            | (Inr executed, w, rows1) \<Rightarrow>
                (let b2 = b1\<lparr> bt_world := w, bt_journal := rows1 \<rparr>
                 in case aftermath (tc_sessions (oc_trading config)) now executed (bt_values b2) of
                      Inl e \<Rightarrow> (Inl e, b2)
                    | Inr values \<Rightarrow>
                        (let (failure, w1) = refresh_after_success out now executed (bt_world b2);
                             b3 = b2\<lparr> bt_values := values, bt_world := w1 \<rparr>
                         in case failure of
                              Some e \<Rightarrow> (Inl e, b3)
                            | None \<Rightarrow> finish (result1\<lparr> sn_executed := executed \<rparr>) b3))))"

text \<open>The kill switch: tripped by the account state, then read.\<close>

definition scan_kill_gate ::
  "bot_config \<Rightarrow> outside \<Rightarrow> micros \<Rightarrow> account_risk_state \<Rightarrow> scan_result \<Rightarrow> bot \<Rightarrow> (exn + scan_result) \<times> bot" where
  "scan_kill_gate config out now account result b =
     (let tripped =
        (case evaluate_kill_switch (tc_risk (risk_view (strategy_of (strategy_key config (bt_values b)))
                (oc_trading config))) account of
           None \<Rightarrow> (None, bt_kill b)
         | Some r \<Rightarrow> (case kill_trip (bt_kill b) r ''auto-tripped during scan'' now of
             (Inl e, kill) \<Rightarrow> (Some e, kill) | (Inr _, kill) \<Rightarrow> (None, kill)));
          b1 = b\<lparr> bt_kill := snd tripped \<rparr>;
          kill = kill_read (bt_kill b1)
      in case fst tripped of
           Some e \<Rightarrow> (Inl e, b1)
         | None \<Rightarrow>
             if ks_active kill then
               (Inr (result\<lparr> sn_skipped := Some (KillActive (ks_reason kill)) \<rparr>),
                b1\<lparr> bt_journal := journal_record (bt_journal b1) (os_scan_id out) ''*'' ''RISK'' ''KILL_SWITCH''
                  (ks_reason kill) now \<rparr>)
             else scan_symbols config out now account result b1)"

definition scan :: "bot_config \<Rightarrow> outside \<Rightarrow> micros \<Rightarrow> bot \<Rightarrow> (exn + scan_result) \<times> bot" where
  "scan config out now b =
     (let skip = \<lambda>r result. Inr (result\<lparr> sn_skipped := Some r \<rparr>)
      in if \<not> bt_startup_complete b then (skip StartupIncomplete empty_scan, b)
         else
           (case trading_enabled config (bt_values b) of
              Inl e \<Rightarrow> (Inl e, b)
            | Inr enabled \<Rightarrow>
                if \<not> enabled then (skip Paused empty_scan, b)
                else if is_forex_weekend now then (skip WeekendClosed empty_scan, b)
                else
                  (let v = verify_demo (oc_trading config) (os_metadata out) (os_claims out);
                       result = empty_scan\<lparr> sn_demo := Some v \<rparr>
                   in if \<not> dv_verified v then
                        (case trip_for_failed_verification v now (bt_kill b) of
                           (Some e, kill) \<Rightarrow> (Inl e, b\<lparr> bt_kill := kill \<rparr>)
                         | (None, kill) \<Rightarrow> (skip (DemoFailed (dv_reason v)) result, b\<lparr> bt_kill := kill \<rparr>))
                      else
                        (case build_account_state config out now b of
                           (Inl e, b1) \<Rightarrow>
                             if isinstance e BotError
                             then (skip AccountUnavailable (result\<lparr> sn_errors := [exn_message e] \<rparr>), b1)
                             else (Inl e, b1)
                         | (Inr account, b1) \<Rightarrow>
                             scan_kill_gate config out now account (result\<lparr> sn_account := Some account \<rparr>) b1))))"

subsection \<open>Start-up\<close>

text \<open>A failed read of the stored account ends the note; a failed write escapes.\<close>

definition note_account_identity ::
  "string option \<Rightarrow> state_value kv_state \<Rightarrow> exn + state_value kv_state" where
  "note_account_identity account_id values =
     (let configured = (case account_id of None \<Rightarrow> [] | Some s \<Rightarrow> s)
      in case state_get values STATE_ACCOUNT_ID of
           Inl _ \<Rightarrow> Inr values
         | Inr previous \<Rightarrow>
             if configured = [] then Inr values
             else if (case previous of Some (Text_Value s) \<Rightarrow> s | _ \<Rightarrow> []) \<noteq> configured
             then state_set values STATE_ACCOUNT_ID (Text_Value configured)
             else Inr values)"

datatype startup_error =
    ConnectionFailed | NotDemo "evidence list option" | DatabaseUnreachable | AccountUnreadable

datatype startup_answer = Started reconcile_report | Refused_Start startup_error

definition startup :: "bot_config \<Rightarrow> outside \<Rightarrow> micros \<Rightarrow> bot \<Rightarrow> (exn + startup_answer) \<times> bot" where
  "startup config out now b =
     (let b0 = b\<lparr> bt_startup_complete := False \<rparr>;
          refuse = \<lambda>why. Inr (Refused_Start why);
          v = verify_demo (oc_trading config) (os_metadata out) (os_claims out)
      in case os_session out of
           Inl e \<Rightarrow> (if isinstance e BotError then refuse ConnectionFailed else Inl e, b0)
         | Inr _ \<Rightarrow>
             if \<not> dv_verified v then
               (case trip_for_failed_verification v now (bt_kill b0) of
                  (Some e, kill) \<Rightarrow> (Inl e, b0\<lparr> bt_kill := kill \<rparr>)
                | (None, kill) \<Rightarrow> (refuse (NotDemo (dv_reason v)), b0\<lparr> bt_kill := kill \<rparr>))
             else
               (case note_account_identity (bc_account_id (tc_broker (oc_trading config))) (bt_values b0) of
                  Inl e \<Rightarrow> (Inl e, b0)
                | Inr values \<Rightarrow>
                    (let b1 = b0\<lparr> bt_values := values \<rparr>
                     in if \<not> os_ping out then (refuse DatabaseUnreachable, b1)
                        else
                          (case os_account out of
                             Inl e \<Rightarrow> (if isinstance e BotError then refuse AccountUnreadable else Inl e, b1)
                           | Inr account \<Rightarrow>
                               (let b2 = b1\<lparr> bt_equity := equity_snapshot (bt_equity b1) (as_balance account)
                                      (as_equity account) (bc_account_id (tc_broker (oc_trading config))) now,
                                    bt_world := (bt_world b1)\<lparr> w_days := snd (today (w_days (bt_world b1)) now
                                      (Some (as_balance account))) \<rparr> \<rparr>;
                                    (seeded, w) = refresh_live_positions out now (bt_world b2);
                                    b3 = b2\<lparr> bt_world := w \<rparr>
                                in case (case seeded of Inl e \<Rightarrow> if isinstance e BotError then None else Some e
                                         | Inr _ \<Rightarrow> None) of
                                     Some e \<Rightarrow> (Inl e, b3)
                                   | None \<Rightarrow>
                                       (case reconcile (os_recon out) True (bt_world b3) of
                                          (Inl e, w1) \<Rightarrow> (Inl e, b3\<lparr> bt_world := w1 \<rparr>)
                                        | (Inr report, w1) \<Rightarrow>
                                            (Inr (Started report),
                                             b3\<lparr> bt_world := w1, bt_startup_complete := True \<rparr>)))))))"

subsection \<open>Position management\<close>

definition structure_invalidated :: "trade_table \<Rightarrow> broker_position \<Rightarrow> real \<Rightarrow> bool" where
  "structure_invalidated trades p price =
     (case Option.bind (by_position_id trades (bp_position_id p)) td_stop_loss of
        None \<Rightarrow> False
      | Some stop \<Rightarrow>
          if stop = 0 then False
          else if bp_direction p = ''BUY'' then price < stop else price > stop)"

definition planned_actions ::
  "bot_config \<Rightarrow> trade_table \<Rightarrow> micros \<Rightarrow> broker_position \<times> track_row \<Rightarrow> management_action list" where
  "planned_actions config trades moment pr =
     (let (p, row) = pr
      in case tk_current_price row of
           None \<Rightarrow> []
         | Some price \<Rightarrow> plan_actions p (by_position_id trades (bp_position_id p)) price
             (tc_execution (oc_trading config)) (structure_invalidated trades p price) moment)"

datatype manage_answer =
    MarketShut | NothingToPoll | PollFailed exn | Managed "(management_action \<times> action_outcome) list"

text \<open>\<open>skip_poll\<close> says that nothing is open and the next full read is not yet due.\<close>

definition manage_positions ::
  "bot_config \<Rightarrow> outside \<Rightarrow> bool \<Rightarrow> micros \<Rightarrow> bot \<Rightarrow> (exn + manage_answer) \<times> bot" where
  "manage_positions config out skip_poll moment b =
     (if is_forex_weekend moment then (Inr MarketShut, b)
      else if skip_poll then (Inr NothingToPoll, b)
      else
        (case refresh_live_positions out moment (bt_world b) of
           (Inl e, w) \<Rightarrow> (if isinstance e BotError then Inr (PollFailed e) else Inl e, b\<lparr> bt_world := w \<rparr>)
         | (Inr (positions, rows), w) \<Rightarrow>
             (case os_account out of
                Inl e \<Rightarrow>
                  if \<not> isinstance e BotError then (Inl e, b\<lparr> bt_world := w \<rparr>)
                  else
                    (let (r, w1) = apply_actions (os_manage out) 0
                       (concat (map (planned_actions config (w_trades w) moment) (zip positions rows))) w
                     in (map_sum id Managed r, b\<lparr> bt_world := w1 \<rparr>))
              | Inr _ \<Rightarrow>
                  (let (r, w1) = apply_actions (os_manage out) 0
                     (concat (map (planned_actions config (w_trades w) moment) (zip positions rows))) w
                   in (map_sum id Managed r, b\<lparr> bt_world := w1 \<rparr>)))))"

text \<open>The two intervals are those of the scheduler: with positions held, and idle.\<close>

definition seconds_until_position_poll :: "(int \<times> int) \<Rightarrow> real option \<Rightarrow> nat \<Rightarrow> real \<Rightarrow> real" where
  "seconds_until_position_poll intervals read_at held ticks =
     (case read_at of
        None \<Rightarrow> 0
      | Some t \<Rightarrow> max 0 (of_int (if held \<noteq> 0 then fst intervals else snd intervals) - (ticks - t)))"

definition can_skip_position_poll :: "(int \<times> int) \<Rightarrow> real option \<Rightarrow> nat \<Rightarrow> real \<Rightarrow> bool" where
  "can_skip_position_poll intervals read_at held ticks =
     (read_at \<noteq> None \<and> held = 0 \<and> seconds_until_position_poll intervals read_at held ticks > 0)"

subsection \<open>Periodic reconciliation\<close>

definition counts_as_loss :: "reconcile_report \<Rightarrow> trade_table \<Rightarrow> string \<Rightarrow> bool" where
  "counts_as_loss report trades position_id =
     (position_id \<in> set (rp_unmeasured_closes report)
      \<or> (case by_position_id trades position_id of None \<Rightarrow> False
         | Some t \<Rightarrow> (case td_realized_pnl t of None \<Rightarrow> False | Some x \<Rightarrow> x < 0)))"

fun note_losses ::
  "reconcile_report \<Rightarrow> trade_table \<Rightarrow> micros \<Rightarrow> string list \<Rightarrow> state_value kv_state \<Rightarrow> exn + state_value kv_state" where
  "note_losses report trades now [] values = Inr values"
| "note_losses report trades now (p # ps) values =
     (if counts_as_loss report trades p
      then bind_err (record_event_time ''loss'' now values) (note_losses report trades now ps)
      else note_losses report trades now ps values)"

definition reconcile_cycle :: "outside \<Rightarrow> micros \<Rightarrow> bot \<Rightarrow> (exn + reconcile_report) \<times> bot" where
  "reconcile_cycle out now b =
     (case reconcile (os_recon out) True (bt_world b) of
        (Inl e, w) \<Rightarrow> (Inl e, b\<lparr> bt_world := w \<rparr>)
      | (Inr report, w) \<Rightarrow>
          (case note_losses report (w_trades w) now (rp_closed_stale report) (bt_values b) of
             Inl e \<Rightarrow> (Inl e, b\<lparr> bt_world := w \<rparr>)
           | Inr values \<Rightarrow> (Inr report, b\<lparr> bt_world := w, bt_values := values \<rparr>)))"

subsection \<open>What a scan may change\<close>

lemma compose_frame:
  assumes "compose_account_state config instrument b account positions moment = (r, b')"
  shows "orders (bt_world b') = orders (bt_world b)" "bt_kill b' = bt_kill b" "bt_values b' = bt_values b"
  using assms by (auto simp: compose_account_state_def Let_def world_simps split: prod.splits)

lemma build_frame:
  assumes "build_account_state config out moment b = (r, b')"
  shows "orders (bt_world b') = orders (bt_world b)" "bt_kill b' = bt_kill b" "bt_values b' = bt_values b"
  using assms by (auto simp: build_account_state_def dest: compose_frame split: sum.splits)

lemma refresh_frame:
  assumes "refresh_live_positions out now w = (r, w')"
  shows "orders w' = orders w"
  using assms by (auto simp: refresh_live_positions_def world_simps split: sum.splits prod.splits)

lemma refresh_after_frame:
  assumes "refresh_after_success out now executed w = (r, w')"
  shows "orders w' = orders w"
  using assms
  by (auto simp: refresh_after_success_def dest: refresh_frame split: option.splits if_splits prod.splits sum.splits)

lemma scan_symbols_frame:
  assumes "scan_symbols config out now account result b = (r, b')"
  shows "orders (bt_world b') = orders (bt_world b) \<or> (\<exists>entry. orders (bt_world b') = orders (bt_world b) @ [entry])"
    and "bt_kill b' = bt_kill b"
proof -
  let ?key = "strategy_key config (bt_values b)"
  obtain outcomes mem rows where ev: "evaluate_all config (strategy_of ?key) out (bt_kill b) account now
      (tc_symbols (oc_trading config)) (bt_memory b) (bt_journal b) = (outcomes, mem, rows)"
    by (cases "evaluate_all config (strategy_of ?key) out (bt_kill b) account now
      (tc_symbols (oc_trading config)) (bt_memory b) (bt_journal b)")
  obtain x w rows1 where ex: "execute_best config (market.truncate out) (os_venue out) ?key (os_scan_id out) now
      (filter executable outcomes) (bt_world b, rows) = (x, w, rows1)"
    by (cases "execute_best config (market.truncate out) (os_venue out) ?key (os_scan_id out) now
      (filter executable outcomes) (bt_world b, rows)")
  have sent: "orders w = orders (bt_world b) \<or> (\<exists>entry. orders w = orders (bt_world b) @ [entry])"
    using ex unfolding execute_best_def by (rule execute_ranked_orders)
  have "bt_kill b' = bt_kill b \<and> (orders (bt_world b') = orders (bt_world b) \<or> orders (bt_world b') = orders w)"
    using assms
    by (auto simp: scan_symbols_def Let_def ev ex dest: refresh_after_frame
        split: if_splits sum.splits option.splits prod.splits)
  then show "orders (bt_world b') = orders (bt_world b) \<or> (\<exists>entry. orders (bt_world b') = orders (bt_world b) @ [entry])"
    and "bt_kill b' = bt_kill b" using sent by auto
qed

lemma kill_gate_frame:
  assumes "scan_kill_gate config out now account result b = (r, b')"
  shows "orders (bt_world b') = orders (bt_world b)
    \<or> ((\<exists>entry. orders (bt_world b') = orders (bt_world b) @ [entry]) \<and> \<not> kill_active (bt_kill b'))"
proof -
  define tripped where "tripped =
        (case evaluate_kill_switch (tc_risk (risk_view (strategy_of (strategy_key config (bt_values b)))
                (oc_trading config))) account of
           None \<Rightarrow> (None, bt_kill b)
         | Some r \<Rightarrow> (case kill_trip (bt_kill b) r ''auto-tripped during scan'' now of
             (Inl e, kill) \<Rightarrow> (Some e, kill) | (Inr _, kill) \<Rightarrow> (None, kill)))"
  define b1 where "b1 = b\<lparr> bt_kill := snd tripped \<rparr>"
  have b1: "bt_world b1 = bt_world b" "bt_kill b1 = snd tripped" by (simp_all add: b1_def)
  show ?thesis
  proof (cases "fst tripped = None \<and> \<not> ks_active (kill_read (bt_kill b1))")
    case True
    then have run: "scan_symbols config out now account result b1 = (r, b')"
      using assms by (simp add: scan_kill_gate_def Let_def tripped_def [symmetric] b1_def [symmetric])
    show ?thesis
      using scan_symbols_frame [OF run] True by (auto simp: b1 kill_active_def)
  next
    case False
    then have "bt_world b' = bt_world b"
      using assms b1(1) by (auto simp: scan_kill_gate_def Let_def tripped_def [symmetric] b1_def [symmetric]
        split: option.splits if_splits)
    then show ?thesis by simp
  qed
qed

subsection \<open>Properties\<close>

text \<open>C3. A scan sends no order, or exactly one, and then only behind every gate of the cycle: the
  start-up completed, scanning is enabled, the market is open, the account was verified as a demo
  account in this scan, and the kill switch was not active after the account state had its say.\<close>

theorem scan_order_behind_gates:
  "let b' = snd (scan config out now b)
   in orders (bt_world b') = orders (bt_world b)
    \<or> ((\<exists>entry. orders (bt_world b') = orders (bt_world b) @ [entry])
       \<and> bt_startup_complete b \<and> trading_enabled config (bt_values b) = Inr True \<and> \<not> is_forex_weekend now
       \<and> dv_verified (verify_demo (oc_trading config) (os_metadata out) (os_claims out))
       \<and> \<not> kill_active (bt_kill b'))"
proof -
  obtain r b' where run: "scan config out now b = (r, b')" by force
  let ?gates = "bt_startup_complete b \<and> trading_enabled config (bt_values b) = Inr True \<and> \<not> is_forex_weekend now
       \<and> dv_verified (verify_demo (oc_trading config) (os_metadata out) (os_claims out))"
  show ?thesis
  proof (cases ?gates)
    case False
    then have "bt_world b' = bt_world b"
      using run by (auto simp: scan_def Let_def split: if_splits sum.splits option.splits prod.splits)
    then show ?thesis by (simp add: run)
  next
    case True
    obtain a b1 where a: "build_account_state config out now b = (a, b1)" by force
    show ?thesis
    proof (cases a)
      case (Inl e)
      then have "b' = b1" using run True a by (auto simp: scan_def Let_def split: if_splits)
      then show ?thesis using build_frame(1) [OF a] by (simp add: run)
    next
      case (Inr account)
      then have gate: "scan_kill_gate config out now account
          (empty_scan\<lparr> sn_demo := Some (verify_demo (oc_trading config) (os_metadata out) (os_claims out)),
             sn_account := Some account \<rparr>) b1 = (r, b')"
        using run True a by (simp add: scan_def Let_def)
      show ?thesis using kill_gate_frame [OF gate] build_frame(1) [OF a] True by (simp add: run)
    qed
  qed
qed

text \<open>Every executable outcome of the loop stands on an approved risk decision and a tradeable score.\<close>

definition outcome_sound :: "symbol_outcome \<Rightarrow> bool" where
  "outcome_sound o' =
     (case (so_candidate o', so_risk o', so_score o') of
        (Some c, Some d, Some s) \<Rightarrow> rd_approved d \<and> score_tradeable s \<and> cd_point_of_interest c \<noteq> None
      | _ \<Rightarrow> False)"

lemma evaluated_sound:
  assumes "evaluate_symbol config s m kill account now symbol mem = (Inr out, mem')" and "executable out"
  shows "outcome_sound out"
  using assms
proof (cases rule: evaluated_executable)
  case (1 spec frames r c client client1 live_spread)
  from 1(7) assms(2) show ?thesis
    by (rule judged_executable)
      (use unplaced_not_tradeable [of c "oc_trading config"] in \<open>auto simp: outcome_sound_def\<close>)
qed

lemma evaluate_all_sound:
  "\<lbrakk>evaluate_all config s out kill account now symbols mem rows = (os, mem', rows'); o' \<in> set os; executable o'\<rbrakk>
     \<Longrightarrow> outcome_sound o'"
proof (induction symbols arbitrary: mem rows os mem' rows')
  case (Cons symbol symbols)
  obtain r mem1 where ev: "evaluate_symbol config s (market.truncate out) kill account now symbol mem = (r, mem1)"
    by force
  obtain os2 mem2 rows2 where rest: "evaluate_all config s out kill account now symbols mem1
      (journal_outcome (os_reason_text out) (os_scan_id out) now (guarded_outcome symbol r) rows) = (os2, mem2, rows2)"
    by (cases "evaluate_all config s out kill account now symbols mem1
      (journal_outcome (os_reason_text out) (os_scan_id out) now (guarded_outcome symbol r) rows)")
  have os: "os = guarded_outcome symbol r # os2" using Cons.prems(1) by (simp add: Let_def ev rest)
  show ?case
  proof (cases "o' \<in> set os2")
    case True
    then show ?thesis using Cons.IH [OF rest _ Cons.prems(3)] by blast
  next
    case False
    then have o': "o' = guarded_outcome symbol r" using Cons.prems(2) os by simp
    then have "r = Inr o'" using Cons.prems(3)
      by (cases r) (auto simp: guarded_outcome_def executable_def split: if_splits)
    then show ?thesis using evaluated_sound [OF _ Cons.prems(3)] ev by blast
  qed
qed simp

lemma scan_symbols_executed:
  assumes "fst (scan_symbols config out now account result b) = Inr r" and "sn_executed r = Some x"
    and "sn_executed result = None"
  shows "\<exists>o' \<in> set (sn_outcomes r). executable o' \<and> outcome_sound o'
    \<and> outcome_plan (market.truncate out) (strategy_key config (bt_values b)) now o' = Some (Inr (xr_plan x))"
proof -
  let ?key = "strategy_key config (bt_values b)"
  obtain outcomes mem rows where ev: "evaluate_all config (strategy_of ?key) out (bt_kill b) account now
      (tc_symbols (oc_trading config)) (bt_memory b) (bt_journal b) = (outcomes, mem, rows)"
    by (cases "evaluate_all config (strategy_of ?key) out (bt_kill b) account now
      (tc_symbols (oc_trading config)) (bt_memory b) (bt_journal b)")
  obtain y w rows1 where ex: "execute_best config (market.truncate out) (os_venue out) ?key (os_scan_id out) now
      (filter executable outcomes) (bt_world b, rows) = (y, w, rows1)"
    by (cases "execute_best config (market.truncate out) (os_venue out) ?key (os_scan_id out) now
      (filter executable outcomes) (bt_world b, rows)")
  have r: "sn_outcomes r = outcomes" "y = Inr (Some x)"
    using assms
    by (auto simp: scan_symbols_def Let_def ev ex split: if_splits sum.splits option.splits prod.splits)
  have "\<exists>o' \<in> set (filter executable outcomes). outcome_plan (market.truncate out) ?key now o' = Some (Inr (xr_plan x))"
    using execute_ranked_result [of config "market.truncate out" "os_venue out" ?key "os_scan_id out" now
        "rank_outcomes (filter executable outcomes)" None "(bt_world b, rows)" x] ex r(2)
    by (simp add: execute_best_def rank_outcomes_def)
  then show ?thesis using evaluate_all_sound [OF ev] r(1) by auto
qed

lemma kill_gate_executed:
  assumes "fst (scan_kill_gate config out now account result b) = Inr r" and "sn_executed r \<noteq> sn_executed result"
  obtains kill where "fst (scan_symbols config out now account result (b\<lparr> bt_kill := kill \<rparr>)) = Inr r"
proof (cases "evaluate_kill_switch (tc_risk (risk_view (strategy_of (strategy_key config (bt_values b)))
                (oc_trading config))) account")
  case None
  with assms have "fst (scan_symbols config out now account result (b\<lparr> bt_kill := bt_kill b \<rparr>)) = Inr r"
    by (auto simp: scan_kill_gate_def Let_def split: if_splits)
  then show thesis by (rule that)
next
  case (Some why)
  obtain q kill where q: "kill_trip (bt_kill b) why ''auto-tripped during scan'' now = (q, kill)" by force
  have "fst (scan_symbols config out now account result (b\<lparr> bt_kill := kill \<rparr>)) = Inr r"
    using assms Some q by (cases q) (auto simp: scan_kill_gate_def Let_def split: if_splits)
  then show thesis by (rule that)
qed

text \<open>C11. What a scan executed is the plan of one of its own outcomes, one that stands on an approved risk
  decision, a tradeable score and an entry zone.\<close>

theorem scan_executes_sound_outcome:
  "case fst (scan config out now b) of
     Inl _ \<Rightarrow> True
   | Inr r \<Rightarrow>
      (case sn_executed r of
         None \<Rightarrow> True
       | Some x \<Rightarrow> \<exists>o' \<in> set (sn_outcomes r). executable o' \<and> outcome_sound o'
           \<and> outcome_plan (market.truncate out) (strategy_key config (bt_values b)) now o' = Some (Inr (xr_plan x)))"
proof (cases "fst (scan config out now b)")
  case (Inr r)
  show ?thesis
  proof (cases "sn_executed r")
    case (Some x)
    obtain a b1 where a: "build_account_state config out now b = (a, b1)" by force
    define v where "v = verify_demo (oc_trading config) (os_metadata out) (os_claims out)"
    obtain account where account: "a = Inr account" and gate: "fst (scan_kill_gate config out now account
        (empty_scan\<lparr> sn_demo := Some v, sn_account := Some account \<rparr>) b1) = Inr r"
      using Inr Some a
      by (auto simp: scan_def Let_def v_def [symmetric] empty_scan_def split: if_splits sum.splits option.splits prod.splits)
    obtain kill where run: "fst (scan_symbols config out now account
        (empty_scan\<lparr> sn_demo := Some v, sn_account := Some account \<rparr>) (b1\<lparr> bt_kill := kill \<rparr>)) = Inr r"
      using gate by (rule kill_gate_executed) (use Some in \<open>simp_all add: empty_scan_def\<close>)
    have "bt_values (b1\<lparr> bt_kill := kill \<rparr>) = bt_values b" using build_frame(3) [OF a] by simp
    then show ?thesis
      using scan_symbols_executed [OF run Some] by (simp add: Inr Some empty_scan_def)
  qed (simp add: Inr)
qed simp

subsection \<open>After an order of unknown outcome\<close>

lemma submit_unverified:
  assumes "submit ve config plan reference w = (Inr x, w')"
  shows "xr_status x = Unverified \<Longrightarrow> \<not> xr_ok x"
proof (cases "ve_order ve")
  case (Inl e)
  with assms show "xr_status x = Unverified \<Longrightarrow> \<not> xr_ok x"
    by (auto simp: submit_def Let_def failed_def split: if_splits)
next
  case (Inr order)
  have "settle ve config plan reference order w1 = (Inr x, w') \<Longrightarrow> xr_status x = Unverified \<Longrightarrow> \<not> xr_ok x" for w1
    by (auto simp: settle_def Let_def failed_def split: prod.splits sum.splits option.splits)
  with Inr assms show "xr_status x = Unverified \<Longrightarrow> \<not> xr_ok x" by (auto simp: submit_def Let_def)
qed

lemma unverified_was_sent:
  assumes "execute config ve plan volatility w = (Inr x, w')" and "xr_status x = Unverified"
  shows "(\<exists>entry. orders w' = orders w @ [entry]) \<and> \<not> xr_ok x"
  using assms(1)
proof (cases rule: execute_cases)
  case (early res)
  then show ?thesis using assms(2) by auto
next
  case (checked w1 w2)
  let ?k = "tp_execution_id plan" and ?now = "ve_now ve"
  let ?w3 = "note_event ?now ?k ''INTENT_CREATED'' []
    (w2\<lparr> w_trades := create_pending (w_trades w2) ?k plan ?now \<rparr>)"
  have o3: "orders ?w3 = orders w"
    using checked(3) persist_intent_orders [OF checked(4)] by (simp add: same_state_def world_simps)
  have st: "status_of ?w3 ?k \<noteq> None"
    using persist_status [OF checked(4)] by (simp add: world_simps)
  from checked(5) show ?thesis
  proof (cases rule: check_and_submit_cases)
    case (sent reference w4)
    have "status_of w4 ?k \<noteq> None" using sent(2) st by (simp add: same_state_def status_of_def)
    from submit_outcome(1) [OF sent(3) this] submit_unverified [OF sent(3) assms(2)] sent(2) o3
    show ?thesis by (simp add: same_state_def)
  qed (use assms(2) in auto)
qed

text \<open>An order that was acknowledged but not found leaves no mark on the cycle: it was sent, its outcome
  is unknown, and yet the scan counts no trade for the session and starts no cooldown.\<close>

theorem unverified_order_starts_no_cooldown:
  assumes "execute config ve plan volatility w = (Inr x, w')" and "xr_status x = Unverified"
  shows "(\<exists>entry. orders w' = orders w @ [entry]) \<and> aftermath sessions now (Some x) values = Inr values"
  using unverified_was_sent [OF assms] assms(2)
  by (simp add: aftermath_def record_execution_outcome_def execution_failure_status_def)

text \<open>The venue acknowledges the order and never shows a position.\<close>

definition silent_venue :: venue where
  "silent_venue = demo_venue\<lparr> ve_positions := (\<lambda>_. Inr []) \<rparr>"

lemma silent_verify:
  "\<exists>w'. verify_position silent_venue config plan left w = (Inr None, w')"
  by (induction left arbitrary: w) (simp_all add: silent_venue_def Let_def)

lemma silent_execution:
  obtains x w' where "execute demo_config silent_venue sample_plan (1 / 100) empty_world = (Inr x, w')"
    "xr_status x = Unverified"
proof -
  define w3 where "w3 = note_event 0 ''x1'' ''INTENT_CREATED'' []
      ((called sample_plan ReadMetadata empty_world)\<lparr> w_intents := [sample_intent],
         w_trades := create_pending [] ''x1'' sample_plan 0 \<rparr>)"
  have w3: "w_intents w3 = [sample_intent]" by (simp add: w3_def world_simps)
  have ex: "execute demo_config silent_venue sample_plan (1 / 100) empty_world
      = check_and_submit demo_config silent_venue sample_plan (1 / 100) w3"
    by (simp add: execute_def silent_venue_def demo_venue_def demo_require demo_persisted Let_def w3_def)
      (simp add: called_def empty_world_def)
  have dup: "fresh_duplicate_check (Inr []) [sample_intent] sample_plan = Inr None"
    by (simp add: duplicate_check_pass sample_intent_def new_intent_def sample_plan_def)
  have spr: "spread_check (tc_execution demo_config) (ve_quote silent_venue) sample_plan (1 / 100) = Inr (Inr (11 / 10))"
    by (simp add: spread_check_def silent_venue_def demo_venue_def spread_def sample_plan_def validate_spread_def
        demo_config_def default_execution_config_def)
  have pos: "ve_positions silent_venue = (\<lambda>_. Inr [])" by (simp add: silent_venue_def)
  define w6 where "w6 = called sample_plan ReadMetadata (called sample_plan ReadQuote (called sample_plan ReadPositions w3))"
  have cs: "check_and_submit demo_config silent_venue sample_plan (1 / 100) w3
      = submit silent_venue (tc_execution demo_config) sample_plan (11 / 10) w6"
    using dup spr by (simp add: check_and_submit_def Let_def world_simps w3 w6_def pos)
      (simp add: silent_venue_def demo_venue_def demo_require)
  obtain ack where sub: "submit silent_venue (tc_execution demo_config) sample_plan (11 / 10) w6
      = settle silent_venue (tc_execution demo_config) sample_plan (11 / 10) \<lparr> or_order_id = Some ''o1'' \<rparr> ack"
    by (simp add: submit_def silent_venue_def demo_venue_def Let_def)
  obtain w' where "verify_position silent_venue (tc_execution demo_config) sample_plan
      (xc_order_verify_attempts (tc_execution demo_config)) ack = (Inr None, w')"
    using silent_verify by blast
  then obtain x w'' where "settle silent_venue (tc_execution demo_config) sample_plan (11 / 10)
      \<lparr> or_order_id = Some ''o1'' \<rparr> ack = (Inr x, w'')" "xr_status x = Unverified"
    by (simp add: settle_def Let_def failed_def)
  then show thesis using that ex cs sub by metis
qed

theorem unverified_order_starts_no_cooldown_witness:
  "\<exists>x w'. execute demo_config silent_venue sample_plan (1 / 100) empty_world = (Inr x, w')
     \<and> (\<exists>entry. orders w' = orders empty_world @ [entry])
     \<and> aftermath default_session_config 0 (Some x) \<lparr> kv_rows = [], kv_reachable = True \<rparr>
         = Inr \<lparr> kv_rows = [], kv_reachable = True \<rparr>"
proof -
  obtain x w' where x: "execute demo_config silent_venue sample_plan (1 / 100) empty_world = (Inr x, w')"
    "xr_status x = Unverified"
    by (rule silent_execution)
  from unverified_order_starts_no_cooldown [OF this] x(1) show ?thesis by blast
qed

subsection \<open>Start-up\<close>

text \<open>C40. Start-up completes without a reconciliation: when the broker's positions cannot be read, the
  reconciler answers with an error in its report, start-up takes the report for done and permits
  trading, and the book and the unresolved intents are as they were.\<close>

theorem startup_without_reconciliation:
  assumes "os_session out = Inr ()" and "os_ping out" and "os_account out = Inr account"
    and "dv_verified (verify_demo (oc_trading config) (os_metadata out) (os_claims out))"
    and "kv_reachable (bt_values b)"
    and "os_positions out = Inl e" and "rk_positions (os_recon out) = Inl e" and "isinstance e BotError"
  shows "\<exists>report b'. startup config out now b = (Inr (Started report), b') \<and> bt_startup_complete b'
    \<and> \<not> report_clean report \<and> w_intents (bt_world b') = w_intents (bt_world b)
    \<and> w_trades (bt_world b') = w_trades (bt_world b)"
proof -
  have reach: "\<exists>vs. state_set (bt_values b) k v = Inr vs" for k v using assms(5) by (simp add: state_set_def)
  have "\<exists>vs. note_account_identity (bc_account_id (tc_broker (oc_trading config))) (bt_values b) = Inr vs"
    by (cases "state_get (bt_values b) STATE_ACCOUNT_ID") (simp_all add: note_account_identity_def Let_def reach)
  then obtain vs where "note_account_identity (bc_account_id (tc_broker (oc_trading config))) (bt_values b) = Inr vs" ..
  then show ?thesis
    using assms
    by (simp add: startup_def Let_def refresh_live_positions_def reconcile_def report_clean_def empty_report_def)
qed

text \<open>A demo account that answers, and positions that cannot be read.\<close>

definition no_positions :: exn where
  "no_positions = \<lparr> exn_class = BrokerError, exn_message = ''positions: 500'' \<rparr>"

definition blind_outside :: outside where
  "blind_outside = market.extend sample_market (outside.fields (Inr ()) (Some demo_account) None True
     (Inr \<lparr> as_balance = 10000, as_equity = 10000, as_margin_used = 0, as_margin_available = 10000,
        as_open_pnl = 0, as_today_pnl = 0, as_currency = ''USD'' \<rparr>)
     (Inl no_positions) (\<lambda>_. Inl no_positions) (\<lambda>_. silent_venue) (quiet_recon\<lparr> rk_positions := Inl no_positions \<rparr>)
     \<lparr> mg_now = 0, mg_modify = (\<lambda>_. Inr ()), mg_close = (\<lambda>_. Inr ()), mg_quote = (\<lambda>_. Inl no_positions) \<rparr>
     ''scan'' (\<lambda>_. []))"

definition fresh_bot :: bot where
  "fresh_bot = \<lparr> bt_memory = \<lparr> me_news = new_filter None, me_series = [], me_spreads = [],
       me_ai = \<lparr> cl_attempts = [], cl_calls = 0 \<rparr> \<rparr>,
     bt_world = empty_world, bt_journal = [], bt_equity = [], bt_kill = \<lparr> kv_rows = [], kv_reachable = True \<rparr>,
     bt_values = \<lparr> kv_rows = [], kv_reachable = True \<rparr>, bt_startup_complete = False \<rparr>"

theorem startup_without_reconciliation_witness:
  "\<exists>report b'. startup (sample_bot_config\<lparr> oc_trading := demo_config \<rparr>) blind_outside 0 fresh_bot = (Inr (Started report), b')
    \<and> bt_startup_complete b' \<and> \<not> report_clean report \<and> w_intents (bt_world b') = [] \<and> w_trades (bt_world b') = []"
  using startup_without_reconciliation [of blind_outside _ "sample_bot_config\<lparr> oc_trading := demo_config \<rparr>" fresh_bot
      no_positions 0]
  by (simp add: blind_outside_def market.defs outside.defs sample_market_def sample_bot_config_def demo_config_verified
      fresh_bot_def empty_world_def no_positions_def isinstance_BotError)

subsection \<open>The risk of an unplanned position\<close>

text \<open>The implied risk of a position leaves out the conversion into the account's currency: for a
  position of the size, entry and stop the risk engine gave a setup, the risk the setup was approved
  at is the implied one times the conversion rate.\<close>

theorem implied_risk_skips_conversion:
  assumes "calculate_position_size spec risk_amount entry stop_loss lookup leverage margin = Inr sized"
    and "instrument (bp_symbol p) = Inr spec" and "bp_entry_price p = entry" and "bp_stop_loss p = Some stop_loss"
    and "bp_quantity p = ps_lots sized"
  shows "\<exists>implied. implied_risk instrument p = Inr (Some implied)
    \<and> ps_actual_risk sized = implied * ps_conversion_rate sized"
proof -
  obtain rate where "0 < entry" "0 < stop_loss" "ps_conversion_rate sized = rate"
    "ps_loss_per_lot sized = \<bar>entry - stop_loss\<bar> * sp_contract_size spec * rate"
    "ps_actual_risk sized = ps_lots sized * ps_loss_per_lot sized"
    using assms(1) by (elim calculate_position_size_Inr) blast
  with assms(2-5) show ?thesis by (simp add: implied_risk_def truthy_def mult_ac)
qed

text \<open>A USDJPY position on a dollar account: the implied risk is in yen, taken for dollars.\<close>

definition yen_spec :: instrument_spec where
  "yen_spec = sample_spec\<lparr> sp_symbol := ''USDJPY'', sp_base_currency := Some ''USD'', sp_quote_currency := Some ''JPY'' \<rparr>"

definition yen_position :: broker_position where
  "yen_position = \<lparr> bp_position_id = ''1'', bp_symbol = ''USDJPY'', bp_instrument_id = 2, bp_direction = ''BUY'',
     bp_quantity = 1 / 10, bp_entry_price = 150, bp_stop_loss = Some 149, bp_take_profit = None, bp_unrealized_pnl = 0,
     bp_opened_at = None \<rparr>"

theorem implied_risk_skips_conversion_witness:
  "\<exists>sized implied. calculate_position_size yen_spec 100 150 149 None (Some 30) (Some 10000) = Inr sized
    \<and> implied_risk (\<lambda>_. Inr yen_spec) (yen_position\<lparr> bp_quantity := ps_lots sized \<rparr>) = Inr (Some implied)
    \<and> ps_actual_risk sized = implied * ps_conversion_rate sized"
proof -
  obtain sized where s: "calculate_position_size yen_spec 100 150 149 None (Some 30) (Some 10000) = Inr sized"
    by (simp add: calculate_position_size_def yen_spec_def sample_spec_def conversion_rate_def currency_text_def
        upper_def upper_char_def char_code_def round_lot_def py_int_def margin_check_def Let_def py_num)
  from implied_risk_skips_conversion [OF s, of "\<lambda>_. Inr yen_spec" "yen_position\<lparr> bp_quantity := ps_lots sized \<rparr>"] s
  show ?thesis by (auto simp: yen_position_def)
qed

subsection \<open>Trades of the session\<close>

lemma count_of_bump: "count_of (bump k n kns) j = count_of kns j + (if j = k then n else 0)"
  by (induction k n kns rule: bump.induct) (auto simp: count_of_def split: option.splits)

lemma count_of_filter_key:
  "count_of (filter (\<lambda>((d, _), _). d = day) kns) k = (if fst k = day then count_of kns k else 0)"
  by (induction kns) (auto simp: count_of_def split: if_splits)

text \<open>Counting a trade adds one to its session and forgets the sessions of other days; the other
  values of the state are untouched. Only an unreadable state keeps it from being counted.\<close>

theorem session_count_exact:
  "case session_counts values of
     Inl e \<Rightarrow> bump_session_count sessions moment values = Inl e
   | Inr counts \<Rightarrow> \<exists>values' counts'. bump_session_count sessions moment values = Inr values'
       \<and> session_counts values' = Inr counts'
       \<and> (\<forall>k. count_of counts' k = (if fst k = trading_day moment
            then count_of counts k + (if k = session_key_of sessions moment then 1 else 0) else 0))
       \<and> (\<forall>key. state_get values' key =
            (if key = STATE_SESSION_COUNTS then Inr (Some (Counts_Value counts')) else state_get values key))"
proof (cases "session_counts values")
  case (Inl e)
  then show ?thesis by (simp add: bump_session_count_def)
next
  case (Inr counts)
  let ?counts = "filter (\<lambda>((day, _), _). day = trading_day moment) (bump (session_key_of sessions moment) 1 counts)"
  obtain x where x: "state_get values STATE_SESSION_COUNTS = Inr x"
    using Inr by (cases "state_get values STATE_SESSION_COUNTS") (auto simp: session_counts_def)
  obtain vs where set: "state_set values STATE_SESSION_COUNTS (Counts_Value ?counts) = Inr vs"
    using state_kv.set_readable [OF x, of "Counts_Value ?counts"] by auto
  have get: "state_get vs key =
      (if key = STATE_SESSION_COUNTS then Inr (Some (Counts_Value ?counts)) else state_get values key)" for key
    using state_kv.get_set [OF set] .
  have "session_counts vs = Inr ?counts" by (simp add: session_counts_def get)
  then show ?thesis
    using Inr set get
    by (auto simp: bump_session_count_def count_of_bump count_of_filter_key intro!: exI [of _ vs] exI [of _ ?counts])
qed

end
