(* ===== verification/Spec2Isabelle.thy ===== *)
theory Spec2Isabelle
  imports Prelude Errors Clock Symbols Broker_Models Sizing Config Correlation Transport Demo_Guard
    State_Store Market_Data Sessions Intents Trades Store_Stats Risk_Engine Executor Reconciler
    Manager AI_Gate Strategies Paper_Broker Scheduler News Provider Journal AI_Client Plans Pipeline
    Scan
begin

text \<open>
  Verification library of the SMC trading bot, the Python package under \<open>src/bot\<close>.

  \<^bold>\<open>The program.\<close> The bot scans symbols on a schedule. A scan validates candles, lets the setup
  engine or the reversion strategy build a candidate trade, scores it, lets the risk engine size or
  refuse it, asks an AI model to confirm or veto it, and hands the best approved plan to the executor.
  The executor arms an intent in the database, sends one order through the HTTP transport of the
  broker, verifies the position it became, and keeps the trade book. A reconciler makes the book agree
  with the broker, and a manager moves stops and closes positions. A demo guard and a kill switch
  stand in front of every order.

  \<^bold>\<open>Theories and code.\<close> Every theory opens with the files it models; its definitions keep the
  names and the order of the code.

    \<^item> Foundations. \<open>Prelude\<close>: Python's truth values, \<open>int\<close>, \<open>round\<close> and ASCII string methods, SQL's
      \<open>UPDATE\<close>, and the lemmas on them. \<open>Errors\<close>: \<open>errors.py\<close>. \<open>Clock\<close>: \<open>clock.py\<close>. \<open>Symbols\<close>,
      \<open>Broker_Models\<close>, \<open>Config\<close>: \<open>broker/symbols.py\<close>, \<open>broker/models.py\<close>, and the sections of
      \<open>config.py\<close> the modelled components read, with \<open>validate\<close>.
    \<^item> Risk. \<open>Sizing\<close>, \<open>Correlation\<close>, \<open>Risk_Engine\<close>: \<open>risk/sizing.py\<close> with \<open>risk/reward.py\<close>,
      \<open>risk/correlation.py\<close>, \<open>risk/engine.py\<close>.
    \<^item> Broker and safety. \<open>Transport\<close>, \<open>Demo_Guard\<close>: \<open>broker/http.py\<close>, \<open>safety/demo_guard.py\<close>.
      \<open>Paper_Broker\<close>: \<open>broker/paper.py\<close> over its tables, with the answers of the live broker as a record
      of functions.
    \<^item> Storage, \<open>storage/repositories.py\<close>. \<open>State_Store\<close> (with \<open>safety/kill_switch.py\<close>), \<open>Intents\<close>,
      \<open>Trades\<close>, \<open>Store_Stats\<close>, \<open>Journal\<close>: a table is the list of its rows, in the order of insertion.
    \<^item> Market data. \<open>Market_Data\<close>, \<open>Sessions\<close>, \<open>Provider\<close>, \<open>News\<close>: \<open>marketdata/candles.py\<close>,
      \<open>marketdata/validation.py\<close>, \<open>broker/cache.py\<close>, \<open>smc/sessions.py\<close>, \<open>marketdata/provider.py\<close>, \<open>news.py\<close>.
    \<^item> The setup engine, \<open>smc/\<close>. \<open>Indicators\<close>, \<open>Swings\<close>, \<open>Displacement\<close>, \<open>Structure\<close>, \<open>Fvg\<close>,
      \<open>Order_Blocks\<close>, \<open>Liquidity\<close>, \<open>Regime\<close> (with \<open>dealing_range.py\<close>): the detectors, functions of a
      list of candles. \<open>Checklist\<close>: \<open>checks.py\<close>, \<open>identity.py\<close>. \<open>Mtf\<close>, \<open>Smc_Engine\<close>: \<open>mtf.py\<close>, \<open>engine.py\<close>.
    \<^item> From setup to order. \<open>Scorer\<close>, \<open>Strategies\<close>, \<open>AI_Gate\<close>, \<open>AI_Client\<close>, \<open>Plans\<close>: \<open>scoring/scorer.py\<close>,
      \<open>strategy/\<close>, \<open>ai/schema.py\<close> with \<open>ai/validator.py\<close>, \<open>ai/client.py\<close>, \<open>execution/plan.py\<close>.
    \<^item> Execution. \<open>Executor\<close>, \<open>Reconciler\<close>, \<open>Manager\<close>: the modules of \<open>execution/\<close> over the shared
      state \<open>world\<close> (intents, trades, events, daily rows and a trace of the broker calls).
    \<^item> Cycles. \<open>Scheduler\<close>: \<open>scheduler.py\<close>. \<open>Pipeline\<close> and \<open>Scan\<close>: \<open>orchestrator.py\<close>, one symbol through
      the pipeline and the choice of the order; start-up, the account state, the scan, management and
      reconciliation over the whole persistent state \<open>bot\<close>.

  \<^bold>\<open>Conventions.\<close>

    \<^item> Floats are real numbers; where the code rounds, the rounding is written out. Rounding errors
      of binary floats are not modelled.
    \<^item> A moment is an integer of microseconds since the epoch, a duration likewise; wall clock and
      monotonic clock are arguments.
    \<^item> An exception is a value \<open>exn\<close> with its class; a fallible operation returns \<open>exn + 'a\<close>, \<open>Inl\<close> being
      the exception. An operation that changes state returns the state also when it raises, because
      what was written before the exception stays written.
    \<^item> What lies outside the repository (the broker's answers, the model providers, the calendar, the
      digest and float formatting of the standard library, the text of prompts) is a parameter: a
      function, or a field of a record such as \<open>venue\<close>, \<open>market\<close>, \<open>outside\<close>, \<open>live_broker\<close>, \<open>python\<close>. Answers
      that may change between calls take the number of the call.
    \<^item> Dicts whose order matters are association lists. Reasons, notes and evidence are constructors
      carrying the figures the code prints.
    \<^item> No fuel is used: every loop of the code is bounded by a list or by a count of attempts and is
      structural recursion here.

  \<^bold>\<open>Interfaces.\<close> \<open>kv_store\<close> (a value written is read back) is provided by the state repository,
  \<open>keyed_store\<close> (rows under a unique key) by intents and trades, \<open>breaker\<close> by the circuit breaker,
  \<open>instrument_identity\<close> by the symbol names, \<open>lot_rounding\<close> by the instrument specification, \<open>causal_detector\<close>
  (appending candles does not change what was confirmed) by swings, displacements and structure
  breaks, \<open>preference\<close> (the choice of a best element) by gaps, blocks, sweeps and decisions. Each locale
  is interpreted on the definitions of the code and the properties rest on those facts.

  \<^bold>\<open>What the lemmas show.\<close>

    \<^item> Orders. One order per execution id over any sequence of executions; an order goes out only
      behind the guards of the executor, and in a scan only behind the gates of the cycle; writes are
      sent once; one creator of an intent under every interleaving. A scan executes the plan of one of
      its own sound outcomes, and an outcome is executable only behind all gates of the pipeline.
    \<^item> The book. The repository operations keep the shape and the uniqueness of the rows, a completed
      reconciliation makes the book the broker's list (a refinement), refusals leave nothing pending,
      streaks are exact, the kill switch latches.
    \<^item> Money. Sizes stay in their budget, approvals respect every limit, stops only tighten, a partial
      close is taken once.
    \<^item> Structure. The detectors are exact and causal, events and sweeps are sound, targets are the
      nearest pools, the timeframe gate and the engine keep their contracts, every evaluation settles
      with a complete chain of checks, scores are gated.
    \<^item> Outside. The demo gate, the news gate and the contract of model answers are characterised exactly;
      the provider serves current data during an outage; simulated orders and exits have their prices.
    \<^item> Behaviour that deviates from its documentation is stated as theorems as well, among them: the
      reversion mode never trades (\<open>Pipeline\<close>); start-up completes without a reconciliation, an order
      of unknown fate starts no cooldown, implied risk skips the currency conversion (\<open>Scan\<close>); a
      released ambiguous intent (\<open>Reconciler\<close>); break-even inflates R (\<open>Manager\<close>); a moved stop is hit by
      the past (\<open>Paper_Broker\<close>); a stale calendar opens the gate (\<open>News\<close>); the funnel counts foreign rows
      (\<open>Journal\<close>); a close is skipped (\<open>Scheduler\<close>).

  \<^bold>\<open>Not modelled.\<close> The adapter of the remote broker (\<open>broker/tradelocker.py\<close>, \<open>broker/history.py\<close>),
  whose answers are parameters; the HTTP service, its start-up and reports (\<open>api.py\<close>, \<open>service.py\<close>,
  \<open>doctor.py\<close>, \<open>setup_status.py\<close>, \<open>diagnosis.py\<close>); the offline tools (\<open>backtest/\<close>, \<open>analytics/\<close>); the database
  driver (\<open>storage/db.py\<close>, whose constraints are written into the table operations); reading the
  environment; threads, locks and logging; the read models of the dashboard; the web server and
  dashboard in TypeScript.
\<close>

end
